(* ===== verification/Prelude.thy ===== *)
theory Prelude
  imports Main "HOL-Library.State_Monad" "HOL-Library.Monad_Syntax"
begin

text \<open>
  Shared vocabulary of the development: Go's error values, calls that change the world as
  computations of the state monad, and the rules by which a property of the world is shown
  to survive a computation.

  A call of the code that reads or changes the cluster is a term of type
  \<open>('w, 'a) state\<close> (HOL-Library.State_Monad): it takes the world, whose type \<open>'w\<close> is left
  open, and returns the call's result with the next world. A Go function that returns
  \<open>(x, error)\<close> with \<open>x\<close> meaningless on error returns the sum \<open>go_error + 'x\<close>; one that
  returns only an error returns \<open>go_error option\<close>, \<open>None\<close> being \<open>nil\<close>.
\<close>

named_theorems keeps_intros "rules that push a preserved property through a computation"
named_theorems run_simps "equations that evaluate a computation on a world"
named_theorems key_simps "equations for the keys of the objects the operator builds"

section \<open>Errors\<close>

text \<open>
  An error returned by the API server is either a NotFound status error or any other one;
  \<open>Wrap p e\<close> is \<open>fmt.Errorf("p: %w", e)\<close>.
\<close>

datatype go_error =
    ApiNotFound string
  | ApiOther string
  | Wrap string go_error

fun err_msg :: "go_error \<Rightarrow> string" where
  "err_msg (ApiNotFound m) = m"
| "err_msg (ApiOther m) = m"
| "err_msg (Wrap p e) = p @ '': '' @ err_msg e"

text \<open>\<open>errors.IsNotFound\<close> looks through wrapped errors (\<open>errors.As\<close>).\<close>

fun is_not_found :: "go_error \<Rightarrow> bool" where
  "is_not_found (ApiNotFound m) = True"
| "is_not_found (ApiOther m) = False"
| "is_not_found (Wrap p e) = is_not_found e"

text \<open>\<open>client.IgnoreNotFound\<close>: nil on NotFound, else the error itself.\<close>

definition ignore_not_found :: "go_error \<Rightarrow> go_error option" where
  "ignore_not_found e = (if is_not_found e then None else Some e)"

lemma ignore_not_found_None [simp]: "ignore_not_found e = None \<longleftrightarrow> is_not_found e"
  by (simp add: ignore_not_found_def)

lemma ignore_not_found_Some [simp]:
  "ignore_not_found e = Some e' \<longleftrightarrow> e' = e \<and> \<not> is_not_found e"
  by (auto simp: ignore_not_found_def)

section \<open>Properties a computation keeps\<close>

abbreviation ret :: "'a \<Rightarrow> ('w, 'a) state" where
  "ret \<equiv> State_Monad.return"

text \<open>
  \<open>keeps P m\<close>: whenever the world satisfies \<open>P\<close> before the computation \<open>m\<close>, it does
  after it. \<open>yields P m Q\<close> also says what the result is.
\<close>

definition keeps :: "('w \<Rightarrow> bool) \<Rightarrow> ('w, 'a) state \<Rightarrow> bool" where
  "keeps P m \<longleftrightarrow> (\<forall>w. P w \<longrightarrow> P (snd (run_state m w)))"

definition yields :: "('w \<Rightarrow> bool) \<Rightarrow> ('w, 'a) state \<Rightarrow> ('a \<Rightarrow> 'w \<Rightarrow> bool) \<Rightarrow> bool" where
  "yields P m Q \<longleftrightarrow> (\<forall>w. P w \<longrightarrow> Q (fst (run_state m w)) (snd (run_state m w)))"

lemma keepsI: "(\<And>w. P w \<Longrightarrow> P (snd (run_state m w))) \<Longrightarrow> keeps P m"
  by (simp add: keeps_def)

lemma keepsD: "keeps P m \<Longrightarrow> P w \<Longrightarrow> P (snd (run_state m w))"
  by (simp add: keeps_def)

lemma keeps_run: "keeps P m \<Longrightarrow> run_state m w = (r, w') \<Longrightarrow> P w \<Longrightarrow> P w'"
  by (force dest: keepsD)

lemma keeps_return [keeps_intros]: "keeps P (ret x)"
  by (simp add: keeps_def)

lemma keeps_bind [keeps_intros]:
  assumes "keeps P m" and "\<And>x. keeps P (f x)"
  shows "keeps P (State_Monad.bind m f)"
  unfolding keeps_def
proof (intro allI impI)
  fix w assume "P w"
  then have "P (snd (run_state m w))" by (rule keepsD [OF assms(1)])
  with assms(2) show "P (snd (run_state (State_Monad.bind m f) w))"
    by (simp add: keeps_def split_beta)
qed

text \<open>The same rule when the result of the first step is known to satisfy \<open>R\<close>.\<close>

lemma keeps_bind_result:
  assumes "\<And>w. P w \<Longrightarrow> R (fst (run_state m w))"
    and "keeps P m" and "\<And>x. R x \<Longrightarrow> keeps P (f x)"
  shows "keeps P (State_Monad.bind m f)"
  unfolding keeps_def
proof (intro allI impI)
  fix w assume w: "P w"
  obtain x w1 where run: "run_state m w = (x, w1)" by fastforce
  from assms(1) [OF w] run have x: "R x" by simp
  from keeps_run [OF assms(2) run w] have "P w1" .
  with assms(3) [OF x] run show "P (snd (run_state (State_Monad.bind m f) w))"
    by (simp add: keeps_def)
qed

lemma keeps_if [keeps_intros]:
  "(b \<Longrightarrow> keeps P m) \<Longrightarrow> (\<not> b \<Longrightarrow> keeps P n) \<Longrightarrow> keeps P (if b then m else n)"
  by simp

lemma keeps_case_sum [keeps_intros]:
  "(\<And>x. r = Inl x \<Longrightarrow> keeps P (f x)) \<Longrightarrow> (\<And>y. r = Inr y \<Longrightarrow> keeps P (g y)) \<Longrightarrow>
   keeps P (case r of Inl x \<Rightarrow> f x | Inr y \<Rightarrow> g y)"
  by (cases r) auto

lemma keeps_case_option [keeps_intros]:
  "(r = None \<Longrightarrow> keeps P m) \<Longrightarrow> (\<And>y. r = Some y \<Longrightarrow> keeps P (g y)) \<Longrightarrow>
   keeps P (case r of None \<Rightarrow> m | Some y \<Rightarrow> g y)"
  by (cases r) auto

lemma keeps_case_prod [keeps_intros]:
  "(\<And>x y. p = (x, y) \<Longrightarrow> keeps P (f x y)) \<Longrightarrow> keeps P (case p of (x, y) \<Rightarrow> f x y)"
  by (cases p) auto

lemma keeps_let [keeps_intros]: "(\<And>x. x = t \<Longrightarrow> keeps P (f x)) \<Longrightarrow> keeps P (let x = t in f x)"
  by simp

section \<open>What a computation can return\<close>

named_theorems results_intros "rules that push a property of the result through a computation"

definition results :: "('a \<Rightarrow> bool) \<Rightarrow> ('w, 'a) state \<Rightarrow> bool" where
  "results R m \<longleftrightarrow> (\<forall>w. R (fst (run_state m w)))"

lemma results_run: "results R m \<Longrightarrow> run_state m w = (r, w') \<Longrightarrow> R r"
  unfolding results_def by (metis fst_conv)

lemma results_return [results_intros]: "R x \<Longrightarrow> results R (ret x)"
  by (simp add: results_def)

lemma results_bind [results_intros]:
  "(\<And>x. results R (f x)) \<Longrightarrow> results R (State_Monad.bind m f)"
  by (simp add: results_def split_beta)

lemma results_cases [results_intros]:
  "(b \<Longrightarrow> results R m1) \<Longrightarrow> (\<not> b \<Longrightarrow> results R m2) \<Longrightarrow> results R (if b then m1 else m2)"
  "(\<And>x. s = Inl x \<Longrightarrow> results R (f x)) \<Longrightarrow> (\<And>y. s = Inr y \<Longrightarrow> results R (g y)) \<Longrightarrow>
     results R (case s of Inl x \<Rightarrow> f x | Inr y \<Rightarrow> g y)"
  "(opt = None \<Longrightarrow> results R m1) \<Longrightarrow> (\<And>y. opt = Some y \<Longrightarrow> results R (h y)) \<Longrightarrow>
     results R (case opt of None \<Rightarrow> m1 | Some y \<Rightarrow> h y)"
  by (auto split: sum.split option.split)

lemma keeps_bind_results:
  "results R m \<Longrightarrow> keeps P m \<Longrightarrow> (\<And>x. R x \<Longrightarrow> keeps P (f x)) \<Longrightarrow>
     keeps P (State_Monad.bind m f)"
  by (rule keeps_bind_result) (auto simp: results_def)

text \<open>\<open>gives R r\<close>: the result of a fallible call satisfies \<open>R\<close> unless it is an error.\<close>

definition gives :: "('a \<Rightarrow> bool) \<Rightarrow> go_error + 'a \<Rightarrow> bool" where
  "gives R r = (case r of Inl err \<Rightarrow> True | Inr x \<Rightarrow> R x)"

lemma gives_simps [simp]: "gives R (Inl err)" "gives R (Inr x) = R x"
  by (simp_all add: gives_def)

lemma results_gives_bind:
  assumes "results (gives R) m" and "\<And>err. results S (f (Inl err))"
    and "\<And>x. R x \<Longrightarrow> results S (f (Inr x))"
  shows "results S (State_Monad.bind m f)"
  unfolding results_def
proof
  fix w
  obtain r w1 where run: "run_state m w = (r, w1)" by fastforce
  from results_run [OF assms(1) run] assms(2,3) run
  show "S (fst (run_state (State_Monad.bind m f) w))"
    by (cases r) (simp_all add: results_def)
qed

section \<open>Evaluating computations\<close>

lemma run_if [run_simps]:
  "run_state (if b then m else n) w = (if b then run_state m w else run_state n w)"
  by simp

lemma run_case_sum [run_simps]:
  "run_state (case r of Inl x \<Rightarrow> f x | Inr y \<Rightarrow> g y) w =
     (case r of Inl x \<Rightarrow> run_state (f x) w | Inr y \<Rightarrow> run_state (g y) w)"
  by (simp split: sum.split)

lemma run_case_option [run_simps]:
  "run_state (case r of None \<Rightarrow> m | Some y \<Rightarrow> g y) w =
     (case r of None \<Rightarrow> run_state m w | Some y \<Rightarrow> run_state (g y) w)"
  by (simp split: option.split)

lemma run_case_prod [run_simps]:
  "run_state (case p of (x, y) \<Rightarrow> f x y) w = (case p of (x, y) \<Rightarrow> run_state (f x y) w)"
  by (simp split: prod.split)

section \<open>Maps and lists\<close>

lemma map_add_dom_other: "k \<notin> dom n \<Longrightarrow> (m ++ n) k = m k"
  by (simp add: map_add_dom_app_simps)

lemma map_le_map_add_first: "dom m \<inter> dom n = {} \<Longrightarrow> m \<subseteq>\<^sub>m m ++ n"
  by (auto simp: map_le_def map_add_def dom_def split: option.splits)

end
