(* ===== verification/K8sTypes.thy ===== *)
theory K8sTypes
  imports Prelude
begin

text \<open>
  The Kubernetes, CloudNativePG and Gateway API object types of the operator, with the
  fields the code writes or reads. A Go \<open>map[string]string\<close> is a map; the data of a
  Secret, whose keys the code ranges over, is an association list in the order of the
  range. A pointer that may be nil is an option. Pod templates, containers, ports and the
  other parts of a spec are the structs the builders fill in.
\<close>

type_synonym labels = "string \<rightharpoonup> string"

section \<open>Metadata\<close>

text \<open>\<open>types.NamespacedName\<close>; a cluster-scoped object has the empty namespace.\<close>

record obj_key =
  k_namespace :: string
  k_name :: string

abbreviation nn :: "string \<Rightarrow> string \<Rightarrow> obj_key" where
  "nn ns n \<equiv> \<lparr>k_namespace = ns, k_name = n\<rparr>"

record owner_reference =
  ow_kind :: string
  ow_name :: string

record object_meta =
  om_name :: string
  om_namespace :: string
  om_labels :: labels
  om_owners :: "owner_reference list"
  om_finalizers :: "string list"
  om_deletion :: "int option"   \<comment> \<open>\<open>DeletionTimestamp\<close>, \<open>None\<close> when zero\<close>
  om_generation :: int

text \<open>\<open>metav1.ObjectMeta{Name: n, Namespace: ns, Labels: l}\<close>\<close>

definition mk_meta :: "string \<Rightarrow> string \<Rightarrow> labels \<Rightarrow> object_meta" where
  "mk_meta ns n l =
     \<lparr>om_name = n, om_namespace = ns, om_labels = l, om_owners = [], om_finalizers = [],
      om_deletion = None, om_generation = 0\<rparr>"

text \<open>\<open>client.ObjectKeyFromObject\<close>\<close>

definition meta_key :: "object_meta \<Rightarrow> obj_key" where
  "meta_key m = nn (om_namespace m) (om_name m)"

lemma mk_meta_sel [simp]:
  "om_name (mk_meta ns n l) = n" "om_namespace (mk_meta ns n l) = ns"
  "om_labels (mk_meta ns n l) = l" "meta_key (mk_meta ns n l) = nn ns n"
  by (simp_all add: mk_meta_def meta_key_def)

lemma meta_key_update [simp]:
  "meta_key (m\<lparr>om_labels := l\<rparr>) = meta_key m"
  "meta_key (m\<lparr>om_owners := o'\<rparr>) = meta_key m"
  "meta_key (m\<lparr>om_finalizers := f\<rparr>) = meta_key m"
  by (simp_all add: meta_key_def)

datatype cond_status = CondTrue | CondFalse | CondUnknown

text \<open>
  \<open>metav1.Condition\<close> without \<open>LastTransitionTime\<close>, which the code neither sets nor reads
  (\<open>meta.SetStatusCondition\<close> fills it in).
\<close>

record condition =
  cond_type :: string
  cond_status :: cond_status
  cond_reason :: string
  cond_message :: string
  cond_generation :: int

section \<open>Pods\<close>

text \<open>\<open>resource.MustParse(s)\<close>, a quantity by its canonical text.\<close>

datatype quantity = MustParse string

record resource_requirements =
  rr_requests :: "string \<rightharpoonup> quantity"
  rr_limits :: "string \<rightharpoonup> quantity"

definition no_resources :: resource_requirements where
  "no_resources = \<lparr>rr_requests = Map.empty, rr_limits = Map.empty\<rparr>"

record env_var =
  ev_name :: string
  ev_value :: string

abbreviation env_var :: "string \<Rightarrow> string \<Rightarrow> env_var" where
  "env_var n v \<equiv> \<lparr>ev_name = n, ev_value = v\<rparr>"

record container_port =
  cp_name :: string
  cp_port :: int
  cp_protocol :: string

abbreviation tcp_port :: "string \<Rightarrow> int \<Rightarrow> container_port" where
  "tcp_port n p \<equiv> \<lparr>cp_name = n, cp_port = p, cp_protocol = ''TCP''\<rparr>"

record volume_mount =
  vm_name :: string
  vm_path :: string
  vm_readonly :: bool

record container =
  ct_name :: string
  ct_image :: string
  ct_command :: "string list"
  ct_args :: "string list"
  ct_ports :: "container_port list"
  ct_env :: "env_var list"
  ct_resources :: resource_requirements
  ct_mounts :: "volume_mount list"

text \<open>A volume whose source is a ConfigMap, the only kind the operator uses.\<close>

record volume =
  vol_name :: string
  vol_config_map :: string

record pod_template =
  pt_labels :: labels
  pt_annotations :: labels
  pt_restart_policy :: string
  pt_containers :: "container list"
  pt_volumes :: "volume list"

section \<open>Workloads\<close>

record deployment_spec =
  ds_replicas :: "int option"
  ds_selector :: labels
  ds_template :: pod_template

record deployment =
  dep_meta :: object_meta
  dep_spec :: deployment_spec
  dep_ready_replicas :: int

record service_port =
  sp_name :: string
  sp_port :: int
  sp_target_port :: int
  sp_protocol :: string

record service =
  svc_meta :: object_meta
  svc_type :: string
  svc_selector :: labels
  svc_ports :: "service_port list"
  svc_cluster_ip :: string   \<comment> \<open>allocated by the API server\<close>

record config_map =
  cm_meta :: object_meta
  cm_data :: labels

record job =
  job_meta :: object_meta
  job_backoff_limit :: "int option"
  job_template :: pod_template
  job_succeeded :: int
  job_active :: int
  job_failed :: int

section \<open>Namespaces, network policies, secrets\<close>

record namespace =
  ns_meta :: object_meta
  ns_phase :: string

record policy_peer =
  peer_pods :: "labels option"
  peer_namespaces :: "labels option"

record network_policy =
  np_meta :: object_meta
  np_pod_selector :: labels
  np_ingress :: "policy_peer list list"   \<comment> \<open>the \<open>From\<close> peers of each rule\<close>
  np_types :: "string list"

record secret =
  sec_meta :: object_meta
  sec_data :: "(string \<times> string) list"

text \<open>\<open>string(data[key])\<close>: a missing key reads as the empty string.\<close>

definition data_get :: "(string \<times> string) list \<Rightarrow> string \<Rightarrow> string" where
  "data_get d k = (case map_of d k of None \<Rightarrow> '''' | Some v \<Rightarrow> v)"

section \<open>CloudNativePG\<close>

record s3_credentials =
  s3c_access_key_ref :: "string \<times> string"   \<comment> \<open>secret name and key\<close>
  s3c_secret_key_ref :: "string \<times> string"

record barman_store =
  bs_destination_path :: string
  bs_aws :: "s3_credentials option"

record cluster_spec =
  cs_instances :: int
  cs_image_name :: string
  cs_storage_size :: string
  cs_storage_class :: "string option"
  cs_resources :: resource_requirements
  cs_backup :: "barman_store option"
  cs_other :: "(string \<times> string) list"   \<comment> \<open>the fields the operator does not manage\<close>

record cnpg_cluster =
  cl_meta :: object_meta
  cl_spec :: cluster_spec
  cl_conditions :: "condition list"

record scheduled_backup =
  bk_meta :: object_meta
  bk_schedule :: string
  bk_cluster :: string
  bk_owner_reference :: string
  bk_method :: string

record cnpg_database =
  cdb_meta :: object_meta
  cdb_name :: string
  cdb_owner :: string
  cdb_cluster :: string
  cdb_applied :: "bool option"
  cdb_message :: string

section \<open>Gateway API\<close>

record listener_tls =
  lt_mode :: string
  lt_certificates :: "string list"

record listener =
  li_name :: string
  li_port :: int
  li_protocol :: string
  li_hostname :: "string option"
  li_tls :: "listener_tls option"

record gateway =
  gw_meta :: object_meta
  gw_class :: string
  gw_listeners :: "listener list"
  gw_conditions :: "condition list"

record parent_ref =
  pr_name :: string
  pr_namespace :: "string option"

record backend_ref =
  br_name :: string
  br_namespace :: "string option"
  br_port :: "int option"

record path_match =
  pm_type :: string
  pm_value :: string

record route_rule =
  ru_matches :: "path_match list"
  ru_backends :: "backend_ref list"

record route_spec =
  rs_parents :: "parent_ref list"
  rs_hostnames :: "string list"
  rs_rules :: "route_rule list"

record http_route =
  hr_meta :: object_meta
  hr_spec :: route_spec

section \<open>Constants of the imported API packages\<close>

definition ConditionClusterReady :: string where "ConditionClusterReady = ''Ready''"
definition GatewayConditionAccepted :: string where "GatewayConditionAccepted = ''Accepted''"
definition BackupMethodBarmanObjectStore :: string where
  "BackupMethodBarmanObjectStore = ''barmanObjectStore''"
definition HTTPSProtocolType :: string where "HTTPSProtocolType = ''HTTPS''"
definition TLSModeTerminate :: string where "TLSModeTerminate = ''Terminate''"
definition PathMatchPathPrefix :: string where "PathMatchPathPrefix = ''PathPrefix''"
definition NamespaceActive :: string where "NamespaceActive = ''Active''"
definition PolicyTypeIngress :: string where "PolicyTypeIngress = ''Ingress''"
definition RestartPolicyOnFailure :: string where "RestartPolicyOnFailure = ''OnFailure''"

end
