(* ===== verification/ApiTypes.thy ===== *)
theory ApiTypes
  imports K8sTypes
begin

text \<open>
  The operator's own API, \<open>api/v1alpha1\<close>: the \<open>Supabase\<close> platform resource and the
  \<open>SupabaseTenant\<close> resource, their specs and statuses, the phase and condition constants,
  and the two accessors of \<open>ServiceSpec\<close>. Embedded structs (\<open>ServiceSpec\<close> inlined in
  \<open>ImgproxySpec\<close> and its siblings) are the struct itself.
\<close>

section \<open>common_types.go: the platform side\<close>

record persistent_storage_spec =
  ps_size :: string
  ps_storage_class_name :: "string option"

record backup_spec =
  bks_schedule :: string
  bks_destination_path :: string
  bks_s3_secret_ref :: "string option"   \<comment> \<open>\<open>S3Credentials.SecretRef\<close>\<close>

record database_spec =
  dbs_instances :: int
  dbs_image_name :: string
  dbs_storage :: persistent_storage_spec
  dbs_backup :: "backup_spec option"
  dbs_resources :: resource_requirements

record gateway_spec =
  gws_class_name :: string
  gws_base_domain :: string
  gws_tls_secret :: "string option"   \<comment> \<open>\<open>TLS.CertificateSecretRef\<close>\<close>

record image_overrides =
  img_imgproxy :: "string option"
  img_studio :: "string option"
  img_analytics :: "string option"
  img_vector :: "string option"
  img_supavisor :: "string option"

record service_spec =
  ss_enabled :: "bool option"
  ss_replicas :: "int option"
  ss_resources :: resource_requirements

definition IsEnabled :: "service_spec \<Rightarrow> bool" where
  "IsEnabled s = (case ss_enabled s of None \<Rightarrow> True | Some b \<Rightarrow> b)"

definition GetReplicas :: "service_spec \<Rightarrow> int" where
  "GetReplicas s = (case ss_replicas s of None \<Rightarrow> 1 | Some n \<Rightarrow> n)"

section \<open>common_types.go: the tenant side\<close>

record email_auth_spec =
  em_enabled :: bool
  em_autoconfirm :: bool

record smtp_spec =
  smtp_host :: string
  smtp_port :: int
  smtp_credentials_secret :: string
  smtp_sender_name :: string

record oauth_provider =
  oa_enabled :: bool
  oa_credentials_secret :: string

record oauth_providers =
  oa_google :: "oauth_provider option"
  oa_github :: "oauth_provider option"
  oa_azure :: "oauth_provider option"

record tenant_auth_spec =
  au_site_url :: string
  au_additional_redirect_urls :: "string list"
  au_disable_signup :: bool
  au_email :: "email_auth_spec option"
  au_smtp :: "smtp_spec option"
  au_external :: "oauth_providers option"

record tenant_rest_spec =
  re_schemas :: "string list"
  re_max_rows :: "int option"

text \<open>
  \<open>StorageBackend\<close> and \<open>ResourcePreset\<close> are string enums; a value outside the constants
  (the CRD schema rejects it, the Go type does not) is the \<open>Other\<close> case.
\<close>

datatype storage_backend = StorageBackendFile | StorageBackendS3 | StorageBackendOBC | StorageBackendOther string

record s3_config =
  s3_bucket :: string
  s3_region :: string
  s3_endpoint :: string
  s3_force_path_style :: bool
  s3_credentials_secret :: string

record object_bucket_spec =
  ob_storage_class_name :: string
  ob_additional_config :: "string \<rightharpoonup> string"
  ob_bucket_prefix :: string

record tenant_storage_spec =
  st_backend :: storage_backend
  st_file_size_limit :: "int option"
  st_image_transformation :: bool
  st_s3 :: "s3_config option"
  st_object_bucket :: "object_bucket_spec option"

record tenant_functions_spec =
  fn_verify_jwt :: bool
  fn_source_config_map :: "string option"   \<comment> \<open>\<open>Source.ConfigMapRef\<close>\<close>

datatype resource_preset =
  ResourcePresetSmall | ResourcePresetMedium | ResourcePresetLarge | ResourcePresetCustom | ResourcePresetOther string

section \<open>supabase_types.go\<close>

record supabase_spec =
  sp_database :: database_spec
  sp_gateway :: gateway_spec
  sp_imgproxy :: service_spec
  sp_studio :: service_spec
  sp_analytics :: service_spec
  sp_vector :: service_spec
  sp_supavisor :: service_spec
  sp_images :: image_overrides

record supabase_status =
  sst_phase :: string
  sst_conditions :: "condition list"
  sst_database_ready :: bool
  sst_gateway_ready :: bool
  sst_tenant_count :: int
  sst_observed_generation :: int

definition SupphasePending :: string where "SupphasePending = ''Pending''"
definition SupphaseProvisioning :: string where "SupphaseProvisioning = ''Provisioning''"
definition SupphaseReady :: string where "SupphaseReady = ''Ready''"
definition SupphaseDegraded :: string where "SupphaseDegraded = ''Degraded''"
definition SupphaseError :: string where "SupphaseError = ''Error''"
definition SupphaseUpgrading :: string where "SupphaseUpgrading = ''Upgrading''"

lemmas supphase_defs = SupphasePending_def SupphaseProvisioning_def SupphaseReady_def
  SupphaseDegraded_def SupphaseError_def SupphaseUpgrading_def

definition ConditionDatabaseReady :: string where "ConditionDatabaseReady = ''DatabaseReady''"
definition ConditionBackupReady :: string where "ConditionBackupReady = ''BackupReady''"
definition ConditionGatewayReady :: string where "ConditionGatewayReady = ''GatewayReady''"
definition ConditionImgproxyReady :: string where "ConditionImgproxyReady = ''ImgproxyReady''"
definition ConditionStudioReady :: string where "ConditionStudioReady = ''StudioReady''"
definition ConditionAnalyticsReady :: string where "ConditionAnalyticsReady = ''AnalyticsReady''"
definition ConditionVectorReady :: string where "ConditionVectorReady = ''VectorReady''"
definition ConditionSupavisorReady :: string where "ConditionSupavisorReady = ''SupavisorReady''"

lemmas condition_defs = ConditionDatabaseReady_def ConditionBackupReady_def
  ConditionGatewayReady_def ConditionImgproxyReady_def ConditionStudioReady_def
  ConditionAnalyticsReady_def ConditionVectorReady_def ConditionSupavisorReady_def

record supabase =
  sb_meta :: object_meta
  sb_spec :: supabase_spec
  sb_status :: supabase_status

section \<open>supabasetenant_types.go\<close>

definition TenantPhasePending :: string where "TenantPhasePending = ''Pending''"
definition TenantPhaseProvisioning :: string where "TenantPhaseProvisioning = ''Provisioning''"
definition TenantPhaseReady :: string where "TenantPhaseReady = ''Ready''"
definition TenantPhaseDegraded :: string where "TenantPhaseDegraded = ''Degraded''"
definition TenantPhaseError :: string where "TenantPhaseError = ''Error''"
definition TenantPhaseSuspending :: string where "TenantPhaseSuspending = ''Suspending''"
definition TenantPhaseSuspended :: string where "TenantPhaseSuspended = ''Suspended''"
definition TenantPhaseResuming :: string where "TenantPhaseResuming = ''Resuming''"
definition TenantPhaseDeleting :: string where "TenantPhaseDeleting = ''Deleting''"

lemmas tenant_phase_defs = TenantPhasePending_def TenantPhaseProvisioning_def
  TenantPhaseReady_def TenantPhaseDegraded_def TenantPhaseError_def
  TenantPhaseSuspending_def TenantPhaseSuspended_def TenantPhaseResuming_def
  TenantPhaseDeleting_def

definition TenantConditionNamespaceReady :: string where
  "TenantConditionNamespaceReady = ''NamespaceReady''"
definition TenantConditionSecretsReady :: string where
  "TenantConditionSecretsReady = ''SecretsReady''"
definition TenantConditionDatabaseReady :: string where
  "TenantConditionDatabaseReady = ''DatabaseReady''"
definition TenantConditionAuthReady :: string where
  "TenantConditionAuthReady = ''AuthReady''"
definition TenantConditionRESTReady :: string where
  "TenantConditionRESTReady = ''RESTReady''"
definition TenantConditionRealtimeReady :: string where
  "TenantConditionRealtimeReady = ''RealtimeReady''"
definition TenantConditionStorageReady :: string where
  "TenantConditionStorageReady = ''StorageReady''"
definition TenantConditionFunctionsReady :: string where
  "TenantConditionFunctionsReady = ''FunctionsReady''"
definition TenantConditionRoutingReady :: string where
  "TenantConditionRoutingReady = ''RoutingReady''"

lemmas tenant_condition_defs = TenantConditionNamespaceReady_def
  TenantConditionSecretsReady_def TenantConditionDatabaseReady_def
  TenantConditionAuthReady_def TenantConditionRESTReady_def
  TenantConditionRealtimeReady_def TenantConditionStorageReady_def
  TenantConditionFunctionsReady_def TenantConditionRoutingReady_def

record tenant_spec =
  tn_id :: string
  tn_supabase_ref :: string
  tn_auth :: tenant_auth_spec
  tn_rest :: tenant_rest_spec
  tn_realtime :: service_spec
  tn_storage :: tenant_storage_spec
  tn_functions :: tenant_functions_spec
  tn_suspended :: bool
  tn_resources :: resource_preset

record component_status =
  cst_ready :: bool
  cst_message :: string
  cst_version :: string

record tenant_component_statuses =
  tcs_database :: component_status
  tcs_auth :: component_status
  tcs_rest :: component_status
  tcs_realtime :: component_status
  tcs_storage :: component_status
  tcs_functions :: component_status
  tcs_routing :: component_status

record tenant_status =
  tst_phase :: string
  tst_conditions :: "condition list"
  tst_namespace :: string
  tst_endpoint :: string
  tst_components :: tenant_component_statuses
  tst_observed_generation :: int

record supabase_tenant =
  tc_meta :: object_meta
  tc_spec :: tenant_spec
  tc_status :: tenant_status

text \<open>
  The marker of a tenant identifier the CRD admits:
  \<open>MinLength=1\<close>, \<open>MaxLength=63\<close>, \<open>Pattern=^[a-z][a-z0-9-]*[a-z0-9]$\<close>.
\<close>

definition lower_alpha :: "char \<Rightarrow> bool" where
  "lower_alpha c \<longleftrightarrow> c \<in> set ''abcdefghijklmnopqrstuvwxyz''"

definition lower_alnum :: "char \<Rightarrow> bool" where
  "lower_alnum c \<longleftrightarrow> lower_alpha c \<or> c \<in> set ''0123456789''"

definition valid_tenant_id :: "string \<Rightarrow> bool" where
  "valid_tenant_id s \<longleftrightarrow>
     2 \<le> length s \<and> length s \<le> 63 \<and> lower_alpha (hd s) \<and> lower_alnum (last s) \<and>
     list_all (\<lambda>c. lower_alnum c \<or> c = CHR ''-'') s"

end
