(* ===== verification/Client.thy ===== *)
theory Client
  imports ApiTypes
begin

text \<open>
  The operator's environment: the cluster behind controller-runtime's client, the event
  recorder, the random source, the clock, the metrics and the library calls whose code is
  not in the repository. All of it is one record \<open>'w env\<close>, an argument of every definition
  that uses it; \<open>'w\<close>, the state of the world, is never inspected. What the code relies on is
  stated as named predicates on the environment: \<open>well_keyed\<close>, \<open>api_server\<close>,
  \<open>condition_laws\<close>, \<open>finalizer_laws\<close>, \<open>owner_laws\<close>, \<open>entropy_laws\<close>.
\<close>

section \<open>Objects and writes\<close>

datatype kind =
  KNamespace | KNetworkPolicy | KSecret | KDatabase | KJob
  | KDeployment | KService | KConfigMap | KHTTPRoute | KCluster
  | KScheduledBackup | KGateway | KSupabase | KTenant

text \<open>\<open>client.Object\<close>\<close>

datatype obj =
    ONamespace namespace
  | ONetworkPolicy network_policy
  | OSecret secret
  | ODatabase cnpg_database
  | OJob job
  | ODeployment deployment
  | OService service
  | OConfigMap config_map
  | OHTTPRoute http_route
  | OCluster cnpg_cluster
  | OScheduledBackup scheduled_backup
  | OGateway gateway
  | OSupabase supabase
  | OTenant supabase_tenant

fun obj_kind :: "obj \<Rightarrow> kind" where
  "obj_kind (ONamespace x) = KNamespace"
| "obj_kind (ONetworkPolicy x) = KNetworkPolicy"
| "obj_kind (OSecret x) = KSecret"
| "obj_kind (ODatabase x) = KDatabase"
| "obj_kind (OJob x) = KJob"
| "obj_kind (ODeployment x) = KDeployment"
| "obj_kind (OService x) = KService"
| "obj_kind (OConfigMap x) = KConfigMap"
| "obj_kind (OHTTPRoute x) = KHTTPRoute"
| "obj_kind (OCluster x) = KCluster"
| "obj_kind (OScheduledBackup x) = KScheduledBackup"
| "obj_kind (OGateway x) = KGateway"
| "obj_kind (OSupabase x) = KSupabase"
| "obj_kind (OTenant x) = KTenant"

fun obj_meta :: "obj \<Rightarrow> object_meta" where
  "obj_meta (ONamespace x) = ns_meta x"
| "obj_meta (ONetworkPolicy x) = np_meta x"
| "obj_meta (OSecret x) = sec_meta x"
| "obj_meta (ODatabase x) = cdb_meta x"
| "obj_meta (OJob x) = job_meta x"
| "obj_meta (ODeployment x) = dep_meta x"
| "obj_meta (OService x) = svc_meta x"
| "obj_meta (OConfigMap x) = cm_meta x"
| "obj_meta (OHTTPRoute x) = hr_meta x"
| "obj_meta (OCluster x) = cl_meta x"
| "obj_meta (OScheduledBackup x) = bk_meta x"
| "obj_meta (OGateway x) = gw_meta x"
| "obj_meta (OSupabase x) = sb_meta x"
| "obj_meta (OTenant x) = tc_meta x"

type_synonym obj_ref = "kind \<times> obj_key"

definition obj_ref :: "obj \<Rightarrow> obj_ref" where
  "obj_ref x = (obj_kind x, meta_key (obj_meta x))"

text \<open>The object \<open>m\<close> with the status of \<open>old\<close>: what a write of the main resource stores.\<close>

definition keep_status :: "obj \<Rightarrow> obj \<Rightarrow> obj" where
  "keep_status old m =
     (case old of
        ONamespace a \<Rightarrow> (case m of ONamespace b \<Rightarrow> ONamespace (b\<lparr>ns_phase := ns_phase a\<rparr>) | _ \<Rightarrow> m)
      | ODatabase a \<Rightarrow>
          (case m of ODatabase b \<Rightarrow>
             ODatabase (b\<lparr>cdb_applied := cdb_applied a, cdb_message := cdb_message a\<rparr>) | _ \<Rightarrow> m)
      | OJob a \<Rightarrow>
          (case m of OJob b \<Rightarrow>
             OJob (b\<lparr>job_succeeded := job_succeeded a, job_active := job_active a,
                     job_failed := job_failed a\<rparr>) | _ \<Rightarrow> m)
      | ODeployment a \<Rightarrow>
          (case m of ODeployment b \<Rightarrow>
             ODeployment (b\<lparr>dep_ready_replicas := dep_ready_replicas a\<rparr>) | _ \<Rightarrow> m)
      | OCluster a \<Rightarrow>
          (case m of OCluster b \<Rightarrow> OCluster (b\<lparr>cl_conditions := cl_conditions a\<rparr>) | _ \<Rightarrow> m)
      | OGateway a \<Rightarrow>
          (case m of OGateway b \<Rightarrow> OGateway (b\<lparr>gw_conditions := gw_conditions a\<rparr>) | _ \<Rightarrow> m)
      | OSupabase a \<Rightarrow>
          (case m of OSupabase b \<Rightarrow> OSupabase (b\<lparr>sb_status := sb_status a\<rparr>) | _ \<Rightarrow> m)
      | OTenant a \<Rightarrow> (case m of OTenant b \<Rightarrow> OTenant (b\<lparr>tc_status := tc_status a\<rparr>) | _ \<Rightarrow> m)
      | _ \<Rightarrow> m)"

text \<open>The object \<open>old\<close> with the status of \<open>m\<close>: what a write of the status stores.\<close>

definition only_status :: "obj \<Rightarrow> obj \<Rightarrow> obj" where
  "only_status old m =
     (case old of
        OSupabase a \<Rightarrow> (case m of OSupabase b \<Rightarrow> OSupabase (a\<lparr>sb_status := sb_status b\<rparr>) | _ \<Rightarrow> old)
      | OTenant a \<Rightarrow> (case m of OTenant b \<Rightarrow> OTenant (a\<lparr>tc_status := tc_status b\<rparr>) | _ \<Rightarrow> old)
      | _ \<Rightarrow> old)"

lemma obj_ref_keep_status [simp]: "obj_ref (keep_status old m) = obj_ref m"
  by (simp add: keep_status_def obj_ref_def split: obj.split)

text \<open>
  The writing calls of \<open>client.Client\<close>. A patch is given by its base
  (\<open>client.MergeFrom(base)\<close>) and the modified object.
\<close>

datatype api_write =
    Create obj
  | Patch obj obj
  | StatusPatch obj obj
  | Update obj
  | Delete obj

datatype verb = VCreate | VPatch | VStatus | VUpdate | VDelete

fun write_verb :: "api_write \<Rightarrow> verb" where
  "write_verb (Create x) = VCreate"
| "write_verb (Patch b x) = VPatch"
| "write_verb (StatusPatch b x) = VStatus"
| "write_verb (Update x) = VUpdate"
| "write_verb (Delete x) = VDelete"

fun write_obj :: "api_write \<Rightarrow> obj" where
  "write_obj (Create x) = x"
| "write_obj (Patch b x) = x"
| "write_obj (StatusPatch b x) = x"
| "write_obj (Update x) = x"
| "write_obj (Delete x) = x"

definition write_ref :: "api_write \<Rightarrow> obj_ref" where
  "write_ref wr = obj_ref (write_obj wr)"

text \<open>A footprint: which verbs may be used on which objects.\<close>

type_synonym footprint = "(verb \<times> obj_ref) set"

definition write_sig :: "api_write \<Rightarrow> verb \<times> obj_ref" where
  "write_sig wr = (write_verb wr, write_ref wr)"

lemma write_sig_simps [simp]:
  "write_sig (Create x) = (VCreate, obj_ref x)"
  "write_sig (Patch b x) = (VPatch, obj_ref x)"
  "write_sig (StatusPatch b x) = (VStatus, obj_ref x)"
  "write_sig (Update x) = (VUpdate, obj_ref x)"
  "write_sig (Delete x) = (VDelete, obj_ref x)"
  by (simp_all add: write_sig_def write_ref_def)

section \<open>The environment\<close>

record event =
  evt_object :: obj_ref
  evt_type :: string
  evt_reason :: string
  evt_message :: string

text \<open>\<open>jwt.MapClaims\<close> with the keys the operator sets.\<close>

record jwt_claims =
  jc_role :: string
  jc_iss :: string
  jc_iat :: int
  jc_exp :: int

datatype gauge = TenantsTotal | TenantsReady | TenantsSuspended

record 'w env =
  get_namespace :: "obj_key \<Rightarrow> ('w, go_error + namespace) state"
  get_network_policy :: "obj_key \<Rightarrow> ('w, go_error + network_policy) state"
  get_secret :: "obj_key \<Rightarrow> ('w, go_error + secret) state"
  get_database :: "obj_key \<Rightarrow> ('w, go_error + cnpg_database) state"
  get_job :: "obj_key \<Rightarrow> ('w, go_error + job) state"
  get_deployment :: "obj_key \<Rightarrow> ('w, go_error + deployment) state"
  get_service :: "obj_key \<Rightarrow> ('w, go_error + service) state"
  get_config_map :: "obj_key \<Rightarrow> ('w, go_error + config_map) state"
  get_http_route :: "obj_key \<Rightarrow> ('w, go_error + http_route) state"
  get_cluster :: "obj_key \<Rightarrow> ('w, go_error + cnpg_cluster) state"
  get_scheduled_backup :: "obj_key \<Rightarrow> ('w, go_error + scheduled_backup) state"
  get_gateway :: "obj_key \<Rightarrow> ('w, go_error + gateway) state"
  get_supabase :: "obj_key \<Rightarrow> ('w, go_error + supabase) state"
  get_tenant :: "obj_key \<Rightarrow> ('w, go_error + supabase_tenant) state"
  list_clusters :: "string \<Rightarrow> ('w, go_error + cnpg_cluster list) state"
  list_gateways :: "string \<Rightarrow> ('w, go_error + gateway list) state"
  list_tenants :: "('w, go_error + supabase_tenant list) state"
  exec :: "api_write \<Rightarrow> ('w, go_error option) state"
  emit :: "event \<Rightarrow> ('w, unit) state"
  rand_read :: "nat \<Rightarrow> ('w, go_error + string) state"
  now_unix :: "('w, int) state"
  set_gauge :: "gauge \<Rightarrow> int \<Rightarrow> ('w, unit) state"
  observe_reconcile :: "string \<Rightarrow> string \<Rightarrow> ('w, unit) state"
  sign_hs256 :: "jwt_claims \<Rightarrow> string \<Rightarrow> go_error + string"
  set_controller_reference :: "supabase \<Rightarrow> object_meta \<Rightarrow> go_error + object_meta"
  set_status_condition :: "condition list \<Rightarrow> condition \<Rightarrow> condition list"
  is_status_condition_true :: "condition list \<Rightarrow> string \<Rightarrow> bool"
  contains_finalizer :: "string list \<Rightarrow> string \<Rightarrow> bool"
  add_finalizer :: "string list \<Rightarrow> string \<Rightarrow> string list"
  remove_finalizer :: "string list \<Rightarrow> string \<Rightarrow> string list"

section \<open>What the operator relies on\<close>

text \<open>\<open>Get\<close> decodes the object that was asked for.\<close>

definition reads_key :: "('x \<Rightarrow> object_meta) \<Rightarrow> (obj_key \<Rightarrow> ('w, go_error + 'x) state) \<Rightarrow> bool" where
  "reads_key mt g \<longleftrightarrow>
     (\<forall>k w x w'. run_state (g k) w = (Inr x, w') \<longrightarrow> meta_key (mt x) = k)"

definition well_keyed :: "'w env \<Rightarrow> bool" where
  "well_keyed e \<longleftrightarrow>
     reads_key ns_meta (get_namespace e) \<and>
     reads_key np_meta (get_network_policy e) \<and>
     reads_key sec_meta (get_secret e) \<and>
     reads_key cdb_meta (get_database e) \<and>
     reads_key job_meta (get_job e) \<and>
     reads_key dep_meta (get_deployment e) \<and>
     reads_key svc_meta (get_service e) \<and>
     reads_key cm_meta (get_config_map e) \<and>
     reads_key hr_meta (get_http_route e) \<and>
     reads_key cl_meta (get_cluster e) \<and>
     reads_key bk_meta (get_scheduled_backup e) \<and>
     reads_key gw_meta (get_gateway e) \<and>
     reads_key sb_meta (get_supabase e) \<and>
     reads_key tc_meta (get_tenant e)"

text \<open>
  \<open>stable e A P\<close>: the property \<open>P\<close> of the world survives every read, event, metric and
  random draw, and every write whose verb and target are in \<open>A\<close>.
\<close>

definition stable :: "'w env \<Rightarrow> footprint \<Rightarrow> ('w \<Rightarrow> bool) \<Rightarrow> bool" where
  "stable e A P \<longleftrightarrow>
     (\<forall>k. keeps P (get_namespace e k)) \<and>
     (\<forall>k. keeps P (get_network_policy e k)) \<and>
     (\<forall>k. keeps P (get_secret e k)) \<and>
     (\<forall>k. keeps P (get_database e k)) \<and>
     (\<forall>k. keeps P (get_job e k)) \<and>
     (\<forall>k. keeps P (get_deployment e k)) \<and>
     (\<forall>k. keeps P (get_service e k)) \<and>
     (\<forall>k. keeps P (get_config_map e k)) \<and>
     (\<forall>k. keeps P (get_http_route e k)) \<and>
     (\<forall>k. keeps P (get_cluster e k)) \<and>
     (\<forall>k. keeps P (get_scheduled_backup e k)) \<and>
     (\<forall>k. keeps P (get_gateway e k)) \<and>
     (\<forall>k. keeps P (get_supabase e k)) \<and>
     (\<forall>k. keeps P (get_tenant e k)) \<and>
     (\<forall>n. keeps P (list_clusters e n)) \<and> (\<forall>n. keeps P (list_gateways e n)) \<and>
     keeps P (list_tenants e) \<and>
     (\<forall>wr. write_sig wr \<in> A \<longrightarrow> keeps P (exec e wr)) \<and>
     (\<forall>ev. keeps P (emit e ev)) \<and> (\<forall>n. keeps P (rand_read e n)) \<and> keeps P (now_unix e) \<and>
     (\<forall>g n. keeps P (set_gauge e g n)) \<and> (\<forall>c r. keeps P (observe_reconcile e c r))"

lemma stable_get_namespace [keeps_intros]: "stable e A P \<Longrightarrow> keeps P (get_namespace e k)"
  by (simp add: stable_def)

lemma stable_get_network_policy [keeps_intros]: "stable e A P \<Longrightarrow> keeps P (get_network_policy e k)"
  by (simp add: stable_def)

lemma stable_get_secret [keeps_intros]: "stable e A P \<Longrightarrow> keeps P (get_secret e k)"
  by (simp add: stable_def)

lemma stable_get_database [keeps_intros]: "stable e A P \<Longrightarrow> keeps P (get_database e k)"
  by (simp add: stable_def)

lemma stable_get_job [keeps_intros]: "stable e A P \<Longrightarrow> keeps P (get_job e k)"
  by (simp add: stable_def)

lemma stable_get_deployment [keeps_intros]: "stable e A P \<Longrightarrow> keeps P (get_deployment e k)"
  by (simp add: stable_def)

lemma stable_get_service [keeps_intros]: "stable e A P \<Longrightarrow> keeps P (get_service e k)"
  by (simp add: stable_def)

lemma stable_get_config_map [keeps_intros]: "stable e A P \<Longrightarrow> keeps P (get_config_map e k)"
  by (simp add: stable_def)

lemma stable_get_http_route [keeps_intros]: "stable e A P \<Longrightarrow> keeps P (get_http_route e k)"
  by (simp add: stable_def)

lemma stable_get_cluster [keeps_intros]: "stable e A P \<Longrightarrow> keeps P (get_cluster e k)"
  by (simp add: stable_def)

lemma stable_get_scheduled_backup [keeps_intros]: "stable e A P \<Longrightarrow> keeps P (get_scheduled_backup e k)"
  by (simp add: stable_def)

lemma stable_get_gateway [keeps_intros]: "stable e A P \<Longrightarrow> keeps P (get_gateway e k)"
  by (simp add: stable_def)

lemma stable_get_supabase [keeps_intros]: "stable e A P \<Longrightarrow> keeps P (get_supabase e k)"
  by (simp add: stable_def)

lemma stable_get_tenant [keeps_intros]: "stable e A P \<Longrightarrow> keeps P (get_tenant e k)"
  by (simp add: stable_def)

lemma stable_list [keeps_intros]:
  "stable e A P \<Longrightarrow> keeps P (list_clusters e n)"
  "stable e A P \<Longrightarrow> keeps P (list_gateways e n)"
  "stable e A P \<Longrightarrow> keeps P (list_tenants e)"
  by (simp_all add: stable_def)

lemma stable_exec [keeps_intros]: "stable e A P \<Longrightarrow> write_sig wr \<in> A \<Longrightarrow> keeps P (exec e wr)"
  by (simp add: stable_def)

lemma stable_effect [keeps_intros]:
  "stable e A P \<Longrightarrow> keeps P (emit e ev)"
  "stable e A P \<Longrightarrow> keeps P (rand_read e k)"
  "stable e A P \<Longrightarrow> keeps P (now_unix e)"
  "stable e A P \<Longrightarrow> keeps P (set_gauge e g n)"
  "stable e A P \<Longrightarrow> keeps P (observe_reconcile e c r)"
  by (simp_all add: stable_def)

lemma stable_mono: "stable e B P \<Longrightarrow> A \<subseteq> B \<Longrightarrow> stable e A P"
  by (auto simp: stable_def)

end
