(* ===== verification/ApiServer.thy ===== *)
theory ApiServer
  imports Client
begin

text \<open>
  What the operator relies on from the API server while no other writer interferes:
  \<open>api_server e view admit\<close> relates the calls of the environment \<open>e\<close> to the objects
  \<open>view w\<close> stored in the world \<open>w\<close>. \<open>admit\<close> is what admission makes of a written object
  (defaulting and mutating webhooks); it keeps the identity of the object. Below it, the
  documented behaviour of the library calls whose code is not in the repository.
\<close>

type_synonym 'w store_view = "'w \<Rightarrow> obj_ref \<rightharpoonup> obj"

section \<open>The API server\<close>

definition reads_store ::
  "'w store_view \<Rightarrow> kind \<Rightarrow> ('x \<Rightarrow> obj) \<Rightarrow> (obj_key \<Rightarrow> ('w, go_error + 'x) state) \<Rightarrow> bool" where
  "reads_store view K mk g \<longleftrightarrow>
     (\<forall>k w r w'. run_state (g k) w = (r, w') \<longrightarrow>
        view w' = view w \<and>
        (case r of
           Inr x \<Rightarrow> view w (K, k) = Some (mk x)
         | Inl err \<Rightarrow> is_not_found err \<longrightarrow> view w (K, k) = None))"

text \<open>An object whose deletion was accepted: gone, or marked and waiting for finalizers.\<close>

definition removed :: "'w store_view \<Rightarrow> 'w \<Rightarrow> obj_ref \<Rightarrow> bool" where
  "removed view w q \<longleftrightarrow>
     (case view w q of None \<Rightarrow> True | Some y \<Rightarrow> om_deletion (obj_meta y) \<noteq> None)"

text \<open>The objects that go with a deleted one: those inside a deleted namespace.\<close>

definition cascades :: "obj \<Rightarrow> obj_ref \<Rightarrow> bool" where
  "cascades x q \<longleftrightarrow> obj_kind x = KNamespace \<and> k_namespace (snd q) = om_name (obj_meta x)"

fun write_law ::
  "'w store_view \<Rightarrow> (obj \<Rightarrow> obj) \<Rightarrow> 'w \<Rightarrow> api_write \<Rightarrow> go_error option \<Rightarrow> 'w \<Rightarrow> bool" where
  "write_law view admit w (Create x) r w' \<longleftrightarrow>
     (\<forall>q. q \<noteq> obj_ref x \<longrightarrow> view w' q = view w q) \<and>
     (r = None \<longrightarrow> view w (obj_ref x) = None \<and> view w' (obj_ref x) = Some (admit x)) \<and>
     (view w (obj_ref x) \<noteq> None \<longrightarrow> view w' (obj_ref x) = view w (obj_ref x))"
| "write_law view admit w (Patch b x) r w' \<longleftrightarrow>
     (\<forall>q. q \<noteq> obj_ref x \<longrightarrow> view w' q = view w q) \<and>
     (r = None \<and> view w (obj_ref x) = Some b \<longrightarrow>
        view w' (obj_ref x) = Some (admit (keep_status b x)))"
| "write_law view admit w (StatusPatch b x) r w' \<longleftrightarrow>
     (\<forall>q. q \<noteq> obj_ref x \<longrightarrow> view w' q = view w q) \<and>
     (r = None \<and> view w (obj_ref x) = Some b \<longrightarrow>
        view w' (obj_ref x) = Some (only_status b x))"
| "write_law view admit w (Update x) r w' \<longleftrightarrow> (\<forall>q. q \<noteq> obj_ref x \<longrightarrow> view w' q = view w q)"
| "write_law view admit w (Delete x) r w' \<longleftrightarrow>
     (\<forall>q. q \<noteq> obj_ref x \<and> \<not> cascades x q \<longrightarrow> view w' q = view w q) \<and>
     (r = None \<longrightarrow> removed view w' (obj_ref x))"

definition silent :: "'w store_view \<Rightarrow> ('w, 'a) state \<Rightarrow> bool" where
  "silent view m \<longleftrightarrow> (\<forall>w r w'. run_state m w = (r, w') \<longrightarrow> view w' = view w)"

definition api_server :: "'w env \<Rightarrow> 'w store_view \<Rightarrow> (obj \<Rightarrow> obj) \<Rightarrow> bool" where
  "api_server e view admit \<longleftrightarrow>
     (\<forall>w q x. view w q = Some x \<longrightarrow> obj_ref x = q) \<and>
     (\<forall>x. obj_ref (admit x) = obj_ref x) \<and>
     reads_store view KNamespace ONamespace (get_namespace e) \<and>
     reads_store view KNetworkPolicy ONetworkPolicy (get_network_policy e) \<and>
     reads_store view KSecret OSecret (get_secret e) \<and>
     reads_store view KDatabase ODatabase (get_database e) \<and>
     reads_store view KJob OJob (get_job e) \<and>
     reads_store view KDeployment ODeployment (get_deployment e) \<and>
     reads_store view KService OService (get_service e) \<and>
     reads_store view KConfigMap OConfigMap (get_config_map e) \<and>
     reads_store view KHTTPRoute OHTTPRoute (get_http_route e) \<and>
     reads_store view KCluster OCluster (get_cluster e) \<and>
     reads_store view KScheduledBackup OScheduledBackup (get_scheduled_backup e) \<and>
     reads_store view KGateway OGateway (get_gateway e) \<and>
     reads_store view KSupabase OSupabase (get_supabase e) \<and>
     reads_store view KTenant OTenant (get_tenant e) \<and>
     (\<forall>n. silent view (list_clusters e n)) \<and> (\<forall>n. silent view (list_gateways e n)) \<and>
     silent view (list_tenants e) \<and>
     (\<forall>wr w r w'. run_state (exec e wr) w = (r, w') \<longrightarrow> write_law view admit w wr r w') \<and>
     (\<forall>ev. silent view (emit e ev)) \<and> (\<forall>n. silent view (rand_read e n)) \<and>
     silent view (now_unix e) \<and> (\<forall>g n. silent view (set_gauge e g n)) \<and>
     (\<forall>c r. silent view (observe_reconcile e c r))"

section \<open>Library calls\<close>

definition find_condition :: "condition list \<Rightarrow> string \<Rightarrow> condition option" where
  "find_condition cs t = find (\<lambda>c. cond_type c = t) cs"

text \<open>
  \<open>meta.SetStatusCondition\<close> replaces the condition of the same type or adds it, and leaves
  the others; \<open>meta.IsStatusConditionTrue\<close> reads the status of the condition of a type.
\<close>

definition condition_laws :: "'w env \<Rightarrow> bool" where
  "condition_laws e \<longleftrightarrow>
     (\<forall>cs c. find_condition (set_status_condition e cs c) (cond_type c) = Some c) \<and>
     (\<forall>cs c t. t \<noteq> cond_type c \<longrightarrow>
        find_condition (set_status_condition e cs c) t = find_condition cs t) \<and>
     (\<forall>cs c. distinct (map cond_type cs) \<longrightarrow>
        distinct (map cond_type (set_status_condition e cs c))) \<and>
     (\<forall>cs t. is_status_condition_true e cs t \<longleftrightarrow>
        (\<exists>c. find_condition cs t = Some c \<and> cond_status c = CondTrue))"

text \<open>\<open>controllerutil.ContainsFinalizer\<close>, \<open>AddFinalizer\<close> and \<open>RemoveFinalizer\<close>.\<close>

definition finalizer_laws :: "'w env \<Rightarrow> bool" where
  "finalizer_laws e \<longleftrightarrow>
     (\<forall>fs f. contains_finalizer e fs f \<longleftrightarrow> f \<in> set fs) \<and>
     (\<forall>fs f. set (add_finalizer e fs f) = insert f (set fs)) \<and>
     (\<forall>fs f. set (remove_finalizer e fs f) = set fs - {f})"

text \<open>\<open>controllerutil.SetControllerReference\<close> only adds an owner reference.\<close>

definition owner_laws :: "'w env \<Rightarrow> bool" where
  "owner_laws e \<longleftrightarrow>
     (\<forall>o' m m'. set_controller_reference e o' m = Inr m' \<longrightarrow>
        (\<exists>ows. m' = m\<lparr>om_owners := ows\<rparr>))"

text \<open>What every component relies on for the identity of the objects it writes.\<close>

definition client_laws :: "'w env \<Rightarrow> bool" where
  "client_laws e \<longleftrightarrow> well_keyed e \<and> owner_laws e"

text \<open>\<open>rand.Read\<close> fills the whole buffer.\<close>

definition entropy_laws :: "'w env \<Rightarrow> bool" where
  "entropy_laws e \<longleftrightarrow>
     (\<forall>n w b w'. run_state (rand_read e n) w = (Inr b, w') \<longrightarrow> length b = n)"

section \<open>Consequences\<close>

lemma api_server_reads:
  assumes "api_server e view admit"
  shows "reads_store view KNamespace ONamespace (get_namespace e)"
    and "reads_store view KNetworkPolicy ONetworkPolicy (get_network_policy e)"
    and "reads_store view KSecret OSecret (get_secret e)"
    and "reads_store view KDatabase ODatabase (get_database e)"
    and "reads_store view KJob OJob (get_job e)"
    and "reads_store view KDeployment ODeployment (get_deployment e)"
    and "reads_store view KService OService (get_service e)"
    and "reads_store view KConfigMap OConfigMap (get_config_map e)"
    and "reads_store view KHTTPRoute OHTTPRoute (get_http_route e)"
    and "reads_store view KCluster OCluster (get_cluster e)"
    and "reads_store view KScheduledBackup OScheduledBackup (get_scheduled_backup e)"
    and "reads_store view KGateway OGateway (get_gateway e)"
    and "reads_store view KSupabase OSupabase (get_supabase e)"
    and "reads_store view KTenant OTenant (get_tenant e)"
  using assms by (simp_all add: api_server_def)

lemma api_server_keyed: "api_server e view admit \<Longrightarrow> view w q = Some x \<Longrightarrow> obj_ref x = q"
  unfolding api_server_def by blast

lemma api_server_admit: "api_server e view admit \<Longrightarrow> obj_ref (admit x) = obj_ref x"
  by (simp add: api_server_def)

lemma api_server_exec:
  "api_server e view admit \<Longrightarrow> run_state (exec e wr) w = (r, w') \<Longrightarrow> write_law view admit w wr r w'"
  unfolding api_server_def by blast

lemma api_server_silent:
  assumes "api_server e view admit"
  shows "silent view (list_clusters e n)" and "silent view (list_gateways e n)"
    and "silent view (list_tenants e)" and "silent view (emit e ev)"
    and "silent view (rand_read e k)" and "silent view (now_unix e)"
    and "silent view (set_gauge e g i)" and "silent view (observe_reconcile e c l)"
  using assms by (simp_all add: api_server_def)

lemma silentD: "silent view m \<Longrightarrow> run_state m w = (r, w') \<Longrightarrow> view w' = view w"
  by (simp add: silent_def)

lemma reads_storeD:
  assumes "reads_store view K mk g" and "run_state (g k) w = (r, w')"
  shows "view w' = view w"
    and "r = Inr x \<Longrightarrow> view w (K, k) = Some (mk x)"
    and "r = Inl err \<Longrightarrow> is_not_found err \<Longrightarrow> view w (K, k) = None"
  using assms by (auto simp: reads_store_def split: sum.splits)

lemma reads_store_reads_key:
  assumes "reads_store view K mk g" and "\<And>w q x. view w q = Some x \<Longrightarrow> obj_ref x = q"
    and "\<And>x. obj_meta (mk x) = mt x"
  shows "reads_key mt g"
  unfolding reads_key_def
proof (intro allI impI)
  fix k w x w'
  assume run: "run_state (g k) w = (Inr x, w')"
  from reads_storeD(2) [OF assms(1) this refl] have "view w (K, k) = Some (mk x)" .
  from assms(2) [OF this] assms(3) show "meta_key (mt x) = k" by (simp add: obj_ref_def)
qed

lemma api_server_well_keyed:
  assumes "api_server e view admit"
  shows "well_keyed e"
  unfolding well_keyed_def
  using api_server_reads [OF assms, THEN reads_store_reads_key] api_server_keyed [OF assms]
  by simp

lemma owner_laws_key:
  "client_laws e \<Longrightarrow> set_controller_reference e sb m = Inr m' \<Longrightarrow> meta_key m' = meta_key m"
  by (auto simp: client_laws_def owner_laws_def) (metis meta_key_update(2))

lemma client_reads_key:
  assumes "client_laws e"
  shows "reads_key ns_meta (get_namespace e)" "reads_key np_meta (get_network_policy e)"
    "reads_key sec_meta (get_secret e)" "reads_key cdb_meta (get_database e)"
    "reads_key job_meta (get_job e)" "reads_key dep_meta (get_deployment e)"
    "reads_key svc_meta (get_service e)" "reads_key cm_meta (get_config_map e)"
    "reads_key hr_meta (get_http_route e)" "reads_key cl_meta (get_cluster e)"
    "reads_key bk_meta (get_scheduled_backup e)" "reads_key gw_meta (get_gateway e)"
    "reads_key sb_meta (get_supabase e)" "reads_key tc_meta (get_tenant e)"
  using assms by (simp_all add: client_laws_def well_keyed_def)

lemma get_then:
  assumes key: "reads_key mt g" and g: "keeps P (g k)"
    and f: "\<And>r. (\<And>x. r = Inr x \<Longrightarrow> meta_key (mt x) = k) \<Longrightarrow> keeps P (f r)"
  shows "keeps P (State_Monad.bind (g k) f)"
proof (rule keeps_bind_result [where R = "\<lambda>r. \<forall>x. r = Inr x \<longrightarrow> meta_key (mt x) = k", OF _ g])
  fix w
  show "\<forall>x. fst (run_state (g k) w) = Inr x \<longrightarrow> meta_key (mt x) = k"
    using key unfolding reads_key_def by (metis prod.collapse)
qed (simp add: f)

end
