(* ===== verification/Resources.thy ===== *)
theory Resources
  imports ApiTypes
begin

text \<open>
  \<open>internal/resources\<close>: the label sets, the Deployment and Service builders, and the
  resource presets of the tenant workloads.
\<close>

section \<open>labels.go\<close>

definition LabelManagedBy :: string where "LabelManagedBy = ''app.kubernetes.io/managed-by''"
definition LabelPartOf :: string where "LabelPartOf = ''app.kubernetes.io/part-of''"
definition LabelInstance :: string where "LabelInstance = ''app.kubernetes.io/instance''"
definition LabelComponent :: string where "LabelComponent = ''app.kubernetes.io/component''"
definition LabelTenant :: string where "LabelTenant = ''supabase.codanael.io/tenant''"
definition ManagedByValue :: string where "ManagedByValue = ''supabase-operator''"
definition PartOfValue :: string where "PartOfValue = ''supabase''"

lemmas label_defs = LabelManagedBy_def LabelPartOf_def LabelInstance_def LabelComponent_def
  LabelTenant_def

definition PlatformLabels :: "string \<Rightarrow> string \<Rightarrow> labels" where
  "PlatformLabels inst component =
     [LabelManagedBy \<mapsto> ManagedByValue, LabelPartOf \<mapsto> PartOfValue,
      LabelInstance \<mapsto> inst, LabelComponent \<mapsto> component]"

definition TenantLabels :: "string \<Rightarrow> string \<Rightarrow> string \<Rightarrow> labels" where
  "TenantLabels inst tenantID component =
     (PlatformLabels inst component)(LabelTenant \<mapsto> tenantID)"

definition SelectorLabels :: "string \<Rightarrow> string \<Rightarrow> labels" where
  "SelectorLabels inst component = [LabelInstance \<mapsto> inst, LabelComponent \<mapsto> component]"

section \<open>builder.go\<close>

text \<open>The ranges of \<open>mergeLabels\<close> write each map over the ones before it.\<close>

definition mergeLabels :: "labels list \<Rightarrow> labels" where
  "mergeLabels maps = foldl (++) Map.empty maps"

record deployment_builder =
  b_namespace :: string
  b_name :: string
  b_labels :: labels
  b_selector_labels :: labels
  b_pod_annotations :: labels
  b_replicas :: int
  b_containers :: "container list"
  b_volumes :: "volume list"

definition NewDeploymentBuilder :: "string \<Rightarrow> string \<Rightarrow> deployment_builder" where
  "NewDeploymentBuilder ns n =
     \<lparr>b_namespace = ns, b_name = n, b_labels = Map.empty, b_selector_labels = Map.empty,
      b_pod_annotations = Map.empty, b_replicas = 1, b_containers = [], b_volumes = []\<rparr>"

definition WithLabels :: "labels \<Rightarrow> deployment_builder \<Rightarrow> deployment_builder" where
  "WithLabels l b = b\<lparr>b_labels := l\<rparr>"

definition WithSelectorLabels :: "labels \<Rightarrow> deployment_builder \<Rightarrow> deployment_builder" where
  "WithSelectorLabels l b = b\<lparr>b_selector_labels := l\<rparr>"

definition WithPodAnnotations :: "labels \<Rightarrow> deployment_builder \<Rightarrow> deployment_builder" where
  "WithPodAnnotations a b = b\<lparr>b_pod_annotations := a\<rparr>"

definition WithReplicas :: "int \<Rightarrow> deployment_builder \<Rightarrow> deployment_builder" where
  "WithReplicas n b = b\<lparr>b_replicas := n\<rparr>"

definition WithContainer :: "container \<Rightarrow> deployment_builder \<Rightarrow> deployment_builder" where
  "WithContainer c b = b\<lparr>b_containers := b_containers b @ [c]\<rparr>"

definition WithVolumes :: "volume list \<Rightarrow> deployment_builder \<Rightarrow> deployment_builder" where
  "WithVolumes vs b = b\<lparr>b_volumes := b_volumes b @ vs\<rparr>"

definition BuildD :: "deployment_builder \<Rightarrow> deployment" where
  "BuildD b =
     \<lparr>dep_meta = mk_meta (b_namespace b) (b_name b) (b_labels b),
      dep_spec =
        \<lparr>ds_replicas = Some (b_replicas b),
         ds_selector = b_selector_labels b,
         ds_template =
           \<lparr>pt_labels = mergeLabels [b_selector_labels b, b_labels b],
            pt_annotations = b_pod_annotations b,
            pt_restart_policy = '''',
            pt_containers = b_containers b,
            pt_volumes = b_volumes b\<rparr>\<rparr>,
      dep_ready_replicas = 0\<rparr>"

record service_builder_state =
  v_namespace :: string
  v_name :: string
  v_labels :: labels
  v_selector_labels :: labels
  v_ports :: "service_port list"

definition NewServiceBuilder :: "string \<Rightarrow> string \<Rightarrow> service_builder_state" where
  "NewServiceBuilder ns n =
     \<lparr>v_namespace = ns, v_name = n, v_labels = Map.empty, v_selector_labels = Map.empty,
      v_ports = []\<rparr>"

definition SvcWithLabels :: "labels \<Rightarrow> service_builder_state \<Rightarrow> service_builder_state" where
  "SvcWithLabels l b = b\<lparr>v_labels := l\<rparr>"

definition SvcWithSelectorLabels ::
  "labels \<Rightarrow> service_builder_state \<Rightarrow> service_builder_state" where
  "SvcWithSelectorLabels l b = b\<lparr>v_selector_labels := l\<rparr>"

definition WithPort ::
  "string \<Rightarrow> int \<Rightarrow> int \<Rightarrow> service_builder_state \<Rightarrow> service_builder_state" where
  "WithPort n port targetPort b =
     b\<lparr>v_ports := v_ports b @
        [\<lparr>sp_name = n, sp_port = port, sp_target_port = targetPort, sp_protocol = ''TCP''\<rparr>]\<rparr>"

definition BuildS :: "service_builder_state \<Rightarrow> service" where
  "BuildS b =
     \<lparr>svc_meta = mk_meta (v_namespace b) (v_name b) (v_labels b),
      svc_type = ''ClusterIP'',
      svc_selector = v_selector_labels b,
      svc_ports = v_ports b,
      svc_cluster_ip = ''''\<rparr>"

lemmas builder_defs = NewDeploymentBuilder_def WithLabels_def WithSelectorLabels_def
  WithPodAnnotations_def WithReplicas_def WithContainer_def WithVolumes_def BuildD_def
  NewServiceBuilder_def SvcWithLabels_def SvcWithSelectorLabels_def WithPort_def BuildS_def

section \<open>presets.go\<close>

record preset_resources =
  pre_replicas :: int
  pre_resources :: resource_requirements

text \<open>\<open>corev1.ResourceList{ResourceCPU: cpu, ResourceMemory: memory}\<close>\<close>

definition cpu_memory :: "string \<Rightarrow> string \<Rightarrow> string \<rightharpoonup> quantity" where
  "cpu_memory cpu memory = [''cpu'' \<mapsto> MustParse cpu, ''memory'' \<mapsto> MustParse memory]"

fun GetPreset :: "resource_preset \<Rightarrow> preset_resources" where
  "GetPreset ResourcePresetSmall =
     \<lparr>pre_replicas = 1,
      pre_resources = \<lparr>rr_requests = cpu_memory ''100m'' ''128Mi'',
                       rr_limits = cpu_memory ''500m'' ''512Mi''\<rparr>\<rparr>"
| "GetPreset ResourcePresetMedium =
     \<lparr>pre_replicas = 2,
      pre_resources = \<lparr>rr_requests = cpu_memory ''250m'' ''256Mi'',
                       rr_limits = cpu_memory ''1000m'' ''1Gi''\<rparr>\<rparr>"
| "GetPreset ResourcePresetLarge =
     \<lparr>pre_replicas = 3,
      pre_resources = \<lparr>rr_requests = cpu_memory ''500m'' ''512Mi'',
                       rr_limits = cpu_memory ''2000m'' ''2Gi''\<rparr>\<rparr>"
| "GetPreset _ = \<lparr>pre_replicas = 1, pre_resources = no_resources\<rparr>"

section \<open>Facts about labels and builders\<close>

lemma mergeLabels_two [simp]: "mergeLabels [m, n] = m ++ n"
  by (simp add: mergeLabels_def)

lemma SelectorLabels_le_PlatformLabels: "SelectorLabels i c \<subseteq>\<^sub>m PlatformLabels i c"
  by (auto simp: map_le_def SelectorLabels_def PlatformLabels_def label_defs)

text \<open>The selector of a tenant's workload: the selector labels and the tenant.\<close>

lemma tenant_selector_le_TenantLabels:
  "(SelectorLabels i c)(LabelTenant \<mapsto> t) \<subseteq>\<^sub>m TenantLabels i t c"
  by (auto simp: map_le_def SelectorLabels_def PlatformLabels_def TenantLabels_def label_defs)

lemma map_add_subsumed: "m \<subseteq>\<^sub>m n \<Longrightarrow> m ++ n = n"
proof (rule ext)
  fix x
  assume "m \<subseteq>\<^sub>m n"
  then show "(m ++ n) x = n x"
    by (cases "n x"; cases "m x") (force simp: map_le_def map_add_def)+
qed

lemma platform_template_labels [simp]:
  "SelectorLabels i c ++ PlatformLabels i c = PlatformLabels i c"
  by (rule map_add_subsumed) (rule SelectorLabels_le_PlatformLabels)

lemma tenant_template_labels [simp]:
  "(SelectorLabels i c)(LabelTenant \<mapsto> t) ++ TenantLabels i t c = TenantLabels i t c"
  by (rule map_add_subsumed) (rule tenant_selector_le_TenantLabels)

lemma SelectorLabels_inj [simp]:
  "SelectorLabels i c = SelectorLabels i' c' \<longleftrightarrow> i = i' \<and> c = c'"
proof
  assume eq: "SelectorLabels i c = SelectorLabels i' c'"
  from fun_cong [OF eq, of LabelInstance] fun_cong [OF eq, of LabelComponent]
  show "i = i' \<and> c = c'" by (simp add: SelectorLabels_def label_defs)
qed simp

end
