(* ===== verification/Credentials.thy ===== *)
theory Credentials
  imports GoStd Client
begin

text \<open>
  \<open>internal/credentials\<close>: random secrets, the JWT keys of a tenant, and the two hashes over
  secret data. \<open>rand.Read\<close>, the clock and the HS256 signature of golang-jwt are the
  environment's.
\<close>

section \<open>jwt.go\<close>

definition GenerateHMACSecret :: "'w env \<Rightarrow> nat \<Rightarrow> ('w, go_error + string) state" where
  "GenerateHMACSecret e byteLen =
     do { r \<leftarrow> rand_read e byteLen;
          case r of
            Inl err \<Rightarrow> ret (Inl (Wrap ''generating HMAC secret'' err))
          | Inr b \<Rightarrow> ret (Inr (b64_encode b)) }"

text \<open>\<open>time.Duration\<close> counts nanoseconds in an int64; \<open>Unix()\<close> is in seconds.\<close>

definition nanosecond :: int where "nanosecond = 1"
definition second :: int where "second = 1000000000 * nanosecond"
definition minute :: int where "minute = 60 * second"
definition hour :: int where "hour = 60 * minute"

definition role_key_lifetime :: int where
  "role_key_lifetime = 10 * 365 * 24 * hour"

definition role_claims :: "string \<Rightarrow> int \<Rightarrow> jwt_claims" where
  "role_claims role now =
     \<lparr>jc_role = role, jc_iss = ''supabase-operator'', jc_iat = now,
      jc_exp = now + role_key_lifetime div second\<rparr>"

definition generateRoleKey :: "'w env \<Rightarrow> string \<Rightarrow> string \<Rightarrow> ('w, go_error + string) state" where
  "generateRoleKey e jwtSecret role =
     do { now \<leftarrow> now_unix e;
          case sign_hs256 e (role_claims role now) jwtSecret of
            Inl err \<Rightarrow> ret (Inl (Wrap (''signing '' @ role @ '' key'') err))
          | Inr token \<Rightarrow> ret (Inr token) }"

definition GenerateAnonKey :: "'w env \<Rightarrow> string \<Rightarrow> ('w, go_error + string) state" where
  "GenerateAnonKey e jwtSecret = generateRoleKey e jwtSecret ''anon''"

definition GenerateServiceRoleKey :: "'w env \<Rightarrow> string \<Rightarrow> ('w, go_error + string) state" where
  "GenerateServiceRoleKey e jwtSecret = generateRoleKey e jwtSecret ''service_role''"

section \<open>password.go\<close>

definition GeneratePassword :: "'w env \<Rightarrow> nat \<Rightarrow> ('w, go_error + string) state" where
  "GeneratePassword e byteLen =
     do { r \<leftarrow> rand_read e byteLen;
          case r of
            Inl err \<Rightarrow> ret (Inl (Wrap ''generating password'' err))
          | Inr b \<Rightarrow> ret (Inr (b64_encode b)) }"

text \<open>What \<open>SecretHash\<close> writes to the hash for a map given in the order of its range.\<close>

definition secret_hash_input :: "(string \<times> string) list \<Rightarrow> string" where
  "secret_hash_input d =
     concat (map (\<lambda>k. k @ ''='' @ data_get d k @ [CHR 0x0A]) (sort (map fst d)))"

definition SecretHash :: "(string \<times> string) list \<Rightarrow> string" where
  "SecretHash d = take 16 (hex_string (sha256 (secret_hash_input d)))"

section \<open>rotation.go\<close>

definition SecretHashAnnotation :: string where
  "SecretHashAnnotation = ''supabase.codanael.io/secret-hash''"

definition rotation_input :: "(string \<times> string) list \<Rightarrow> string" where
  "rotation_input d = concat (map (\<lambda>k. k @ data_get d k) (sort (map fst d)))"

definition ComputeSecretHash :: "(string \<times> string) list list \<Rightarrow> string" where
  "ComputeSecretHash ds = hex_string (sha256 (concat (map rotation_input ds)))"

end
