(* ===== verification/Component.thy ===== *)
theory Component
  imports ApiServer Resources Credentials
begin

text \<open>
  \<open>internal/components\<close>: the \<open>Component\<close> interface, the platform and tenant contexts, and the
  two idioms every \<open>Reconcile\<close> is made of (create an object that is absent; create it or
  patch its mutable fields). The locale \<open>component\<close> is the contract of the interface: what
  each of the operations may write, and that none asks to be requeued.
\<close>

section \<open>interface.go\<close>

text \<open>\<open>ctrl.Result\<close>; durations are in nanoseconds.\<close>

record ctrl_result =
  cr_requeue :: bool
  cr_requeue_after :: int

definition no_requeue :: ctrl_result where
  "no_requeue = \<lparr>cr_requeue = False, cr_requeue_after = 0\<rparr>"

definition requeue_after :: "int \<Rightarrow> ctrl_result" where
  "requeue_after d = \<lparr>cr_requeue = False, cr_requeue_after = d\<rparr>"

text \<open>
  A value of the Go interface. \<open>Reconcile\<close> works on a context that a component may update
  through its pointer: it takes the context and returns it with the result.
\<close>

record ('w, 'c) component =
  comp_name :: string
  comp_reconcile :: "'c \<Rightarrow> ('w, (go_error + ctrl_result) \<times> 'c) state"
  comp_healthcheck :: "'c \<Rightarrow> ('w, bool \<times> string \<times> go_error option) state"
  comp_finalize :: "'c \<Rightarrow> ('w, go_error option) state"

record platform_ctx =
  px_supabase :: supabase

definition Namespace :: "platform_ctx \<Rightarrow> string" where
  "Namespace c = om_namespace (sb_meta (px_supabase c))"

definition InstanceName :: "platform_ctx \<Rightarrow> string" where
  "InstanceName c = om_name (sb_meta (px_supabase c))"

section \<open>tenant_context.go\<close>

record tenant_ctx =
  tx_tenant :: supabase_tenant
  tx_supabase :: supabase
  tx_namespace :: string
  tx_database_name :: string
  tx_database_host :: string
  tx_database_port :: string
  tx_jwt_secret :: string
  tx_anon_key :: string
  tx_service_role_key :: string
  tx_database_password :: string
  tx_secret_hash :: string

definition NewTenantContext :: "supabase_tenant \<Rightarrow> supabase \<Rightarrow> tenant_ctx" where
  "NewTenantContext t sb =
     \<lparr>tx_tenant = t, tx_supabase = sb,
      tx_namespace = ''supabase-'' @ tn_id (tc_spec t),
      tx_database_name = tn_id (tc_spec t),
      tx_database_host =
        om_name (sb_meta sb) @ ''-db-rw.'' @ om_namespace (sb_meta sb) @ ''.svc.cluster.local'',
      tx_database_port = ''5432'',
      tx_jwt_secret = '''', tx_anon_key = '''', tx_service_role_key = '''',
      tx_database_password = '''', tx_secret_hash = ''''\<rparr>"

definition TInstanceName :: "tenant_ctx \<Rightarrow> string" where
  "TInstanceName c = om_name (sb_meta (tx_supabase c))"

definition TenantID :: "tenant_ctx \<Rightarrow> string" where
  "TenantID c = tn_id (tc_spec (tx_tenant c))"

definition BaseDomain :: "tenant_ctx \<Rightarrow> string" where
  "BaseDomain c = gws_base_domain (sp_gateway (sb_spec (tx_supabase c)))"

definition DatabaseDSN :: "tenant_ctx \<Rightarrow> string \<Rightarrow> string \<Rightarrow> string" where
  "DatabaseDSN c user password =
     ''postgres://'' @ query_escape user @ '':'' @ query_escape password @ ''@'' @
     tx_database_host c @ '':'' @ tx_database_port c @ ''/'' @ tx_database_name c @
     ''?sslmode=disable''"

text \<open>The namespace of the platform a tenant belongs to.\<close>

abbreviation platform_ns :: "tenant_ctx \<Rightarrow> string" where
  "platform_ns c \<equiv> om_namespace (sb_meta (tx_supabase c))"

section \<open>The two idioms of Reconcile\<close>

text \<open>\<open>Recorder.Eventf(owner, "Normal", "Created", "Created <kind> %s", name)\<close>\<close>

definition created_event :: "obj_ref \<Rightarrow> string \<Rightarrow> string \<Rightarrow> event" where
  "created_event owner kd n =
     \<lparr>evt_object = owner, evt_type = ''Normal'', evt_reason = ''Created'',
      evt_message = ''Created '' @ kd @ '' '' @ n\<rparr>"

text \<open>
  Get the object; on NotFound create it and record the event; on any other error stop. What
  is read when the object exists is not looked at.
\<close>

definition create_if_absent ::
  "'w env \<Rightarrow> (obj_key \<Rightarrow> ('w, go_error + 'x) state) \<Rightarrow> ('x \<Rightarrow> obj) \<Rightarrow> string \<Rightarrow> event \<Rightarrow> 'x \<Rightarrow>
     ('w, go_error option) state" where
  "create_if_absent e g mk what ev desired =
     do { r \<leftarrow> g (meta_key (obj_meta (mk desired)));
          case r of
            Inl err \<Rightarrow>
              if \<not> is_not_found err then ret (Some (Wrap (''getting '' @ what) err))
              else do { c \<leftarrow> exec e (Create (mk desired));
                        case c of
                          Some createErr \<Rightarrow> ret (Some (Wrap (''creating '' @ what) createErr))
                        | None \<Rightarrow> do { emit e ev; ret None } }
          | Inr existing \<Rightarrow> ret None }"

text \<open>
  The same, and an existing object is patched: \<open>merge\<close> overwrites its mutable fields with
  the desired ones.
\<close>

definition create_or_patch ::
  "'w env \<Rightarrow> (obj_key \<Rightarrow> ('w, go_error + 'x) state) \<Rightarrow> ('x \<Rightarrow> obj) \<Rightarrow> string \<Rightarrow> event \<Rightarrow>
     ('x \<Rightarrow> 'x) \<Rightarrow> 'x \<Rightarrow> ('w, go_error option) state" where
  "create_or_patch e g mk what ev merge desired =
     do { r \<leftarrow> g (meta_key (obj_meta (mk desired)));
          case r of
            Inl err \<Rightarrow>
              if \<not> is_not_found err then ret (Some (Wrap (''getting '' @ what) err))
              else do { c \<leftarrow> exec e (Create (mk desired));
                        case c of
                          Some createErr \<Rightarrow> ret (Some (Wrap (''creating '' @ what) createErr))
                        | None \<Rightarrow> do { emit e ev; ret None } }
          | Inr existing \<Rightarrow>
              do { p \<leftarrow> exec e (Patch (mk existing) (mk (merge existing)));
                   case p of
                     Some patchErr \<Rightarrow> ret (Some (Wrap (''patching '' @ what) patchErr))
                   | None \<Rightarrow> ret None } }"

text \<open>\<open>if err := f(); err != nil { return ctrl.Result{}, err }\<close> followed by the rest.\<close>

definition and_then ::
  "('w, go_error option) state \<Rightarrow> ('w, go_error option) state \<Rightarrow> ('w, go_error option) state" where
  "and_then m n = do { r \<leftarrow> m; case r of Some err \<Rightarrow> ret (Some err) | None \<Rightarrow> n }"

text \<open>The end of a \<open>Reconcile\<close> that never requeues and leaves the context as it is.\<close>

definition result_of :: "'c \<Rightarrow> ('w, go_error option) state \<Rightarrow>
    ('w, (go_error + ctrl_result) \<times> 'c) state" where
  "result_of c m =
     do { r \<leftarrow> m;
          ret ((case r of Some err \<Rightarrow> Inl err | None \<Rightarrow> Inr no_requeue), c) }"

subsection \<open>What they write\<close>

definition create_sigs :: "obj_ref \<Rightarrow> footprint" where
  "create_sigs q = {(VCreate, q)}"

definition upsert_sigs :: "obj_ref \<Rightarrow> footprint" where
  "upsert_sigs q = {(VCreate, q), (VPatch, q)}"

lemma keeps_create_if_absent:
  assumes "stable e A P" and "\<And>k. keeps P (g k)" and "(VCreate, obj_ref (mk desired)) \<in> A"
  shows "keeps P (create_if_absent e g mk what ev desired)"
  unfolding create_if_absent_def
  by (intro keeps_intros assms stable_exec [OF assms(1)] stable_effect [OF assms(1)])
    (simp add: assms(3))

lemma keeps_create_or_patch:
  assumes st: "stable e A P" and g: "\<And>k. keeps P (g k)"
    and key: "reads_key (\<lambda>x. obj_meta (mk x)) g"
    and kind: "\<And>x. obj_kind (mk (merge x)) = obj_kind (mk desired)"
    and merge: "\<And>x. meta_key (obj_meta (mk (merge x))) = meta_key (obj_meta (mk x))"
    and A: "upsert_sigs (obj_ref (mk desired)) \<subseteq> A"
  shows "keeps P (create_or_patch e g mk what ev merge desired)"
proof -
  let ?k = "meta_key (obj_meta (mk desired))"
  have patch: "keeps P (exec e (Patch (mk x) (mk (merge x))))"
    if "meta_key (obj_meta (mk x)) = ?k" for x
    using that A st by (intro stable_exec) (auto simp: obj_ref_def kind merge upsert_sigs_def)
  show ?thesis
    unfolding create_or_patch_def
  proof (rule keeps_bind_result [where R = "\<lambda>r. \<forall>x. r = Inr x \<longrightarrow> meta_key (obj_meta (mk x)) = ?k"])
    fix w
    show "\<forall>x. fst (run_state (g ?k) w) = Inr x \<longrightarrow> meta_key (obj_meta (mk x)) = ?k"
      using key unfolding reads_key_def by (metis prod.collapse)
  next
    fix r :: "go_error + 'b"
    assume r: "\<forall>x. r = Inr x \<longrightarrow> meta_key (obj_meta (mk x)) = ?k"
    show "keeps P (case r of
        Inl err \<Rightarrow>
          if \<not> is_not_found err then ret (Some (Wrap (''getting '' @ what) err))
          else do { c \<leftarrow> exec e (Create (mk desired));
                    case c of
                      Some createErr \<Rightarrow> ret (Some (Wrap (''creating '' @ what) createErr))
                    | None \<Rightarrow> do { emit e ev; ret None } }
      | Inr existing \<Rightarrow>
          do { p \<leftarrow> exec e (Patch (mk existing) (mk (merge existing)));
               case p of
                 Some patchErr \<Rightarrow> ret (Some (Wrap (''patching '' @ what) patchErr))
               | None \<Rightarrow> ret None })"
      using r A
      by (intro keeps_intros patch stable_exec [OF st] stable_effect [OF st])
        (auto simp: upsert_sigs_def)
  qed (rule g)
qed

lemma keeps_and_then [keeps_intros]: "keeps P m \<Longrightarrow> keeps P n \<Longrightarrow> keeps P (and_then m n)"
  unfolding and_then_def by (intro keeps_intros)

lemma keeps_result_of [keeps_intros]: "keeps P m \<Longrightarrow> keeps P (result_of c m)"
  unfolding result_of_def by (intro keeps_intros)

subsection \<open>What they establish\<close>

lemma create_if_absent_ok:
  assumes api: "api_server e view admit" and reads: "reads_store view K mk g"
    and kind: "\<And>x. obj_kind (mk x) = K"
    and run: "run_state (create_if_absent e g mk what ev desired) w = (None, w')"
  defines "q \<equiv> obj_ref (mk desired)"
  shows "view w' = (view w)(q \<mapsto> (case view w q of None \<Rightarrow> admit (mk desired) | Some x \<Rightarrow> x))"
proof -
  let ?k = "meta_key (obj_meta (mk desired))"
  have q: "q = (K, ?k)" by (simp add: q_def obj_ref_def kind)
  obtain r w1 where g: "run_state (g ?k) w = (r, w1)" by fastforce
  note reads = reads_storeD [OF reads g]
  show ?thesis
  proof (cases r)
    case (Inr x)
    with run g have "w' = w1" by (simp add: create_if_absent_def)
    with reads(1) reads(2) [OF Inr] show ?thesis by (simp add: q fun_upd_idem)
  next
    case (Inl err)
    obtain c w2 where c: "run_state (exec e (Create (mk desired))) w1 = (c, w2)" by fastforce
    have nf: "is_not_found err"
      using run g Inl by (auto simp: create_if_absent_def run_simps split: if_splits)
    have "c = None" and emit: "run_state (emit e ev) w2 = ((), w')"
      using run g Inl nf c by (auto simp: create_if_absent_def run_simps split: option.splits prod.splits)
    with api_server_exec [OF api c]
    have "view w2 = (view w1)(q \<mapsto> admit (mk desired))" by (auto simp: q_def)
    with reads(1) reads(3) [OF Inl nf] silentD [OF api_server_silent(4) [OF api] emit]
    show ?thesis by (simp add: q)
  qed
qed

lemma create_or_patch_ok:
  assumes api: "api_server e view admit" and reads: "reads_store view K mk g"
    and kind: "\<And>x. obj_kind (mk x) = K" and inj: "inj mk"
    and merge: "\<And>x. meta_key (obj_meta (mk (merge x))) = meta_key (obj_meta (mk x))"
    and run: "run_state (create_or_patch e g mk what ev merge desired) w = (None, w')"
  defines "q \<equiv> obj_ref (mk desired)"
  shows "view w q = None \<Longrightarrow> view w' = (view w)(q \<mapsto> admit (mk desired))"
    and "view w q = Some (mk x) \<Longrightarrow> view w' = (view w)(q \<mapsto> admit (keep_status (mk x) (mk (merge x))))"
proof -
  let ?k = "meta_key (obj_meta (mk desired))"
  have q: "q = (K, ?k)" by (simp add: q_def obj_ref_def kind)
  obtain r w1 where g: "run_state (g ?k) w = (r, w1)" by fastforce
  note reads = reads_storeD [OF reads g]
  { assume "view w q = None"
    then obtain err where r: "r = Inl err" using reads(2) q by (cases r) auto
    obtain c w2 where c: "run_state (exec e (Create (mk desired))) w1 = (c, w2)" by fastforce
    have nf: "is_not_found err"
      using run g r by (auto simp: create_or_patch_def run_simps split: if_splits)
    have "c = None" and emit: "run_state (emit e ev) w2 = ((), w')"
      using run g r nf c by (auto simp: create_or_patch_def run_simps split: option.splits prod.splits)
    with api_server_exec [OF api c]
    have "view w2 = (view w1)(q \<mapsto> admit (mk desired))" by (auto simp: q_def)
    with reads(1) silentD [OF api_server_silent(4) [OF api] emit]
    show "view w' = (view w)(q \<mapsto> admit (mk desired))" by simp }
  { assume some: "view w q = Some (mk x)"
    have r: "r = Inr x"
    proof (cases r)
      case (Inr y)
      with reads(2) [OF Inr] some q inj show ?thesis by (simp add: inj_eq)
    next
      case (Inl err)
      with reads(3) [OF Inl] some q have "\<not> is_not_found err" by auto
      with run g Inl show ?thesis by (auto simp: create_or_patch_def run_simps)
    qed
    from api_server_keyed [OF api some] have x: "obj_ref (mk x) = q" .
    obtain p where p: "run_state (exec e (Patch (mk x) (mk (merge x)))) w1 = (p, w')"
      and "p = None"
      using run g r by (auto simp: create_or_patch_def run_simps split: option.splits prod.splits)
    moreover have "obj_ref (mk (merge x)) = q"
      using x by (simp add: obj_ref_def kind merge)
    ultimately show "view w' = (view w)(q \<mapsto> admit (keep_status (mk x) (mk (merge x))))"
      using api_server_exec [OF api p] some reads(1) by auto }
qed

section \<open>One step of a controller\<close>

text \<open>
  \<open>reconcileComponent\<close> of the platform controller and \<open>reconcileTenantComponent\<close> of the
  tenant controller: reconcile a component, check its health, record the outcome in the
  condition of its type. Both return (ready, hasError).
\<close>

definition mk_condition :: "string \<Rightarrow> cond_status \<Rightarrow> string \<Rightarrow> string \<Rightarrow> int \<Rightarrow> condition" where
  "mk_condition t st reason msg gen =
     \<lparr>cond_type = t, cond_status = st, cond_reason = reason, cond_message = msg,
      cond_generation = gen\<rparr>"

lemma mk_condition_sel [simp]:
  "cond_type (mk_condition t st r m g) = t" "cond_status (mk_condition t st r m g) = st"
  "cond_reason (mk_condition t st r m g) = r" "cond_message (mk_condition t st r m g) = m"
  "cond_generation (mk_condition t st r m g) = g"
  by (simp_all add: mk_condition_def)

definition reconcile_component ::
  "'w env \<Rightarrow> int \<Rightarrow> ('w, 'c) component \<Rightarrow> string \<Rightarrow> condition list \<Rightarrow> 'c \<Rightarrow>
     ('w, (bool \<times> bool) \<times> condition list \<times> 'c) state" where
  "reconcile_component e gen cp condType conds c =
     do { (result, c) \<leftarrow> comp_reconcile cp c;
          case result of
            Inl err \<Rightarrow>
              ret ((False, True),
                   set_status_condition e conds
                     (mk_condition condType CondFalse ''ReconcileError'' (err_msg err) gen), c)
          | Inr res \<Rightarrow>
              if cr_requeue_after res > 0 then
                ret ((False, False),
                     set_status_condition e conds
                       (mk_condition condType CondFalse ''Reconciling''
                          ''Component is being reconciled'' gen), c)
              else do {
                (ready, msg, herr) \<leftarrow> comp_healthcheck cp c;
                case herr of
                  Some err \<Rightarrow>
                    ret ((False, True),
                         set_status_condition e conds
                           (mk_condition condType CondFalse ''HealthcheckError''
                              (err_msg err) gen), c)
                | None \<Rightarrow>
                    if ready then
                      ret ((True, False),
                           set_status_condition e conds
                             (mk_condition condType CondTrue ''Ready'' msg gen), c)
                    else
                      ret ((False, False),
                           set_status_condition e conds
                             (mk_condition condType CondFalse ''NotReady'' msg gen), c) } }"

text \<open>Whatever happens, the outcome is the condition of this type and no other one changes.\<close>

definition step_outcome :: "(bool \<times> bool) \<Rightarrow> string \<Rightarrow> int \<Rightarrow> condition \<Rightarrow> bool" where
  "step_outcome r t gen cnd \<longleftrightarrow>
     cond_type cnd = t \<and> cond_generation cnd = gen \<and>
     (fst r \<longrightarrow> \<not> snd r \<and> cond_status cnd = CondTrue \<and> cond_reason cnd = ''Ready'') \<and>
     (\<not> fst r \<longrightarrow> cond_status cnd = CondFalse) \<and>
     (snd r \<longleftrightarrow> cond_reason cnd \<in> {''ReconcileError'', ''HealthcheckError''})"

lemma reconcile_component_sets:
  assumes "run_state (reconcile_component e gen cp t cs c) w = ((r, cs', c'), w')"
  shows "\<exists>cnd. cs' = set_status_condition e cs cnd \<and> step_outcome r t gen cnd"
proof -
  obtain res c1 w1 where rc: "run_state (comp_reconcile cp c) w = ((res, c1), w1)"
    by (metis prod.exhaust)
  show ?thesis
  proof (cases res)
    case (Inl err)
    then show ?thesis
      using assms rc by (auto simp: reconcile_component_def run_simps step_outcome_def)
  next
    case (Inr cr)
    obtain ready msg herr w2 where "run_state (comp_healthcheck cp c1) w1 = ((ready, msg, herr), w2)"
      by (metis prod.exhaust)
    then show ?thesis
      using assms rc Inr
      by (auto simp: reconcile_component_def run_simps step_outcome_def
          split: if_splits option.splits)
  qed
qed

section \<open>The contract of the interface\<close>

text \<open>
  \<open>recon_writes\<close> and \<open>fin_writes\<close> bound what \<open>Reconcile\<close> and \<open>Finalize\<close> write, \<open>ident\<close> is the
  part of the context no component changes. A health check writes nothing, and no
  \<open>Reconcile\<close> asks to be requeued.
\<close>

locale component =
  fixes recon :: "'w env \<Rightarrow> 'c \<Rightarrow> ('w, (go_error + ctrl_result) \<times> 'c) state"
    and health :: "'w env \<Rightarrow> 'c \<Rightarrow> ('w, bool \<times> string \<times> go_error option) state"
    and fin :: "'w env \<Rightarrow> 'c \<Rightarrow> ('w, go_error option) state"
    and recon_writes :: "'c \<Rightarrow> footprint"
    and fin_writes :: "'c \<Rightarrow> footprint"
    and ident :: "'c \<Rightarrow> 'i"
  assumes recon_keeps: "client_laws e \<Longrightarrow> stable e (recon_writes c) P \<Longrightarrow> keeps P (recon e c)"
    and health_keeps: "stable e {} P \<Longrightarrow> keeps P (health e c)"
    and fin_keeps: "client_laws e \<Longrightarrow> stable e (fin_writes c) P \<Longrightarrow> keeps P (fin e c)"
    and recon_no_requeue:
      "run_state (recon e c) w = ((Inr res, c'), w') \<Longrightarrow> cr_requeue_after res = 0"
    and recon_ident: "run_state (recon e c) w = ((r, c'), w') \<Longrightarrow> ident c' = ident c"
begin

lemma step_keeps:
  assumes "comp_reconcile cp = recon e" and "comp_healthcheck cp = health e"
    and "client_laws e" and "stable e (recon_writes c) P"
  shows "keeps P (reconcile_component e gen cp t cs c)"
  unfolding reconcile_component_def assms(1,2)
  by (intro keeps_intros recon_keeps health_keeps assms(3,4) stable_mono [OF assms(4)])
    simp

lemma step_ident:
  assumes "comp_reconcile cp = recon e" and "comp_healthcheck cp = health e"
    and run: "run_state (reconcile_component e gen cp t cs c) w = ((r, cs', c'), w')"
  shows "ident c' = ident c"
proof -
  obtain res c1 w1 where rc: "run_state (recon e c) w = ((res, c1), w1)" by (metis prod.exhaust)
  obtain ready msg herr w2 where "run_state (health e c1) w1 = ((ready, msg, herr), w2)"
    by (metis prod.exhaust)
  with run rc have "c' = c1"
    by (auto simp: reconcile_component_def assms(1,2) run_simps
        split: if_splits option.splits sum.splits)
  with recon_ident [OF rc] show ?thesis by simp
qed

text \<open>The branch of the controllers for a component that asks to be requeued is never taken.\<close>

lemma step_never_reconciling:
  assumes "comp_reconcile cp = recon e" and "comp_healthcheck cp = health e"
    and run: "run_state (reconcile_component e gen cp t cs c) w = ((r, cs', c'), w')"
  shows "\<exists>cnd. cs' = set_status_condition e cs cnd \<and> cond_type cnd = t \<and>
           cond_reason cnd \<in> {''ReconcileError'', ''HealthcheckError'', ''Ready'', ''NotReady''}"
proof -
  obtain res c1 w1 where rc: "run_state (recon e c) w = ((res, c1), w1)" by (metis prod.exhaust)
  obtain ready msg herr w2 where "run_state (health e c1) w1 = ((ready, msg, herr), w2)"
    by (metis prod.exhaust)
  with run rc recon_no_requeue show ?thesis
    by (auto simp: reconcile_component_def assms(1,2) run_simps
        split: if_splits option.splits sum.splits)
qed

end


text \<open>
  Most components leave the context as it is and end with \<open>ctrl.Result{}\<close>: \<open>plain_result\<close>.
\<close>

definition plain_result :: "'c \<Rightarrow> ('w, (go_error + ctrl_result) \<times> 'c) state \<Rightarrow> bool" where
  "plain_result c m \<longleftrightarrow>
     (\<forall>w r c' w'. run_state m w = ((r, c'), w') \<longrightarrow>
        c' = c \<and> (\<forall>res. r = Inr res \<longrightarrow> res = no_requeue))"

named_theorems plain_intros "rules that show a computation to have a plain result"

lemma plain_resultD:
  assumes "plain_result c m" and "run_state m w = ((r, c'), w')"
  shows "c' = c" and "r = Inr res \<Longrightarrow> cr_requeue_after res = 0"
  using assms unfolding plain_result_def no_requeue_def by fastforce+

lemma plain_result_of [plain_intros]: "plain_result c (result_of c m)"
  by (auto simp: plain_result_def result_of_def split: prod.splits option.splits)

lemma plain_Inl [plain_intros]: "plain_result c (ret (Inl err, c))"
  by (simp add: plain_result_def)

lemma plain_done [plain_intros]: "plain_result c (ret (Inr no_requeue, c))"
  by (simp add: plain_result_def)

lemma plain_bind [plain_intros]: "(\<And>x. plain_result c (f x)) \<Longrightarrow> plain_result c (State_Monad.bind m f)"
  by (auto simp: plain_result_def split_beta)

lemma plain_cases [plain_intros]:
  "(b \<Longrightarrow> plain_result c m1) \<Longrightarrow> (\<not> b \<Longrightarrow> plain_result c m2) \<Longrightarrow>
     plain_result c (if b then m1 else m2)"
  "(\<And>x. plain_result c (f x)) \<Longrightarrow> (\<And>y. plain_result c (g y)) \<Longrightarrow>
     plain_result c (case s of Inl x \<Rightarrow> f x | Inr y \<Rightarrow> g y)"
  "plain_result c m1 \<Longrightarrow> (\<And>y. plain_result c (h y)) \<Longrightarrow>
     plain_result c (case opt of None \<Rightarrow> m1 | Some y \<Rightarrow> h y)"
  by (auto split: sum.split option.split)

lemma component_plainI:
  assumes "\<And>e c P. client_laws e \<Longrightarrow> stable e (rw c) P \<Longrightarrow> keeps P (recon e c)"
    and "\<And>e c P. stable e {} P \<Longrightarrow> keeps P (health e c)"
    and "\<And>e c P. client_laws e \<Longrightarrow> stable e (fw c) P \<Longrightarrow> keeps P (fin e c)"
    and "\<And>e c. plain_result c (recon e c)"
  shows "component recon health fin rw fw ident"
  by unfold_locales
    (auto simp: assms(1-3) dest: plain_resultD(1) [OF assms(4)] plain_resultD(2) [OF assms(4) _ refl])

end
