(* ===== verification/PlatformCore.thy ===== *)
theory PlatformCore
  imports Component
begin

text \<open>
  The critical components of the platform, \<open>internal/components/platform\<close>: the
  CloudNativePG cluster (\<open>cnpg_cluster.go\<close>), its scheduled backup (\<open>backup.go\<close>) and the
  gateway (\<open>gateway.go\<close>). Each builds the desired object, sets the owner reference, and
  creates or patches it; the health checks read the conditions other controllers set.
\<close>

definition supabase_ref :: "supabase \<Rightarrow> obj_ref" where
  "supabase_ref sb = (KSupabase, meta_key (sb_meta sb))"

section \<open>cnpg_cluster.go\<close>

definition componentDatabase :: string where "componentDatabase = ''database''"

definition clusterName :: "platform_ctx \<Rightarrow> string" where
  "clusterName c = InstanceName c @ ''-db''"

definition buildBackupConfig :: "backup_spec \<Rightarrow> barman_store" where
  "buildBackupConfig spec =
     \<lparr>bs_destination_path = bks_destination_path spec,
      bs_aws =
        (case bks_s3_secret_ref spec of
           None \<Rightarrow> None
         | Some secretRef \<Rightarrow>
             Some \<lparr>s3c_access_key_ref = (secretRef, ''ACCESS_KEY_ID''),
                   s3c_secret_key_ref = (secretRef, ''ACCESS_SECRET_KEY'')\<rparr>)\<rparr>"

definition buildCluster :: "platform_ctx \<Rightarrow> cnpg_cluster" where
  "buildCluster c =
     (let dbSpec = sp_database (sb_spec (px_supabase c))
      in \<lparr>cl_meta = mk_meta (Namespace c) (clusterName c)
                      (PlatformLabels (InstanceName c) componentDatabase),
          cl_spec =
            \<lparr>cs_instances = dbs_instances dbSpec,
             cs_image_name = dbs_image_name dbSpec,
             cs_storage_size = ps_size (dbs_storage dbSpec),
             cs_storage_class = ps_storage_class_name (dbs_storage dbSpec),
             cs_resources = dbs_resources dbSpec,
             cs_backup = map_option buildBackupConfig (dbs_backup dbSpec),
             cs_other = []\<rparr>,
          cl_conditions = []\<rparr>)"

definition mergeCluster :: "cnpg_cluster \<Rightarrow> cnpg_cluster \<Rightarrow> cnpg_cluster" where
  "mergeCluster desired existing =
     existing
       \<lparr>cl_spec := (cl_spec existing)
          \<lparr>cs_instances := cs_instances (cl_spec desired),
           cs_image_name := cs_image_name (cl_spec desired),
           cs_storage_size := cs_storage_size (cl_spec desired),
           cs_storage_class := cs_storage_class (cl_spec desired),
           cs_resources := cs_resources (cl_spec desired),
           cs_backup := cs_backup (cl_spec desired)\<rparr>,
        cl_meta := (cl_meta existing)\<lparr>om_labels := om_labels (cl_meta desired)\<rparr>\<rparr>"

definition cluster_reconcile ::
  "'w env \<Rightarrow> platform_ctx \<Rightarrow> ('w, (go_error + ctrl_result) \<times> platform_ctx) state" where
  "cluster_reconcile e c =
     (let desired = buildCluster c
      in case set_controller_reference e (px_supabase c) (cl_meta desired) of
           Inl err \<Rightarrow> ret (Inl (Wrap ''setting owner reference'' err), c)
         | Inr m \<Rightarrow>
             result_of c
               (create_or_patch e (get_cluster e) OCluster ''CNPG cluster''
                  (created_event (supabase_ref (px_supabase c)) ''CNPG Cluster'' (om_name m))
                  (mergeCluster (desired\<lparr>cl_meta := m\<rparr>)) (desired\<lparr>cl_meta := m\<rparr>)))"

text \<open>The loop over the conditions stops at the first one of the type asked for.\<close>

fun cluster_ready :: "condition list \<Rightarrow> bool \<times> string" where
  "cluster_ready [] = (False, ''CNPG Cluster ready condition not found'')"
| "cluster_ready (cnd # cs) =
     (if cond_type cnd = ConditionClusterReady then
        (if cond_status cnd = CondTrue then (True, ''CNPG Cluster is ready'')
         else (False, ''CNPG Cluster not ready: '' @ cond_message cnd))
      else cluster_ready cs)"

definition cluster_healthcheck ::
  "'w env \<Rightarrow> platform_ctx \<Rightarrow> ('w, bool \<times> string \<times> go_error option) state" where
  "cluster_healthcheck e c =
     do { r \<leftarrow> get_cluster e (nn (Namespace c) (clusterName c));
          case r of
            Inl err \<Rightarrow> ret (False, ''CNPG Cluster not found'', ignore_not_found err)
          | Inr cl \<Rightarrow>
              (case cluster_ready (cl_conditions cl) of (ok, msg) \<Rightarrow> ret (ok, msg, None)) }"

text \<open>\<open>Finalize\<close> of every platform component returns nil: ownership cascades.\<close>

definition platform_finalize :: "'w env \<Rightarrow> platform_ctx \<Rightarrow> ('w, go_error option) state" where
  "platform_finalize e c = ret None"

section \<open>backup.go\<close>

definition componentBackup :: string where "componentBackup = ''backup''"

definition backupName :: "platform_ctx \<Rightarrow> string" where
  "backupName c = InstanceName c @ ''-db-backup''"

definition backupSpec :: "platform_ctx \<Rightarrow> backup_spec option" where
  "backupSpec c = dbs_backup (sp_database (sb_spec (px_supabase c)))"

definition buildScheduledBackup :: "platform_ctx \<Rightarrow> backup_spec \<Rightarrow> scheduled_backup" where
  "buildScheduledBackup c spec =
     \<lparr>bk_meta = mk_meta (Namespace c) (backupName c)
                  (PlatformLabels (InstanceName c) componentBackup),
      bk_schedule = bks_schedule spec,
      bk_cluster = clusterName c,
      bk_owner_reference = ''self'',
      bk_method = BackupMethodBarmanObjectStore\<rparr>"

definition buildBarmanConfig :: "backup_spec \<Rightarrow> barman_store" where
  "buildBarmanConfig spec =
     \<lparr>bs_destination_path = bks_destination_path spec,
      bs_aws =
        (case bks_s3_secret_ref spec of
           None \<Rightarrow> None
         | Some secretRef \<Rightarrow>
             Some \<lparr>s3c_access_key_ref = (secretRef, ''ACCESS_KEY_ID''),
                   s3c_secret_key_ref = (secretRef, ''ACCESS_SECRET_KEY'')\<rparr>)\<rparr>"

definition mergeBackup :: "scheduled_backup \<Rightarrow> scheduled_backup \<Rightarrow> scheduled_backup" where
  "mergeBackup desired existing =
     existing
       \<lparr>bk_schedule := bk_schedule desired,
        bk_cluster := bk_cluster desired,
        bk_method := bk_method desired,
        bk_meta := (bk_meta existing)\<lparr>om_labels := om_labels (bk_meta desired)\<rparr>\<rparr>"

definition backup_reconcile ::
  "'w env \<Rightarrow> platform_ctx \<Rightarrow> ('w, (go_error + ctrl_result) \<times> platform_ctx) state" where
  "backup_reconcile e c =
     (case backupSpec c of
        None \<Rightarrow> ret (Inr no_requeue, c)
      | Some spec \<Rightarrow>
          (let desired = buildScheduledBackup c spec
           in case set_controller_reference e (px_supabase c) (bk_meta desired) of
                Inl err \<Rightarrow> ret (Inl (Wrap ''setting owner reference on ScheduledBackup'' err), c)
              | Inr m \<Rightarrow>
                  result_of c
                    (create_or_patch e (get_scheduled_backup e) OScheduledBackup ''ScheduledBackup''
                       (created_event (supabase_ref (px_supabase c)) ''ScheduledBackup'' (om_name m))
                       (mergeBackup (desired\<lparr>bk_meta := m\<rparr>)) (desired\<lparr>bk_meta := m\<rparr>))))"

definition backup_healthcheck ::
  "'w env \<Rightarrow> platform_ctx \<Rightarrow> ('w, bool \<times> string \<times> go_error option) state" where
  "backup_healthcheck e c =
     (case backupSpec c of
        None \<Rightarrow> ret (True, ''backup not configured'', None)
      | Some spec \<Rightarrow>
          do { r \<leftarrow> get_scheduled_backup e (nn (Namespace c) (backupName c));
               case r of
                 Inl err \<Rightarrow> ret (False, ''ScheduledBackup not found'', ignore_not_found err)
               | Inr b \<Rightarrow> ret (True, ''ScheduledBackup exists'', None) })"

section \<open>gateway.go\<close>

definition componentGateway :: string where "componentGateway = ''gateway''"

definition gatewayName :: "platform_ctx \<Rightarrow> string" where
  "gatewayName c = InstanceName c @ ''-gateway''"

definition buildGateway :: "platform_ctx \<Rightarrow> gateway" where
  "buildGateway c =
     (let gwSpec = sp_gateway (sb_spec (px_supabase c));
          listener =
            \<lparr>li_name = ''https'', li_port = 443, li_protocol = HTTPSProtocolType,
             li_hostname = Some (''*.'' @ gws_base_domain gwSpec),
             li_tls =
               (case gws_tls_secret gwSpec of
                  None \<Rightarrow> None
                | Some ref \<Rightarrow> Some \<lparr>lt_mode = TLSModeTerminate, lt_certificates = [ref]\<rparr>)\<rparr>
      in \<lparr>gw_meta = mk_meta (Namespace c) (gatewayName c)
                      (PlatformLabels (InstanceName c) componentGateway),
          gw_class = gws_class_name gwSpec,
          gw_listeners = [listener],
          gw_conditions = []\<rparr>)"

definition mergeGateway :: "gateway \<Rightarrow> gateway \<Rightarrow> gateway" where
  "mergeGateway desired existing =
     existing
       \<lparr>gw_class := gw_class desired,
        gw_listeners := gw_listeners desired,
        gw_meta := (gw_meta existing)\<lparr>om_labels := om_labels (gw_meta desired)\<rparr>\<rparr>"

definition gateway_reconcile ::
  "'w env \<Rightarrow> platform_ctx \<Rightarrow> ('w, (go_error + ctrl_result) \<times> platform_ctx) state" where
  "gateway_reconcile e c =
     (let desired = buildGateway c
      in case set_controller_reference e (px_supabase c) (gw_meta desired) of
           Inl err \<Rightarrow> ret (Inl (Wrap ''setting owner reference'' err), c)
         | Inr m \<Rightarrow>
             result_of c
               (create_or_patch e (get_gateway e) OGateway ''Gateway''
                  (created_event (supabase_ref (px_supabase c)) ''Gateway'' (om_name m))
                  (mergeGateway (desired\<lparr>gw_meta := m\<rparr>)) (desired\<lparr>gw_meta := m\<rparr>)))"

fun gateway_accepted :: "condition list \<Rightarrow> bool \<times> string" where
  "gateway_accepted [] = (False, ''Gateway accepted condition not found'')"
| "gateway_accepted (cnd # cs) =
     (if cond_type cnd = GatewayConditionAccepted then
        (if cond_status cnd = CondTrue then (True, ''Gateway is accepted'')
         else (False, ''Gateway not accepted: '' @ cond_message cnd))
      else gateway_accepted cs)"

definition gateway_healthcheck ::
  "'w env \<Rightarrow> platform_ctx \<Rightarrow> ('w, bool \<times> string \<times> go_error option) state" where
  "gateway_healthcheck e c =
     do { r \<leftarrow> get_gateway e (nn (Namespace c) (gatewayName c));
          case r of
            Inl err \<Rightarrow> ret (False, ''Gateway not found'', ignore_not_found err)
          | Inr gw \<Rightarrow>
              (case gateway_accepted (gw_conditions gw) of (ok, msg) \<Rightarrow> ret (ok, msg, None)) }"

section \<open>The contract of the components\<close>

definition cluster_ref :: "platform_ctx \<Rightarrow> obj_ref" where
  "cluster_ref c = (KCluster, nn (Namespace c) (clusterName c))"

definition backup_ref :: "platform_ctx \<Rightarrow> obj_ref" where
  "backup_ref c = (KScheduledBackup, nn (Namespace c) (backupName c))"

definition gateway_ref :: "platform_ctx \<Rightarrow> obj_ref" where
  "gateway_ref c = (KGateway, nn (Namespace c) (gatewayName c))"

lemma buildCluster_key: "meta_key (cl_meta (buildCluster c)) = nn (Namespace c) (clusterName c)"
  by (simp add: buildCluster_def Let_def)

lemma buildScheduledBackup_key:
  "meta_key (bk_meta (buildScheduledBackup c s)) = nn (Namespace c) (backupName c)"
  by (simp add: buildScheduledBackup_def)

lemma buildGateway_key: "meta_key (gw_meta (buildGateway c)) = nn (Namespace c) (gatewayName c)"
  by (simp add: buildGateway_def Let_def)

lemma platform_finalize_keeps: "keeps P (platform_finalize e c)"
  unfolding platform_finalize_def by (rule keeps_return)

lemma cluster_reconcile_keeps:
  assumes e: "client_laws e" and st: "stable e (upsert_sigs (cluster_ref c)) P"
  shows "keeps P (cluster_reconcile e c)"
  unfolding cluster_reconcile_def Let_def
  by (intro keeps_intros keeps_create_or_patch [OF st] stable_get_cluster [OF st])
    (simp_all add: client_reads_key [OF e] mergeCluster_def obj_ref_def cluster_ref_def
      owner_laws_key [OF e] buildCluster_key)

lemma cluster_healthcheck_keeps: "stable e {} P \<Longrightarrow> keeps P (cluster_healthcheck e c)"
  unfolding cluster_healthcheck_def by (intro keeps_intros)

lemma cluster_plain: "plain_result c (cluster_reconcile e c)"
  unfolding cluster_reconcile_def Let_def by (intro plain_intros)

lemma backup_reconcile_keeps:
  assumes e: "client_laws e" and st: "stable e (upsert_sigs (backup_ref c)) P"
  shows "keeps P (backup_reconcile e c)"
  unfolding backup_reconcile_def Let_def
  by (intro keeps_intros keeps_create_or_patch [OF st] stable_get_scheduled_backup [OF st])
    (simp_all add: client_reads_key [OF e] mergeBackup_def obj_ref_def backup_ref_def
      owner_laws_key [OF e] buildScheduledBackup_key)

lemma backup_healthcheck_keeps: "stable e {} P \<Longrightarrow> keeps P (backup_healthcheck e c)"
  unfolding backup_healthcheck_def by (intro keeps_intros)

lemma backup_plain: "plain_result c (backup_reconcile e c)"
  unfolding backup_reconcile_def Let_def by (intro plain_intros)

lemma gateway_reconcile_keeps:
  assumes e: "client_laws e" and st: "stable e (upsert_sigs (gateway_ref c)) P"
  shows "keeps P (gateway_reconcile e c)"
  unfolding gateway_reconcile_def Let_def
  by (intro keeps_intros keeps_create_or_patch [OF st] stable_get_gateway [OF st])
    (simp_all add: client_reads_key [OF e] mergeGateway_def obj_ref_def gateway_ref_def
      owner_laws_key [OF e] buildGateway_key)

lemma gateway_healthcheck_keeps: "stable e {} P \<Longrightarrow> keeps P (gateway_healthcheck e c)"
  unfolding gateway_healthcheck_def by (intro keeps_intros)

lemma gateway_plain: "plain_result c (gateway_reconcile e c)"
  unfolding gateway_reconcile_def Let_def by (intro plain_intros)

interpretation cluster_comp: component cluster_reconcile cluster_healthcheck
  platform_finalize "\<lambda>c. upsert_sigs (cluster_ref c)" "\<lambda>c. {}" id
  by (rule component_plainI)
    (simp_all add: cluster_reconcile_keeps cluster_healthcheck_keeps platform_finalize_keeps
      cluster_plain)

interpretation backup_comp: component backup_reconcile backup_healthcheck
  platform_finalize "\<lambda>c. upsert_sigs (backup_ref c)" "\<lambda>c. {}" id
  by (rule component_plainI)
    (simp_all add: backup_reconcile_keeps backup_healthcheck_keeps platform_finalize_keeps
      backup_plain)

interpretation gateway_comp: component gateway_reconcile gateway_healthcheck
  platform_finalize "\<lambda>c. upsert_sigs (gateway_ref c)" "\<lambda>c. {}" id
  by (rule component_plainI)
    (simp_all add: gateway_reconcile_keeps gateway_healthcheck_keeps platform_finalize_keeps
      gateway_plain)

end
