(* ===== verification/Workload.thy ===== *)
theory Workload
  imports Component
begin

text \<open>
  What the Deployment + Service pairs of both controllers share: how an existing object is
  merged with the desired one, the replica check, and the contract of a builder, the locale
  \<open>workload\<close>. The contract says that the Service reaches the pods of the Deployment, and that
  what the API server does not let change (key and selector of a Deployment) depends on
  nothing but the identity of the owner.
\<close>

section \<open>Merging and health\<close>

definition mergeDeployment :: "deployment \<Rightarrow> deployment \<Rightarrow> deployment" where
  "mergeDeployment desired existing =
     existing
       \<lparr>dep_spec := dep_spec desired,
        dep_meta := (dep_meta existing)\<lparr>om_labels := om_labels (dep_meta desired)\<rparr>\<rparr>"

definition mergeService :: "service \<Rightarrow> service \<Rightarrow> service" where
  "mergeService desired existing =
     existing
       \<lparr>svc_ports := svc_ports desired,
        svc_selector := svc_selector desired,
        svc_meta := (svc_meta existing)\<lparr>om_labels := om_labels (svc_meta desired)\<rparr>\<rparr>"

definition mergeConfigMap :: "config_map \<Rightarrow> config_map \<Rightarrow> config_map" where
  "mergeConfigMap desired existing =
     existing
       \<lparr>cm_data := cm_data desired,
        cm_meta := (cm_meta existing)\<lparr>om_labels := om_labels (cm_meta desired)\<rparr>\<rparr>"

lemma merge_key [key_simps]:
  "meta_key (dep_meta (mergeDeployment d x)) = meta_key (dep_meta x)"
  "meta_key (svc_meta (mergeService v y)) = meta_key (svc_meta y)"
  "meta_key (cm_meta (mergeConfigMap m z)) = meta_key (cm_meta z)"
  by (simp_all add: mergeDeployment_def mergeService_def mergeConfigMap_def)

text \<open>
  The end of the health checks: the replicas asked for (1 when unset) against the ready
  ones, of which there must be at least one.
\<close>

definition replica_health :: "deployment \<Rightarrow> bool \<times> string" where
  "replica_health d =
     (let replicas = (case ds_replicas (dep_spec d) of None \<Rightarrow> 1 | Some n \<Rightarrow> n);
          ready = dep_ready_replicas d
      in (ready \<ge> 1 \<and> ready = replicas, itoa ready @ ''/'' @ itoa replicas @ '' replicas ready''))"

section \<open>The contract of a builder\<close>

definition selects :: "labels \<Rightarrow> labels \<Rightarrow> bool" where
  "selects sel l \<longleftrightarrow> sel \<subseteq>\<^sub>m l"

definition exposed_ports :: "deployment \<Rightarrow> int set" where
  "exposed_ports d =
     (\<Union>ct \<in> set (pt_containers (ds_template (dep_spec d))). cp_port ` set (ct_ports ct))"

locale workload =
  fixes build_deployment :: "'c \<Rightarrow> deployment"
    and build_service :: "'c \<Rightarrow> service"
    and owner_id :: "'c \<Rightarrow> 'i"
  assumes same_key: "meta_key (svc_meta (build_service c)) = meta_key (dep_meta (build_deployment c))"
    and same_selector: "svc_selector (build_service c) = ds_selector (dep_spec (build_deployment c))"
    and selector_matches:
      "selects (ds_selector (dep_spec (build_deployment c)))
         (pt_labels (ds_template (dep_spec (build_deployment c))))"
    and targets_exposed:
      "sp_target_port ` set (svc_ports (build_service c)) \<subseteq> exposed_ports (build_deployment c)"
    and key_fixed:
      "owner_id c = owner_id c' \<Longrightarrow>
         meta_key (dep_meta (build_deployment c)) = meta_key (dep_meta (build_deployment c'))"
    and selector_fixed:
      "owner_id c = owner_id c' \<Longrightarrow>
         ds_selector (dep_spec (build_deployment c)) = ds_selector (dep_spec (build_deployment c'))"
begin

text \<open>Every port of the Service reaches a port some container of the selected pods opens.\<close>

lemma service_reaches_pods:
  assumes "p \<in> set (svc_ports (build_service c))"
  shows "selects (svc_selector (build_service c))
           (pt_labels (ds_template (dep_spec (build_deployment c))))"
    and "sp_target_port p \<in> exposed_ports (build_deployment c)"
  using assms targets_exposed selector_matches by (auto simp: same_selector)

text \<open>A patch with a later desired Deployment keeps the key and the immutable selector.\<close>

lemma merge_keeps_identity:
  assumes "owner_id c = owner_id c'"
  shows "meta_key (dep_meta (mergeDeployment (build_deployment c') (build_deployment c)))
           = meta_key (dep_meta (build_deployment c))"
    and "ds_selector (dep_spec (mergeDeployment (build_deployment c') (build_deployment c)))
           = ds_selector (dep_spec (build_deployment c))"
  using selector_fixed [OF assms] by (simp_all add: key_simps) (simp add: mergeDeployment_def)

end

end
