(* ===== verification/PlatformServices.thy ===== *)
theory PlatformServices
  imports PlatformCore Workload
begin

text \<open>
  The optional services of the platform: \<open>service_component.go\<close>, which drives any builder, and
  the builders of Analytics, Imgproxy, Studio, Supavisor and Vector. A builder is a record of
  the methods of the Go interface \<open>ServiceComponentBuilder\<close>; the optional interface
  \<open>ConfigMapProvider\<close> is an optional method.
\<close>

section \<open>service_component.go\<close>

record platform_builder =
  pb_component_name :: string
  pb_build_deployment :: "platform_ctx \<Rightarrow> deployment"
  pb_build_service :: "platform_ctx \<Rightarrow> service"
  pb_is_enabled :: "platform_ctx \<Rightarrow> bool"
  pb_build_config_map :: "(platform_ctx \<Rightarrow> config_map) option"

text \<open>\<open>SetControllerReference\<close> on the desired object, then the rest with its metadata.\<close>

definition with_owner ::
  "'w env \<Rightarrow> platform_ctx \<Rightarrow> string \<Rightarrow> object_meta \<Rightarrow>
     (object_meta \<Rightarrow> ('w, go_error option) state) \<Rightarrow> ('w, go_error option) state" where
  "with_owner e c what m f =
     (case set_controller_reference e (px_supabase c) m of
        Inl err \<Rightarrow> ret (Some (Wrap (''setting owner reference on '' @ what) err))
      | Inr m' \<Rightarrow> f m')"

definition reconcile_config_map ::
  "'w env \<Rightarrow> platform_builder \<Rightarrow> platform_ctx \<Rightarrow> ('w, go_error option) state" where
  "reconcile_config_map e b c =
     (case pb_build_config_map b of
        None \<Rightarrow> ret None
      | Some build \<Rightarrow>
          with_owner e c ''configmap'' (cm_meta (build c)) (\<lambda>m.
            create_or_patch e (get_config_map e) OConfigMap ''configmap''
              (created_event (supabase_ref (px_supabase c)) ''ConfigMap'' (om_name m))
              (mergeConfigMap ((build c)\<lparr>cm_meta := m\<rparr>)) ((build c)\<lparr>cm_meta := m\<rparr>)))"

definition reconcile_deployment ::
  "'w env \<Rightarrow> platform_builder \<Rightarrow> platform_ctx \<Rightarrow> ('w, go_error option) state" where
  "reconcile_deployment e b c =
     with_owner e c ''deployment'' (dep_meta (pb_build_deployment b c)) (\<lambda>m.
       create_or_patch e (get_deployment e) ODeployment ''deployment''
         (created_event (supabase_ref (px_supabase c)) ''Deployment'' (om_name m))
         (mergeDeployment ((pb_build_deployment b c)\<lparr>dep_meta := m\<rparr>))
         ((pb_build_deployment b c)\<lparr>dep_meta := m\<rparr>))"

definition reconcile_service ::
  "'w env \<Rightarrow> platform_builder \<Rightarrow> platform_ctx \<Rightarrow> ('w, go_error option) state" where
  "reconcile_service e b c =
     with_owner e c ''service'' (svc_meta (pb_build_service b c)) (\<lambda>m.
       create_or_patch e (get_service e) OService ''service''
         (created_event (supabase_ref (px_supabase c)) ''Service'' (om_name m))
         (mergeService ((pb_build_service b c)\<lparr>svc_meta := m\<rparr>))
         ((pb_build_service b c)\<lparr>svc_meta := m\<rparr>))"

definition service_reconcile ::
  "platform_builder \<Rightarrow> 'w env \<Rightarrow> platform_ctx \<Rightarrow>
     ('w, (go_error + ctrl_result) \<times> platform_ctx) state" where
  "service_reconcile b e c =
     (if \<not> pb_is_enabled b c then ret (Inr no_requeue, c)
      else result_of c
             (and_then (reconcile_config_map e b c)
               (and_then (reconcile_deployment e b c) (reconcile_service e b c))))"

definition service_healthcheck ::
  "platform_builder \<Rightarrow> 'w env \<Rightarrow> platform_ctx \<Rightarrow>
     ('w, bool \<times> string \<times> go_error option) state" where
  "service_healthcheck b e c =
     (if \<not> pb_is_enabled b c then ret (True, ''component disabled'', None)
      else do {
        r \<leftarrow> get_deployment e (meta_key (dep_meta (pb_build_deployment b c)));
        case r of
          Inl err \<Rightarrow> ret (False, ''Deployment not found'', ignore_not_found err)
        | Inr d \<Rightarrow> (case replica_health d of (ok, msg) \<Rightarrow> ret (ok, msg, None)) })"

section \<open>analytics.go\<close>

definition componentAnalytics :: string where "componentAnalytics = ''analytics''"
definition defaultAnalyticsImage :: string where
  "defaultAnalyticsImage = ''supabase/logflare:1.31.2''"
definition analyticsPort :: int where "analyticsPort = 4000"

definition analytics_resourceName :: "platform_ctx \<Rightarrow> string" where
  "analytics_resourceName c = InstanceName c @ ''-analytics''"

definition analytics_image :: "platform_ctx \<Rightarrow> string" where
  "analytics_image c =
     (case img_analytics (sp_images (sb_spec (px_supabase c))) of
        Some i \<Rightarrow> i
      | None \<Rightarrow> defaultAnalyticsImage)"

definition analytics_BuildDeployment :: "platform_ctx \<Rightarrow> deployment" where
  "analytics_BuildDeployment c =
     BuildD
       (WithContainer
          \<lparr>ct_name = componentAnalytics, ct_image = analytics_image c, ct_command = [], ct_args = [],
           ct_ports =
              [tcp_port ''http'' analyticsPort],
           ct_env =
              [env_var ''LOGFLARE_NODE_HOST'' ''127.0.0.1'',
               env_var ''LOGFLARE_SINGLE_TENANT'' ''true'',
               env_var ''LOGFLARE_SUPABASE_MODE'' ''true'',
               env_var ''LOGFLARE_FEATURE_FLAG_OVERRIDE'' ''multibackend=true'',
               env_var ''DB_SCHEMA'' ''_analytics'',
               env_var ''POSTGRES_BACKEND_SCHEMA'' ''_analytics''],
           ct_resources = ss_resources (sp_analytics (sb_spec (px_supabase c))),
           ct_mounts = []\<rparr>
          (WithReplicas (GetReplicas (sp_analytics (sb_spec (px_supabase c))))
            (WithSelectorLabels (SelectorLabels (InstanceName c) componentAnalytics)
              (WithLabels (PlatformLabels (InstanceName c) componentAnalytics)
                (NewDeploymentBuilder (Namespace c) (analytics_resourceName c))))))"

definition analytics_BuildService :: "platform_ctx \<Rightarrow> service" where
  "analytics_BuildService c =
     BuildS
       (WithPort ''http'' analyticsPort analyticsPort
          (SvcWithSelectorLabels (SelectorLabels (InstanceName c) componentAnalytics)
            (SvcWithLabels (PlatformLabels (InstanceName c) componentAnalytics)
              (NewServiceBuilder (Namespace c) (analytics_resourceName c)))))"

definition AnalyticsBuilder :: platform_builder where
  "AnalyticsBuilder =
     \<lparr>pb_component_name = componentAnalytics,
      pb_build_deployment = analytics_BuildDeployment,
      pb_build_service = analytics_BuildService,
      pb_is_enabled = (\<lambda>c. IsEnabled (sp_analytics (sb_spec (px_supabase c)))),
      pb_build_config_map = None\<rparr>"

section \<open>imgproxy.go\<close>

definition componentImgproxy :: string where "componentImgproxy = ''imgproxy''"
definition defaultImgproxyImage :: string where
  "defaultImgproxyImage = ''darthsim/imgproxy:v3.30.1''"
definition imgproxyPort :: int where "imgproxyPort = 5001"

definition imgproxy_resourceName :: "platform_ctx \<Rightarrow> string" where
  "imgproxy_resourceName c = InstanceName c @ ''-imgproxy''"

definition imgproxy_image :: "platform_ctx \<Rightarrow> string" where
  "imgproxy_image c =
     (case img_imgproxy (sp_images (sb_spec (px_supabase c))) of
        Some i \<Rightarrow> i
      | None \<Rightarrow> defaultImgproxyImage)"

definition imgproxy_BuildDeployment :: "platform_ctx \<Rightarrow> deployment" where
  "imgproxy_BuildDeployment c =
     BuildD
       (WithContainer
          \<lparr>ct_name = componentImgproxy, ct_image = imgproxy_image c, ct_command = [], ct_args = [],
           ct_ports =
              [tcp_port ''http'' imgproxyPort],
           ct_env =
              [env_var ''IMGPROXY_BIND'' ('':'' @ itoa imgproxyPort),
               env_var ''IMGPROXY_LOCAL_FILESYSTEM_ROOT'' ''/'',
               env_var ''IMGPROXY_USE_ETAG'' ''true'',
               env_var ''IMGPROXY_ENABLE_WEBP_DETECTION'' ''true''],
           ct_resources = ss_resources (sp_imgproxy (sb_spec (px_supabase c))),
           ct_mounts = []\<rparr>
          (WithReplicas (GetReplicas (sp_imgproxy (sb_spec (px_supabase c))))
            (WithSelectorLabels (SelectorLabels (InstanceName c) componentImgproxy)
              (WithLabels (PlatformLabels (InstanceName c) componentImgproxy)
                (NewDeploymentBuilder (Namespace c) (imgproxy_resourceName c))))))"

definition imgproxy_BuildService :: "platform_ctx \<Rightarrow> service" where
  "imgproxy_BuildService c =
     BuildS
       (WithPort ''http'' imgproxyPort imgproxyPort
          (SvcWithSelectorLabels (SelectorLabels (InstanceName c) componentImgproxy)
            (SvcWithLabels (PlatformLabels (InstanceName c) componentImgproxy)
              (NewServiceBuilder (Namespace c) (imgproxy_resourceName c)))))"

definition ImgproxyBuilder :: platform_builder where
  "ImgproxyBuilder =
     \<lparr>pb_component_name = componentImgproxy,
      pb_build_deployment = imgproxy_BuildDeployment,
      pb_build_service = imgproxy_BuildService,
      pb_is_enabled = (\<lambda>c. IsEnabled (sp_imgproxy (sb_spec (px_supabase c)))),
      pb_build_config_map = None\<rparr>"

section \<open>studio.go\<close>

definition componentStudio :: string where "componentStudio = ''studio''"
definition defaultStudioImage :: string where
  "defaultStudioImage = ''supabase/studio:2026.03.16-sha-5528817''"
definition studioPort :: int where "studioPort = 3000"

definition studio_resourceName :: "platform_ctx \<Rightarrow> string" where
  "studio_resourceName c = InstanceName c @ ''-studio''"

definition studio_image :: "platform_ctx \<Rightarrow> string" where
  "studio_image c =
     (case img_studio (sp_images (sb_spec (px_supabase c))) of
        Some i \<Rightarrow> i
      | None \<Rightarrow> defaultStudioImage)"

definition studio_BuildDeployment :: "platform_ctx \<Rightarrow> deployment" where
  "studio_BuildDeployment c =
     BuildD
       (WithContainer
          \<lparr>ct_name = componentStudio, ct_image = studio_image c, ct_command = [], ct_args = [],
           ct_ports =
              [tcp_port ''http'' studioPort],
           ct_env =
              [env_var ''HOSTNAME'' ''::'',
               env_var ''STUDIO_PORT'' (itoa studioPort),
               env_var ''NEXT_PUBLIC_ENABLE_LOGS'' ''true'',
               env_var ''NEXT_ANALYTICS_BACKEND_PROVIDER'' ''postgres''],
           ct_resources = ss_resources (sp_studio (sb_spec (px_supabase c))),
           ct_mounts = []\<rparr>
          (WithReplicas (GetReplicas (sp_studio (sb_spec (px_supabase c))))
            (WithSelectorLabels (SelectorLabels (InstanceName c) componentStudio)
              (WithLabels (PlatformLabels (InstanceName c) componentStudio)
                (NewDeploymentBuilder (Namespace c) (studio_resourceName c))))))"

definition studio_BuildService :: "platform_ctx \<Rightarrow> service" where
  "studio_BuildService c =
     BuildS
       (WithPort ''http'' studioPort studioPort
          (SvcWithSelectorLabels (SelectorLabels (InstanceName c) componentStudio)
            (SvcWithLabels (PlatformLabels (InstanceName c) componentStudio)
              (NewServiceBuilder (Namespace c) (studio_resourceName c)))))"

definition StudioBuilder :: platform_builder where
  "StudioBuilder =
     \<lparr>pb_component_name = componentStudio,
      pb_build_deployment = studio_BuildDeployment,
      pb_build_service = studio_BuildService,
      pb_is_enabled = (\<lambda>c. IsEnabled (sp_studio (sb_spec (px_supabase c)))),
      pb_build_config_map = None\<rparr>"

section \<open>supavisor.go\<close>

definition componentSupavisor :: string where "componentSupavisor = ''supavisor''"
definition defaultSupavisorImage :: string where
  "defaultSupavisorImage = ''supabase/supavisor:2.7.4''"
definition supavisorAPIPort :: int where "supavisorAPIPort = 4000"
definition supavisorSessionPort :: int where "supavisorSessionPort = 5432"
definition supavisorTransactionPort :: int where "supavisorTransactionPort = 6543"

definition supavisor_resourceName :: "platform_ctx \<Rightarrow> string" where
  "supavisor_resourceName c = InstanceName c @ ''-supavisor''"

definition supavisor_image :: "platform_ctx \<Rightarrow> string" where
  "supavisor_image c =
     (case img_supavisor (sp_images (sb_spec (px_supabase c))) of
        Some i \<Rightarrow> i
      | None \<Rightarrow> defaultSupavisorImage)"

definition supavisor_BuildDeployment :: "platform_ctx \<Rightarrow> deployment" where
  "supavisor_BuildDeployment c =
     BuildD
       (WithContainer
          \<lparr>ct_name = componentSupavisor, ct_image = supavisor_image c, ct_command = [], ct_args = [],
           ct_ports =
              [tcp_port ''api'' supavisorAPIPort,
               tcp_port ''session'' supavisorSessionPort,
               tcp_port ''transaction'' supavisorTransactionPort],
           ct_env =
              [env_var ''PORT'' (itoa supavisorAPIPort),
               env_var ''CLUSTER_POSTGRES'' ''true'',
               env_var ''REGION'' ''local'',
               env_var ''ERL_AFLAGS'' ''-proto_dist inet_tcp'',
               env_var ''POOLER_POOL_MODE'' ''transaction''],
           ct_resources = ss_resources (sp_supavisor (sb_spec (px_supabase c))),
           ct_mounts = []\<rparr>
          (WithReplicas (GetReplicas (sp_supavisor (sb_spec (px_supabase c))))
            (WithSelectorLabels (SelectorLabels (InstanceName c) componentSupavisor)
              (WithLabels (PlatformLabels (InstanceName c) componentSupavisor)
                (NewDeploymentBuilder (Namespace c) (supavisor_resourceName c))))))"

definition supavisor_BuildService :: "platform_ctx \<Rightarrow> service" where
  "supavisor_BuildService c =
     BuildS
       (WithPort ''transaction'' supavisorTransactionPort supavisorTransactionPort
          (WithPort ''session'' supavisorSessionPort supavisorSessionPort
          (WithPort ''api'' supavisorAPIPort supavisorAPIPort
          (SvcWithSelectorLabels (SelectorLabels (InstanceName c) componentSupavisor)
            (SvcWithLabels (PlatformLabels (InstanceName c) componentSupavisor)
              (NewServiceBuilder (Namespace c) (supavisor_resourceName c)))))))"

definition SupavisorBuilder :: platform_builder where
  "SupavisorBuilder =
     \<lparr>pb_component_name = componentSupavisor,
      pb_build_deployment = supavisor_BuildDeployment,
      pb_build_service = supavisor_BuildService,
      pb_is_enabled = (\<lambda>c. IsEnabled (sp_supavisor (sb_spec (px_supabase c)))),
      pb_build_config_map = None\<rparr>"

section \<open>vector.go\<close>

definition componentVector :: string where "componentVector = ''vector''"
definition defaultVectorImage :: string where
  "defaultVectorImage = ''timberio/vector:0.53.0-alpine''"
definition vectorPort :: int where "vectorPort = 9001"

definition vector_resourceName :: "platform_ctx \<Rightarrow> string" where
  "vector_resourceName c = InstanceName c @ ''-vector''"

definition vector_image :: "platform_ctx \<Rightarrow> string" where
  "vector_image c =
     (case img_vector (sp_images (sb_spec (px_supabase c))) of
        Some i \<Rightarrow> i
      | None \<Rightarrow> defaultVectorImage)"

definition configMapName :: "platform_ctx \<Rightarrow> string" where
  "configMapName c = InstanceName c @ ''-vector-config''"

definition vector_yml :: string where
  "vector_yml =
     ''# Minimal Vector config for Supabase Operator'' @ nl @
     ''api:'' @ nl @
     ''  enabled: true'' @ nl @
     ''  address: \"0.0.0.0:9001\"'' @ nl @
     ''sources:'' @ nl @
     ''  internal_metrics:'' @ nl @
     ''    type: internal_metrics'' @ nl @
     ''sinks:'' @ nl @
     ''  stdout:'' @ nl @
     ''    type: console'' @ nl @
     ''    inputs:'' @ nl @
     ''      - internal_metrics'' @ nl @
     ''    encoding:'' @ nl @
     ''      codec: json'' @ nl"

definition vector_BuildConfigMap :: "platform_ctx \<Rightarrow> config_map" where
  "vector_BuildConfigMap c =
     \<lparr>cm_meta = mk_meta (Namespace c) (configMapName c)
                  (PlatformLabels (InstanceName c) componentVector),
      cm_data = [''vector.yml'' \<mapsto> vector_yml]\<rparr>"

definition vector_BuildDeployment :: "platform_ctx \<Rightarrow> deployment" where
  "vector_BuildDeployment c =
     BuildD
       (WithVolumes [\<lparr>vol_name = ''vector-config'', vol_config_map = configMapName c\<rparr>]
        (WithContainer
          \<lparr>ct_name = componentVector, ct_image = vector_image c, ct_command = [], ct_args = [''--config'', ''/etc/vector/vector.yml''],
           ct_ports =
              [tcp_port ''api'' vectorPort],
           ct_env =
              [],
           ct_resources = ss_resources (sp_vector (sb_spec (px_supabase c))),
           ct_mounts = [\<lparr>vm_name = ''vector-config'', vm_path = ''/etc/vector'', vm_readonly = True\<rparr>]\<rparr>
          (WithReplicas (GetReplicas (sp_vector (sb_spec (px_supabase c))))
            (WithSelectorLabels (SelectorLabels (InstanceName c) componentVector)
              (WithLabels (PlatformLabels (InstanceName c) componentVector)
                (NewDeploymentBuilder (Namespace c) (vector_resourceName c)))))))"

definition vector_BuildService :: "platform_ctx \<Rightarrow> service" where
  "vector_BuildService c =
     BuildS
       (WithPort ''api'' vectorPort vectorPort
          (SvcWithSelectorLabels (SelectorLabels (InstanceName c) componentVector)
            (SvcWithLabels (PlatformLabels (InstanceName c) componentVector)
              (NewServiceBuilder (Namespace c) (vector_resourceName c)))))"

definition VectorBuilder :: platform_builder where
  "VectorBuilder =
     \<lparr>pb_component_name = componentVector,
      pb_build_deployment = vector_BuildDeployment,
      pb_build_service = vector_BuildService,
      pb_is_enabled = (\<lambda>c. IsEnabled (sp_vector (sb_spec (px_supabase c)))),
      pb_build_config_map = Some vector_BuildConfigMap\<rparr>"

section \<open>The builders meet their contract\<close>

text \<open>What the identity of a platform service is made of.\<close>

definition platform_id :: "platform_ctx \<Rightarrow> string \<times> string" where
  "platform_id c = (Namespace c, InstanceName c)"

lemmas platform_build_defs = builder_defs platform_id_def selects_def exposed_ports_def
  SelectorLabels_le_PlatformLabels

interpretation analytics_workload: workload analytics_BuildDeployment analytics_BuildService platform_id
  by unfold_locales
    (auto simp: analytics_BuildDeployment_def analytics_BuildService_def analytics_resourceName_def
      platform_build_defs)

interpretation imgproxy_workload: workload imgproxy_BuildDeployment imgproxy_BuildService platform_id
  by unfold_locales
    (auto simp: imgproxy_BuildDeployment_def imgproxy_BuildService_def imgproxy_resourceName_def
      platform_build_defs)

interpretation studio_workload: workload studio_BuildDeployment studio_BuildService platform_id
  by unfold_locales
    (auto simp: studio_BuildDeployment_def studio_BuildService_def studio_resourceName_def
      platform_build_defs)

interpretation supavisor_workload: workload supavisor_BuildDeployment supavisor_BuildService platform_id
  by unfold_locales
    (auto simp: supavisor_BuildDeployment_def supavisor_BuildService_def supavisor_resourceName_def
      platform_build_defs)

interpretation vector_workload: workload vector_BuildDeployment vector_BuildService platform_id
  by unfold_locales
    (auto simp: vector_BuildDeployment_def vector_BuildService_def vector_resourceName_def
      platform_build_defs)

section \<open>The contract of the components\<close>

definition service_writes :: "platform_builder \<Rightarrow> platform_ctx \<Rightarrow> footprint" where
  "service_writes b c =
     (case pb_build_config_map b of
        None \<Rightarrow> {}
      | Some build \<Rightarrow> upsert_sigs (KConfigMap, meta_key (cm_meta (build c)))) \<union>
     upsert_sigs (KDeployment, meta_key (dep_meta (pb_build_deployment b c))) \<union>
     upsert_sigs (KService, meta_key (svc_meta (pb_build_service b c)))"

lemma keeps_with_owner:
  assumes "client_laws e" and "\<And>m'. meta_key m' = meta_key m \<Longrightarrow> keeps P (f m')"
  shows "keeps P (with_owner e c what m f)"
  unfolding with_owner_def
  by (intro keeps_intros assms(2) owner_laws_key [OF assms(1)])

lemma service_reconcile_keeps:
  assumes e: "client_laws e" and st: "stable e (service_writes b c) P"
  shows "keeps P (service_reconcile b e c)"
  unfolding service_reconcile_def reconcile_config_map_def reconcile_deployment_def
    reconcile_service_def
  by (intro keeps_intros keeps_with_owner [OF e] keeps_create_or_patch [OF st]
      stable_get_config_map [OF st] stable_get_deployment [OF st] stable_get_service [OF st])
    (auto simp: client_reads_key [OF e] key_simps obj_ref_def service_writes_def)

lemma service_healthcheck_keeps: "stable e {} P \<Longrightarrow> keeps P (service_healthcheck b e c)"
  unfolding service_healthcheck_def by (intro keeps_intros)

lemma service_plain: "plain_result c (service_reconcile b e c)"
  unfolding service_reconcile_def by (intro plain_intros)

lemma service_component:
  "component (service_reconcile b) (service_healthcheck b) platform_finalize
     (service_writes b) (\<lambda>c. {}) id"
  by (rule component_plainI)
    (simp_all add: service_reconcile_keeps service_healthcheck_keeps platform_finalize_keeps
      service_plain)

interpretation analytics_comp: component "service_reconcile AnalyticsBuilder"
  "service_healthcheck AnalyticsBuilder" platform_finalize "service_writes AnalyticsBuilder" "\<lambda>c. {}" id
  by (rule service_component)

interpretation imgproxy_comp: component "service_reconcile ImgproxyBuilder"
  "service_healthcheck ImgproxyBuilder" platform_finalize "service_writes ImgproxyBuilder" "\<lambda>c. {}" id
  by (rule service_component)

interpretation studio_comp: component "service_reconcile StudioBuilder"
  "service_healthcheck StudioBuilder" platform_finalize "service_writes StudioBuilder" "\<lambda>c. {}" id
  by (rule service_component)

interpretation supavisor_comp: component "service_reconcile SupavisorBuilder"
  "service_healthcheck SupavisorBuilder" platform_finalize "service_writes SupavisorBuilder" "\<lambda>c. {}" id
  by (rule service_component)

interpretation vector_comp: component "service_reconcile VectorBuilder"
  "service_healthcheck VectorBuilder" platform_finalize "service_writes VectorBuilder" "\<lambda>c. {}" id
  by (rule service_component)

end
