(* ===== verification/ControllerLoop.thy ===== *)
theory ControllerLoop
  imports Component
begin

text \<open>
  What the two controllers share: a sequence of component steps, the reference their loops are
  compared with; how the conditions look after such a sequence; and what the API server's
  contract says about objects no write of a footprint concerns.
\<close>

type_synonym reconcile_return = "ctrl_result \<times> go_error option"

section \<open>A sequence of steps\<close>

text \<open>
  The components of a list are reconciled in turn, each recording its condition. \<open>sync\<close> puts
  the conditions recorded so far into the context: the context holds a pointer to the object
  whose status is updated. The outcomes are the pairs (ready, hasError).
\<close>

fun run_steps ::
  "'w env \<Rightarrow> int \<Rightarrow> (condition list \<Rightarrow> 'c \<Rightarrow> 'c) \<Rightarrow> (('w, 'c) component \<times> string) list \<Rightarrow>
     condition list \<Rightarrow> 'c \<Rightarrow> ('w, (bool \<times> bool) list \<times> condition list \<times> 'c) state" where
  "run_steps e gen sync [] cs c = ret ([], cs, c)"
| "run_steps e gen sync ((cp, t) # steps) cs c =
     do { (r, cs, c) \<leftarrow> reconcile_component e gen cp t cs (sync cs c);
          (rs, cs, c) \<leftarrow> run_steps e gen sync steps cs c;
          ret (r # rs, cs, c) }"

abbreviation any_error :: "(bool \<times> bool) list \<Rightarrow> bool" where
  "any_error rs \<equiv> list_ex snd rs"

abbreviation all_ready :: "(bool \<times> bool) list \<Rightarrow> bool" where
  "all_ready rs \<equiv> list_all fst rs"

text \<open>
  \<open>recorded gen rs ts cs\<close>: every outcome of \<open>rs\<close> is what the condition of its type in \<open>cs\<close>
  says.
\<close>

definition recorded :: "int \<Rightarrow> (bool \<times> bool) list \<Rightarrow> string list \<Rightarrow> condition list \<Rightarrow> bool" where
  "recorded gen rs ts cs \<longleftrightarrow>
     list_all2 (\<lambda>r t. \<exists>cnd. find_condition cs t = Some cnd \<and> step_outcome r t gen cnd) rs ts"

lemma recorded_other:
  assumes "recorded gen rs ts cs" and "\<And>t. t \<in> set ts \<Longrightarrow> find_condition cs' t = find_condition cs t"
  shows "recorded gen rs ts cs'"
  using assms unfolding recorded_def by (auto simp: list_all2_conv_all_nth)

lemma condition_lawsD:
  assumes "condition_laws e"
  shows "find_condition (set_status_condition e cs c) (cond_type c) = Some c"
    and "t \<noteq> cond_type c \<Longrightarrow> find_condition (set_status_condition e cs c) t = find_condition cs t"
    and "distinct (map cond_type cs) \<Longrightarrow> distinct (map cond_type (set_status_condition e cs c))"
    and "is_status_condition_true e cs t \<longleftrightarrow>
           (\<exists>c. find_condition cs t = Some c \<and> cond_status c = CondTrue)"
  using assms unfolding condition_laws_def by blast+

lemma run_steps_conditions:
  assumes laws: "condition_laws e"
  shows "run_state (run_steps e gen sync steps cs c) w = ((rs, cs', c'), w') \<Longrightarrow>
    distinct (map snd steps) \<Longrightarrow>
    recorded gen rs (map snd steps) cs' \<and>
    (\<forall>t. t \<notin> snd ` set steps \<longrightarrow> find_condition cs' t = find_condition cs t)"
proof (induction steps arbitrary: cs c w rs)
  case Nil
  then show ?case by (simp add: recorded_def)
next
  case (Cons s steps)
  obtain cp t where s: "s = (cp, t)" by fastforce
  obtain r cs1 c1 w1 where
    step: "run_state (reconcile_component e gen cp t cs (sync cs c)) w = ((r, cs1, c1), w1)"
    by (metis prod.exhaust)
  obtain rs2 where rest: "run_state (run_steps e gen sync steps cs1 c1) w1 = ((rs2, cs', c'), w')"
    and rs: "rs = r # rs2"
    using Cons.prems(1) step by (auto simp: s split: prod.splits)
  from Cons.IH [OF rest] Cons.prems(2)
  have IH: "recorded gen rs2 (map snd steps) cs'"
      "\<And>u. u \<notin> snd ` set steps \<Longrightarrow> find_condition cs' u = find_condition cs1 u"
    by (auto simp: s)
  from reconcile_component_sets [OF step] obtain cnd where
    cs1: "cs1 = set_status_condition e cs cnd" and out: "step_outcome r t gen cnd" by blast
  from out have t: "cond_type cnd = t" by (simp add: step_outcome_def)
  have "t \<notin> snd ` set steps" using Cons.prems(2) by (auto simp: s)
  with IH(2) have "find_condition cs' t = Some cnd"
    using condition_lawsD(1) [OF laws, of cs cnd] by (simp add: cs1 t)
  with IH out show ?case
    using condition_lawsD(2) [OF laws, of _ cnd cs]
    by (auto simp: recorded_def rs s cs1 t)
qed

lemma run_steps_distinct:
  assumes laws: "condition_laws e"
  shows "run_state (run_steps e gen sync steps cs c) w = ((rs, cs', c'), w') \<Longrightarrow>
    distinct (map cond_type cs) \<Longrightarrow> distinct (map cond_type cs')"
proof (induction steps arbitrary: cs c w rs)
  case (Cons s steps)
  obtain cp t where s: "s = (cp, t)" by fastforce
  obtain r cs1 c1 w1 where
    step: "run_state (reconcile_component e gen cp t cs (sync cs c)) w = ((r, cs1, c1), w1)"
    by (metis prod.exhaust)
  obtain rs2 where rest: "run_state (run_steps e gen sync steps cs1 c1) w1 = ((rs2, cs', c'), w')"
    using Cons.prems(1) step by (auto simp: s split: prod.splits)
  from reconcile_component_sets [OF step] have "distinct (map cond_type cs1)"
    using condition_lawsD(3) [OF laws Cons.prems(2)] by auto
  from Cons.IH [OF rest this] show ?case .
qed simp

text \<open>The outcomes, summarized, can be read off the conditions.\<close>

definition condition_true :: "condition list \<Rightarrow> string \<Rightarrow> bool" where
  "condition_true cs t \<longleftrightarrow> (\<exists>c. find_condition cs t = Some c \<and> cond_status c = CondTrue)"

definition condition_error :: "condition list \<Rightarrow> string \<Rightarrow> bool" where
  "condition_error cs t \<longleftrightarrow>
     (\<exists>c. find_condition cs t = Some c \<and>
          cond_reason c \<in> {''ReconcileError'', ''HealthcheckError''})"

definition condition_current :: "int \<Rightarrow> condition list \<Rightarrow> string \<Rightarrow> bool" where
  "condition_current gen cs t \<longleftrightarrow> (\<exists>c. find_condition cs t = Some c \<and> cond_generation c = gen)"

lemma condition_code [code]:
  "condition_true cs t = (case find_condition cs t of None \<Rightarrow> False | Some c \<Rightarrow> cond_status c = CondTrue)"
  "condition_error cs t = (case find_condition cs t of None \<Rightarrow> False
     | Some c \<Rightarrow> cond_reason c = ''ReconcileError'' \<or> cond_reason c = ''HealthcheckError'')"
  "condition_current gen cs t = (case find_condition cs t of None \<Rightarrow> False
     | Some c \<Rightarrow> cond_generation c = gen)"
  by (auto simp: condition_true_def condition_error_def condition_current_def split: option.splits)

lemma recorded_summary:
  assumes "recorded gen rs ts cs"
  shows "all_ready rs \<longleftrightarrow> list_all (condition_true cs) ts"
    and "any_error rs \<longleftrightarrow> list_ex (condition_error cs) ts"
    and "list_all (condition_current gen cs) ts"
  using assms unfolding recorded_def
  by (induction rule: list_all2_induct)
    (auto simp: condition_true_def condition_error_def condition_current_def step_outcome_def)

lemma recorded_nth:
  "recorded gen rs ts cs \<Longrightarrow> i < length ts \<Longrightarrow> fst (rs ! i) \<longleftrightarrow> condition_true cs (ts ! i)"
  unfolding recorded_def
  by (auto simp: list_all2_conv_all_nth condition_true_def step_outcome_def)

lemma recorded_length: "recorded gen rs ts cs \<Longrightarrow> length rs = length ts"
  by (auto simp: recorded_def dest: list_all2_lengthD)

lemma keeps_run_steps:
  assumes step: "\<And>cp t cs c. (cp, t) \<in> set steps \<Longrightarrow> ok c \<Longrightarrow>
      keeps P (reconcile_component e gen cp t cs (sync cs c))"
    and ok: "\<And>cp t cs c w r cs' c' w'. (cp, t) \<in> set steps \<Longrightarrow> ok c \<Longrightarrow>
      run_state (reconcile_component e gen cp t cs (sync cs c)) w = ((r, cs', c'), w') \<Longrightarrow> ok c'"
    and c: "ok c"
  shows "keeps P (run_steps e gen sync steps cs c)"
proof (rule keepsI)
  fix w
  obtain rs cs' c' w' where run: "run_state (run_steps e gen sync steps cs c) w = ((rs, cs', c'), w')"
    by (metis prod.exhaust)
  assume "P w"
  with run step ok c have "P w'"
  proof (induction steps arbitrary: cs c w rs)
    case (Cons s steps)
    obtain cp t where s: "s = (cp, t)" by fastforce
    obtain r cs1 c1 w1 where
      one: "run_state (reconcile_component e gen cp t cs (sync cs c)) w = ((r, cs1, c1), w1)"
      by (metis prod.exhaust)
    obtain rs2 where rest: "run_state (run_steps e gen sync steps cs1 c1) w1 = ((rs2, cs', c'), w')"
      using Cons.prems(1) one by (auto simp: s split: prod.splits)
    have hd: "(cp, t) \<in> set (s # steps)" by (simp add: s)
    from keeps_run [OF Cons.prems(2) [OF hd Cons.prems(4)] one Cons.prems(5)] have "P w1" .
    moreover from Cons.prems(3) [OF hd Cons.prems(4) one] have "ok c1" .
    ultimately show ?case
      using Cons.prems(2,3) by (intro Cons.IH [OF rest]) (simp_all, blast+)
  qed simp
  with run show "P (snd (run_state (run_steps e gen sync steps cs c) w))" by simp
qed

section \<open>Objects a footprint does not concern\<close>

text \<open>No write of the footprint is to \<open>q\<close>, and none deletes the namespace \<open>q\<close> is in.\<close>

definition avoids :: "footprint \<Rightarrow> obj_ref \<Rightarrow> bool" where
  "avoids A q \<longleftrightarrow>
     (\<forall>(v, q') \<in> A. q' \<noteq> q \<and>
        \<not> (v = VDelete \<and> fst q' = KNamespace \<and> k_name (snd q') = k_namespace (snd q)))"

lemma avoids_mono: "avoids B q \<Longrightarrow> A \<subseteq> B \<Longrightarrow> avoids A q"
  by (auto simp: avoids_def)

lemma silent_keeps: "silent view m \<Longrightarrow> keeps (\<lambda>w. view w q = x) m"
  unfolding silent_def keeps_def by (metis prod.collapse)

lemma silent_keeps_view: "silent view m \<Longrightarrow> keeps (\<lambda>w. view w = x) m"
  unfolding silent_def keeps_def by (metis prod.collapse)

lemma reads_store_keeps: "reads_store view K mk g \<Longrightarrow> keeps (\<lambda>w. view w q = x) (g k)"
  by (rule silent_keeps) (auto simp: silent_def dest: reads_storeD(1))

lemma api_server_stable:
  assumes api: "api_server e view admit" and A: "avoids A q"
  shows "stable e A (\<lambda>w. view w q = x)"
proof -
  have exec: "keeps (\<lambda>w. view w q = x) (exec e wr)" if "write_sig wr \<in> A" for wr
  proof (rule keepsI)
    fix w assume x: "view w q = x"
    obtain r w' where run: "run_state (exec e wr) w = (r, w')" by fastforce
    have q: "obj_ref (write_obj wr) \<noteq> q" "write_verb wr = VDelete \<Longrightarrow> \<not> cascades (write_obj wr) q"
      using A that
      by (auto simp: avoids_def write_sig_def write_ref_def cascades_def obj_ref_def meta_key_def)
    from api_server_exec [OF api run] q have "view w' q = view w q"
      by (cases wr) (simp_all del: split_paired_All)
    with x run show "view (snd (run_state (exec e wr) w)) q = x" by simp
  qed
  show ?thesis
    unfolding stable_def
    using exec api_server_silent [OF api, THEN silent_keeps]
      api_server_reads [OF api, THEN reads_store_keeps]
    by auto
qed

lemma api_server_stable_view:
  assumes "api_server e view admit"
  shows "stable e {} (\<lambda>w. view w = x)"
proof -
  have reads: "keeps (\<lambda>w. view w = x) (g k)" if "reads_store view K mk g" for K mk g k
    by (rule silent_keeps_view) (use that in \<open>auto simp: silent_def dest: reads_storeD(1)\<close>)
  show ?thesis
    unfolding stable_def
    using api_server_silent [OF assms, THEN silent_keeps_view] api_server_reads [OF assms, THEN reads]
    by auto
qed

lemma api_client_laws: "api_server e view admit \<Longrightarrow> owner_laws e \<Longrightarrow> client_laws e"
  by (simp add: client_laws_def api_server_well_keyed)

end
