(* ===== verification/SupabaseController.thy ===== *)
theory SupabaseController
  imports PlatformServices ControllerLoop
begin

text \<open>
  \<open>internal/controller/supabase_controller.go\<close>: the reconciler of a Supabase platform. One
  call reconciles the critical components (database, backup, gateway), then, unless one of
  them failed, the five services, and patches the status it derived. A Go return value
  \<open>(ctrl.Result, error)\<close> is a pair, as the caller reads both.
\<close>

section \<open>Components\<close>

definition NewCNPGCluster :: "'w env \<Rightarrow> ('w, platform_ctx) component" where
  "NewCNPGCluster e =
     \<lparr>comp_name = componentDatabase, comp_reconcile = cluster_reconcile e,
      comp_healthcheck = cluster_healthcheck e, comp_finalize = platform_finalize e\<rparr>"

definition NewScheduledBackup :: "'w env \<Rightarrow> ('w, platform_ctx) component" where
  "NewScheduledBackup e =
     \<lparr>comp_name = componentBackup, comp_reconcile = backup_reconcile e,
      comp_healthcheck = backup_healthcheck e, comp_finalize = platform_finalize e\<rparr>"

definition NewGateway :: "'w env \<Rightarrow> ('w, platform_ctx) component" where
  "NewGateway e =
     \<lparr>comp_name = componentGateway, comp_reconcile = gateway_reconcile e,
      comp_healthcheck = gateway_healthcheck e, comp_finalize = platform_finalize e\<rparr>"

text \<open>\<open>NewImgproxy\<close> and the like wrap their builder in a \<open>ServiceComponent\<close>.\<close>

definition NewServiceComponent :: "platform_builder \<Rightarrow> 'w env \<Rightarrow> ('w, platform_ctx) component" where
  "NewServiceComponent b e =
     \<lparr>comp_name = pb_component_name b, comp_reconcile = service_reconcile b e,
      comp_healthcheck = service_healthcheck b e, comp_finalize = platform_finalize e\<rparr>"

definition criticalComponents :: "'w env \<Rightarrow> ('w, platform_ctx) component list" where
  "criticalComponents e = [NewCNPGCluster e, NewScheduledBackup e, NewGateway e]"

definition serviceBuilders :: "platform_builder list" where
  "serviceBuilders =
     [ImgproxyBuilder, AnalyticsBuilder, VectorBuilder, SupavisorBuilder, StudioBuilder]"

definition serviceComponents :: "'w env \<Rightarrow> ('w, platform_ctx) component list" where
  "serviceComponents e = map (\<lambda>b. NewServiceComponent b e) serviceBuilders"

text \<open>\<open>conditionMap[name]\<close>: a missing key reads as the empty string.\<close>

definition conditionMap :: "string \<Rightarrow> string" where
  "conditionMap n =
     (case map_of
        [(''database'', ConditionDatabaseReady),
         (''backup'', ConditionBackupReady),
         (''gateway'', ConditionGatewayReady),
         (''imgproxy'', ConditionImgproxyReady),
         (''analytics'', ConditionAnalyticsReady),
         (''vector'', ConditionVectorReady),
         (''supavisor'', ConditionSupavisorReady),
         (''studio'', ConditionStudioReady)] n of
        None \<Rightarrow> '''' | Some t \<Rightarrow> t)"

section \<open>Status\<close>

definition with_conditions :: "supabase \<Rightarrow> condition list \<Rightarrow> supabase" where
  "with_conditions sb cs = sb\<lparr>sb_status := (sb_status sb)\<lparr>sst_conditions := cs\<rparr>\<rparr>"

definition isConditionTrue :: "'w env \<Rightarrow> supabase \<Rightarrow> string \<Rightarrow> bool" where
  "isConditionTrue e sb t = is_status_condition_true e (sst_conditions (sb_status sb)) t"

definition derivePhase :: "bool \<Rightarrow> bool \<Rightarrow> bool \<Rightarrow> string" where
  "derivePhase hasError allReady dbReady =
     (if hasError \<and> \<not> dbReady then SupphaseError
      else if allReady then SupphaseReady
      else if dbReady \<and> hasError then SupphaseDegraded
      else SupphaseProvisioning)"

text \<open>\<open>statusPatch\<close> is the object as it was read, the base of the merge patch.\<close>

definition updateStatus ::
  "'w env \<Rightarrow> supabase \<Rightarrow> supabase \<Rightarrow> string \<Rightarrow> go_error option \<Rightarrow>
     ('w, reconcile_return) state" where
  "updateStatus e sb statusPatch phase reconcileErr =
     (let sb = sb\<lparr>sb_status := (sb_status sb)
                     \<lparr>sst_phase := phase,
                      sst_observed_generation := om_generation (sb_meta sb)\<rparr>\<rparr>
      in do {
        r \<leftarrow> exec e (StatusPatch (OSupabase statusPatch) (OSupabase sb));
        case r of
          Some err \<Rightarrow> ret (no_requeue, Some err)
        | None \<Rightarrow>
            ret (if phase = SupphaseReady then (requeue_after (5 * minute), reconcileErr)
                 else if phase = SupphaseProvisioning \<or> phase = SupphaseDegraded
                 then (requeue_after (30 * second), reconcileErr)
                 else (no_requeue, reconcileErr)) })"

definition preflightChecks :: "'w env \<Rightarrow> supabase \<Rightarrow> ('w, go_error option) state" where
  "preflightChecks e sb =
     do { r \<leftarrow> list_clusters e (om_namespace (sb_meta sb));
          case r of
            Inl err \<Rightarrow>
              ret (Some (Wrap ''preflight: cannot list CNPG Clusters (is the CRD installed?)'' err))
          | Inr _ \<Rightarrow> do {
              r2 \<leftarrow> list_gateways e (om_namespace (sb_meta sb));
              case r2 of
                Inl err \<Rightarrow>
                  ret (Some (Wrap ''preflight: cannot list Gateways (are Gateway API CRDs installed?)'' err))
              | Inr _ \<Rightarrow> ret None } }"

section \<open>Reconcile\<close>

text \<open>\<open>reconcileComponent\<close>: (ready, hasError) and the object with its conditions updated.\<close>

definition reconcileComponent ::
  "'w env \<Rightarrow> supabase \<Rightarrow> ('w, platform_ctx) component \<Rightarrow> string \<Rightarrow>
     ('w, (bool \<times> bool) \<times> supabase) state" where
  "reconcileComponent e sb cp condType =
     do { (r, conds, c) \<leftarrow> reconcile_component e (om_generation (sb_meta sb)) cp condType
                          (sst_conditions (sb_status sb)) \<lparr>px_supabase = sb\<rparr>;
          ret (r, with_conditions sb conds) }"

text \<open>The variables of \<open>Reconcile\<close> that its two loops update.\<close>

record loop_vars =
  lv_supabase :: supabase
  lv_has_error :: bool
  lv_all_ready :: bool
  lv_db_ready :: bool
  lv_critical_failed :: bool

fun reconcile_critical ::
  "'w env \<Rightarrow> ('w, platform_ctx) component list \<Rightarrow> loop_vars \<Rightarrow> ('w, loop_vars) state" where
  "reconcile_critical e [] v = ret v"
| "reconcile_critical e (cp # cps) v =
     do { ((ready, compErr), sb) \<leftarrow>
            reconcileComponent e (lv_supabase v) cp (conditionMap (comp_name cp));
          reconcile_critical e cps
            \<lparr>lv_supabase = sb,
             lv_has_error = lv_has_error v \<or> compErr,
             lv_all_ready = lv_all_ready v \<and> ready,
             lv_db_ready = (if comp_name cp = ''database'' then ready else lv_db_ready v),
             lv_critical_failed = lv_critical_failed v \<or> compErr\<rparr> }"

fun reconcile_services ::
  "'w env \<Rightarrow> ('w, platform_ctx) component list \<Rightarrow> loop_vars \<Rightarrow> ('w, loop_vars) state" where
  "reconcile_services e [] v = ret v"
| "reconcile_services e (cp # cps) v =
     do { ((ready, compErr), sb) \<leftarrow>
            reconcileComponent e (lv_supabase v) cp (conditionMap (comp_name cp));
          reconcile_services e cps
            (v\<lparr>lv_supabase := sb,
               lv_has_error := lv_has_error v \<or> compErr,
               lv_all_ready := lv_all_ready v \<and> ready\<rparr>) }"

definition initial_vars :: "supabase \<Rightarrow> loop_vars" where
  "initial_vars sb =
     \<lparr>lv_supabase = sb, lv_has_error = False, lv_all_ready = True, lv_db_ready = False,
      lv_critical_failed = False\<rparr>"

text \<open>Both loops, from the object that was read to the variables the status is derived from.\<close>

definition reconcile_platform :: "'w env \<Rightarrow> supabase \<Rightarrow> ('w, loop_vars) state" where
  "reconcile_platform e sb =
     do { v \<leftarrow> reconcile_critical e (criticalComponents e) (initial_vars sb);
          if \<not> lv_critical_failed v then reconcile_services e (serviceComponents e) v
          else ret (v\<lparr>lv_all_ready := False\<rparr>) }"

definition ready_fields :: "'w env \<Rightarrow> supabase \<Rightarrow> supabase" where
  "ready_fields e sb =
     sb\<lparr>sb_status := (sb_status sb)
           \<lparr>sst_database_ready := isConditionTrue e sb ConditionDatabaseReady,
            sst_gateway_ready := isConditionTrue e sb ConditionGatewayReady\<rparr>\<rparr>"

text \<open>
  The body of \<open>Reconcile\<close> returns its result with the label of the deferred duration metric,
  which \<open>Reconcile\<close> observes on every return.
\<close>

definition reconcile_body :: "'w env \<Rightarrow> obj_key \<Rightarrow> ('w, reconcile_return \<times> string) state" where
  "reconcile_body e req =
     do { g \<leftarrow> get_supabase e req;
          case g of
            Inl err \<Rightarrow>
              if is_not_found err then ret ((no_requeue, None), ''success'')
              else ret ((no_requeue, Some err), ''success'')
          | Inr sb \<Rightarrow> do {
              p \<leftarrow> preflightChecks e sb;
              case p of
                Some err \<Rightarrow> do {
                  r \<leftarrow> updateStatus e sb sb SupphaseError (Some err);
                  ret (r, ''error'') }
              | None \<Rightarrow> do {
                  v \<leftarrow> reconcile_platform e sb;
                  r \<leftarrow> updateStatus e (ready_fields e (lv_supabase v)) sb
                         (derivePhase (lv_has_error v) (lv_all_ready v) (lv_db_ready v)) None;
                  ret (r, if lv_has_error v then ''error'' else ''success'') } } }"

definition Reconcile :: "'w env \<Rightarrow> obj_key \<Rightarrow> ('w, reconcile_return) state" where
  "Reconcile e req =
     do { (r, reconcileResult) \<leftarrow> reconcile_body e req;
          observe_reconcile e ''supabase'' reconcileResult;
          ret r }"

section \<open>The loops as a sequence of steps\<close>

lemma with_conditions_simps [simp]:
  "with_conditions (with_conditions sb cs) cs' = with_conditions sb cs'"
  "with_conditions sb (sst_conditions (sb_status sb)) = sb"
  "sst_conditions (sb_status (with_conditions sb cs)) = cs"
  "sb_meta (with_conditions sb cs) = sb_meta sb"
  "sb_spec (with_conditions sb cs) = sb_spec sb"
  by (simp_all add: with_conditions_def)

text \<open>The context of every step is the object with the conditions recorded so far.\<close>

definition platform_sync :: "supabase \<Rightarrow> condition list \<Rightarrow> platform_ctx \<Rightarrow> platform_ctx" where
  "platform_sync sb cs c = \<lparr>px_supabase = with_conditions sb cs\<rparr>"

definition platform_steps ::
  "('w, platform_ctx) component list \<Rightarrow> (('w, platform_ctx) component \<times> string) list" where
  "platform_steps cps = map (\<lambda>cp. (cp, conditionMap (comp_name cp))) cps"

definition db_flag :: "('w, platform_ctx) component list \<Rightarrow> (bool \<times> bool) list \<Rightarrow> bool \<Rightarrow> bool" where
  "db_flag cps rs = fold (\<lambda>(cp, r) d. if comp_name cp = ''database'' then fst r else d) (zip cps rs)"

lemma reconcile_critical_steps:
  assumes "lv_supabase v = with_conditions sb cs"
  shows "run_state (reconcile_critical e cps v) w =
    (case run_state (run_steps e (om_generation (sb_meta sb)) (platform_sync sb)
        (platform_steps cps) cs c) w of
      ((rs, cs', c'), w') \<Rightarrow>
        (\<lparr>lv_supabase = with_conditions sb cs',
          lv_has_error = lv_has_error v \<or> any_error rs,
          lv_all_ready = lv_all_ready v \<and> all_ready rs,
          lv_db_ready = db_flag cps rs (lv_db_ready v),
          lv_critical_failed = lv_critical_failed v \<or> any_error rs\<rparr>, w'))"
  using assms
proof (induction cps arbitrary: v cs c w)
  case Nil
  then show ?case by (simp add: platform_steps_def db_flag_def)
next
  case (Cons cp cps)
  obtain r e1 cs1 c1 w1 where step: "run_state (reconcile_component e (om_generation (sb_meta sb)) cp
      (conditionMap (comp_name cp)) cs \<lparr>px_supabase = with_conditions sb cs\<rparr>) w = (((r, e1), cs1, c1), w1)"
    by (metis prod.exhaust)
  show ?case
    using Cons.prems step
    by (simp add: reconcileComponent_def platform_steps_def platform_sync_def split_beta
        Cons.IH [where cs = cs1 and c = c1] db_flag_def disj_assoc conj_assoc)
qed

lemma reconcile_services_steps:
  assumes "lv_supabase v = with_conditions sb cs"
  shows "run_state (reconcile_services e cps v) w =
    (case run_state (run_steps e (om_generation (sb_meta sb)) (platform_sync sb)
        (platform_steps cps) cs c) w of
      ((rs, cs', c'), w') \<Rightarrow>
        (v\<lparr>lv_supabase := with_conditions sb cs',
           lv_has_error := lv_has_error v \<or> any_error rs,
           lv_all_ready := lv_all_ready v \<and> all_ready rs\<rparr>, w'))"
  using assms
proof (induction cps arbitrary: v cs c w)
  case Nil
  then show ?case by (simp add: platform_steps_def)
next
  case (Cons cp cps)
  obtain r e1 cs1 c1 w1 where step: "run_state (reconcile_component e (om_generation (sb_meta sb)) cp
      (conditionMap (comp_name cp)) cs \<lparr>px_supabase = with_conditions sb cs\<rparr>) w = (((r, e1), cs1, c1), w1)"
    by (metis prod.exhaust)
  show ?case
    using Cons.prems step
    by (simp add: reconcileComponent_def platform_steps_def platform_sync_def split_beta
        Cons.IH [where cs = cs1 and c = c1] disj_assoc conj_assoc)
qed

end
