(* ===== verification/PlatformStatus.thy ===== *)
theory PlatformStatus
  imports SupabaseController
begin

text \<open>
  What one pass over a platform may write, the phase as a function of the conditions, and the
  status the pass leaves.
\<close>

section \<open>The phase as a function of the conditions\<close>

definition critical_conditions :: "string list" where
  "critical_conditions = [ConditionDatabaseReady, ConditionBackupReady, ConditionGatewayReady]"

definition service_conditions :: "string list" where
  "service_conditions =
     [ConditionImgproxyReady, ConditionAnalyticsReady, ConditionVectorReady,
      ConditionSupavisorReady, ConditionStudioReady]"

definition platform_conditions :: "string list" where
  "platform_conditions = critical_conditions @ service_conditions"

text \<open>What the phase of a platform means, stated on the conditions of its status alone.\<close>

definition platform_phase :: "condition list \<Rightarrow> string" where
  "platform_phase cs =
     (let failed = list_ex (condition_error cs) platform_conditions;
          db = condition_true cs ConditionDatabaseReady
      in if list_all (condition_true cs) platform_conditions then SupphaseReady
         else if failed \<and> db then SupphaseDegraded
         else if failed then SupphaseError
         else SupphaseProvisioning)"

lemma platform_steps_conditions:
  "map snd (platform_steps (criticalComponents e)) = critical_conditions"
  "map snd (platform_steps (serviceComponents e)) = service_conditions"
  by (simp_all add: platform_steps_def criticalComponents_def serviceComponents_def
      serviceBuilders_def critical_conditions_def service_conditions_def conditionMap_def
      NewCNPGCluster_def NewScheduledBackup_def NewGateway_def NewServiceComponent_def
      ImgproxyBuilder_def AnalyticsBuilder_def VectorBuilder_def SupavisorBuilder_def
      StudioBuilder_def componentDatabase_def componentBackup_def componentGateway_def
      componentImgproxy_def componentAnalytics_def componentVector_def componentSupavisor_def
      componentStudio_def)

lemma platform_conditions_distinct:
  "distinct critical_conditions" "distinct service_conditions"
  "set critical_conditions \<inter> set service_conditions = {}"
  by (simp_all add: critical_conditions_def service_conditions_def condition_defs)

lemma db_flag_critical:
  "length rs = 3 \<Longrightarrow> db_flag (criticalComponents e) rs d = fst (rs ! 0)"
  by (auto simp: db_flag_def criticalComponents_def NewCNPGCluster_def NewScheduledBackup_def
      NewGateway_def componentDatabase_def componentBackup_def componentGateway_def
      numeral_3_eq_3 length_Suc_conv)

text \<open>The two loops of one pass, as the two sequences of steps they run.\<close>

lemma reconcile_platform_steps:
  assumes run: "run_state (reconcile_platform e sb) w = (v, w')"
  obtains rs cs c w1 where
    "run_state (run_steps e (om_generation (sb_meta sb)) (platform_sync sb)
       (platform_steps (criticalComponents e)) (sst_conditions (sb_status sb)) \<lparr>px_supabase = sb\<rparr>) w =
       ((rs, cs, c), w1)"
    and "lv_critical_failed v = any_error rs"
    and "lv_db_ready v = db_flag (criticalComponents e) rs False"
    and "any_error rs \<Longrightarrow> w' = w1 \<and> lv_supabase v = with_conditions sb cs \<and> lv_has_error v \<and>
           \<not> lv_all_ready v"
    and "\<not> any_error rs \<Longrightarrow> \<exists>rs2 cs2 c2.
           run_state (run_steps e (om_generation (sb_meta sb)) (platform_sync sb)
             (platform_steps (serviceComponents e)) cs c) w1 = ((rs2, cs2, c2), w') \<and>
           lv_supabase v = with_conditions sb cs2 \<and> lv_has_error v = any_error rs2 \<and>
           lv_all_ready v = all_ready (rs @ rs2)"
proof -
  obtain rs cs c w1 where crit:
    "run_state (run_steps e (om_generation (sb_meta sb)) (platform_sync sb)
       (platform_steps (criticalComponents e)) (sst_conditions (sb_status sb)) \<lparr>px_supabase = sb\<rparr>) w =
       ((rs, cs, c), w1)"
    by (metis prod.exhaust)
  let ?v = "\<lparr>lv_supabase = with_conditions sb cs, lv_has_error = any_error rs,
    lv_all_ready = all_ready rs, lv_db_ready = db_flag (criticalComponents e) rs False,
    lv_critical_failed = any_error rs\<rparr>"
  have v1: "run_state (reconcile_critical e (criticalComponents e) (initial_vars sb)) w = (?v, w1)"
    using reconcile_critical_steps [of "initial_vars sb" sb "sst_conditions (sb_status sb)"
        e "criticalComponents e" w "\<lparr>px_supabase = sb\<rparr>"]
    by (simp add: initial_vars_def crit)
  show thesis
  proof (cases "any_error rs")
    case True
    with run v1 have "v = ?v\<lparr>lv_all_ready := False\<rparr>" "w' = w1"
      by (simp_all add: reconcile_platform_def)
    with True show thesis by (intro that [OF crit]) simp_all
  next
    case False
    obtain rs2 cs2 c2 w2 where serv:
      "run_state (run_steps e (om_generation (sb_meta sb)) (platform_sync sb)
         (platform_steps (serviceComponents e)) cs c) w1 = ((rs2, cs2, c2), w2)"
      by (metis prod.exhaust)
    with run v1 False reconcile_services_steps [of ?v sb cs e "serviceComponents e" w1 c]
    have "v = ?v\<lparr>lv_supabase := with_conditions sb cs2, lv_has_error := any_error rs2,
                lv_all_ready := all_ready rs \<and> all_ready rs2\<rparr>" "w' = w2"
      by (simp_all add: reconcile_platform_def)
    with False serv show thesis by (intro that [OF crit]) simp_all
  qed
qed

lemma condition_error_not_true:
  assumes "recorded gen rs ts cs" and "list_ex (condition_error cs) ts"
  shows "\<not> list_all (condition_true cs) ts"
  using assms unfolding recorded_def
  by (induction rule: list_all2_induct)
    (auto simp: condition_true_def condition_error_def step_outcome_def)

text \<open>What one pass over the components leaves in the conditions.\<close>

definition pass_conditions :: "int \<Rightarrow> condition list \<Rightarrow> condition list \<Rightarrow> bool" where
  "pass_conditions gen before cs \<longleftrightarrow>
     list_all (condition_current gen cs) critical_conditions \<and>
     (if list_ex (condition_error cs) critical_conditions
      then \<forall>t \<in> set service_conditions. find_condition cs t = find_condition before t
      else list_all (condition_current gen cs) service_conditions) \<and>
     (\<forall>t. t \<notin> set platform_conditions \<longrightarrow> find_condition cs t = find_condition before t) \<and>
     (distinct (map cond_type before) \<longrightarrow> distinct (map cond_type cs))"

lemma reconcile_platform_recorded:
  assumes laws: "condition_laws e" and run: "run_state (reconcile_platform e sb) w = (v, w')"
  defines "cs \<equiv> sst_conditions (sb_status (lv_supabase v))"
  shows "lv_supabase v = with_conditions sb cs"
    and "derivePhase (lv_has_error v) (lv_all_ready v) (lv_db_ready v) = platform_phase cs"
    and "lv_critical_failed v \<longleftrightarrow> list_ex (condition_error cs) critical_conditions"
    and "pass_conditions (om_generation (sb_meta sb)) (sst_conditions (sb_status sb)) cs"
proof -
  let ?gen = "om_generation (sb_meta sb)"
  let ?old = "sst_conditions (sb_status sb)"
  obtain rs cs1 c1 w1 where
    crit: "run_state (run_steps e ?gen (platform_sync sb) (platform_steps (criticalComponents e))
       ?old \<lparr>px_supabase = sb\<rparr>) w = ((rs, cs1, c1), w1)"
    and cf: "lv_critical_failed v = any_error rs"
    and db: "lv_db_ready v = db_flag (criticalComponents e) rs False"
    and bad: "any_error rs \<Longrightarrow> w' = w1 \<and> lv_supabase v = with_conditions sb cs1 \<and>
       lv_has_error v \<and> \<not> lv_all_ready v"
    and good: "\<not> any_error rs \<Longrightarrow> \<exists>rs2 cs2 c2.
       run_state (run_steps e ?gen (platform_sync sb) (platform_steps (serviceComponents e)) cs1 c1)
         w1 = ((rs2, cs2, c2), w') \<and>
       lv_supabase v = with_conditions sb cs2 \<and> lv_has_error v = any_error rs2 \<and>
       lv_all_ready v = all_ready (rs @ rs2)"
    by (rule reconcile_platform_steps [OF run], rule that; simp)
  note distincts = platform_conditions_distinct
  have sets: "snd ` set (platform_steps (criticalComponents e)) = set critical_conditions"
      "snd ` set (platform_steps (serviceComponents e)) = set service_conditions"
    using platform_steps_conditions [of e] by (metis set_map)+
  from run_steps_conditions [OF laws crit]
  have rec1: "recorded ?gen rs critical_conditions cs1"
    and oth1: "\<And>t. t \<notin> set critical_conditions \<Longrightarrow> find_condition cs1 t = find_condition ?old t"
    by (simp_all add: platform_steps_conditions distincts sets)
  note dist1 = run_steps_distinct [OF laws crit]
  have len: "length rs = 3"
    using recorded_length [OF rec1] by (simp add: critical_conditions_def)
  have db1: "lv_db_ready v \<longleftrightarrow> condition_true cs1 ConditionDatabaseReady"
    using recorded_nth [OF rec1, of 0] len
    by (simp add: db db_flag_critical critical_conditions_def)
  show "lv_supabase v = with_conditions sb cs"
    using bad good unfolding cs_def by (cases "any_error rs") auto
  have phase1: "platform_phase cs1 =
      (if condition_true cs1 ConditionDatabaseReady then SupphaseDegraded else SupphaseError)"
    if "any_error rs"
    using that recorded_summary(2) [OF rec1] condition_error_not_true [OF rec1]
    by (simp add: platform_phase_def platform_conditions_def)
  show "derivePhase (lv_has_error v) (lv_all_ready v) (lv_db_ready v) = platform_phase cs"
    and "lv_critical_failed v \<longleftrightarrow> list_ex (condition_error cs) critical_conditions"
    and "pass_conditions ?gen ?old cs"
  proof (atomize (full), cases "any_error rs")
    case True
    with bad have v: "cs = cs1" "lv_has_error v" "\<not> lv_all_ready v" by (simp_all add: cs_def)
    have "derivePhase (lv_has_error v) (lv_all_ready v) (lv_db_ready v) = platform_phase cs"
      by (simp add: phase1 [OF True] v derivePhase_def db1)
    moreover have "list_ex (condition_error cs1) critical_conditions"
      using True recorded_summary(2) [OF rec1] by simp
    moreover have "find_condition cs1 t = find_condition ?old t" if "t \<in> set service_conditions" for t
      using that distincts(3) by (intro oth1) auto
    ultimately show "derivePhase (lv_has_error v) (lv_all_ready v) (lv_db_ready v) = platform_phase cs \<and>
      lv_critical_failed v = list_ex (condition_error cs) critical_conditions \<and>
      pass_conditions ?gen ?old cs"
      using True cf recorded_summary(3) [OF rec1] oth1 dist1
      by (simp add: v pass_conditions_def platform_conditions_def)
  next
    case False
    from good [OF False] obtain rs2 cs2 c2 where
      serv: "run_state (run_steps e ?gen (platform_sync sb) (platform_steps (serviceComponents e)) cs1 c1)
         w1 = ((rs2, cs2, c2), w')"
      and v: "cs = cs2" "lv_has_error v = any_error rs2" "lv_all_ready v = all_ready (rs @ rs2)"
      by (elim exE conjE, intro that) (assumption, simp add: cs_def, assumption+)
    from run_steps_conditions [OF laws serv]
    have rec2: "recorded ?gen rs2 service_conditions cs2"
      and oth2: "\<And>t. t \<notin> set service_conditions \<Longrightarrow> find_condition cs2 t = find_condition cs1 t"
      by (simp_all add: platform_steps_conditions distincts sets)
    have rec1': "recorded ?gen rs critical_conditions cs2"
      using distincts(3) by (intro recorded_other [OF rec1] oth2) auto
    have db2: "lv_db_ready v \<longleftrightarrow> condition_true cs2 ConditionDatabaseReady"
      using recorded_nth [OF rec1', of 0] len
      by (simp add: db db_flag_critical critical_conditions_def)
    have noerr: "\<not> list_ex (condition_error cs2) critical_conditions"
      using False recorded_summary(2) [OF rec1'] by simp
    have "derivePhase (lv_has_error v) (lv_all_ready v) (lv_db_ready v) = platform_phase cs"
      using noerr recorded_summary(1,2) [OF rec2] recorded_summary(1) [OF rec1']
        condition_error_not_true [OF rec2]
      by (auto simp: v derivePhase_def platform_phase_def platform_conditions_def db2 Let_def)
    with False noerr cf recorded_summary(3) [OF rec1'] recorded_summary(3) [OF rec2] oth1 oth2
      run_steps_distinct [OF laws serv] dist1
    show "derivePhase (lv_has_error v) (lv_all_ready v) (lv_db_ready v) = platform_phase cs \<and>
      lv_critical_failed v = list_ex (condition_error cs) critical_conditions \<and>
      pass_conditions ?gen ?old cs"
      by (simp add: v pass_conditions_def platform_conditions_def)
  qed
qed

section \<open>What one pass may write\<close>

definition critical_refs :: "obj_key \<Rightarrow> obj_ref set" where
  "critical_refs req =
     {(KCluster, nn (k_namespace req) (k_name req @ ''-db'')),
      (KScheduledBackup, nn (k_namespace req) (k_name req @ ''-db-backup'')),
      (KGateway, nn (k_namespace req) (k_name req @ ''-gateway''))}"

definition service_names :: "string list" where
  "service_names = [''imgproxy'', ''analytics'', ''vector'', ''supavisor'', ''studio'']"

definition service_refs :: "obj_key \<Rightarrow> obj_ref set" where
  "service_refs req =
     insert (KConfigMap, nn (k_namespace req) (k_name req @ ''-vector-config''))
       ((\<lambda>s. (KDeployment, nn (k_namespace req) (k_name req @ ''-'' @ s))) ` set service_names \<union>
        (\<lambda>s. (KService, nn (k_namespace req) (k_name req @ ''-'' @ s))) ` set service_names)"

definition upserts :: "obj_ref set \<Rightarrow> footprint" where
  "upserts Q = {VCreate, VPatch} \<times> Q"

definition platform_footprint :: "obj_key \<Rightarrow> footprint" where
  "platform_footprint req =
     upserts (critical_refs req \<union> service_refs req) \<union> {(VStatus, (KSupabase, req))}"

abbreviation sb_key :: "supabase \<Rightarrow> obj_key" where
  "sb_key sb \<equiv> meta_key (sb_meta sb)"

lemma platform_sync_id [simp]:
  "Namespace (platform_sync sb cs c) = k_namespace (sb_key sb)"
  "InstanceName (platform_sync sb cs c) = k_name (sb_key sb)"
  by (simp_all add: platform_sync_def Namespace_def InstanceName_def meta_key_def)

lemma upserts_mono: "Q \<subseteq> Q' \<Longrightarrow> upserts Q \<subseteq> upserts Q'"
  by (auto simp: upserts_def)

lemma critical_step_keeps:
  assumes e: "client_laws e" and st: "stable e (upserts (critical_refs (sb_key sb))) P"
    and cp: "cp \<in> set (criticalComponents e)"
  shows "keeps P (reconcile_component e gen cp t cs (platform_sync sb cs' c))"
proof -
  let ?c = "platform_sync sb cs' c"
  have w: "upsert_sigs (cluster_ref ?c) \<subseteq> upserts (critical_refs (sb_key sb))"
      "upsert_sigs (backup_ref ?c) \<subseteq> upserts (critical_refs (sb_key sb))"
      "upsert_sigs (gateway_ref ?c) \<subseteq> upserts (critical_refs (sb_key sb))"
    by (simp_all add: upsert_sigs_def upserts_def critical_refs_def cluster_ref_def backup_ref_def
        gateway_ref_def clusterName_def backupName_def gatewayName_def)
  from cp consider "cp = NewCNPGCluster e" | "cp = NewScheduledBackup e" | "cp = NewGateway e"
    by (auto simp: criticalComponents_def)
  then show ?thesis
  proof cases
    case 1
    then show ?thesis
      by (intro cluster_comp.step_keeps [OF _ _ e stable_mono [OF st w(1)]])
        (simp_all add: NewCNPGCluster_def)
  next
    case 2
    then show ?thesis
      by (intro backup_comp.step_keeps [OF _ _ e stable_mono [OF st w(2)]])
        (simp_all add: NewScheduledBackup_def)
  next
    case 3
    then show ?thesis
      by (intro gateway_comp.step_keeps [OF _ _ e stable_mono [OF st w(3)]])
        (simp_all add: NewGateway_def)
  qed
qed

lemma imgproxy_keys:
  "meta_key (dep_meta (pb_build_deployment ImgproxyBuilder c)) = nn (Namespace c) (InstanceName c @ ''-imgproxy'')"
  "meta_key (svc_meta (pb_build_service ImgproxyBuilder c)) = nn (Namespace c) (InstanceName c @ ''-imgproxy'')"
  by (simp_all add: ImgproxyBuilder_def imgproxy_BuildDeployment_def imgproxy_BuildService_def
      imgproxy_resourceName_def builder_defs)

lemma analytics_keys:
  "meta_key (dep_meta (pb_build_deployment AnalyticsBuilder c)) = nn (Namespace c) (InstanceName c @ ''-analytics'')"
  "meta_key (svc_meta (pb_build_service AnalyticsBuilder c)) = nn (Namespace c) (InstanceName c @ ''-analytics'')"
  by (simp_all add: AnalyticsBuilder_def analytics_BuildDeployment_def analytics_BuildService_def
      analytics_resourceName_def builder_defs)

lemma vector_keys:
  "meta_key (dep_meta (pb_build_deployment VectorBuilder c)) = nn (Namespace c) (InstanceName c @ ''-vector'')"
  "meta_key (svc_meta (pb_build_service VectorBuilder c)) = nn (Namespace c) (InstanceName c @ ''-vector'')"
  by (simp_all add: VectorBuilder_def vector_BuildDeployment_def vector_BuildService_def
      vector_resourceName_def builder_defs)

lemma supavisor_keys:
  "meta_key (dep_meta (pb_build_deployment SupavisorBuilder c)) = nn (Namespace c) (InstanceName c @ ''-supavisor'')"
  "meta_key (svc_meta (pb_build_service SupavisorBuilder c)) = nn (Namespace c) (InstanceName c @ ''-supavisor'')"
  by (simp_all add: SupavisorBuilder_def supavisor_BuildDeployment_def supavisor_BuildService_def
      supavisor_resourceName_def builder_defs)

lemma studio_keys:
  "meta_key (dep_meta (pb_build_deployment StudioBuilder c)) = nn (Namespace c) (InstanceName c @ ''-studio'')"
  "meta_key (svc_meta (pb_build_service StudioBuilder c)) = nn (Namespace c) (InstanceName c @ ''-studio'')"
  by (simp_all add: StudioBuilder_def studio_BuildDeployment_def studio_BuildService_def
      studio_resourceName_def builder_defs)

lemma vector_config_key:
  "meta_key (cm_meta (vector_BuildConfigMap c)) = nn (Namespace c) (InstanceName c @ ''-vector-config'')"
  by (simp add: vector_BuildConfigMap_def configMapName_def)

lemma builder_config_maps:
  "pb_build_config_map ImgproxyBuilder = None" "pb_build_config_map AnalyticsBuilder = None"
  "pb_build_config_map VectorBuilder = Some vector_BuildConfigMap"
  "pb_build_config_map SupavisorBuilder = None" "pb_build_config_map StudioBuilder = None"
  by (simp_all add: ImgproxyBuilder_def AnalyticsBuilder_def VectorBuilder_def
      SupavisorBuilder_def StudioBuilder_def)

lemmas service_keys = imgproxy_keys analytics_keys vector_keys supavisor_keys studio_keys
  vector_config_key builder_config_maps

lemma upsert_sigs_le: "upsert_sigs q \<subseteq> upserts Q \<longleftrightarrow> q \<in> Q"
  by (auto simp: upsert_sigs_def upserts_def)

lemma service_writes_refs:
  assumes "b \<in> set serviceBuilders"
  shows "service_writes b (platform_sync sb cs c) \<subseteq> upserts (service_refs (sb_key sb))"
  using assms
  unfolding serviceBuilders_def list.set insert_iff
  by (elim disjE)
    (simp_all add: service_writes_def service_keys upsert_sigs_le service_refs_def service_names_def)

lemma service_step_keeps:
  assumes e: "client_laws e" and st: "stable e (upserts (service_refs (sb_key sb))) P"
    and b: "b \<in> set serviceBuilders"
  shows "keeps P (reconcile_component e gen (NewServiceComponent b e) t cs (platform_sync sb cs' c))"
  by (rule component.step_keeps [OF service_component _ _ e
        stable_mono [OF st service_writes_refs [OF b]]])
    (simp_all add: NewServiceComponent_def)

lemma critical_steps_keep:
  assumes e: "client_laws e" and st: "stable e (upserts (critical_refs (sb_key sb))) P"
  shows "keeps P (run_steps e gen (platform_sync sb) (platform_steps (criticalComponents e)) cs c)"
  by (rule keeps_run_steps [where ok = "\<lambda>_. True"])
    (auto simp: platform_steps_def intro: critical_step_keeps [OF e st])

lemma service_steps_keep:
  assumes e: "client_laws e" and st: "stable e (upserts (service_refs (sb_key sb))) P"
  shows "keeps P (run_steps e gen (platform_sync sb) (platform_steps (serviceComponents e)) cs c)"
  by (rule keeps_run_steps [where ok = "\<lambda>_. True"])
    (auto simp: platform_steps_def serviceComponents_def intro: service_step_keeps [OF e st])

lemma reconcile_platform_keeps:
  assumes e: "client_laws e"
    and run: "run_state (reconcile_platform e sb) w = (v, w')" and P: "P w"
    and crit: "stable e (upserts (critical_refs (sb_key sb))) P"
    and serv: "lv_critical_failed v \<or> stable e (upserts (service_refs (sb_key sb))) P"
  shows "P w'"
proof (rule reconcile_platform_steps [OF run])
  fix rs cs c w1
  assume r1: "run_state (run_steps e (om_generation (sb_meta sb)) (platform_sync sb)
      (platform_steps (criticalComponents e)) (sst_conditions (sb_status sb)) \<lparr>px_supabase = sb\<rparr>) w =
      ((rs, cs, c), w1)"
    and cf: "lv_critical_failed v = any_error rs"
    and bad: "any_error rs \<Longrightarrow> w' = w1 \<and> lv_supabase v = with_conditions sb cs \<and> lv_has_error v \<and>
      \<not> lv_all_ready v"
    and good: "\<not> any_error rs \<Longrightarrow> \<exists>rs2 cs2 c2.
           run_state (run_steps e (om_generation (sb_meta sb)) (platform_sync sb)
             (platform_steps (serviceComponents e)) cs c) w1 = ((rs2, cs2, c2), w') \<and>
           lv_supabase v = with_conditions sb cs2 \<and> lv_has_error v = any_error rs2 \<and>
           lv_all_ready v = all_ready (rs @ rs2)"
  from keeps_run [OF critical_steps_keep [OF e crit] r1 P] have P1: "P w1" .
  show "P w'"
  proof (cases "any_error rs")
    case True
    with bad P1 show ?thesis by simp
  next
    case False
    with cf serv have st: "stable e (upserts (service_refs (sb_key sb))) P" by simp
    from good [OF False] obtain rs2 cs2 c2 where
      "run_state (run_steps e (om_generation (sb_meta sb)) (platform_sync sb)
         (platform_steps (serviceComponents e)) cs c) w1 = ((rs2, cs2, c2), w')" by blast
    from keeps_run [OF service_steps_keep [OF e st] this P1] show ?thesis .
  qed
qed

lemma updateStatus_keeps:
  assumes "stable e A P" and "(VStatus, (KSupabase, sb_key sb)) \<in> A"
  shows "keeps P (updateStatus e sb base phase err)"
  unfolding updateStatus_def Let_def
  by (intro keeps_intros stable_exec [OF assms(1)]) (simp add: obj_ref_def assms(2))

lemma preflightChecks_keeps: "stable e A P \<Longrightarrow> keeps P (preflightChecks e sb)"
  unfolding preflightChecks_def by (intro keeps_intros)

lemma platform_footprint_parts:
  "upserts (critical_refs req) \<subseteq> platform_footprint req"
  "upserts (service_refs req) \<subseteq> platform_footprint req"
  "(VStatus, (KSupabase, req)) \<in> platform_footprint req"
  by (auto simp: platform_footprint_def upserts_def)

text \<open>The conditions never change which object it is.\<close>

lemma reconcile_platform_object:
  assumes "run_state (reconcile_platform e sb) w = (v, w')"
  shows "\<exists>cs. lv_supabase v = with_conditions sb cs"
  by (rule reconcile_platform_steps [OF assms]) blast

lemma Reconcile_keeps:
  assumes e: "client_laws e" and st: "stable e (platform_footprint req) P"
  shows "keeps P (Reconcile e req)"
proof -
  note parts = platform_footprint_parts [of req]
  have body: "keeps P (do { v \<leftarrow> reconcile_platform e sb;
        r \<leftarrow> updateStatus e (ready_fields e (lv_supabase v)) sb
               (derivePhase (lv_has_error v) (lv_all_ready v) (lv_db_ready v)) None;
        ret (r, if lv_has_error v then ''error'' else ''success'') })"
    if sb: "sb_key sb = req" for sb
  proof (rule keeps_bind_result [where R = "\<lambda>v. sb_key (lv_supabase v) = req"])
    fix w
    show "sb_key (lv_supabase (fst (run_state (reconcile_platform e sb) w))) = req"
      using reconcile_platform_object [of e sb w] sb by (metis prod.collapse with_conditions_simps(4))
    show "keeps P (reconcile_platform e sb)"
    proof (rule keepsI)
      fix w assume "P w"
      obtain v w' where run: "run_state (reconcile_platform e sb) w = (v, w')" by fastforce
      from reconcile_platform_keeps [where P = P, OF e run \<open>P w\<close>]
      show "P (snd (run_state (reconcile_platform e sb) w))"
        using stable_mono [OF st parts(1)] stable_mono [OF st parts(2)] by (simp add: run sb)
    qed
  next
    fix v :: loop_vars
    assume v: "sb_key (lv_supabase v) = req"
    show "keeps P (do {
        r \<leftarrow> updateStatus e (ready_fields e (lv_supabase v)) sb
               (derivePhase (lv_has_error v) (lv_all_ready v) (lv_db_ready v)) None;
        ret (r, if lv_has_error v then ''error'' else ''success'') })"
      by (intro keeps_intros updateStatus_keeps [OF st])
        (simp add: ready_fields_def v parts(3))
  qed
  show ?thesis
    unfolding Reconcile_def reconcile_body_def
    by (intro get_then [OF client_reads_key(13) [OF e]] keeps_intros body
        stable_effect [OF st] stable_get_supabase [OF st] preflightChecks_keeps [OF st]
        updateStatus_keeps [OF st])
      (use parts(3) in auto)
qed

section \<open>The status one pass leaves\<close>

definition requeue_interval :: "string \<Rightarrow> int" where
  "requeue_interval phase =
     (if phase = SupphaseReady then 300 * second
      else if phase = SupphaseProvisioning \<or> phase = SupphaseDegraded then 30 * second
      else 0)"

lemma preflightChecks_silent:
  assumes api: "api_server e view admit" and run: "run_state (preflightChecks e sb) w = (r, w')"
  shows "view w' = view w"
proof -
  have "keeps (\<lambda>w'. view w' = view w) (preflightChecks e sb)"
    unfolding preflightChecks_def
    by (intro keeps_intros silent_keeps_view api_server_silent(1,2) [OF api])
  from keeps_run [OF this run] show ?thesis by simp
qed

lemma updateStatus_ok:
  assumes api: "api_server e view admit" and base: "view w (KSupabase, sb_key base) = Some (OSupabase base)"
    and meta: "sb_meta sb = sb_meta base"
    and run: "run_state (updateStatus e sb base phase None) w = ((res, None), w')"
  defines "st \<equiv> (sb_status sb)\<lparr>sst_phase := phase,
                   sst_observed_generation := om_generation (sb_meta sb)\<rparr>"
  shows "view w' = (view w)((KSupabase, sb_key base) \<mapsto> OSupabase (base\<lparr>sb_status := st\<rparr>))"
    and "res = requeue_after (requeue_interval phase)"
proof -
  let ?wr = "StatusPatch (OSupabase base) (OSupabase (sb\<lparr>sb_status := st\<rparr>))"
  obtain r where x: "run_state (exec e ?wr) w = (r, w')" and r: "r = None"
    using run by (auto simp: updateStatus_def Let_def run_simps st_def split: option.splits prod.splits)
  from api_server_exec [OF api x] base meta r
  show "view w' = (view w)((KSupabase, sb_key base) \<mapsto> OSupabase (base\<lparr>sb_status := st\<rparr>))"
    by (auto simp: obj_ref_def only_status_def simp del: split_paired_All)
  from run x r show "res = requeue_after (requeue_interval phase)"
    by (auto simp: updateStatus_def Let_def run_simps st_def requeue_interval_def minute_def
        no_requeue_def requeue_after_def second_def nanosecond_def supphase_defs split: if_splits)
qed

text \<open>A pass that returns no error has read the platform, passed preflight and run both loops.\<close>

lemma Reconcile_pass:
  assumes api: "api_server e view admit" and owner: "owner_laws e"
    and sb: "view w (KSupabase, req) = Some (OSupabase sb)"
    and run: "run_state (Reconcile e req) w = ((res, None), w')"
  obtains v w1 w2 w3 where
    "run_state (reconcile_platform e sb) w1 = (v, w2)" and "view w1 = view w"
    and "run_state (updateStatus e (ready_fields e (lv_supabase v)) sb
           (derivePhase (lv_has_error v) (lv_all_ready v) (lv_db_ready v)) None) w2 = ((res, None), w3)"
    and "view w2 (KSupabase, req) = Some (OSupabase sb)" and "view w' = view w3"
    and "sb_key sb = req"
proof -
  have key: "sb_key sb = req"
    using api_server_keyed [OF api sb] by (simp add: obj_ref_def)
  obtain g w0 where g: "run_state (get_supabase e req) w = (g, w0)" by fastforce
  note get = reads_storeD [OF api_server_reads(13) [OF api] g]
  have g1: "g = Inr sb"
  proof (cases g)
    case (Inr x)
    with get(2) [OF Inr] sb show ?thesis by simp
  next
    case (Inl err)
    with run g have "is_not_found err"
      by (auto simp: Reconcile_def reconcile_body_def run_simps split: if_splits prod.splits)
    with get(3) [OF Inl] sb show ?thesis by simp
  qed
  obtain p w1 where p: "run_state (preflightChecks e sb) w0 = (p, w1)" by fastforce
  have p1: "p = None"
    using run g g1 p
    by (cases p) (auto simp: Reconcile_def reconcile_body_def updateStatus_def Let_def run_simps
        split: prod.splits option.splits if_splits)
  have v1: "view w1 = view w" using preflightChecks_silent [OF api p] get(1) by simp
  obtain v w2 where v: "run_state (reconcile_platform e sb) w1 = (v, w2)" by fastforce
  obtain r w3 where u: "run_state (updateStatus e (ready_fields e (lv_supabase v)) sb
      (derivePhase (lv_has_error v) (lv_all_ready v) (lv_db_ready v)) None) w2 = (r, w3)" by fastforce
  have r: "r = (res, None)" and o: "run_state (observe_reconcile e ''supabase''
      (if lv_has_error v then ''error'' else ''success'')) w3 = ((), w')"
    using run g g1 p p1 v u
    by (auto simp: Reconcile_def reconcile_body_def split: prod.splits)
  have avoid: "avoids (upserts (critical_refs req)) (KSupabase, req)"
      "avoids (upserts (service_refs req)) (KSupabase, req)"
    by (auto simp: avoids_def upserts_def critical_refs_def service_refs_def)
  have e: "client_laws e" using api_server_well_keyed [OF api] owner by (simp add: client_laws_def)
  have "view w2 (KSupabase, req) = Some (OSupabase sb)"
    by (rule reconcile_platform_keeps [where P = "\<lambda>w. view w (KSupabase, req) = Some (OSupabase sb)",
          OF e v])
      (simp_all add: v1 sb key api_server_stable [OF api avoid(1)] api_server_stable [OF api avoid(2)])
  from that [OF v v1 u [unfolded r] this silentD [OF api_server_silent(8) [OF api] o] key]
  show thesis .
qed

text \<open>What the status says after a pass over an object with generation \<open>gen\<close> and status \<open>old\<close>.\<close>

definition platform_status_ok :: "int \<Rightarrow> supabase_status \<Rightarrow> supabase_status \<Rightarrow> bool" where
  "platform_status_ok gen old st \<longleftrightarrow>
     pass_conditions gen (sst_conditions old) (sst_conditions st) \<and>
     sst_phase st = platform_phase (sst_conditions st) \<and>
     sst_database_ready st = condition_true (sst_conditions st) ConditionDatabaseReady \<and>
     sst_gateway_ready st = condition_true (sst_conditions st) ConditionGatewayReady \<and>
     sst_tenant_count st = sst_tenant_count old \<and>
     sst_observed_generation st = gen"

lemma Reconcile_status:
  assumes api: "api_server e view admit" and owner: "owner_laws e" and laws: "condition_laws e"
    and sb: "view w (KSupabase, req) = Some (OSupabase sb)"
    and run: "run_state (Reconcile e req) w = ((res, None), w')"
  obtains st where "view w' (KSupabase, req) = Some (OSupabase (sb\<lparr>sb_status := st\<rparr>))"
    and "platform_status_ok (om_generation (sb_meta sb)) (sb_status sb) st"
    and "res = requeue_after (requeue_interval (sst_phase st))"
proof (rule Reconcile_pass [OF api owner sb run])
  fix v w1 w2 w3
  assume v: "run_state (reconcile_platform e sb) w1 = (v, w2)" and "view w1 = view w"
    and u: "run_state (updateStatus e (ready_fields e (lv_supabase v)) sb
           (derivePhase (lv_has_error v) (lv_all_ready v) (lv_db_ready v)) None) w2 = ((res, None), w3)"
    and base: "view w2 (KSupabase, req) = Some (OSupabase sb)" and w': "view w' = view w3"
    and key: "sb_key sb = req"
  note pass = reconcile_platform_recorded [OF laws v]
  have meta: "sb_meta (ready_fields e (lv_supabase v)) = sb_meta sb"
    by (subst pass(1)) (simp add: ready_fields_def)
  note ok = updateStatus_ok [OF api _ meta u, unfolded key, OF base]
  let ?st = "(sb_status (ready_fields e (lv_supabase v)))
    \<lparr>sst_phase := derivePhase (lv_has_error v) (lv_all_ready v) (lv_db_ready v),
     sst_observed_generation := om_generation (sb_meta (ready_fields e (lv_supabase v)))\<rparr>"
  have conds: "sst_conditions ?st = sst_conditions (sb_status (lv_supabase v))"
    by (simp add: ready_fields_def)
  have tc: "sst_tenant_count ?st = sst_tenant_count (sb_status sb)"
    by (simp add: ready_fields_def) (subst pass(1), simp add: with_conditions_def)
  have "platform_status_ok (om_generation (sb_meta sb)) (sb_status sb) ?st"
    unfolding platform_status_ok_def conds tc
    using pass(2,4) meta
    by (simp add: ready_fields_def isConditionTrue_def condition_lawsD(4) [OF laws]
        condition_true_def)
  with ok w' show thesis by (intro that [of ?st]) simp_all
qed

text \<open>A critical component that fails keeps everything but itself as it was.\<close>

lemma Reconcile_critical_failure:
  assumes api: "api_server e view admit" and owner: "owner_laws e" and laws: "condition_laws e"
    and sb: "view w (KSupabase, req) = Some (OSupabase sb)"
    and run: "run_state (Reconcile e req) w = ((res, None), w')"
    and after: "view w' (KSupabase, req) = Some (OSupabase sb')"
    and failed: "list_ex (condition_error (sst_conditions (sb_status sb'))) critical_conditions"
    and q: "q \<noteq> (KSupabase, req)" "q \<notin> critical_refs req"
  shows "view w' q = view w q"
proof (rule Reconcile_pass [OF api owner sb run])
  fix v w1 w2 w3
  assume v: "run_state (reconcile_platform e sb) w1 = (v, w2)" and w1: "view w1 = view w"
    and u: "run_state (updateStatus e (ready_fields e (lv_supabase v)) sb
           (derivePhase (lv_has_error v) (lv_all_ready v) (lv_db_ready v)) None) w2 = ((res, None), w3)"
    and base: "view w2 (KSupabase, req) = Some (OSupabase sb)" and w': "view w' = view w3"
    and key: "sb_key sb = req"
  note pass = reconcile_platform_recorded [OF laws v]
  have meta: "sb_meta (ready_fields e (lv_supabase v)) = sb_meta sb"
    by (subst pass(1)) (simp add: ready_fields_def)
  note ok = updateStatus_ok [OF api _ meta u, unfolded key, OF base]
  have "sst_conditions (sb_status sb') = sst_conditions (sb_status (lv_supabase v))"
    using after ok(1) w' by (auto simp: ready_fields_def)
  with failed pass(3) have cf: "lv_critical_failed v" by simp
  have e: "client_laws e" using api_server_well_keyed [OF api] owner by (simp add: client_laws_def)
  have avoid: "avoids (upserts (critical_refs req)) q"
    using q(2) by (auto simp: avoids_def upserts_def)
  have "view w2 q = view w q"
    by (rule reconcile_platform_keeps [where P = "\<lambda>w2. view w2 q = view w q", OF e v])
      (simp_all add: w1 key api_server_stable [OF api avoid] cf)
  with ok(1) w' q(1) show ?thesis by simp
qed

end
