(* ===== verification/TenantServices.thy ===== *)
theory TenantServices
  imports Workload
begin

text \<open>
  The services of a tenant, \<open>internal/components/tenant\<close>: \<open>service_component.go\<close>, which drives
  any builder and scales the Deployment to zero while the tenant is suspended, and the
  builders of Auth, REST, Realtime, Storage and Functions. A builder is a record of the
  methods of the Go interface \<open>TenantServiceBuilder\<close>.
\<close>

definition tenant_ref :: "supabase_tenant \<Rightarrow> obj_ref" where
  "tenant_ref t = (KTenant, meta_key (tc_meta t))"

abbreviation suspended :: "tenant_ctx \<Rightarrow> bool" where
  "suspended c \<equiv> tn_suspended (tc_spec (tx_tenant c))"

section \<open>service_component.go\<close>

record tenant_builder =
  tb_component_name :: string
  tb_build_deployment :: "tenant_ctx \<Rightarrow> deployment"
  tb_build_service :: "tenant_ctx \<Rightarrow> service"

text \<open>
  Scale to zero by updating the existing Deployment. Any error of the read, NotFound or not,
  ends the step without error.
\<close>

definition scale_to_zero :: "deployment \<Rightarrow> deployment" where
  "scale_to_zero d = d\<lparr>dep_spec := (dep_spec d)\<lparr>ds_replicas := Some 0\<rparr>\<rparr>"

definition suspend_deployment ::
  "tenant_builder \<Rightarrow> 'w env \<Rightarrow> tenant_ctx \<Rightarrow> ('w, go_error option) state" where
  "suspend_deployment b e c =
     do { r \<leftarrow> get_deployment e (meta_key (dep_meta (tb_build_deployment b c)));
          case r of
            Inl err \<Rightarrow> ret None
          | Inr d \<Rightarrow>
              do { p \<leftarrow> exec e (Patch (ODeployment d) (ODeployment (scale_to_zero d)));
                   case p of
                     Some patchErr \<Rightarrow> ret (Some (Wrap ''scaling deployment to zero'' patchErr))
                   | None \<Rightarrow> ret None } }"

definition tenant_service_reconcile ::
  "tenant_builder \<Rightarrow> 'w env \<Rightarrow> tenant_ctx \<Rightarrow>
     ('w, (go_error + ctrl_result) \<times> tenant_ctx) state" where
  "tenant_service_reconcile b e c =
     (if suspended c then result_of c (suspend_deployment b e c)
      else result_of c
        (and_then
          (create_or_patch e (get_deployment e) ODeployment ''deployment''
             (created_event (tenant_ref (tx_tenant c)) ''Deployment''
                (om_name (dep_meta (tb_build_deployment b c))))
             (mergeDeployment (tb_build_deployment b c)) (tb_build_deployment b c))
          (create_or_patch e (get_service e) OService ''service''
             (created_event (tenant_ref (tx_tenant c)) ''Service''
                (om_name (svc_meta (tb_build_service b c))))
             (mergeService (tb_build_service b c)) (tb_build_service b c))))"

definition tenant_service_healthcheck ::
  "tenant_builder \<Rightarrow> 'w env \<Rightarrow> tenant_ctx \<Rightarrow>
     ('w, bool \<times> string \<times> go_error option) state" where
  "tenant_service_healthcheck b e c =
     (if suspended c then ret (True, ''suspended'', None)
      else do {
        r \<leftarrow> get_deployment e (meta_key (dep_meta (tb_build_deployment b c)));
        case r of
          Inl err \<Rightarrow> ret (False, ''Deployment not found'', ignore_not_found err)
        | Inr d \<Rightarrow> (case replica_health d of (ok, msg) \<Rightarrow> ret (ok, msg, None)) })"

text \<open>The namespace, the secrets and the services of a tenant go with the namespace.\<close>

definition tenant_noop_finalize :: "'w env \<Rightarrow> tenant_ctx \<Rightarrow> ('w, go_error option) state" where
  "tenant_noop_finalize e c = ret None"

text \<open>\<open>selectorLabels[LabelTenant] = TenantID()\<close> on top of \<open>SelectorLabels\<close>\<close>

definition tenant_selector :: "tenant_ctx \<Rightarrow> string \<Rightarrow> labels" where
  "tenant_selector c comp_label =
     (SelectorLabels (TInstanceName c) comp_label)(LabelTenant \<mapsto> TenantID c)"

section \<open>auth.go\<close>

definition componentAuth :: string where "componentAuth = ''auth''"
definition defaultAuthImage :: string where "defaultAuthImage = ''supabase/gotrue:v2.186.0''"
definition authPort :: int where "authPort = 9999"

definition auth_resourceName :: "tenant_ctx \<Rightarrow> string" where
  "auth_resourceName c = TenantID c @ ''-auth''"

definition auth_env :: "tenant_ctx \<Rightarrow> env_var list" where
  "auth_env c =
     (let authSpec = tn_auth (tc_spec (tx_tenant c))
      in [env_var ''GOTRUE_API_HOST'' ''0.0.0.0'',
          env_var ''GOTRUE_API_PORT'' (itoa authPort),
          env_var ''GOTRUE_DB_DRIVER'' ''postgres'',
          env_var ''GOTRUE_DB_DATABASE_URL'' (DatabaseDSN c ''supabase_auth_admin'' (tx_database_password c)),
          env_var ''GOTRUE_SITE_URL'' (au_site_url authSpec),
          env_var ''GOTRUE_JWT_SECRET'' (tx_jwt_secret c),
          env_var ''GOTRUE_JWT_AUD'' ''authenticated'',
          env_var ''GOTRUE_JWT_DEFAULT_GROUP_NAME'' ''authenticated'',
          env_var ''GOTRUE_JWT_ADMIN_ROLES'' ''service_role'',
          env_var ''GOTRUE_JWT_EXP'' ''3600'',
          env_var ''GOTRUE_DISABLE_SIGNUP'' (format_bool (au_disable_signup authSpec)),
          env_var ''API_EXTERNAL_URL'' (''https://'' @ TenantID c @ ''.'' @ BaseDomain c)] @
         (case au_email authSpec of
            None \<Rightarrow> []
          | Some email \<Rightarrow>
              [env_var ''GOTRUE_EXTERNAL_EMAIL_ENABLED'' (format_bool (em_enabled email)),
               env_var ''GOTRUE_MAILER_AUTOCONFIRM'' (format_bool (em_autoconfirm email))]))"

definition auth_BuildDeployment :: "tenant_ctx \<Rightarrow> deployment" where
  "auth_BuildDeployment c =
     (let preset = GetPreset (tn_resources (tc_spec (tx_tenant c)))
      in BuildD
           (WithContainer
              \<lparr>ct_name = componentAuth, ct_image = defaultAuthImage,
               ct_command = [], ct_args = [],
               ct_ports = [tcp_port ''http'' authPort],
               ct_env = auth_env c,
               ct_resources = pre_resources preset,
               ct_mounts = []\<rparr>
             (WithPodAnnotations [SecretHashAnnotation \<mapsto> tx_secret_hash c]
               (WithReplicas (pre_replicas preset)
                 (WithSelectorLabels (tenant_selector c componentAuth)
                   (WithLabels (TenantLabels (TInstanceName c) (TenantID c) componentAuth)
                     (NewDeploymentBuilder (tx_namespace c) (auth_resourceName c))))))))"

definition auth_BuildService :: "tenant_ctx \<Rightarrow> service" where
  "auth_BuildService c =
     BuildS
       (WithPort ''http'' authPort authPort
         (SvcWithSelectorLabels (tenant_selector c componentAuth)
           (SvcWithLabels (TenantLabels (TInstanceName c) (TenantID c) componentAuth)
             (NewServiceBuilder (tx_namespace c) (auth_resourceName c)))))"

definition AuthBuilder :: tenant_builder where
  "AuthBuilder =
     \<lparr>tb_component_name = componentAuth,
      tb_build_deployment = auth_BuildDeployment,
      tb_build_service = auth_BuildService\<rparr>"

section \<open>rest.go\<close>

definition componentREST :: string where "componentREST = ''rest''"
definition defaultRESTImage :: string where "defaultRESTImage = ''postgrest/postgrest:v14.6''"
definition restPort :: int where "restPort = 3000"

definition rest_resourceName :: "tenant_ctx \<Rightarrow> string" where
  "rest_resourceName c = TenantID c @ ''-rest''"

definition rest_env :: "tenant_ctx \<Rightarrow> env_var list" where
  "rest_env c =
     (let restSpec = tn_rest (tc_spec (tx_tenant c));
          schemas = (if re_schemas restSpec \<noteq> [] then join '','' (re_schemas restSpec)
                     else ''public,graphql_public'');
          maxRows = (case re_max_rows restSpec of None \<Rightarrow> ''1000'' | Some n \<Rightarrow> itoa n)
      in [env_var ''PGRST_DB_URI'' (DatabaseDSN c ''authenticator'' (tx_database_password c)),
          env_var ''PGRST_DB_SCHEMAS'' (schemas),
          env_var ''PGRST_DB_MAX_ROWS'' (maxRows),
          env_var ''PGRST_DB_ANON_ROLE'' ''anon'',
          env_var ''PGRST_JWT_SECRET'' (tx_jwt_secret c),
          env_var ''PGRST_DB_USE_LEGACY_GUCS'' ''false'',
          env_var ''PGRST_APP_SETTINGS_JWT_SECRET'' (tx_jwt_secret c),
          env_var ''PGRST_APP_SETTINGS_JWT_EXP'' ''3600''])"

definition rest_BuildDeployment :: "tenant_ctx \<Rightarrow> deployment" where
  "rest_BuildDeployment c =
     (let preset = GetPreset (tn_resources (tc_spec (tx_tenant c)))
      in BuildD
           (WithContainer
              \<lparr>ct_name = componentREST, ct_image = defaultRESTImage,
               ct_command = [], ct_args = [],
               ct_ports = [tcp_port ''http'' restPort],
               ct_env = rest_env c,
               ct_resources = pre_resources preset,
               ct_mounts = []\<rparr>
             (WithPodAnnotations [SecretHashAnnotation \<mapsto> tx_secret_hash c]
               (WithReplicas (pre_replicas preset)
                 (WithSelectorLabels (tenant_selector c componentREST)
                   (WithLabels (TenantLabels (TInstanceName c) (TenantID c) componentREST)
                     (NewDeploymentBuilder (tx_namespace c) (rest_resourceName c))))))))"

definition rest_BuildService :: "tenant_ctx \<Rightarrow> service" where
  "rest_BuildService c =
     BuildS
       (WithPort ''http'' restPort restPort
         (SvcWithSelectorLabels (tenant_selector c componentREST)
           (SvcWithLabels (TenantLabels (TInstanceName c) (TenantID c) componentREST)
             (NewServiceBuilder (tx_namespace c) (rest_resourceName c)))))"

definition RESTBuilder :: tenant_builder where
  "RESTBuilder =
     \<lparr>tb_component_name = componentREST,
      tb_build_deployment = rest_BuildDeployment,
      tb_build_service = rest_BuildService\<rparr>"

section \<open>realtime.go\<close>

definition componentRealtime :: string where "componentRealtime = ''realtime''"
definition defaultRealtimeImage :: string where "defaultRealtimeImage = ''supabase/realtime:v2.76.5''"
definition realtimePort :: int where "realtimePort = 4000"

definition realtime_resourceName :: "tenant_ctx \<Rightarrow> string" where
  "realtime_resourceName c = TenantID c @ ''-realtime''"

definition realtime_env :: "tenant_ctx \<Rightarrow> env_var list" where
  "realtime_env c =
     [env_var ''PORT'' (itoa realtimePort),
          env_var ''DB_HOST'' (tx_database_host c),
          env_var ''DB_PORT'' (tx_database_port c),
          env_var ''DB_USER'' ''supabase_admin'',
          env_var ''DB_PASSWORD'' (tx_database_password c),
          env_var ''DB_NAME'' (tx_database_name c),
          env_var ''DB_AFTER_CONNECT_QUERY'' ''SET search_path TO _realtime'',
          env_var ''DB_ENC_KEY'' ''supabaserealtime'',
          env_var ''API_JWT_SECRET'' (tx_jwt_secret c),
          env_var ''SECRET_KEY_BASE'' (tx_jwt_secret c),
          env_var ''ERL_AFLAGS'' ''-proto_dist inet_tcp'',
          env_var ''DNS_NODES'' ([CHR 0x27, CHR 0x27]),
          env_var ''APP_NAME'' ''realtime'',
          env_var ''SEED_SELF_HOST'' ''true'']"

definition realtime_BuildDeployment :: "tenant_ctx \<Rightarrow> deployment" where
  "realtime_BuildDeployment c =
     (let preset = GetPreset (tn_resources (tc_spec (tx_tenant c)))
      in BuildD
           (WithContainer
              \<lparr>ct_name = componentRealtime, ct_image = defaultRealtimeImage,
               ct_command = [], ct_args = [],
               ct_ports = [tcp_port ''http'' realtimePort],
               ct_env = realtime_env c,
               ct_resources = pre_resources preset,
               ct_mounts = []\<rparr>
             (WithPodAnnotations [SecretHashAnnotation \<mapsto> tx_secret_hash c]
               (WithReplicas (pre_replicas preset)
                 (WithSelectorLabels (tenant_selector c componentRealtime)
                   (WithLabels (TenantLabels (TInstanceName c) (TenantID c) componentRealtime)
                     (NewDeploymentBuilder (tx_namespace c) (realtime_resourceName c))))))))"

definition realtime_BuildService :: "tenant_ctx \<Rightarrow> service" where
  "realtime_BuildService c =
     BuildS
       (WithPort ''http'' realtimePort realtimePort
         (SvcWithSelectorLabels (tenant_selector c componentRealtime)
           (SvcWithLabels (TenantLabels (TInstanceName c) (TenantID c) componentRealtime)
             (NewServiceBuilder (tx_namespace c) (realtime_resourceName c)))))"

definition RealtimeBuilder :: tenant_builder where
  "RealtimeBuilder =
     \<lparr>tb_component_name = componentRealtime,
      tb_build_deployment = realtime_BuildDeployment,
      tb_build_service = realtime_BuildService\<rparr>"

section \<open>storage.go\<close>

definition componentStorage :: string where "componentStorage = ''storage''"
definition defaultStorageImage :: string where "defaultStorageImage = ''supabase/storage-api:v1.44.2''"
definition storagePort :: int where "storagePort = 5000"

definition storage_resourceName :: "tenant_ctx \<Rightarrow> string" where
  "storage_resourceName c = TenantID c @ ''-storage''"

definition storage_env :: "tenant_ctx \<Rightarrow> env_var list" where
  "storage_env c =
     (let storageSpec = tn_storage (tc_spec (tx_tenant c));
          fileSizeLimit =
            (case st_file_size_limit storageSpec of None \<Rightarrow> ''52428800'' | Some n \<Rightarrow> itoa n)
      in [env_var ''ANON_KEY'' (tx_anon_key c),
          env_var ''SERVICE_KEY'' (tx_service_role_key c),
          env_var ''AUTH_JWT_SECRET'' (tx_jwt_secret c),
          env_var ''DATABASE_URL'' (DatabaseDSN c ''supabase_storage_admin'' (tx_database_password c)),
          env_var ''FILE_SIZE_LIMIT'' (fileSizeLimit),
          env_var ''TENANT_ID'' (TenantID c),
          env_var ''REGION'' ''local'',
          env_var ''ENABLE_IMAGE_TRANSFORMATION'' (format_bool (st_image_transformation storageSpec))] @
         (case st_backend storageSpec of
            StorageBackendS3 \<Rightarrow>
              env_var ''STORAGE_BACKEND'' ''s3'' #
              (case st_s3 storageSpec of
                 None \<Rightarrow> []
               | Some s3 \<Rightarrow>
                   [env_var ''GLOBAL_S3_BUCKET'' (s3_bucket s3),
                    env_var ''GLOBAL_S3_REGION'' (s3_region s3)] @
                   (if s3_endpoint s3 \<noteq> '''' then [env_var ''GLOBAL_S3_ENDPOINT'' (s3_endpoint s3)]
                    else []) @
                   (if s3_force_path_style s3 then [env_var ''GLOBAL_S3_FORCE_PATH_STYLE'' ''true'']
                    else []))
          | StorageBackendOBC \<Rightarrow> [env_var ''STORAGE_BACKEND'' ''s3'']
          | _ \<Rightarrow>
              [env_var ''STORAGE_BACKEND'' ''file'',
               env_var ''FILE_STORAGE_BACKEND_PATH'' ''/var/lib/storage'']))"

definition storage_BuildDeployment :: "tenant_ctx \<Rightarrow> deployment" where
  "storage_BuildDeployment c =
     (let preset = GetPreset (tn_resources (tc_spec (tx_tenant c)))
      in BuildD
           (WithContainer
              \<lparr>ct_name = componentStorage, ct_image = defaultStorageImage,
               ct_command = [], ct_args = [],
               ct_ports = [tcp_port ''http'' storagePort],
               ct_env = storage_env c,
               ct_resources = pre_resources preset,
               ct_mounts = []\<rparr>
             (WithPodAnnotations [SecretHashAnnotation \<mapsto> tx_secret_hash c]
               (WithReplicas (pre_replicas preset)
                 (WithSelectorLabels (tenant_selector c componentStorage)
                   (WithLabels (TenantLabels (TInstanceName c) (TenantID c) componentStorage)
                     (NewDeploymentBuilder (tx_namespace c) (storage_resourceName c))))))))"

definition storage_BuildService :: "tenant_ctx \<Rightarrow> service" where
  "storage_BuildService c =
     BuildS
       (WithPort ''http'' storagePort storagePort
         (SvcWithSelectorLabels (tenant_selector c componentStorage)
           (SvcWithLabels (TenantLabels (TInstanceName c) (TenantID c) componentStorage)
             (NewServiceBuilder (tx_namespace c) (storage_resourceName c)))))"

definition StorageBuilder :: tenant_builder where
  "StorageBuilder =
     \<lparr>tb_component_name = componentStorage,
      tb_build_deployment = storage_BuildDeployment,
      tb_build_service = storage_BuildService\<rparr>"

section \<open>functions.go\<close>

definition componentFunctions :: string where "componentFunctions = ''functions''"
definition defaultFunctionsImage :: string where "defaultFunctionsImage = ''supabase/edge-runtime:v1.71.2''"
definition functionsPort :: int where "functionsPort = 9000"

definition functions_resourceName :: "tenant_ctx \<Rightarrow> string" where
  "functions_resourceName c = TenantID c @ ''-functions''"

definition functions_env :: "tenant_ctx \<Rightarrow> env_var list" where
  "functions_env c =
     [env_var ''JWT_SECRET'' (tx_jwt_secret c),
          env_var ''SUPABASE_URL'' (''https://'' @ TenantID c @ ''.'' @ BaseDomain c),
          env_var ''SUPABASE_ANON_KEY'' (tx_anon_key c),
          env_var ''SUPABASE_SERVICE_ROLE_KEY'' (tx_service_role_key c),
          env_var ''SUPABASE_DB_URL'' (DatabaseDSN c ''postgres'' (tx_database_password c)),
          env_var ''VERIFY_JWT'' (format_bool (fn_verify_jwt (tn_functions (tc_spec (tx_tenant c)))))]"

definition functions_BuildDeployment :: "tenant_ctx \<Rightarrow> deployment" where
  "functions_BuildDeployment c =
     (let preset = GetPreset (tn_resources (tc_spec (tx_tenant c)))
      in BuildD
           (WithContainer
              \<lparr>ct_name = componentFunctions, ct_image = defaultFunctionsImage,
               ct_command = [''start'', ''--main-service'', ''/home/deno/functions/main''], ct_args = [],
               ct_ports = [tcp_port ''http'' functionsPort],
               ct_env = functions_env c,
               ct_resources = pre_resources preset,
               ct_mounts = []\<rparr>
             (WithPodAnnotations [SecretHashAnnotation \<mapsto> tx_secret_hash c]
               (WithReplicas (pre_replicas preset)
                 (WithSelectorLabels (tenant_selector c componentFunctions)
                   (WithLabels (TenantLabels (TInstanceName c) (TenantID c) componentFunctions)
                     (NewDeploymentBuilder (tx_namespace c) (functions_resourceName c))))))))"

definition functions_BuildService :: "tenant_ctx \<Rightarrow> service" where
  "functions_BuildService c =
     BuildS
       (WithPort ''http'' functionsPort functionsPort
         (SvcWithSelectorLabels (tenant_selector c componentFunctions)
           (SvcWithLabels (TenantLabels (TInstanceName c) (TenantID c) componentFunctions)
             (NewServiceBuilder (tx_namespace c) (functions_resourceName c)))))"

definition FunctionsBuilder :: tenant_builder where
  "FunctionsBuilder =
     \<lparr>tb_component_name = componentFunctions,
      tb_build_deployment = functions_BuildDeployment,
      tb_build_service = functions_BuildService\<rparr>"

section \<open>The builders meet their contract\<close>

text \<open>
  What no component of a tenant changes: everything in the context but the credentials.
\<close>

definition tenant_ident ::
  "tenant_ctx \<Rightarrow> supabase_tenant \<times> supabase \<times> string \<times> string \<times> string \<times> string" where
  "tenant_ident c =
     (tx_tenant c, tx_supabase c, tx_namespace c, tx_database_name c, tx_database_host c,
      tx_database_port c)"

text \<open>What the identity of a tenant's service is made of.\<close>

definition tenant_owner_id :: "tenant_ctx \<Rightarrow> string \<times> string \<times> string" where
  "tenant_owner_id c = (tx_namespace c, TInstanceName c, TenantID c)"

lemma tenant_ident_owner_id: "tenant_ident c = tenant_ident c' \<Longrightarrow> tenant_owner_id c = tenant_owner_id c'"
  by (simp add: tenant_ident_def tenant_owner_id_def TInstanceName_def TenantID_def)

lemmas tenant_build_defs = builder_defs tenant_owner_id_def selects_def exposed_ports_def
  tenant_selector_def tenant_selector_le_TenantLabels

interpretation auth_workload: workload auth_BuildDeployment auth_BuildService tenant_owner_id
  by unfold_locales
    (auto simp: auth_BuildDeployment_def auth_BuildService_def auth_resourceName_def
      tenant_build_defs Let_def)

interpretation rest_workload: workload rest_BuildDeployment rest_BuildService tenant_owner_id
  by unfold_locales
    (auto simp: rest_BuildDeployment_def rest_BuildService_def rest_resourceName_def
      tenant_build_defs Let_def)

interpretation realtime_workload: workload realtime_BuildDeployment realtime_BuildService tenant_owner_id
  by unfold_locales
    (auto simp: realtime_BuildDeployment_def realtime_BuildService_def realtime_resourceName_def
      tenant_build_defs Let_def)

interpretation storage_workload: workload storage_BuildDeployment storage_BuildService tenant_owner_id
  by unfold_locales
    (auto simp: storage_BuildDeployment_def storage_BuildService_def storage_resourceName_def
      tenant_build_defs Let_def)

interpretation functions_workload: workload functions_BuildDeployment functions_BuildService tenant_owner_id
  by unfold_locales
    (auto simp: functions_BuildDeployment_def functions_BuildService_def functions_resourceName_def
      tenant_build_defs Let_def)

section \<open>The contract of the components\<close>

definition tenant_service_writes :: "tenant_builder \<Rightarrow> tenant_ctx \<Rightarrow> footprint" where
  "tenant_service_writes b c =
     upsert_sigs (KDeployment, meta_key (dep_meta (tb_build_deployment b c))) \<union>
     upsert_sigs (KService, meta_key (svc_meta (tb_build_service b c)))"

lemma suspend_deployment_keeps:
  assumes e: "client_laws e"
    and st: "stable e A P"
    and A: "(VPatch, (KDeployment, meta_key (dep_meta (tb_build_deployment b c)))) \<in> A"
  shows "keeps P (suspend_deployment b e c)"
  unfolding suspend_deployment_def
proof (rule keeps_bind_result
    [where R = "\<lambda>r. \<forall>d. r = Inr d \<longrightarrow> meta_key (dep_meta d) = meta_key (dep_meta (tb_build_deployment b c))"])
  let ?k = "meta_key (dep_meta (tb_build_deployment b c))"
  fix w
  show "\<forall>d. fst (run_state (get_deployment e ?k) w) = Inr d \<longrightarrow> meta_key (dep_meta d) = ?k"
    using client_reads_key(6) [OF e] unfolding reads_key_def by (metis prod.collapse)
next
  fix r :: "go_error + deployment"
  assume "\<forall>d. r = Inr d \<longrightarrow> meta_key (dep_meta d) = meta_key (dep_meta (tb_build_deployment b c))"
  then show "keeps P (case r of
      Inl err \<Rightarrow> ret None
    | Inr d \<Rightarrow>
        do { p \<leftarrow> exec e (Patch (ODeployment d) (ODeployment (scale_to_zero d)));
             case p of
               Some patchErr \<Rightarrow> ret (Some (Wrap ''scaling deployment to zero'' patchErr))
             | None \<Rightarrow> ret None })"
    using A by (intro keeps_intros stable_exec [OF st]) (simp add: obj_ref_def scale_to_zero_def)
qed (rule stable_get_deployment [OF st])

lemma tenant_service_reconcile_keeps:
  assumes e: "client_laws e" and st: "stable e (tenant_service_writes b c) P"
  shows "keeps P (tenant_service_reconcile b e c)"
  unfolding tenant_service_reconcile_def
  by (intro keeps_intros keeps_create_or_patch [OF st] suspend_deployment_keeps [OF e st]
      stable_get_deployment [OF st] stable_get_service [OF st])
    (auto simp: client_reads_key [OF e] key_simps obj_ref_def tenant_service_writes_def upsert_sigs_def)

lemma tenant_service_healthcheck_keeps:
  "stable e {} P \<Longrightarrow> keeps P (tenant_service_healthcheck b e c)"
  unfolding tenant_service_healthcheck_def by (intro keeps_intros)

lemma tenant_service_plain: "plain_result c (tenant_service_reconcile b e c)"
  unfolding tenant_service_reconcile_def by (intro plain_intros)

lemma tenant_noop_finalize_keeps: "keeps P (tenant_noop_finalize e c)"
  unfolding tenant_noop_finalize_def by (rule keeps_return)

lemma tenant_service_component:
  "component (tenant_service_reconcile b) (tenant_service_healthcheck b) tenant_noop_finalize
     (tenant_service_writes b) (\<lambda>c. {}) tenant_ident"
  by (rule component_plainI)
    (simp_all add: tenant_service_reconcile_keeps tenant_service_healthcheck_keeps
      tenant_noop_finalize_keeps tenant_service_plain)

interpretation auth_comp: component "tenant_service_reconcile AuthBuilder"
  "tenant_service_healthcheck AuthBuilder" tenant_noop_finalize "tenant_service_writes AuthBuilder"
  "\<lambda>c. {}" tenant_ident
  by (rule tenant_service_component)

interpretation rest_comp: component "tenant_service_reconcile RESTBuilder"
  "tenant_service_healthcheck RESTBuilder" tenant_noop_finalize "tenant_service_writes RESTBuilder"
  "\<lambda>c. {}" tenant_ident
  by (rule tenant_service_component)

interpretation realtime_comp: component "tenant_service_reconcile RealtimeBuilder"
  "tenant_service_healthcheck RealtimeBuilder" tenant_noop_finalize "tenant_service_writes RealtimeBuilder"
  "\<lambda>c. {}" tenant_ident
  by (rule tenant_service_component)

interpretation storage_comp: component "tenant_service_reconcile StorageBuilder"
  "tenant_service_healthcheck StorageBuilder" tenant_noop_finalize "tenant_service_writes StorageBuilder"
  "\<lambda>c. {}" tenant_ident
  by (rule tenant_service_component)

interpretation functions_comp: component "tenant_service_reconcile FunctionsBuilder"
  "tenant_service_healthcheck FunctionsBuilder" tenant_noop_finalize "tenant_service_writes FunctionsBuilder"
  "\<lambda>c. {}" tenant_ident
  by (rule tenant_service_component)

end
