(* ===== verification/TenantNamespace.thy ===== *)
theory TenantNamespace
  imports TenantServices
begin

text \<open>
  \<open>internal/components/tenant/namespace.go\<close>: the namespace of a tenant and the network
  policy that keeps other tenants out, both created when absent; finalizing deletes the
  namespace.
\<close>

definition componentNamespace :: string where "componentNamespace = ''namespace''"

definition buildNamespace :: "tenant_ctx \<Rightarrow> namespace" where
  "buildNamespace c =
     \<lparr>ns_meta = mk_meta '''' (tx_namespace c)
                  (TenantLabels (TInstanceName c) (TenantID c) componentNamespace),
      ns_phase = ''''\<rparr>"

definition buildNetworkPolicy :: "tenant_ctx \<Rightarrow> network_policy" where
  "buildNetworkPolicy c =
     \<lparr>np_meta = mk_meta (tx_namespace c) ''deny-cross-tenant''
                  (TenantLabels (TInstanceName c) (TenantID c) componentNamespace),
      np_pod_selector = Map.empty,
      np_ingress =
        [[\<lparr>peer_pods = Some Map.empty, peer_namespaces = None\<rparr>,
          \<lparr>peer_pods = None,
           peer_namespaces = Some [''kubernetes.io/metadata.name'' \<mapsto> platform_ns c]\<rparr>]],
      np_types = [PolicyTypeIngress]\<rparr>"

definition namespace_reconcile ::
  "'w env \<Rightarrow> tenant_ctx \<Rightarrow> ('w, (go_error + ctrl_result) \<times> tenant_ctx) state" where
  "namespace_reconcile e c =
     result_of c
       (and_then
         (create_if_absent e (get_namespace e) ONamespace ''namespace''
            (created_event (tenant_ref (tx_tenant c)) ''Namespace''
               (om_name (ns_meta (buildNamespace c))))
            (buildNamespace c))
         (create_if_absent e (get_network_policy e) ONetworkPolicy ''network policy''
            (created_event (tenant_ref (tx_tenant c)) ''NetworkPolicy''
               (om_name (np_meta (buildNetworkPolicy c))))
            (buildNetworkPolicy c)))"

definition namespace_healthcheck ::
  "'w env \<Rightarrow> tenant_ctx \<Rightarrow> ('w, bool \<times> string \<times> go_error option) state" where
  "namespace_healthcheck e c =
     do { r \<leftarrow> get_namespace e (nn '''' (tx_namespace c));
          case r of
            Inl err \<Rightarrow> ret (False, ''Namespace not found'', ignore_not_found err)
          | Inr ns \<Rightarrow>
              if ns_phase ns = NamespaceActive then ret (True, ''Namespace is active'', None)
              else ret (False, ''Namespace phase: '' @ ns_phase ns, None) }"

definition namespace_finalize :: "'w env \<Rightarrow> tenant_ctx \<Rightarrow> ('w, go_error option) state" where
  "namespace_finalize e c =
     do { r \<leftarrow> get_namespace e (nn '''' (tx_namespace c));
          case r of
            Inl err \<Rightarrow> ret (ignore_not_found err)
          | Inr ns \<Rightarrow> exec e (Delete (ONamespace ns)) }"

section \<open>Who the network policy lets in\<close>

text \<open>
  A pod by the namespace it runs in; a namespace carries its name as the label
  \<open>kubernetes.io/metadata.name\<close>, which the API server sets. A peer without a namespace
  selector means the namespace of the policy.
\<close>

definition namespace_labels :: "string \<Rightarrow> labels" where
  "namespace_labels ns = [''kubernetes.io/metadata.name'' \<mapsto> ns]"

definition peer_admits :: "string \<Rightarrow> policy_peer \<Rightarrow> string \<Rightarrow> labels \<Rightarrow> bool" where
  "peer_admits policy_ns p ns pod \<longleftrightarrow>
     (case peer_namespaces p of
        None \<Rightarrow> ns = policy_ns
      | Some sel \<Rightarrow> selects sel (namespace_labels ns)) \<and>
     (case peer_pods p of None \<Rightarrow> True | Some sel \<Rightarrow> selects sel pod)"

definition policy_admits :: "network_policy \<Rightarrow> string \<Rightarrow> labels \<Rightarrow> bool" where
  "policy_admits np ns pod \<longleftrightarrow>
     (\<exists>peers \<in> set (np_ingress np). \<exists>p \<in> set peers.
        peer_admits (om_namespace (np_meta np)) p ns pod)"

section \<open>The contract of the component\<close>

definition namespace_ref :: "tenant_ctx \<Rightarrow> obj_ref" where
  "namespace_ref c = (KNamespace, nn '''' (tx_namespace c))"

definition policy_ref :: "tenant_ctx \<Rightarrow> obj_ref" where
  "policy_ref c = (KNetworkPolicy, nn (tx_namespace c) ''deny-cross-tenant'')"

definition namespace_writes :: "tenant_ctx \<Rightarrow> footprint" where
  "namespace_writes c = create_sigs (namespace_ref c) \<union> create_sigs (policy_ref c)"

lemma build_namespace_refs [key_simps]:
  "obj_ref (ONamespace (buildNamespace c)) = namespace_ref c"
  "obj_ref (ONetworkPolicy (buildNetworkPolicy c)) = policy_ref c"
  by (simp_all add: obj_ref_def buildNamespace_def buildNetworkPolicy_def namespace_ref_def
      policy_ref_def)

lemma namespace_reconcile_keeps:
  assumes st: "stable e (namespace_writes c) P"
  shows "keeps P (namespace_reconcile e c)"
  unfolding namespace_reconcile_def
  by (intro keeps_intros keeps_create_if_absent [OF st] stable_get_namespace [OF st]
      stable_get_network_policy [OF st])
    (simp_all add: key_simps namespace_writes_def create_sigs_def)

lemma namespace_healthcheck_keeps: "stable e {} P \<Longrightarrow> keeps P (namespace_healthcheck e c)"
  unfolding namespace_healthcheck_def by (intro keeps_intros)

lemma namespace_finalize_keeps:
  assumes e: "client_laws e" and st: "stable e {(VDelete, namespace_ref c)} P"
  shows "keeps P (namespace_finalize e c)"
  unfolding namespace_finalize_def
  by (intro get_then [OF client_reads_key(1) [OF e]] keeps_intros stable_exec [OF st]
      stable_get_namespace [OF st])
    (simp add: obj_ref_def namespace_ref_def)

lemma namespace_plain: "plain_result c (namespace_reconcile e c)"
  unfolding namespace_reconcile_def by (intro plain_intros)

interpretation namespace_comp: component namespace_reconcile namespace_healthcheck
  namespace_finalize namespace_writes "\<lambda>c. {(VDelete, namespace_ref c)}" tenant_ident
  by (rule component_plainI)
    (simp_all add: namespace_reconcile_keeps namespace_healthcheck_keeps namespace_finalize_keeps
      namespace_plain)

end
