(* ===== verification/TenantSecret.thy ===== *)
theory TenantSecret
  imports TenantServices
begin

text \<open>
  \<open>internal/components/tenant/secret.go\<close>: the JWT secret and the database credentials of a
  tenant, generated once, and the credentials the other components read from the context.
  \<open>Reconcile\<close> updates the context it is given, also on the paths that end in an error.
\<close>

definition componentSecrets :: string where "componentSecrets = ''secrets''"

definition jwtSecretName :: "tenant_ctx \<Rightarrow> string" where
  "jwtSecretName c = TenantID c @ ''-jwt''"

definition dbCredentialsSecretName :: "tenant_ctx \<Rightarrow> string" where
  "dbCredentialsSecretName c = TenantID c @ ''-db-credentials''"

definition secret_meta :: "tenant_ctx \<Rightarrow> string \<Rightarrow> object_meta" where
  "secret_meta c n =
     mk_meta (tx_namespace c) n (TenantLabels (TInstanceName c) (TenantID c) componentSecrets)"

definition buildJWTSecret :: "'w env \<Rightarrow> tenant_ctx \<Rightarrow> ('w, go_error + secret) state" where
  "buildJWTSecret e c =
     do { r1 \<leftarrow> GenerateHMACSecret e 32;
          case r1 of
            Inl err \<Rightarrow> ret (Inl (Wrap ''generating JWT secret'' err))
          | Inr jwtSecret \<Rightarrow> do {
          r2 \<leftarrow> GenerateAnonKey e jwtSecret;
          case r2 of
            Inl err \<Rightarrow> ret (Inl (Wrap ''generating anon key'' err))
          | Inr anonKey \<Rightarrow> do {
          r3 \<leftarrow> GenerateServiceRoleKey e jwtSecret;
          case r3 of
            Inl err \<Rightarrow> ret (Inl (Wrap ''generating service role key'' err))
          | Inr serviceRoleKey \<Rightarrow>
              ret (Inr \<lparr>sec_meta = secret_meta c (jwtSecretName c),
                        sec_data = [(''jwt-secret'', jwtSecret), (''anon-key'', anonKey),
                                    (''service-role-key'', serviceRoleKey)]\<rparr>) } } }"

definition buildDBCredentialsSecret ::
  "'w env \<Rightarrow> tenant_ctx \<Rightarrow> ('w, go_error + secret) state" where
  "buildDBCredentialsSecret e c =
     do { r1 \<leftarrow> GeneratePassword e 24;
          case r1 of
            Inl err \<Rightarrow> ret (Inl (Wrap ''generating postgres password'' err))
          | Inr postgresPassword \<Rightarrow> do {
          r2 \<leftarrow> GeneratePassword e 24;
          case r2 of
            Inl err \<Rightarrow> ret (Inl (Wrap ''generating authenticator password'' err))
          | Inr authenticatorPassword \<Rightarrow> do {
          r3 \<leftarrow> GeneratePassword e 24;
          case r3 of
            Inl err \<Rightarrow> ret (Inl (Wrap ''generating auth admin password'' err))
          | Inr authAdminPassword \<Rightarrow> do {
          r4 \<leftarrow> GeneratePassword e 24;
          case r4 of
            Inl err \<Rightarrow> ret (Inl (Wrap ''generating storage admin password'' err))
          | Inr storageAdminPassword \<Rightarrow>
              ret (Inr \<lparr>sec_meta = secret_meta c (dbCredentialsSecretName c),
                        sec_data = [(''postgres-password'', postgresPassword),
                                    (''authenticator-password'', authenticatorPassword),
                                    (''auth-admin-password'', authAdminPassword),
                                    (''storage-admin-password'', storageAdminPassword)]\<rparr>) } } } }"

text \<open>
  Get a secret; on NotFound generate and create it. The data of the existing or the created
  secret, or the error.
\<close>

definition ensure_secret ::
  "'w env \<Rightarrow> tenant_ctx \<Rightarrow> string \<Rightarrow> string \<Rightarrow> string \<Rightarrow> ('w, go_error + secret) state \<Rightarrow>
     ('w, go_error + (string \<times> string) list) state" where
  "ensure_secret e c n what kd build =
     do { r \<leftarrow> get_secret e (nn (tx_namespace c) n);
          case r of
            Inr s \<Rightarrow> ret (Inr (sec_data s))
          | Inl err \<Rightarrow>
              if \<not> is_not_found err then ret (Inl (Wrap (''getting '' @ what) err))
              else do {
                b \<leftarrow> build;
                case b of
                  Inl genErr \<Rightarrow> ret (Inl genErr)
                | Inr s \<Rightarrow> do {
                    cr \<leftarrow> exec e (Create (OSecret s));
                    case cr of
                      Some createErr \<Rightarrow> ret (Inl (Wrap (''creating '' @ what) createErr))
                    | None \<Rightarrow> do {
                        emit e (created_event (tenant_ref (tx_tenant c)) kd (om_name (sec_meta s)));
                        ret (Inr (sec_data s)) } } } }"

definition with_jwt :: "tenant_ctx \<Rightarrow> (string \<times> string) list \<Rightarrow> tenant_ctx" where
  "with_jwt c d =
     c\<lparr>tx_jwt_secret := data_get d ''jwt-secret'',
       tx_anon_key := data_get d ''anon-key'',
       tx_service_role_key := data_get d ''service-role-key''\<rparr>"

definition with_credentials ::
  "tenant_ctx \<Rightarrow> (string \<times> string) list \<Rightarrow> (string \<times> string) list \<Rightarrow> tenant_ctx" where
  "with_credentials c jwtData dbData =
     (with_jwt c jwtData)
       \<lparr>tx_database_password := data_get dbData ''postgres-password'',
        tx_secret_hash := ComputeSecretHash [jwtData, dbData]\<rparr>"

definition secret_reconcile ::
  "'w env \<Rightarrow> tenant_ctx \<Rightarrow> ('w, (go_error + ctrl_result) \<times> tenant_ctx) state" where
  "secret_reconcile e c =
     do { j \<leftarrow> ensure_secret e c (jwtSecretName c) ''JWT secret'' ''JWT Secret''
                 (buildJWTSecret e c);
          case j of
            Inl err \<Rightarrow> ret (Inl err, c)
          | Inr jwtData \<Rightarrow> do {
              d \<leftarrow> ensure_secret e c (dbCredentialsSecretName c) ''DB credentials secret''
                     ''DB Credentials Secret'' (buildDBCredentialsSecret e c);
              case d of
                Inl err \<Rightarrow> ret (Inl err, with_jwt c jwtData)
              | Inr dbData \<Rightarrow> ret (Inr no_requeue, with_credentials c jwtData dbData) } }"

definition secret_healthcheck ::
  "'w env \<Rightarrow> tenant_ctx \<Rightarrow> ('w, bool \<times> string \<times> go_error option) state" where
  "secret_healthcheck e c =
     do { r \<leftarrow> get_secret e (nn (tx_namespace c) (jwtSecretName c));
          case r of
            Inl err \<Rightarrow> ret (False, ''JWT secret not found'', ignore_not_found err)
          | Inr s \<Rightarrow> do {
              r2 \<leftarrow> get_secret e (nn (tx_namespace c) (dbCredentialsSecretName c));
              case r2 of
                Inl err \<Rightarrow> ret (False, ''DB credentials secret not found'', ignore_not_found err)
              | Inr s2 \<Rightarrow> ret (True, ''All secrets exist'', None) } }"

section \<open>The contract of the component\<close>

definition jwt_ref :: "tenant_ctx \<Rightarrow> obj_ref" where
  "jwt_ref c = (KSecret, nn (tx_namespace c) (jwtSecretName c))"

definition db_credentials_ref :: "tenant_ctx \<Rightarrow> obj_ref" where
  "db_credentials_ref c = (KSecret, nn (tx_namespace c) (dbCredentialsSecretName c))"

definition secret_writes :: "tenant_ctx \<Rightarrow> footprint" where
  "secret_writes c = create_sigs (jwt_ref c) \<union> create_sigs (db_credentials_ref c)"

text \<open>A generator returns a secret with the key it is to be created under.\<close>

definition secret_at :: "obj_ref \<Rightarrow> go_error + secret \<Rightarrow> bool" where
  "secret_at q r \<longleftrightarrow> (\<forall>s. r = Inr s \<longrightarrow> obj_ref (OSecret s) = q)"

lemma buildJWTSecret_at: "results (secret_at (jwt_ref c)) (buildJWTSecret e c)"
  unfolding buildJWTSecret_def
  by (intro results_intros) (simp_all add: secret_at_def obj_ref_def jwt_ref_def secret_meta_def)

lemma buildDBCredentialsSecret_at:
  "results (secret_at (db_credentials_ref c)) (buildDBCredentialsSecret e c)"
  unfolding buildDBCredentialsSecret_def
  by (intro results_intros)
    (simp_all add: secret_at_def obj_ref_def db_credentials_ref_def secret_meta_def)

lemma generators_keep:
  assumes st: "stable e A P"
  shows "keeps P (buildJWTSecret e c)" and "keeps P (buildDBCredentialsSecret e c)"
  unfolding buildJWTSecret_def buildDBCredentialsSecret_def GenerateHMACSecret_def
    GenerateAnonKey_def GenerateServiceRoleKey_def generateRoleKey_def GeneratePassword_def
  by (intro keeps_intros stable_effect [OF st])+

lemma ensure_secret_keeps:
  assumes st: "stable e A P" and at: "results (secret_at q) build" and b: "keeps P build"
    and q: "(VCreate, q) \<in> A"
  shows "keeps P (ensure_secret e c n what kd build)"
  unfolding ensure_secret_def
  by (intro keeps_bind [OF stable_get_secret [OF st]] keeps_bind_results [OF at b]
      keeps_bind [OF stable_exec [OF st]] keeps_bind [OF stable_effect(1) [OF st]]
      keeps_case_sum keeps_case_option keeps_if keeps_return)
    (use q in \<open>simp add: secret_at_def\<close>)

lemma secret_reconcile_keeps:
  assumes st: "stable e (secret_writes c) P"
  shows "keeps P (secret_reconcile e c)"
  unfolding secret_reconcile_def
  by (intro keeps_bind keeps_case_sum keeps_return
      ensure_secret_keeps [OF st buildJWTSecret_at] generators_keep [OF st]
      ensure_secret_keeps [OF st buildDBCredentialsSecret_at])
    (simp_all add: secret_writes_def create_sigs_def)

lemma secret_healthcheck_keeps: "stable e {} P \<Longrightarrow> keeps P (secret_healthcheck e c)"
  unfolding secret_healthcheck_def by (intro keeps_intros)

text \<open>The context is the one given but for the credentials, and nothing asks for a requeue.\<close>

lemma secret_reconcile_results:
  "results (\<lambda>(r, c'). tenant_ident c' = tenant_ident c \<and> (\<forall>res. r = Inr res \<longrightarrow> res = no_requeue))
     (secret_reconcile e c)"
  unfolding secret_reconcile_def
  by (intro results_intros) (simp_all add: with_jwt_def with_credentials_def tenant_ident_def)

interpretation secret_comp: component secret_reconcile secret_healthcheck
  tenant_noop_finalize secret_writes "\<lambda>c. {}" tenant_ident
proof unfold_locales
  fix e :: "'w env" and c res c' and w w' :: 'w
  assume run: "run_state (secret_reconcile e c) w = ((Inr res, c'), w')"
  from results_run [OF secret_reconcile_results run] show "cr_requeue_after res = 0"
    by (simp add: no_requeue_def)
next
  fix e :: "'w env" and c r c' and w w' :: 'w
  assume run: "run_state (secret_reconcile e c) w = ((r, c'), w')"
  from results_run [OF secret_reconcile_results run] show "tenant_ident c' = tenant_ident c"
    by simp
qed (simp_all add: secret_reconcile_keeps secret_healthcheck_keeps tenant_noop_finalize_keeps)

end
