(* ===== verification/DatabaseInit.thy ===== *)
theory DatabaseInit
  imports GoStd
begin

text \<open>
  \<open>internal/database\<close>: the SQL scripts embedded in the binary, sorted by file name, each
  rendered as a \<open>text/template\<close> with the parameters of a tenant and joined by newlines. The
  scripts use one construct of the template language, \<open>{{.Field}}\<close>, which \<open>render\<close> executes;
  an unknown field is an execution error, an unclosed action a parse error.
\<close>

record init_params =
  ip_database_name :: string
  ip_jwt_secret :: string
  ip_authenticator_password :: string
  ip_auth_admin_password :: string
  ip_storage_admin_password :: string

definition init_field :: "init_params \<Rightarrow> string \<Rightarrow> string option" where
  "init_field p f =
     (if f = ''DatabaseName'' then Some (ip_database_name p)
      else if f = ''JWTSecret'' then Some (ip_jwt_secret p)
      else if f = ''AuthenticatorPassword'' then Some (ip_authenticator_password p)
      else if f = ''AuthAdminPassword'' then Some (ip_auth_admin_password p)
      else if f = ''StorageAdminPassword'' then Some (ip_storage_admin_password p)
      else None)"

section \<open>Templates\<close>

datatype segment = Text string | Field string

text \<open>
  The parser: literal text up to \<open>{{.\<close>, a field name up to \<open>}}\<close>. The accumulators hold
  the text and the name read so far, in reverse.
\<close>

fun parse_text :: "string \<Rightarrow> string \<Rightarrow> segment list option"
  and parse_field :: "string \<Rightarrow> string \<Rightarrow> segment list option" where
  "parse_text acc [] = Some [Text (rev acc)]"
| "parse_text acc (c # cs) =
     (if c = CHR ''{'' \<and> take 2 cs = ''{.'' then
        map_option ((#) (Text (rev acc))) (parse_field [] (drop 2 cs))
      else parse_text (c # acc) cs)"
| "parse_field acc [] = None"
| "parse_field acc (c # cs) =
     (if c = CHR ''}'' \<and> take 1 cs = ''}'' then
        map_option ((#) (Field (rev acc))) (parse_text [] (drop 1 cs))
      else parse_field (c # acc) cs)"

fun exec_segment :: "init_params \<Rightarrow> segment \<Rightarrow> string option" where
  "exec_segment p (Text t) = Some t"
| "exec_segment p (Field f) = init_field p f"

fun exec_template :: "init_params \<Rightarrow> segment list \<Rightarrow> string option" where
  "exec_template p [] = Some []"
| "exec_template p (s # ss) =
     (case exec_segment p s of
        None \<Rightarrow> None
      | Some t \<Rightarrow> map_option ((@) t) (exec_template p ss))"

section \<open>scripts/*.sql\<close>

definition webhooks_sql :: string where
  "webhooks_sql =
     ''CREATE SCHEMA IF NOT EXISTS supabase_functions;'' @ nl"

definition jwt_sql :: string where
  "jwt_sql =
     ''ALTER DATABASE \"{{.DatabaseName}}\" SET \"app.settings.jwt_secret\" TO '{{.JWTSecret}}';'' @ nl @
     ''ALTER DATABASE \"{{.DatabaseName}}\" SET \"app.settings.jwt_exp\" TO '3600';'' @ nl"

definition realtime_sql :: string where
  "realtime_sql =
     ''CREATE SCHEMA IF NOT EXISTS _realtime;'' @ nl @
     ''GRANT USAGE ON SCHEMA _realtime TO postgres;'' @ nl @
     ''GRANT ALL ON ALL TABLES IN SCHEMA _realtime TO postgres;'' @ nl"

definition roles_sql :: string where
  "roles_sql =
     ''DO $$'' @ nl @
     ''BEGIN'' @ nl @
     ''  IF NOT EXISTS (SELECT FROM pg_roles WHERE rolname = 'anon') THEN CREATE ROLE anon NOLOGIN NOINHERIT; END IF;'' @ nl @
     ''  IF NOT EXISTS (SELECT FROM pg_roles WHERE rolname = 'authenticated') THEN CREATE ROLE authenticated NOLOGIN NOINHERIT; END IF;'' @ nl @
     ''  IF NOT EXISTS (SELECT FROM pg_roles WHERE rolname = 'service_role') THEN CREATE ROLE service_role NOLOGIN NOINHERIT BYPASSRLS; END IF;'' @ nl @
     ''  IF NOT EXISTS (SELECT FROM pg_roles WHERE rolname = 'authenticator') THEN CREATE ROLE authenticator LOGIN PASSWORD '{{.AuthenticatorPassword}}'; ELSE ALTER ROLE authenticator PASSWORD '{{.AuthenticatorPassword}}'; END IF;'' @ nl @
     ''  IF NOT EXISTS (SELECT FROM pg_roles WHERE rolname = 'supabase_auth_admin') THEN CREATE ROLE supabase_auth_admin LOGIN PASSWORD '{{.AuthAdminPassword}}' CREATEROLE; ELSE ALTER ROLE supabase_auth_admin PASSWORD '{{.AuthAdminPassword}}'; END IF;'' @ nl @
     ''  IF NOT EXISTS (SELECT FROM pg_roles WHERE rolname = 'supabase_storage_admin') THEN CREATE ROLE supabase_storage_admin LOGIN PASSWORD '{{.StorageAdminPassword}}'; ELSE ALTER ROLE supabase_storage_admin PASSWORD '{{.StorageAdminPassword}}'; END IF;'' @ nl @
     ''END $$;'' @ nl @
     ''GRANT anon TO authenticator;'' @ nl @
     ''GRANT authenticated TO authenticator;'' @ nl @
     ''GRANT service_role TO authenticator;'' @ nl @
     ''GRANT supabase_auth_admin TO postgres;'' @ nl @
     ''GRANT supabase_storage_admin TO postgres;'' @ nl"

text \<open>The embedded directory: file names and contents, as \<open>scriptFS.ReadDir\<close> lists them.\<close>

definition scriptFS :: "(string \<times> string) list" where
  "scriptFS =
     [(''98-webhooks.sql'', webhooks_sql), (''99-jwt.sql'', jwt_sql),
      (''99-realtime.sql'', realtime_sql), (''99-roles.sql'', roles_sql)]"

section \<open>init.go\<close>

text \<open>One entry: read, parse, execute. The two errors of the loop body.\<close>

definition render_entry :: "init_params \<Rightarrow> string \<times> string \<Rightarrow> go_error + string" where
  "render_entry p ent =
     (case ent of (n, content) \<Rightarrow>
       (case parse_text [] content of
          None \<Rightarrow> Inl (Wrap (''parsing template '' @ n) (ApiOther ''unclosed action''))
        | Some tmpl \<Rightarrow>
            (case exec_template p tmpl of
               None \<Rightarrow> Inl (Wrap (''rendering template '' @ n) (ApiOther ''no such field''))
             | Some out \<Rightarrow> Inr out)))"

fun render_entries :: "init_params \<Rightarrow> (string \<times> string) list \<Rightarrow> go_error + string list" where
  "render_entries p [] = Inr []"
| "render_entries p (x # xs) =
     (case render_entry p x of
        Inl err \<Rightarrow> Inl err
      | Inr out \<Rightarrow>
          (case render_entries p xs of Inl err \<Rightarrow> Inl err | Inr outs \<Rightarrow> Inr (out # outs)))"

definition RenderInitScripts :: "init_params \<Rightarrow> go_error + string list" where
  "RenderInitScripts p = render_entries p (sort_key fst scriptFS)"

definition CombinedInitSQL :: "init_params \<Rightarrow> go_error + string" where
  "CombinedInitSQL p =
     (case RenderInitScripts p of
        Inl err \<Rightarrow> Inl err
      | Inr scripts \<Rightarrow> Inr (join nl scripts))"

end
