(* ===== verification/TenantDatabase.thy ===== *)
theory TenantDatabase
  imports TenantServices DatabaseInit
begin

text \<open>
  \<open>internal/components/tenant/database.go\<close>: the CloudNativePG Database of a tenant and the Job
  that initializes it, both in the platform's namespace and both created when absent;
  finalizing deletes what it finds of them.
\<close>

definition componentTenantDatabase :: string where "componentTenantDatabase = ''database''"

definition defaultPostgresImage :: string where
  "defaultPostgresImage = ''supabase/postgres:15.8.1.085''"

definition cnpgDatabaseName :: "tenant_ctx \<Rightarrow> string" where
  "cnpgDatabaseName c = om_name (sb_meta (tx_supabase c)) @ ''-db-'' @ TenantID c"

definition initJobName :: "tenant_ctx \<Rightarrow> string" where
  "initJobName c = om_name (sb_meta (tx_supabase c)) @ ''-db-init-'' @ TenantID c"

definition tenant_clusterName :: "tenant_ctx \<Rightarrow> string" where
  "tenant_clusterName c = om_name (sb_meta (tx_supabase c)) @ ''-db''"

definition buildCNPGDatabase :: "tenant_ctx \<Rightarrow> cnpg_database" where
  "buildCNPGDatabase c =
     \<lparr>cdb_meta = mk_meta (platform_ns c) (cnpgDatabaseName c)
                   (TenantLabels (TInstanceName c) (TenantID c) componentTenantDatabase),
      cdb_name = TenantID c,
      cdb_owner = ''postgres'',
      cdb_cluster = tenant_clusterName c,
      cdb_applied = None,
      cdb_message = ''''\<rparr>"

definition init_params_of :: "tenant_ctx \<Rightarrow> init_params" where
  "init_params_of c =
     \<lparr>ip_database_name = tx_database_name c,
      ip_jwt_secret = tx_jwt_secret c,
      ip_authenticator_password = tx_database_password c,
      ip_auth_admin_password = tx_database_password c,
      ip_storage_admin_password = tx_database_password c\<rparr>"

definition init_job_image :: "tenant_ctx \<Rightarrow> string" where
  "init_job_image c =
     (let image = dbs_image_name (sp_database (sb_spec (tx_supabase c)))
      in if image = '''' then defaultPostgresImage else image)"

definition buildInitJob :: "tenant_ctx \<Rightarrow> go_error + job" where
  "buildInitJob c =
     (let labels = TenantLabels (TInstanceName c) (TenantID c) componentTenantDatabase
      in case CombinedInitSQL (init_params_of c) of
           Inl err \<Rightarrow> Inl (Wrap ''rendering init SQL'' err)
         | Inr initSQL \<Rightarrow>
             Inr \<lparr>job_meta = mk_meta (platform_ns c) (initJobName c) labels,
                  job_backoff_limit = Some 3,
                  job_template =
                    \<lparr>pt_labels = labels,
                     pt_annotations = Map.empty,
                     pt_restart_policy = RestartPolicyOnFailure,
                     pt_containers =
                       [\<lparr>ct_name = ''init-db'',
                         ct_image = init_job_image c,
                         ct_command =
                           [''psql'', ''-h'', tx_database_host c, ''-p'', tx_database_port c,
                            ''-U'', ''postgres'', ''-d'', tx_database_name c, ''-c'', initSQL],
                         ct_args = [],
                         ct_ports = [],
                         ct_env = [env_var ''PGPASSWORD'' (tx_database_password c)],
                         ct_resources = no_resources,
                         ct_mounts = []\<rparr>],
                     pt_volumes = []\<rparr>,
                  job_succeeded = 0, job_active = 0, job_failed = 0\<rparr>)"

definition ensure_init_job :: "'w env \<Rightarrow> tenant_ctx \<Rightarrow> ('w, go_error option) state" where
  "ensure_init_job e c =
     (case buildInitJob c of
        Inl jobErr \<Rightarrow> ret (Some jobErr)
      | Inr desiredJob \<Rightarrow>
          create_if_absent e (get_job e) OJob ''init Job''
            (created_event (tenant_ref (tx_tenant c)) ''init Job'' (om_name (job_meta desiredJob)))
            desiredJob)"

definition database_reconcile ::
  "'w env \<Rightarrow> tenant_ctx \<Rightarrow> ('w, (go_error + ctrl_result) \<times> tenant_ctx) state" where
  "database_reconcile e c =
     result_of c
       (and_then
         (create_if_absent e (get_database e) ODatabase ''CNPG Database''
            (created_event (tenant_ref (tx_tenant c)) ''CNPG Database''
               (om_name (cdb_meta (buildCNPGDatabase c))))
            (buildCNPGDatabase c))
         (ensure_init_job e c))"

definition database_healthcheck ::
  "'w env \<Rightarrow> tenant_ctx \<Rightarrow> ('w, bool \<times> string \<times> go_error option) state" where
  "database_healthcheck e c =
     do { r \<leftarrow> get_database e (nn (platform_ns c) (cnpgDatabaseName c));
          case r of
            Inl err \<Rightarrow> ret (False, ''CNPG Database not found'', ignore_not_found err)
          | Inr db \<Rightarrow>
              if cdb_applied db = Some False then
                ret (False, ''CNPG Database not applied: '' @ cdb_message db, None)
              else do {
                r2 \<leftarrow> get_job e (nn (platform_ns c) (initJobName c));
                case r2 of
                  Inl err \<Rightarrow> ret (False, ''Init Job not found'', ignore_not_found err)
                | Inr j \<Rightarrow>
                    if job_succeeded j > 0 then ret (True, ''Database initialized'', None)
                    else ret (False, ''Init Job not yet succeeded (active='' @ itoa (job_active j) @
                                '', failed='' @ itoa (job_failed j) @ '')'', None) } }"

text \<open>
  One deletion of \<open>Finalize\<close>: an object that cannot be read, for whatever reason, is passed
  over.
\<close>

definition delete_if_found ::
  "'w env \<Rightarrow> (obj_key \<Rightarrow> ('w, go_error + 'x) state) \<Rightarrow> ('x \<Rightarrow> obj) \<Rightarrow> string \<Rightarrow> obj_key \<Rightarrow>
     ('w, go_error option) state" where
  "delete_if_found e g mk what k =
     do { r \<leftarrow> g k;
          case r of
            Inl err \<Rightarrow> ret None
          | Inr x \<Rightarrow>
              do { d \<leftarrow> exec e (Delete (mk x));
                   case d of
                     Some delErr \<Rightarrow> ret (Some (Wrap (''deleting '' @ what) delErr))
                   | None \<Rightarrow> ret None } }"

definition database_finalize :: "'w env \<Rightarrow> tenant_ctx \<Rightarrow> ('w, go_error option) state" where
  "database_finalize e c =
     and_then
       (delete_if_found e (get_database e) ODatabase ''CNPG Database''
          (nn (platform_ns c) (cnpgDatabaseName c)))
       (delete_if_found e (get_job e) OJob ''init Job'' (nn (platform_ns c) (initJobName c)))"

section \<open>The contract of the component\<close>

definition database_ref :: "tenant_ctx \<Rightarrow> obj_ref" where
  "database_ref c = (KDatabase, nn (platform_ns c) (cnpgDatabaseName c))"

definition init_job_ref :: "tenant_ctx \<Rightarrow> obj_ref" where
  "init_job_ref c = (KJob, nn (platform_ns c) (initJobName c))"

definition database_writes :: "tenant_ctx \<Rightarrow> footprint" where
  "database_writes c = create_sigs (database_ref c) \<union> create_sigs (init_job_ref c)"

definition database_deletes :: "tenant_ctx \<Rightarrow> footprint" where
  "database_deletes c = {(VDelete, database_ref c), (VDelete, init_job_ref c)}"

lemma buildCNPGDatabase_ref [key_simps]: "obj_ref (ODatabase (buildCNPGDatabase c)) = database_ref c"
  by (simp add: obj_ref_def buildCNPGDatabase_def database_ref_def)

lemma buildInitJob_ref: "buildInitJob c = Inr j \<Longrightarrow> obj_ref (OJob j) = init_job_ref c"
  by (auto simp: buildInitJob_def Let_def obj_ref_def init_job_ref_def split: sum.splits)

lemma database_reconcile_keeps:
  assumes st: "stable e (database_writes c) P"
  shows "keeps P (database_reconcile e c)"
  unfolding database_reconcile_def ensure_init_job_def
  by (intro keeps_intros keeps_create_if_absent [OF st] stable_get_database [OF st]
      stable_get_job [OF st])
    (simp_all add: key_simps buildInitJob_ref database_writes_def create_sigs_def)

lemma database_healthcheck_keeps: "stable e {} P \<Longrightarrow> keeps P (database_healthcheck e c)"
  unfolding database_healthcheck_def by (intro keeps_intros)

lemma delete_if_found_keeps:
  assumes st: "stable e A P" and key: "reads_key (\<lambda>x. obj_meta (mk x)) g" and g: "keeps P (g k)"
    and kind: "\<And>x. obj_kind (mk x) = K" and A: "(VDelete, (K, k)) \<in> A"
  shows "keeps P (delete_if_found e g mk what k)"
  unfolding delete_if_found_def
  by (intro get_then [OF key] keeps_intros g stable_exec [OF st])
    (simp add: obj_ref_def kind A)

lemma database_finalize_keeps:
  assumes e: "client_laws e" and st: "stable e (database_deletes c) P"
  shows "keeps P (database_finalize e c)"
  unfolding database_finalize_def
  by (intro keeps_and_then delete_if_found_keeps [OF st, where K = KDatabase]
      delete_if_found_keeps [OF st, where K = KJob] stable_get_database [OF st]
      stable_get_job [OF st])
    (simp_all add: client_reads_key [OF e] database_deletes_def database_ref_def init_job_ref_def)

lemma database_plain: "plain_result c (database_reconcile e c)"
  unfolding database_reconcile_def by (intro plain_intros)

interpretation database_comp: component database_reconcile database_healthcheck
  database_finalize database_writes database_deletes tenant_ident
  by (rule component_plainI)
    (simp_all add: database_reconcile_keeps database_healthcheck_keeps database_finalize_keeps
      database_plain)

end
