(* ===== verification/TenantRouting.thy ===== *)
theory TenantRouting
  imports TenantServices
begin

text \<open>
  \<open>internal/components/tenant/routing.go\<close>: the HTTPRoute of a tenant, in the platform's
  namespace, from the tenant's hostname to the five services by path prefix. It is deleted
  while the tenant is suspended and when the tenant is finalized.
\<close>

definition componentRouting :: string where "componentRouting = ''routing''"

definition httpRouteName :: "tenant_ctx \<Rightarrow> string" where
  "httpRouteName c = TenantID c @ ''-routes''"

record route_target =
  rt_path_prefix :: string
  rt_service_name :: string
  rt_port :: int

definition route_targets :: "string \<Rightarrow> route_target list" where
  "route_targets tenantID =
     [\<lparr>rt_path_prefix = ''/auth/v1'', rt_service_name = tenantID @ ''-auth'', rt_port = 9999\<rparr>,
      \<lparr>rt_path_prefix = ''/rest/v1'', rt_service_name = tenantID @ ''-rest'', rt_port = 3000\<rparr>,
      \<lparr>rt_path_prefix = ''/realtime/v1'', rt_service_name = tenantID @ ''-realtime'', rt_port = 4000\<rparr>,
      \<lparr>rt_path_prefix = ''/storage/v1'', rt_service_name = tenantID @ ''-storage'', rt_port = 5000\<rparr>,
      \<lparr>rt_path_prefix = ''/functions/v1'', rt_service_name = tenantID @ ''-functions'', rt_port = 9000\<rparr>]"

definition route_rule_of :: "string \<Rightarrow> route_target \<Rightarrow> route_rule" where
  "route_rule_of tenantNS t =
     \<lparr>ru_matches = [\<lparr>pm_type = PathMatchPathPrefix, pm_value = rt_path_prefix t\<rparr>],
      ru_backends = [\<lparr>br_name = rt_service_name t, br_namespace = Some tenantNS,
                      br_port = Some (rt_port t)\<rparr>]\<rparr>"

definition buildHTTPRoute :: "tenant_ctx \<Rightarrow> http_route" where
  "buildHTTPRoute c =
     \<lparr>hr_meta = mk_meta (platform_ns c) (httpRouteName c)
                  (TenantLabels (TInstanceName c) (TenantID c) componentRouting),
      hr_spec =
        \<lparr>rs_parents = [\<lparr>pr_name = om_name (sb_meta (tx_supabase c)) @ ''-gateway'',
                        pr_namespace = Some (platform_ns c)\<rparr>],
         rs_hostnames = [TenantID c @ ''.'' @ BaseDomain c],
         rs_rules = map (route_rule_of (tx_namespace c)) (route_targets (TenantID c))\<rparr>\<rparr>"

definition mergeHTTPRoute :: "http_route \<Rightarrow> http_route \<Rightarrow> http_route" where
  "mergeHTTPRoute desired existing =
     existing
       \<lparr>hr_spec := hr_spec desired,
        hr_meta := (hr_meta existing)\<lparr>om_labels := om_labels (hr_meta desired)\<rparr>\<rparr>"

definition deleteHTTPRoute :: "'w env \<Rightarrow> tenant_ctx \<Rightarrow> ('w, go_error option) state" where
  "deleteHTTPRoute e c =
     do { r \<leftarrow> get_http_route e (nn (platform_ns c) (httpRouteName c));
          case r of
            Inl err \<Rightarrow> ret (ignore_not_found err)
          | Inr route \<Rightarrow> exec e (Delete (OHTTPRoute route)) }"

definition routing_reconcile ::
  "'w env \<Rightarrow> tenant_ctx \<Rightarrow> ('w, (go_error + ctrl_result) \<times> tenant_ctx) state" where
  "routing_reconcile e c =
     (if suspended c then result_of c (deleteHTTPRoute e c)
      else result_of c
        (create_or_patch e (get_http_route e) OHTTPRoute ''HTTPRoute''
           (created_event (tenant_ref (tx_tenant c)) ''HTTPRoute''
              (om_name (hr_meta (buildHTTPRoute c))))
           (mergeHTTPRoute (buildHTTPRoute c)) (buildHTTPRoute c)))"

definition routing_healthcheck ::
  "'w env \<Rightarrow> tenant_ctx \<Rightarrow> ('w, bool \<times> string \<times> go_error option) state" where
  "routing_healthcheck e c =
     (if suspended c then ret (True, ''suspended'', None)
      else do {
        r \<leftarrow> get_http_route e (nn (platform_ns c) (httpRouteName c));
        case r of
          Inl err \<Rightarrow> ret (False, ''HTTPRoute not found'', ignore_not_found err)
        | Inr route \<Rightarrow> ret (True, ''HTTPRoute exists'', None) })"

definition routing_finalize :: "'w env \<Rightarrow> tenant_ctx \<Rightarrow> ('w, go_error option) state" where
  "routing_finalize e c = deleteHTTPRoute e c"

section \<open>The contract of the component\<close>

definition route_ref :: "tenant_ctx \<Rightarrow> obj_ref" where
  "route_ref c = (KHTTPRoute, nn (platform_ns c) (httpRouteName c))"

definition routing_writes :: "tenant_ctx \<Rightarrow> footprint" where
  "routing_writes c =
     (if suspended c then {(VDelete, route_ref c)} else upsert_sigs (route_ref c))"

lemma route_keys [key_simps]:
  "obj_ref (OHTTPRoute (buildHTTPRoute c)) = route_ref c"
  "meta_key (hr_meta (mergeHTTPRoute d x)) = meta_key (hr_meta x)"
  by (simp_all add: obj_ref_def buildHTTPRoute_def route_ref_def mergeHTTPRoute_def)

lemma deleteHTTPRoute_keeps:
  assumes e: "client_laws e" and st: "stable e A P" and A: "(VDelete, route_ref c) \<in> A"
  shows "keeps P (deleteHTTPRoute e c)"
  unfolding deleteHTTPRoute_def
  by (intro get_then [OF client_reads_key(9) [OF e]] keeps_intros stable_exec [OF st]
      stable_get_http_route [OF st])
    (use A in \<open>simp add: obj_ref_def route_ref_def\<close>)

lemma routing_reconcile_keeps:
  assumes e: "client_laws e" and st: "stable e (routing_writes c) P"
  shows "keeps P (routing_reconcile e c)"
  unfolding routing_reconcile_def
  by (intro keeps_intros keeps_create_or_patch [OF st] deleteHTTPRoute_keeps [OF e st]
      stable_get_http_route [OF st])
    (simp_all add: client_reads_key [OF e] key_simps routing_writes_def)

lemma routing_healthcheck_keeps: "stable e {} P \<Longrightarrow> keeps P (routing_healthcheck e c)"
  unfolding routing_healthcheck_def by (intro keeps_intros)

lemma routing_finalize_keeps:
  assumes e: "client_laws e" and st: "stable e {(VDelete, route_ref c)} P"
  shows "keeps P (routing_finalize e c)"
  unfolding routing_finalize_def by (rule deleteHTTPRoute_keeps [OF e st]) simp

lemma routing_plain: "plain_result c (routing_reconcile e c)"
  unfolding routing_reconcile_def by (intro plain_intros)

interpretation routing_comp: component routing_reconcile routing_healthcheck
  routing_finalize routing_writes "\<lambda>c. {(VDelete, route_ref c)}" tenant_ident
  by (rule component_plainI)
    (simp_all add: routing_reconcile_keeps routing_healthcheck_keeps routing_finalize_keeps
      routing_plain)

end
