(* ===== verification/TenantController.thy ===== *)
theory TenantController
  imports ControllerLoop TenantNamespace TenantSecret TenantDatabase TenantRouting
begin

text \<open>
  \<open>internal/controller/supabasetenant_controller.go\<close>: the reconciler of a tenant. One call
  adds the finalizer, or finalizes a tenant that is being deleted, or runs the pipeline:
  namespace, secrets and database in order, each gating what follows, then the five services
  and the route, then status and metrics.
\<close>

definition tenantFinalizer :: string where
  "tenantFinalizer = ''supabase.codanael.io/tenant-finalizer''"

section \<open>Components\<close>

definition NewNamespaceComponent :: "'w env \<Rightarrow> ('w, tenant_ctx) component" where
  "NewNamespaceComponent e =
     \<lparr>comp_name = componentNamespace, comp_reconcile = namespace_reconcile e,
      comp_healthcheck = namespace_healthcheck e, comp_finalize = namespace_finalize e\<rparr>"

definition NewSecretComponent :: "'w env \<Rightarrow> ('w, tenant_ctx) component" where
  "NewSecretComponent e =
     \<lparr>comp_name = componentSecrets, comp_reconcile = secret_reconcile e,
      comp_healthcheck = secret_healthcheck e, comp_finalize = tenant_noop_finalize e\<rparr>"

definition NewDatabaseComponent :: "'w env \<Rightarrow> ('w, tenant_ctx) component" where
  "NewDatabaseComponent e =
     \<lparr>comp_name = componentTenantDatabase, comp_reconcile = database_reconcile e,
      comp_healthcheck = database_healthcheck e, comp_finalize = database_finalize e\<rparr>"

definition NewRoutingComponent :: "'w env \<Rightarrow> ('w, tenant_ctx) component" where
  "NewRoutingComponent e =
     \<lparr>comp_name = componentRouting, comp_reconcile = routing_reconcile e,
      comp_healthcheck = routing_healthcheck e, comp_finalize = routing_finalize e\<rparr>"

text \<open>\<open>NewAuth\<close> and the like wrap their builder in a \<open>ServiceComponent\<close>.\<close>

definition NewTenantService :: "tenant_builder \<Rightarrow> 'w env \<Rightarrow> ('w, tenant_ctx) component" where
  "NewTenantService b e =
     \<lparr>comp_name = tb_component_name b, comp_reconcile = tenant_service_reconcile b e,
      comp_healthcheck = tenant_service_healthcheck b e, comp_finalize = tenant_noop_finalize e\<rparr>"

definition prereqComponents :: "'w env \<Rightarrow> (('w, tenant_ctx) component \<times> string) list" where
  "prereqComponents e =
     [(NewNamespaceComponent e, TenantConditionNamespaceReady),
      (NewSecretComponent e, TenantConditionSecretsReady),
      (NewDatabaseComponent e, TenantConditionDatabaseReady)]"

definition tenantBuilders :: "(tenant_builder \<times> string) list" where
  "tenantBuilders =
     [(AuthBuilder, TenantConditionAuthReady),
      (RESTBuilder, TenantConditionRESTReady),
      (RealtimeBuilder, TenantConditionRealtimeReady),
      (StorageBuilder, TenantConditionStorageReady),
      (FunctionsBuilder, TenantConditionFunctionsReady)]"

definition tenantServiceComponents :: "'w env \<Rightarrow> (('w, tenant_ctx) component \<times> string) list" where
  "tenantServiceComponents e = map (\<lambda>(b, t). (NewTenantService b e, t)) tenantBuilders"

definition finalizers :: "'w env \<Rightarrow> ('w, tenant_ctx) component list" where
  "finalizers e = [NewRoutingComponent e, NewDatabaseComponent e, NewNamespaceComponent e]"

section \<open>Status\<close>

definition with_tenant_conditions :: "supabase_tenant \<Rightarrow> condition list \<Rightarrow> supabase_tenant" where
  "with_tenant_conditions t cs = t\<lparr>tc_status := (tc_status t)\<lparr>tst_conditions := cs\<rparr>\<rparr>"

definition with_tenant_phase :: "supabase_tenant \<Rightarrow> string \<Rightarrow> supabase_tenant" where
  "with_tenant_phase t ph = t\<lparr>tc_status := (tc_status t)\<lparr>tst_phase := ph\<rparr>\<rparr>"

definition with_tenant_observed :: "supabase_tenant \<Rightarrow> supabase_tenant" where
  "with_tenant_observed t =
     t\<lparr>tc_status := (tc_status t)\<lparr>tst_observed_generation := om_generation (tc_meta t)\<rparr>\<rparr>"

definition with_finalizers :: "supabase_tenant \<Rightarrow> string list \<Rightarrow> supabase_tenant" where
  "with_finalizers t fs = t\<lparr>tc_meta := (tc_meta t)\<lparr>om_finalizers := fs\<rparr>\<rparr>"

text \<open>
  The verb \<open>%q\<close> of \<open>fmt\<close>: double quotes, with the escapes of \<open>strconv.Quote\<close> for ASCII; a
  byte of a longer UTF-8 sequence stands for itself.
\<close>

definition quote_char :: "char \<Rightarrow> string" where
  "quote_char ch =
     (let n = of_char ch :: nat in
      if n = 34 then [CHR 0x5C, CHR 0x22]
      else if n = 92 then [CHR 0x5C, CHR 0x5C]
      else if n = 7 then [CHR 0x5C, CHR ''a'']
      else if n = 8 then [CHR 0x5C, CHR ''b'']
      else if n = 12 then [CHR 0x5C, CHR ''f'']
      else if n = 10 then [CHR 0x5C, CHR ''n'']
      else if n = 13 then [CHR 0x5C, CHR ''r'']
      else if n = 9 then [CHR 0x5C, CHR ''t'']
      else if n = 11 then [CHR 0x5C, CHR ''v'']
      else if n < 32 \<or> n = 127 then [CHR 0x5C, CHR ''x''] @ hex_byte (of_char ch)
      else [ch])"

definition quote :: "string \<Rightarrow> string" where
  "quote s = [CHR 0x22] @ concat (map quote_char s) @ [CHR 0x22]"

section \<open>The pipeline\<close>

text \<open>
  \<open>reconcileTenantComponent\<close>: (ready, hasError), the tenant with its conditions updated, and
  the context, whose tenant is the same object.
\<close>

definition reconcileTenantComponent ::
  "'w env \<Rightarrow> supabase_tenant \<Rightarrow> tenant_ctx \<Rightarrow> ('w, tenant_ctx) component \<Rightarrow> string \<Rightarrow>
     ('w, (bool \<times> bool) \<times> supabase_tenant \<times> tenant_ctx) state" where
  "reconcileTenantComponent e t c cp condType =
     do { (r, conds, c) \<leftarrow> reconcile_component e (om_generation (tc_meta t)) cp condType
                          (tst_conditions (tc_status t)) (c\<lparr>tx_tenant := t\<rparr>);
          ret (r, with_tenant_conditions t conds, c) }"

text \<open>The loop over the prerequisites: whether all are ready; it stops at the first that is not.\<close>

fun reconcile_prereqs ::
  "'w env \<Rightarrow> (('w, tenant_ctx) component \<times> string) list \<Rightarrow> supabase_tenant \<Rightarrow> tenant_ctx \<Rightarrow>
     ('w, bool \<times> supabase_tenant \<times> tenant_ctx) state" where
  "reconcile_prereqs e [] t c = ret (True, t, c)"
| "reconcile_prereqs e ((cp, condition) # pcs) t c =
     do { ((ready, hasErr), t, c) \<leftarrow> reconcileTenantComponent e t c cp condition;
          if hasErr \<or> \<not> ready then ret (False, t, c)
          else reconcile_prereqs e pcs t c }"

fun reconcile_tenant_services ::
  "'w env \<Rightarrow> (('w, tenant_ctx) component \<times> string) list \<Rightarrow> bool \<Rightarrow> supabase_tenant \<Rightarrow> tenant_ctx \<Rightarrow>
     ('w, bool \<times> supabase_tenant \<times> tenant_ctx) state" where
  "reconcile_tenant_services e [] allServicesReady t c = ret (allServicesReady, t, c)"
| "reconcile_tenant_services e ((cp, condition) # scs) allServicesReady t c =
     do { ((ready, _), t, c) \<leftarrow> reconcileTenantComponent e t c cp condition;
          reconcile_tenant_services e scs (if \<not> ready then False else allServicesReady) t c }"

definition tenant_phase :: "bool \<Rightarrow> bool \<Rightarrow> string" where
  "tenant_phase is_suspended allReady =
     (if is_suspended then TenantPhaseSuspended
      else if allReady then TenantPhaseReady
      else TenantPhaseProvisioning)"

text \<open>The loop over the listed tenants: total, ready, suspended.\<close>

fun count_tenants :: "supabase_tenant list \<Rightarrow> int \<times> int \<times> int \<Rightarrow> int \<times> int \<times> int" where
  "count_tenants [] counts = counts"
| "count_tenants (t # ts) (n, ready, susp) =
     count_tenants ts
       (n + 1,
        if tst_phase (tc_status t) = TenantPhaseReady then ready + 1 else ready,
        if tst_phase (tc_status t) = TenantPhaseSuspended then susp + 1 else susp)"

definition update_tenant_metrics :: "'w env \<Rightarrow> ('w, unit) state" where
  "update_tenant_metrics e =
     do { l \<leftarrow> list_tenants e;
          case l of
            Inl err \<Rightarrow> ret ()
          | Inr ts \<Rightarrow>
              (case count_tenants ts (0, 0, 0) of
                 (n, ready, susp) \<Rightarrow> do {
                   set_gauge e TenantsTotal n;
                   set_gauge e TenantsReady ready;
                   set_gauge e TenantsSuspended susp }) }"

text \<open>Steps 7 to 11 of \<open>Reconcile\<close>, once the prerequisites are ready.\<close>

definition final_status :: "supabase_tenant \<Rightarrow> tenant_ctx \<Rightarrow> supabase \<Rightarrow> string \<Rightarrow> supabase_tenant" where
  "final_status t c sb phase =
     t\<lparr>tc_status := (tc_status t)
          \<lparr>tst_phase := phase,
           tst_namespace := tx_namespace c,
           tst_endpoint := tn_id (tc_spec t) @ ''.'' @ gws_base_domain (sp_gateway (sb_spec sb)),
           tst_observed_generation := om_generation (tc_meta t)\<rparr>\<rparr>"

definition reconcile_phases ::
  "'w env \<Rightarrow> supabase_tenant \<Rightarrow> supabase_tenant \<Rightarrow> supabase \<Rightarrow> tenant_ctx \<Rightarrow>
     ('w, reconcile_return \<times> string) state" where
  "reconcile_phases e statusPatch t sb c =
     do { (allServicesReady, t, c) \<leftarrow>
            reconcile_tenant_services e (tenantServiceComponents e) True t c;
          ((routingReady, _), t, c) \<leftarrow>
            reconcileTenantComponent e t c (NewRoutingComponent e) TenantConditionRoutingReady;
          let phase = tenant_phase (tn_suspended (tc_spec t)) (allServicesReady \<and> routingReady);
          p \<leftarrow> exec e (StatusPatch (OTenant statusPatch) (OTenant (final_status t c sb phase)));
          case p of
            Some err \<Rightarrow> ret ((no_requeue, Some err), ''error'')
          | None \<Rightarrow> do {
              update_tenant_metrics e;
              ret ((if phase = TenantPhaseReady then requeue_after (5 * minute)
                    else requeue_after (15 * second), None), ''success'') } }"

section \<open>Finalization\<close>

text \<open>Whether all components were finalized; it stops at the first that fails.\<close>

fun run_finalizers ::
  "('w, tenant_ctx) component list \<Rightarrow> tenant_ctx \<Rightarrow> ('w, bool) state" where
  "run_finalizers [] c = ret True"
| "run_finalizers (cp # cps) c =
     do { r \<leftarrow> comp_finalize cp c;
          case r of
            Some err \<Rightarrow> ret False
          | None \<Rightarrow> run_finalizers cps c }"

definition without_finalizer :: "'w env \<Rightarrow> supabase_tenant \<Rightarrow> supabase_tenant" where
  "without_finalizer e t =
     with_finalizers t (remove_finalizer e (om_finalizers (tc_meta t)) tenantFinalizer)"

definition supabase_key :: "supabase_tenant \<Rightarrow> obj_key" where
  "supabase_key t = nn (om_namespace (tc_meta t)) (tn_supabase_ref (tc_spec t))"

definition finalize ::
  "'w env \<Rightarrow> supabase_tenant \<Rightarrow> supabase_tenant \<Rightarrow> ('w, reconcile_return) state" where
  "finalize e t statusPatch =
     (if \<not> contains_finalizer e (om_finalizers (tc_meta t)) tenantFinalizer
      then ret (no_requeue, None)
      else do {
        let t = with_tenant_phase t TenantPhaseDeleting;
        _ \<leftarrow> exec e (StatusPatch (OTenant statusPatch) (OTenant t));
        g \<leftarrow> get_supabase e (supabase_key t);
        case g of
          Inl err \<Rightarrow> do {
            u \<leftarrow> exec e (Update (OTenant (without_finalizer e t)));
            ret (no_requeue, u) }
        | Inr sb \<Rightarrow> do {
            finalized \<leftarrow> run_finalizers (finalizers e) (NewTenantContext t sb);
            if \<not> finalized then ret (requeue_after (10 * second), None)
            else do {
              u \<leftarrow> exec e (Update (OTenant (without_finalizer e t)));
              ret (no_requeue, u) } } })"

section \<open>Reconcile\<close>

text \<open>Step 4 when the parent platform cannot be read.\<close>

definition unresolved_status :: "'w env \<Rightarrow> supabase_tenant \<Rightarrow> go_error \<Rightarrow> supabase_tenant" where
  "unresolved_status e t err =
     (let t = with_tenant_phase t TenantPhaseError
      in with_tenant_conditions t
           (set_status_condition e (tst_conditions (tc_status t))
              (mk_condition ''Ready'' CondFalse ''SupabaseRefNotFound''
                 (''Cannot resolve supabaseRef '' @ quote (tn_supabase_ref (tc_spec t)) @ '': '' @
                  err_msg err)
                 (om_generation (tc_meta t)))))"

text \<open>Steps 4 to 11, for a tenant that has the finalizer and is not being deleted.\<close>

definition reconcile_active ::
  "'w env \<Rightarrow> supabase_tenant \<Rightarrow> ('w, reconcile_return \<times> string) state" where
  "reconcile_active e t =
     do { g \<leftarrow> get_supabase e (supabase_key t);
          case g of
            Inl err \<Rightarrow> do {
              _ \<leftarrow> exec e (StatusPatch (OTenant t) (OTenant (unresolved_status e t err)));
              ret ((requeue_after (15 * second), None), ''success'') }
          | Inr sb \<Rightarrow> do {
              (ok, t', c) \<leftarrow> reconcile_prereqs e (prereqComponents e) t (NewTenantContext t sb);
              if \<not> ok then do {
                _ \<leftarrow> exec e (StatusPatch (OTenant t)
                       (OTenant (with_tenant_observed (with_tenant_phase t' TenantPhaseProvisioning))));
                ret ((requeue_after (10 * second), None), ''success'') }
              else reconcile_phases e t t' sb c } }"

text \<open>Steps 2 to 11, for the tenant that was read.\<close>

definition reconcile_found ::
  "'w env \<Rightarrow> supabase_tenant \<Rightarrow> ('w, reconcile_return \<times> string) state" where
  "reconcile_found e t =
     (if om_deletion (tc_meta t) \<noteq> None then do {
        r \<leftarrow> finalize e t t;
        ret (r, ''success'') }
      else if \<not> contains_finalizer e (om_finalizers (tc_meta t)) tenantFinalizer then do {
        u \<leftarrow> exec e (Update (OTenant (with_finalizers t
               (add_finalizer e (om_finalizers (tc_meta t)) tenantFinalizer))));
        case u of
          Some err \<Rightarrow> ret ((no_requeue, Some err), ''success'')
        | None \<Rightarrow> ret ((no_requeue\<lparr>cr_requeue := True\<rparr>, None), ''success'') }
      else reconcile_active e t)"

text \<open>
  The body of \<open>Reconcile\<close> returns its result with the label of the deferred duration metric.
\<close>

definition tenant_reconcile_body ::
  "'w env \<Rightarrow> obj_key \<Rightarrow> ('w, reconcile_return \<times> string) state" where
  "tenant_reconcile_body e req =
     do { g \<leftarrow> get_tenant e req;
          case g of
            Inl err \<Rightarrow>
              if is_not_found err then ret ((no_requeue, None), ''success'')
              else ret ((no_requeue, Some err), ''success'')
          | Inr t \<Rightarrow> reconcile_found e t }"

definition Tenant_Reconcile :: "'w env \<Rightarrow> obj_key \<Rightarrow> ('w, reconcile_return) state" where
  "Tenant_Reconcile e req =
     do { (r, reconcileResult) \<leftarrow> tenant_reconcile_body e req;
          observe_reconcile e ''supabasetenant'' reconcileResult;
          ret r }"

section \<open>mapByTenantLabel\<close>

fun find_tenant :: "string \<Rightarrow> supabase_tenant list \<Rightarrow> obj_key list" where
  "find_tenant tenantID [] = []"
| "find_tenant tenantID (t # ts) =
     (if tn_id (tc_spec t) = tenantID then [meta_key (tc_meta t)] else find_tenant tenantID ts)"

definition mapByTenantLabel :: "'w env \<Rightarrow> obj \<Rightarrow> ('w, obj_key list) state" where
  "mapByTenantLabel e x =
     (let tenantID = (case om_labels (obj_meta x) ''supabase.codanael.io/tenant'' of
                        None \<Rightarrow> '''' | Some s \<Rightarrow> s)
      in if tenantID = '''' then ret []
         else do {
           l \<leftarrow> list_tenants e;
           case l of
             Inl err \<Rightarrow> ret []
           | Inr ts \<Rightarrow> ret (find_tenant tenantID ts) })"

section \<open>Loops over listed tenants\<close>

abbreviation tenant_key :: "supabase_tenant \<Rightarrow> obj_key" where
  "tenant_key t \<equiv> meta_key (tc_meta t)"

abbreviation tenant_id :: "supabase_tenant \<Rightarrow> string" where
  "tenant_id t \<equiv> tn_id (tc_spec t)"

lemma count_tenants_counts:
  "count_tenants ts (n, ready, susp) =
     (n + int (length ts),
      ready + int (length (filter (\<lambda>t. tst_phase (tc_status t) = TenantPhaseReady) ts)),
      susp + int (length (filter (\<lambda>t. tst_phase (tc_status t) = TenantPhaseSuspended) ts)))"
  by (induction ts arbitrary: n ready susp) simp_all

lemma find_tenant_find:
  "find_tenant tid ts = (case find (\<lambda>t. tenant_id t = tid) ts of
     None \<Rightarrow> [] | Some t \<Rightarrow> [tenant_key t])"
  by (induction ts) simp_all

end
