(* ===== verification/TenantFootprint.thy ===== *)
theory TenantFootprint
  imports TenantController
begin

text \<open>
  Which objects belong to a tenant, and what one pass over it may write: the loops of the
  controller are sequences of component steps, each step stays within the footprint of its
  component, and the footprint of a tenant avoids what belongs to another tenant.
\<close>

section \<open>The objects of a tenant\<close>

text \<open>
  The identity of a tenant is its key, the platform it refers to and its identifier; all the
  objects it writes are named by it.
\<close>

definition tenant_namespace :: "supabase_tenant \<Rightarrow> string" where
  "tenant_namespace t = ''supabase-'' @ tenant_id t"

text \<open>The namespace of the platform, where the database objects and the route are.\<close>

definition home_namespace :: "supabase_tenant \<Rightarrow> string" where
  "home_namespace t = k_namespace (supabase_key t)"

definition t_namespace_ref :: "supabase_tenant \<Rightarrow> obj_ref" where
  "t_namespace_ref t = (KNamespace, nn '''' (tenant_namespace t))"

definition t_database_ref :: "supabase_tenant \<Rightarrow> obj_ref" where
  "t_database_ref t =
     (KDatabase, nn (home_namespace t) (tn_supabase_ref (tc_spec t) @ ''-db-'' @ tenant_id t))"

definition t_job_ref :: "supabase_tenant \<Rightarrow> obj_ref" where
  "t_job_ref t =
     (KJob, nn (home_namespace t) (tn_supabase_ref (tc_spec t) @ ''-db-init-'' @ tenant_id t))"

definition t_route_ref :: "supabase_tenant \<Rightarrow> obj_ref" where
  "t_route_ref t = (KHTTPRoute, nn (home_namespace t) (tenant_id t @ ''-routes''))"

definition t_local_ref :: "supabase_tenant \<Rightarrow> kind \<Rightarrow> string \<Rightarrow> obj_ref" where
  "t_local_ref t K suffix = (K, nn (tenant_namespace t) (tenant_id t @ suffix))"

definition t_policy_ref :: "supabase_tenant \<Rightarrow> obj_ref" where
  "t_policy_ref t = (KNetworkPolicy, nn (tenant_namespace t) ''deny-cross-tenant'')"

definition workload_suffixes :: "string list" where
  "workload_suffixes = [''-auth'', ''-rest'', ''-realtime'', ''-storage'', ''-functions'']"

text \<open>The prerequisites are only ever created, the workloads also patched.\<close>

definition prereq_footprint :: "supabase_tenant \<Rightarrow> footprint" where
  "prereq_footprint t =
     {VCreate} \<times> {t_namespace_ref t, t_policy_ref t, t_local_ref t KSecret ''-jwt'',
                  t_local_ref t KSecret ''-db-credentials'', t_database_ref t, t_job_ref t}"

definition workload_footprint :: "supabase_tenant \<Rightarrow> footprint" where
  "workload_footprint t =
     {VCreate, VPatch} \<times> ((t_local_ref t KDeployment ` set workload_suffixes) \<union>
                         (t_local_ref t KService ` set workload_suffixes))"

definition route_footprint :: "supabase_tenant \<Rightarrow> footprint" where
  "route_footprint t =
     (if tn_suspended (tc_spec t) then {VDelete} else {VCreate, VPatch}) \<times> {t_route_ref t}"

definition finalize_footprint :: "supabase_tenant \<Rightarrow> footprint" where
  "finalize_footprint t =
     {VDelete} \<times> {t_route_ref t, t_database_ref t, t_job_ref t, t_namespace_ref t}"

definition own_footprint :: "supabase_tenant \<Rightarrow> footprint" where
  "own_footprint t = {VStatus, VUpdate} \<times> {(KTenant, tenant_key t)}"

text \<open>What a pass over an existing tenant may write, by the branch it takes.\<close>

definition tenant_footprint :: "supabase_tenant \<Rightarrow> footprint" where
  "tenant_footprint t =
     own_footprint t \<union>
     (if om_deletion (tc_meta t) \<noteq> None then finalize_footprint t
      else prereq_footprint t \<union> workload_footprint t \<union> route_footprint t)"

text \<open>The contexts of a pass: those of this tenant, with whatever credentials were read.\<close>

definition in_scope :: "supabase_tenant \<Rightarrow> supabase \<Rightarrow> tenant_ctx \<Rightarrow> bool" where
  "in_scope t sb c \<longleftrightarrow>
     tc_meta (tx_tenant c) = tc_meta t \<and> tc_spec (tx_tenant c) = tc_spec t \<and>
     tx_supabase c = sb \<and> tx_namespace c = tenant_namespace t \<and>
     tx_database_name c = tenant_id t \<and>
     tx_database_host c = tx_database_host (NewTenantContext t sb) \<and>
     tx_database_port c = ''5432''"

lemma NewTenantContext_in_scope [simp]: "in_scope t sb (NewTenantContext t sb)"
  by (simp add: in_scope_def NewTenantContext_def tenant_namespace_def)

lemma in_scope_ident:
  "tenant_ident c' = tenant_ident c \<Longrightarrow> in_scope t sb c' \<longleftrightarrow> in_scope t sb c"
  by (simp add: tenant_ident_def in_scope_def)

definition tenant_sync :: "supabase_tenant \<Rightarrow> condition list \<Rightarrow> tenant_ctx \<Rightarrow> tenant_ctx" where
  "tenant_sync t cs c = c\<lparr>tx_tenant := with_tenant_conditions t cs\<rparr>"

lemma in_scope_sync [simp]: "in_scope t sb c \<Longrightarrow> in_scope t sb (tenant_sync t cs c)"
  by (simp add: in_scope_def tenant_sync_def with_tenant_conditions_def)

lemma scope_names:
  assumes "in_scope t sb c" and "meta_key (sb_meta sb) = supabase_key t"
  shows "platform_ns c = home_namespace t" and "TInstanceName c = tn_supabase_ref (tc_spec t)"
    and "TenantID c = tenant_id t" and "tx_namespace c = tenant_namespace t"
    and "suspended c = tn_suspended (tc_spec t)"
  using assms
  by (simp_all add: in_scope_def TInstanceName_def TenantID_def meta_key_def home_namespace_def
      supabase_key_def)

lemma scope_refs:
  assumes "in_scope t sb c" and "meta_key (sb_meta sb) = supabase_key t"
  shows "namespace_ref c = t_namespace_ref t" and "policy_ref c = t_policy_ref t"
    and "jwt_ref c = t_local_ref t KSecret ''-jwt''"
    and "db_credentials_ref c = t_local_ref t KSecret ''-db-credentials''"
    and "database_ref c = t_database_ref t" and "init_job_ref c = t_job_ref t"
    and "route_ref c = t_route_ref t"
  using scope_names [OF assms]
  by (simp_all add: namespace_ref_def t_namespace_ref_def policy_ref_def t_policy_ref_def
      jwt_ref_def db_credentials_ref_def t_local_ref_def jwtSecretName_def
      dbCredentialsSecretName_def database_ref_def t_database_ref_def init_job_ref_def
      t_job_ref_def cnpgDatabaseName_def initJobName_def route_ref_def t_route_ref_def
      httpRouteName_def TInstanceName_def)

section \<open>The loops as sequences of steps\<close>

lemma with_tenant_conditions_simps [simp]:
  "with_tenant_conditions (with_tenant_conditions t cs) cs' = with_tenant_conditions t cs'"
  "with_tenant_conditions t (tst_conditions (tc_status t)) = t"
  "tst_conditions (tc_status (with_tenant_conditions t cs)) = cs"
  "tc_meta (with_tenant_conditions t cs) = tc_meta t"
  "tc_spec (with_tenant_conditions t cs) = tc_spec t"
  by (simp_all add: with_tenant_conditions_def)

lemma reconcile_component_ready:
  assumes "run_state (reconcile_component e gen cp t cs c) w = (((ready, err), cs', c'), w')"
  shows "err \<or> \<not> ready \<longleftrightarrow> \<not> ready"
  using reconcile_component_sets [OF assms] by (auto simp: step_outcome_def)

text \<open>
  The loop over the prerequisites runs a prefix of the steps: all of them when all are ready,
  else up to and including the first that is not.
\<close>

lemma reconcile_prereqs_steps:
  assumes "run_state (reconcile_prereqs e pcs (with_tenant_conditions t cs) c) w = ((ok, t', c'), w')"
  shows "\<exists>n rs cs'. n \<le> length pcs \<and> t' = with_tenant_conditions t cs' \<and>
    run_state (run_steps e (om_generation (tc_meta t)) (tenant_sync t) (take n pcs) cs c) w =
      ((rs, cs', c'), w') \<and>
    (ok \<longrightarrow> n = length pcs \<and> all_ready rs) \<and> (\<not> ok \<longrightarrow> \<not> all_ready rs)"
  using assms
proof (induction pcs arbitrary: cs c w)
  case Nil
  then show ?case by auto
next
  case (Cons pc pcs)
  obtain cp ct where pc: "pc = (cp, ct)" by fastforce
  let ?gen = "om_generation (tc_meta t)"
  obtain ready err cs1 c1 w1 where step:
    "run_state (reconcile_component e ?gen cp ct cs (tenant_sync t cs c)) w = (((ready, err), cs1, c1), w1)"
    by (metis prod.exhaust)
  note rdy = reconcile_component_ready [OF step]
  have step': "run_state (reconcileTenantComponent e (with_tenant_conditions t cs) c cp ct) w =
      (((ready, err), with_tenant_conditions t cs1, c1), w1)"
    using step by (simp add: reconcileTenantComponent_def tenant_sync_def)
  show ?case
  proof (cases ready)
    case False
    with Cons.prems step' have "\<not> ok" "t' = with_tenant_conditions t cs1" "c' = c1" "w' = w1"
      by (simp_all add: pc)
    with False step show ?thesis by (intro exI [of _ 1] exI [of _ "[(ready, err)]"]) (simp add: pc)
  next
    case True
    with Cons.prems step' rdy have
      "run_state (reconcile_prereqs e pcs (with_tenant_conditions t cs1) c1) w1 = ((ok, t', c'), w')"
      by (simp add: pc)
    from Cons.IH [OF this] obtain n rs cs' where IH: "n \<le> length pcs" "t' = with_tenant_conditions t cs'"
      "run_state (run_steps e ?gen (tenant_sync t) (take n pcs) cs1 c1) w1 = ((rs, cs', c'), w')"
      "ok \<longrightarrow> n = length pcs \<and> all_ready rs" "\<not> ok \<longrightarrow> \<not> all_ready rs" by blast
    with True step show ?thesis
      by (intro exI [of _ "Suc n"] exI [of _ "(ready, err) # rs"] exI [of _ cs']) (auto simp: pc)
  qed
qed

lemma reconcile_tenant_services_steps:
  "run_state (reconcile_tenant_services e scs b (with_tenant_conditions t cs) c) w =
     (case run_state (run_steps e (om_generation (tc_meta t)) (tenant_sync t) scs cs c) w of
        ((rs, cs', c'), w') \<Rightarrow> ((b \<and> all_ready rs, with_tenant_conditions t cs', c'), w'))"
proof (induction scs arbitrary: b cs c w)
  case (Cons sc scs)
  obtain cp ct where sc: "sc = (cp, ct)" by fastforce
  obtain ready err cs1 c1 w1 where step: "run_state (reconcile_component e (om_generation (tc_meta t))
      cp ct cs (tenant_sync t cs c)) w = (((ready, err), cs1, c1), w1)"
    by (metis prod.exhaust)
  then show ?case
    using Cons.IH [where cs = cs1 and c = c1]
    by (auto simp: sc reconcileTenantComponent_def tenant_sync_def split_beta)
qed simp

section \<open>What the steps write\<close>

lemma prereq_footprint_le:
  assumes "in_scope t sb c" and "meta_key (sb_meta sb) = supabase_key t"
  shows "namespace_writes c \<subseteq> prereq_footprint t" and "secret_writes c \<subseteq> prereq_footprint t"
    and "database_writes c \<subseteq> prereq_footprint t"
  by (simp_all add: namespace_writes_def secret_writes_def database_writes_def create_sigs_def
      prereq_footprint_def scope_refs [OF assms])

lemma tenant_service_keys:
  "meta_key (dep_meta (tb_build_deployment AuthBuilder c)) = nn (tx_namespace c) (TenantID c @ ''-auth'')"
  "meta_key (svc_meta (tb_build_service AuthBuilder c)) = nn (tx_namespace c) (TenantID c @ ''-auth'')"
  "meta_key (dep_meta (tb_build_deployment RESTBuilder c)) = nn (tx_namespace c) (TenantID c @ ''-rest'')"
  "meta_key (svc_meta (tb_build_service RESTBuilder c)) = nn (tx_namespace c) (TenantID c @ ''-rest'')"
  "meta_key (dep_meta (tb_build_deployment RealtimeBuilder c)) = nn (tx_namespace c) (TenantID c @ ''-realtime'')"
  "meta_key (svc_meta (tb_build_service RealtimeBuilder c)) = nn (tx_namespace c) (TenantID c @ ''-realtime'')"
  "meta_key (dep_meta (tb_build_deployment StorageBuilder c)) = nn (tx_namespace c) (TenantID c @ ''-storage'')"
  "meta_key (svc_meta (tb_build_service StorageBuilder c)) = nn (tx_namespace c) (TenantID c @ ''-storage'')"
  "meta_key (dep_meta (tb_build_deployment FunctionsBuilder c)) = nn (tx_namespace c) (TenantID c @ ''-functions'')"
  "meta_key (svc_meta (tb_build_service FunctionsBuilder c)) = nn (tx_namespace c) (TenantID c @ ''-functions'')"
  by (simp_all add: AuthBuilder_def RESTBuilder_def RealtimeBuilder_def StorageBuilder_def
      FunctionsBuilder_def auth_BuildDeployment_def rest_BuildDeployment_def
      realtime_BuildDeployment_def storage_BuildDeployment_def functions_BuildDeployment_def
      auth_BuildService_def rest_BuildService_def realtime_BuildService_def
      storage_BuildService_def functions_BuildService_def auth_resourceName_def
      rest_resourceName_def realtime_resourceName_def storage_resourceName_def
      functions_resourceName_def builder_defs Let_def)

lemma workload_footprint_le:
  assumes "in_scope t sb c" and "meta_key (sb_meta sb) = supabase_key t"
    and "(b, ct) \<in> set tenantBuilders"
  shows "tenant_service_writes b c \<subseteq> workload_footprint t"
  using assms(3) unfolding tenantBuilders_def list.set insert_iff
  by (elim disjE)
    (simp_all add: tenant_service_writes_def upsert_sigs_def workload_footprint_def
      workload_suffixes_def t_local_ref_def tenant_service_keys scope_names [OF assms(1,2)])

lemma route_footprint_le:
  assumes "in_scope t sb c" and "meta_key (sb_meta sb) = supabase_key t"
  shows "routing_writes c \<subseteq> route_footprint t"
  by (simp add: routing_writes_def route_footprint_def upsert_sigs_def scope_refs [OF assms]
      scope_names [OF assms])

text \<open>A step of a component leaves the scope and whatever its writes leave.\<close>

lemma step_in_scope:
  assumes "component recon health fin rw fw tenant_ident"
    and "comp_reconcile cp = recon e" and "comp_healthcheck cp = health e"
    and "in_scope t sb c"
    and "run_state (reconcile_component e gen cp ct cs (tenant_sync t cs' c)) w = ((r, cs1, c1), w1)"
  shows "in_scope t sb c1"
  using component.step_ident [OF assms(1-3,5)] assms(4) in_scope_ident in_scope_sync by blast

lemma prereq_in_scope:
  assumes "(cp, ct) \<in> set (prereqComponents e)" and "in_scope t sb c"
    and "run_state (reconcile_component e gen cp ct cs (tenant_sync t cs' c)) w = ((r, cs1, c1), w1)"
  shows "in_scope t sb c1"
proof -
  note steps = step_in_scope [OF namespace_comp.component_axioms _ _ assms(2,3)]
    step_in_scope [OF secret_comp.component_axioms _ _ assms(2,3)]
    step_in_scope [OF database_comp.component_axioms _ _ assms(2,3)]
  from assms(1) show ?thesis
    by (auto simp: prereqComponents_def NewNamespaceComponent_def NewSecretComponent_def
        NewDatabaseComponent_def intro: steps)
qed

lemma prereq_step_keeps:
  assumes cp: "(cp, ct) \<in> set (prereqComponents e)" and c: "in_scope t sb c"
    and sb: "meta_key (sb_meta sb) = supabase_key t"
    and e: "client_laws e" and st: "stable e (prereq_footprint t) P"
  shows "keeps P (reconcile_component e gen cp ct cs (tenant_sync t cs' c))"
proof -
  note le = prereq_footprint_le [OF in_scope_sync [OF c] sb, THEN stable_mono [OF st]]
  note steps = namespace_comp.step_keeps [OF _ _ e le(1)] secret_comp.step_keeps [OF _ _ e le(2)]
    database_comp.step_keeps [OF _ _ e le(3)]
  from cp show ?thesis
    by (auto simp: prereqComponents_def NewNamespaceComponent_def NewSecretComponent_def
        NewDatabaseComponent_def intro: steps)
qed

lemma service_step_in_scope:
  assumes "(cp, ct) \<in> set (tenantServiceComponents e)" and "in_scope t sb c"
    and "run_state (reconcile_component e gen cp ct cs (tenant_sync t cs' c)) w = ((r, cs1, c1), w1)"
  shows "in_scope t sb c1"
  using assms(1)
  by (auto simp: tenantServiceComponents_def NewTenantService_def
      intro!: step_in_scope [OF tenant_service_component _ _ assms(2,3)])

lemma tenant_service_step_keeps:
  assumes cp: "(cp, ct) \<in> set (tenantServiceComponents e)" and c: "in_scope t sb c"
    and sb: "meta_key (sb_meta sb) = supabase_key t"
    and e: "client_laws e" and st: "stable e (workload_footprint t) P"
  shows "keeps P (reconcile_component e gen cp ct cs (tenant_sync t cs' c))"
proof -
  from cp obtain b where b: "(b, ct) \<in> set tenantBuilders" "cp = NewTenantService b e"
    by (auto simp: tenantServiceComponents_def)
  show ?thesis
    by (rule component.step_keeps [OF tenant_service_component _ _ e
          stable_mono [OF st workload_footprint_le [OF in_scope_sync [OF c] sb b(1)]]])
      (simp_all add: b(2) NewTenantService_def)
qed

lemma routing_step_keeps:
  assumes c: "in_scope t sb c" and sb: "meta_key (sb_meta sb) = supabase_key t"
    and e: "client_laws e" and st: "stable e (route_footprint t) P"
  shows "keeps P (reconcile_component e gen (NewRoutingComponent e) ct cs (tenant_sync t cs' c))"
  by (rule routing_comp.step_keeps [OF _ _ e
        stable_mono [OF st route_footprint_le [OF in_scope_sync [OF c] sb]]])
    (simp_all add: NewRoutingComponent_def)

lemma run_steps_in_scope:
  assumes "\<And>cp ct cs c w r cs1 c1 w1. (cp, ct) \<in> set steps \<Longrightarrow> in_scope t sb c \<Longrightarrow>
      run_state (reconcile_component e gen cp ct cs (tenant_sync t cs c)) w = ((r, cs1, c1), w1) \<Longrightarrow>
      in_scope t sb c1"
  shows "run_state (run_steps e gen (tenant_sync t) steps cs c) w = ((rs, cs', c'), w') \<Longrightarrow>
    in_scope t sb c \<Longrightarrow> in_scope t sb c'"
  using assms
proof (induction steps arbitrary: cs c w rs)
  case (Cons s steps)
  obtain cp ct where s: "s = (cp, ct)" by fastforce
  obtain r cs1 c1 w1 where
    step: "run_state (reconcile_component e gen cp ct cs (tenant_sync t cs c)) w = ((r, cs1, c1), w1)"
    by (metis prod.exhaust)
  obtain rs2 where rest: "run_state (run_steps e gen (tenant_sync t) steps cs1 c1) w1 =
      ((rs2, cs', c'), w')"
    using Cons.prems(1) step by (auto simp: s split: prod.splits)
  have "in_scope t sb c1" by (rule Cons.prems(3) [OF _ Cons.prems(2) step]) (simp add: s)
  from Cons.IH [OF rest this] Cons.prems(3) show ?case by (simp add: s) blast
qed simp

lemma reconcile_prereqs_keep:
  assumes sb: "meta_key (sb_meta sb) = supabase_key t" and c: "in_scope t sb c"
    and e: "client_laws e" and st: "stable e (prereq_footprint t) P" and P: "P w"
    and run: "run_state (reconcile_prereqs e (prereqComponents e) t c) w = ((ok, t', c'), w')"
  shows "P w'" and "in_scope t sb c'" and "\<exists>cs. t' = with_tenant_conditions t cs"
proof -
  from run have "run_state (reconcile_prereqs e (prereqComponents e)
      (with_tenant_conditions t (tst_conditions (tc_status t))) c) w = ((ok, t', c'), w')" by simp
  from reconcile_prereqs_steps [OF this] obtain n rs cs' where
    t': "t' = with_tenant_conditions t cs'" and
    steps: "run_state (run_steps e (om_generation (tc_meta t)) (tenant_sync t)
      (take n (prereqComponents e)) (tst_conditions (tc_status t)) c) w = ((rs, cs', c'), w')"
    by blast
  have "keeps P (run_steps e (om_generation (tc_meta t)) (tenant_sync t)
      (take n (prereqComponents e)) (tst_conditions (tc_status t)) c)"
    by (rule keeps_run_steps [where ok = "in_scope t sb"])
      (auto intro: prereq_step_keeps [OF _ _ sb e st] prereq_in_scope c dest: in_set_takeD)
  from keeps_run [OF this steps P] show "P w'" .
  show "in_scope t sb c'"
    by (rule run_steps_in_scope [OF _ steps c]) (auto intro: prereq_in_scope dest: in_set_takeD)
  from t' show "\<exists>cs. t' = with_tenant_conditions t cs" ..
qed

lemma reconcile_phases_steps:
  assumes run: "run_state (reconcile_phases e base (with_tenant_conditions t cs) sb c) w = (r, w')"
  obtains rs cs1 c1 w1 ready err cs2 c2 w2 phase p w3 where
    "run_state (run_steps e (om_generation (tc_meta t)) (tenant_sync t) (tenantServiceComponents e)
       cs c) w = ((rs, cs1, c1), w1)"
    and "run_state (reconcile_component e (om_generation (tc_meta t)) (NewRoutingComponent e)
       TenantConditionRoutingReady cs1 (tenant_sync t cs1 c1)) w1 = (((ready, err), cs2, c2), w2)"
    and "phase = tenant_phase (tn_suspended (tc_spec t)) (all_ready rs \<and> ready)"
    and "run_state (exec e (StatusPatch (OTenant base)
       (OTenant (final_status (with_tenant_conditions t cs2) c2 sb phase)))) w2 = (p, w3)"
    and "case p of
           Some patchErr \<Rightarrow> r = ((no_requeue, Some patchErr), ''error'') \<and> w' = w3
         | None \<Rightarrow> r = ((requeue_after ((if phase = TenantPhaseReady then 300 else 15) * second), None),
                       ''success'') \<and> run_state (update_tenant_metrics e) w3 = ((), w')"
proof -
  obtain rs cs1 c1 w1 where s: "run_state (run_steps e (om_generation (tc_meta t)) (tenant_sync t)
      (tenantServiceComponents e) cs c) w = ((rs, cs1, c1), w1)"
    by (metis prod.exhaust)
  obtain ready err cs2 c2 w2 where ro: "run_state (reconcile_component e (om_generation (tc_meta t))
       (NewRoutingComponent e) TenantConditionRoutingReady cs1 (tenant_sync t cs1 c1)) w1 =
       (((ready, err), cs2, c2), w2)"
    by (metis prod.exhaust)
  let ?phase = "tenant_phase (tn_suspended (tc_spec t)) (all_ready rs \<and> ready)"
  obtain p w3 where p: "run_state (exec e (StatusPatch (OTenant base)
       (OTenant (final_status (with_tenant_conditions t cs2) c2 sb ?phase)))) w2 = (p, w3)"
    by fastforce
  have ro': "run_state (reconcileTenantComponent e (with_tenant_conditions t cs1) c1
      (NewRoutingComponent e) TenantConditionRoutingReady) w1 =
      (((ready, err), with_tenant_conditions t cs2, c2), w2)"
    using ro by (simp add: reconcileTenantComponent_def tenant_sync_def)
  have "case p of
           Some patchErr \<Rightarrow> r = ((no_requeue, Some patchErr), ''error'') \<and> w' = w3
         | None \<Rightarrow> r = ((requeue_after ((if ?phase = TenantPhaseReady then 300 else 15) * second), None),
                       ''success'') \<and> run_state (update_tenant_metrics e) w3 = ((), w')"
    using run s ro' p
    by (auto simp: reconcile_phases_def reconcile_tenant_services_steps minute_def Let_def
        split: option.splits prod.splits)
  from that [OF s ro refl p this] show thesis .
qed

lemma update_tenant_metrics_keeps: "stable e A P \<Longrightarrow> keeps P (update_tenant_metrics e)"
  unfolding update_tenant_metrics_def by (intro keeps_intros)

lemma status_updates_meta [simp]:
  "tc_meta (with_tenant_phase t ph) = tc_meta t" "tc_spec (with_tenant_phase t ph) = tc_spec t"
  "tc_meta (with_tenant_observed t) = tc_meta t" "tc_spec (with_tenant_observed t) = tc_spec t"
  "tc_meta (final_status t c sb ph) = tc_meta t" "tc_spec (final_status t c sb ph) = tc_spec t"
  "tc_meta (unresolved_status e t err) = tc_meta t"
  "meta_key (tc_meta (with_finalizers t fs)) = meta_key (tc_meta t)"
  by (simp_all add: with_tenant_phase_def with_tenant_observed_def final_status_def
      unresolved_status_def with_finalizers_def with_tenant_conditions_def Let_def)

lemma own_write_keeps:
  assumes "stable e A P" and "own_footprint t \<subseteq> A" and "meta_key (tc_meta t') = tenant_key t"
  shows "keeps P (exec e (StatusPatch (OTenant b) (OTenant t')))"
    and "keeps P (exec e (Update (OTenant t')))"
  using assms(2,3)
  by (auto intro!: stable_exec [OF assms(1)] simp: own_footprint_def obj_ref_def)

lemma reconcile_phases_keep:
  assumes sb: "meta_key (sb_meta sb) = supabase_key t" and c: "in_scope t sb c"
    and e: "client_laws e"
    and st: "stable e (own_footprint t \<union> workload_footprint t \<union> route_footprint t) P" and P: "P w"
    and run: "run_state (reconcile_phases e base (with_tenant_conditions t cs) sb c) w = (r, w')"
  shows "P w'"
proof (rule reconcile_phases_steps [OF run])
  fix rs cs1 c1 w1 ready err cs2 c2 w2 phase p w3
  let ?gen = "om_generation (tc_meta t)"
  assume s: "run_state (run_steps e ?gen (tenant_sync t) (tenantServiceComponents e) cs c) w =
      ((rs, cs1, c1), w1)"
    and ro: "run_state (reconcile_component e ?gen (NewRoutingComponent e)
      TenantConditionRoutingReady cs1 (tenant_sync t cs1 c1)) w1 = (((ready, err), cs2, c2), w2)"
    and p: "run_state (exec e (StatusPatch (OTenant base)
      (OTenant (final_status (with_tenant_conditions t cs2) c2 sb phase)))) w2 = (p, w3)"
    and r: "case p of
           Some patchErr \<Rightarrow> r = ((no_requeue, Some patchErr), ''error'') \<and> w' = w3
         | None \<Rightarrow> r = ((requeue_after ((if phase = TenantPhaseReady then 300 else 15) * second), None),
                       ''success'') \<and> run_state (update_tenant_metrics e) w3 = ((), w')"
  have st1: "stable e (workload_footprint t) P" and st2: "stable e (route_footprint t) P"
    by (rule stable_mono [OF st]; blast)+
  have "keeps P (run_steps e ?gen (tenant_sync t) (tenantServiceComponents e) cs c)"
    by (rule keeps_run_steps [where ok = "in_scope t sb"])
      (auto intro: tenant_service_step_keeps [OF _ _ sb e st1] service_step_in_scope c)
  from keeps_run [OF this s P] have P1: "P w1" .
  have c1: "in_scope t sb c1"
    by (rule run_steps_in_scope [OF _ s c]) (rule service_step_in_scope)
  from keeps_run [OF routing_step_keeps [OF c1 sb e st2] ro P1] have P2: "P w2" .
  have "keeps P (exec e (StatusPatch (OTenant base)
      (OTenant (final_status (with_tenant_conditions t cs2) c2 sb phase))))"
    by (rule own_write_keeps [OF st, where t = t]) auto
  from keeps_run [OF this p P2] have P3: "P w3" .
  with r keeps_run [OF update_tenant_metrics_keeps [OF st]] show "P w'"
    by (auto split: option.splits)
qed

lemma run_finalizers_keep:
  assumes "\<And>cp. cp \<in> set cps \<Longrightarrow> keeps P (comp_finalize cp c)"
  shows "keeps P (run_finalizers cps c)"
  using assms by (induction cps) (auto intro!: keeps_intros)

lemma finalizers_keep:
  assumes sb: "meta_key (sb_meta sb) = supabase_key t" and c: "in_scope t sb c"
    and e: "client_laws e" and st: "stable e (finalize_footprint t) P"
  shows "keeps P (run_finalizers (finalizers e) c)"
proof (rule run_finalizers_keep)
  note refs = scope_refs [OF c sb]
  fix cp assume "cp \<in> set (finalizers e)"
  then consider "comp_finalize cp = routing_finalize e" | "comp_finalize cp = database_finalize e"
    | "comp_finalize cp = namespace_finalize e"
    by (auto simp: finalizers_def NewRoutingComponent_def NewDatabaseComponent_def
        NewNamespaceComponent_def)
  then show "keeps P (comp_finalize cp c)"
    by cases
      (auto simp: refs finalize_footprint_def database_deletes_def
        intro!: routing_comp.fin_keeps [OF e] database_comp.fin_keeps [OF e]
          namespace_comp.fin_keeps [OF e] stable_mono [OF st])
qed

lemma finalize_keeps:
  assumes e: "client_laws e" and st: "stable e (own_footprint t \<union> finalize_footprint t) P"
  shows "keeps P (finalize e t base)"
proof -
  have st2: "stable e (finalize_footprint t) P" by (rule stable_mono [OF st]) blast
  have fin: "keeps P (run_finalizers (finalizers e) (NewTenantContext (with_tenant_phase t ph) sb))"
    if "meta_key (sb_meta sb) = supabase_key t" for ph sb
    by (rule finalizers_keep [OF that _ e st2])
      (simp add: in_scope_def NewTenantContext_def tenant_namespace_def)
  have key: "supabase_key (with_tenant_phase t ph) = supabase_key t" for ph
    by (simp add: supabase_key_def)
  show ?thesis
    unfolding finalize_def Let_def key
    by (intro keeps_bind keeps_if keeps_return keeps_case_sum
        get_then [OF client_reads_key(13) [OF e]] fin stable_get_supabase [OF st]
        own_write_keeps [OF st, where t = t])
      (simp_all add: without_finalizer_def)
qed

lemma reconcile_active_keeps:
  assumes e: "client_laws e"
    and st: "stable e (own_footprint t \<union> prereq_footprint t \<union> workload_footprint t \<union> route_footprint t) P"
  shows "keeps P (reconcile_active e t)"
proof -
  have st1: "stable e (prereq_footprint t) P"
      and st2: "stable e (own_footprint t \<union> workload_footprint t \<union> route_footprint t) P"
    by (rule stable_mono [OF st]; blast)+
  have rest: "keeps P (do {
        (ok, t', c) \<leftarrow> reconcile_prereqs e (prereqComponents e) t (NewTenantContext t sb);
        if \<not> ok then do {
          _ \<leftarrow> exec e (StatusPatch (OTenant t)
                 (OTenant (with_tenant_observed (with_tenant_phase t' TenantPhaseProvisioning))));
          ret ((requeue_after (10 * second), None), ''success'') }
        else reconcile_phases e t t' sb c })"
    if sb: "meta_key (sb_meta sb) = supabase_key t" for sb
  proof (rule keeps_bind_result [where R = "\<lambda>(ok, t', c). in_scope t sb c \<and> (\<exists>cs. t' = with_tenant_conditions t cs)"])
    note pre = reconcile_prereqs_keep [OF sb NewTenantContext_in_scope e]
    fix w
    have "stable e (prereq_footprint t) (\<lambda>_. True)" by (simp add: stable_def keeps_def)
    from pre(2,3) [OF this, of w]
    show "case fst (run_state (reconcile_prereqs e (prereqComponents e) t (NewTenantContext t sb)) w) of
        (ok, t', c) \<Rightarrow> in_scope t sb c \<and> (\<exists>cs. t' = with_tenant_conditions t cs)"
      by (auto split: prod.split) (metis prod.collapse)+
    show "keeps P (reconcile_prereqs e (prereqComponents e) t (NewTenantContext t sb))"
      by (rule keepsI) (metis pre(1) [OF st1] prod.collapse prod_cases3)
  next
    fix x :: "bool \<times> supabase_tenant \<times> tenant_ctx"
    assume "case x of (ok, t', c) \<Rightarrow> in_scope t sb c \<and> (\<exists>cs. t' = with_tenant_conditions t cs)"
    then obtain ok t' c cs where x: "x = (ok, t', c)" and c: "in_scope t sb c"
      and t': "t' = with_tenant_conditions t cs" by auto
    have "keeps P (reconcile_phases e t t' sb c)"
      unfolding t' by (rule keepsI) (metis reconcile_phases_keep [OF sb c e st2] prod.collapse)
    then show "keeps P (case x of (ok, t', c) \<Rightarrow>
        if \<not> ok then do {
          _ \<leftarrow> exec e (StatusPatch (OTenant t)
                 (OTenant (with_tenant_observed (with_tenant_phase t' TenantPhaseProvisioning))));
          ret ((requeue_after (10 * second), None), ''success'') }
        else reconcile_phases e t t' sb c)"
      unfolding x by (auto intro!: keeps_intros own_write_keeps [OF st, where t = t] simp: t')
  qed
  show ?thesis
    unfolding reconcile_active_def
    by (intro keeps_bind keeps_return keeps_case_sum rest get_then [OF client_reads_key(13) [OF e]]
        stable_get_supabase [OF st] own_write_keeps [OF st, where t = t])
      auto
qed

lemma reconcile_found_keeps:
  assumes e: "client_laws e" and st: "stable e (tenant_footprint t) P"
  shows "keeps P (reconcile_found e t)"
proof -
  have own: "own_footprint t \<subseteq> tenant_footprint t" by (auto simp: tenant_footprint_def)
  show ?thesis
    unfolding reconcile_found_def
    by (intro keeps_bind keeps_if keeps_return keeps_case_option own_write_keeps [OF st own]
        finalize_keeps [OF e] reconcile_active_keeps [OF e] stable_mono [OF st])
      (auto simp: tenant_footprint_def)
qed

lemma Tenant_Reconcile_keeps:
  assumes e: "client_laws e"
    and st: "\<And>t. tenant_key t = req \<Longrightarrow> stable e (tenant_footprint t) P"
    and st0: "stable e {} P"
  shows "keeps P (Tenant_Reconcile e req)"
  unfolding Tenant_Reconcile_def tenant_reconcile_body_def
  by (intro keeps_bind keeps_if keeps_return keeps_case_sum keeps_case_prod
      get_then [OF client_reads_key(14) [OF e]] reconcile_found_keeps [OF e st]
      stable_effect [OF st0] stable_get_tenant [OF st0])

section \<open>Other tenants\<close>

text \<open>What belongs to a tenant: its namespace with all that is in it, its database objects, its route.\<close>

definition tenant_objects :: "supabase_tenant \<Rightarrow> obj_ref set" where
  "tenant_objects t =
     {q. k_namespace (snd q) = tenant_namespace t} \<union>
     {t_namespace_ref t, t_database_ref t, t_job_ref t, t_route_ref t}"

text \<open>Two tenants of one platform that do not share an identifier.\<close>

definition co_tenants :: "supabase_tenant \<Rightarrow> supabase_tenant \<Rightarrow> bool" where
  "co_tenants t u \<longleftrightarrow>
     tenant_id t \<noteq> tenant_id u \<and> supabase_key t = supabase_key u \<and>
     home_namespace t \<noteq> tenant_namespace t \<and> home_namespace u \<noteq> tenant_namespace u"

lemma supabase_key_parts:
  "supabase_key t = supabase_key u \<Longrightarrow> home_namespace t = home_namespace u"
  "supabase_key t = supabase_key u \<Longrightarrow> tn_supabase_ref (tc_spec t) = tn_supabase_ref (tc_spec u)"
  by (simp_all add: home_namespace_def supabase_key_def)

lemma footprint_avoids_co_tenant:
  assumes tu: "co_tenants t u" and q: "q \<in> tenant_objects u"
  shows "avoids (tenant_footprint t) q"
proof -
  have id: "tenant_id t \<noteq> tenant_id u" and ns: "tenant_namespace t \<noteq> tenant_namespace u"
    and home: "home_namespace t = home_namespace u" "home_namespace u \<noteq> tenant_namespace t"
      "home_namespace u \<noteq> tenant_namespace u"
    and ref: "tn_supabase_ref (tc_spec t) = tn_supabase_ref (tc_spec u)"
    using tu supabase_key_parts [of t u] by (auto simp: co_tenants_def tenant_namespace_def)
  have key: "k_namespace (tenant_key t) = home_namespace t"
    by (simp add: home_namespace_def supabase_key_def meta_key_def)
  have nonempty: "tenant_namespace u \<noteq> ''''" "tenant_namespace t \<noteq> ''''" by (simp_all add: tenant_namespace_def)
  note defs = avoids_def tenant_footprint_def own_footprint_def finalize_footprint_def
    prereq_footprint_def workload_footprint_def route_footprint_def t_namespace_ref_def
    t_policy_ref_def t_local_ref_def t_database_ref_def t_job_ref_def t_route_ref_def
  from q consider "k_namespace (snd q) = tenant_namespace u" | "q = t_namespace_ref u"
    | "q = t_database_ref u" | "q = t_job_ref u" | "q = t_route_ref u"
    by (auto simp: tenant_objects_def)
  then show ?thesis
    by cases (use ns home key nonempty id ref in \<open>auto simp: defs split: if_splits\<close>)
qed

end
