(* ===== verification/TenantStatus.thy ===== *)
theory TenantStatus
  imports TenantFootprint
begin

text \<open>
  The status one pass over an active tenant leaves, and the three ways such a pass ends.
\<close>

section \<open>The status one pass leaves\<close>

definition prereq_conditions :: "string list" where
  "prereq_conditions =
     [TenantConditionNamespaceReady, TenantConditionSecretsReady, TenantConditionDatabaseReady]"

definition tenant_service_conditions :: "string list" where
  "tenant_service_conditions =
     [TenantConditionAuthReady, TenantConditionRESTReady, TenantConditionRealtimeReady,
      TenantConditionStorageReady, TenantConditionFunctionsReady]"

definition tenant_conditions :: "string list" where
  "tenant_conditions = prereq_conditions @ tenant_service_conditions @ [TenantConditionRoutingReady]"

lemma tenant_steps_conditions:
  "map snd (prereqComponents e) = prereq_conditions"
  "map snd (tenantServiceComponents e) = tenant_service_conditions"
  "snd ` set (prereqComponents e) = set prereq_conditions"
  "snd ` set (tenantServiceComponents e) = set tenant_service_conditions"
  by (auto simp: prereqComponents_def prereq_conditions_def tenantServiceComponents_def
      tenantBuilders_def tenant_service_conditions_def)

lemma tenant_conditions_distinct: "distinct tenant_conditions"
  by (simp add: tenant_conditions_def prereq_conditions_def tenant_service_conditions_def
      tenant_condition_defs)

text \<open>
  The status after a pass that got past the prerequisites: nine conditions of this pass, the
  phase they and the suspension amount to, and where the tenant is.
\<close>

definition tenant_status_ok :: "supabase_tenant \<Rightarrow> supabase \<Rightarrow> tenant_status \<Rightarrow> bool" where
  "tenant_status_ok t sb st \<longleftrightarrow>
     list_all (condition_current (om_generation (tc_meta t)) (tst_conditions st)) tenant_conditions \<and>
     list_all (condition_true (tst_conditions st)) prereq_conditions \<and>
     (\<forall>ct. ct \<notin> set tenant_conditions \<longrightarrow>
        find_condition (tst_conditions st) ct = find_condition (tst_conditions (tc_status t)) ct) \<and>
     tst_phase st =
       (if tn_suspended (tc_spec t) then TenantPhaseSuspended
        else if list_all (condition_true (tst_conditions st)) tenant_conditions then TenantPhaseReady
        else TenantPhaseProvisioning) \<and>
     tst_namespace st = tenant_namespace t \<and>
     tst_endpoint st = tenant_id t @ ''.'' @ gws_base_domain (sp_gateway (sb_spec sb)) \<and>
     tst_observed_generation st = om_generation (tc_meta t)"

lemma update_tenant_metrics_silent:
  assumes api: "api_server e view admit" and run: "run_state (update_tenant_metrics e) w = (r, w')"
  shows "view w' = view w"
proof -
  have "keeps (\<lambda>w'. view w' = view w) (update_tenant_metrics e)"
    unfolding update_tenant_metrics_def
    by (intro keeps_intros silent_keeps_view api_server_silent [OF api])
  from keeps_run [OF this run] show ?thesis by simp
qed

lemma tenant_kinds_avoid:
  "avoids (prereq_footprint t \<union> workload_footprint t \<union> route_footprint t) (KTenant, req)"
  by (auto simp: avoids_def prereq_footprint_def workload_footprint_def route_footprint_def
      t_namespace_ref_def t_policy_ref_def t_local_ref_def t_database_ref_def t_job_ref_def
      t_route_ref_def split: if_splits)

lemma reconcile_phases_status:
  assumes api: "api_server e view admit" and laws: "condition_laws e" and own: "owner_laws e"
    and sb: "meta_key (sb_meta sb) = supabase_key t" and c: "in_scope t sb c"
    and t: "view w (KTenant, tenant_key t) = Some (OTenant t)"
    and rec: "recorded (om_generation (tc_meta t)) rs0 prereq_conditions cs" and "all_ready rs0"
    and other: "\<And>ct. ct \<notin> set prereq_conditions \<Longrightarrow>
      find_condition cs ct = find_condition (tst_conditions (tc_status t)) ct"
    and run: "run_state (reconcile_phases e t (with_tenant_conditions t cs) sb c) w =
      (((res, None), l), w')"
  obtains st where "view w' (KTenant, tenant_key t) = Some (OTenant (t\<lparr>tc_status := st\<rparr>))"
    and "tenant_status_ok t sb st"
    and "res = requeue_after ((if tst_phase st = TenantPhaseReady then 300 else 15) * second)"
proof (rule reconcile_phases_steps [OF run])
  fix rs cs1 c1 w1 ready err cs2 c2 w2 phase p w3
  let ?gen = "om_generation (tc_meta t)"
  let ?st = "tc_status (final_status (with_tenant_conditions t cs2) c2 sb phase)"
  assume s: "run_state (run_steps e ?gen (tenant_sync t) (tenantServiceComponents e) cs c) w =
      ((rs, cs1, c1), w1)"
    and ro: "run_state (reconcile_component e ?gen (NewRoutingComponent e)
      TenantConditionRoutingReady cs1 (tenant_sync t cs1 c1)) w1 = (((ready, err), cs2, c2), w2)"
    and phase: "phase = tenant_phase (tn_suspended (tc_spec t)) (all_ready rs \<and> ready)"
    and p: "run_state (exec e (StatusPatch (OTenant t)
      (OTenant (final_status (with_tenant_conditions t cs2) c2 sb phase)))) w2 = (p, w3)"
    and r: "case p of
           Some patchErr \<Rightarrow> ((res, None), l) = ((no_requeue, Some patchErr), ''error'') \<and> w' = w3
         | None \<Rightarrow> ((res, None), l) = ((requeue_after ((if phase = TenantPhaseReady then 300 else 15) * second), None),
                       ''success'') \<and> run_state (update_tenant_metrics e) w3 = ((), w')"
  have pn: "p = None" and res: "res = requeue_after ((if phase = TenantPhaseReady then 300 else 15) * second)"
    and w': "view w' = view w3"
    using r update_tenant_metrics_silent [OF api] by (auto split: option.splits)
  have e: "client_laws e" using api_server_well_keyed [OF api] own by (simp add: client_laws_def)
  let ?P = "\<lambda>w. view w (KTenant, tenant_key t) = Some (OTenant t)"
  have st: "stable e (workload_footprint t) ?P" "stable e (route_footprint t) ?P"
    using api_server_stable [OF api avoids_mono [OF tenant_kinds_avoid]] by blast+
  have "keeps ?P (run_steps e ?gen (tenant_sync t) (tenantServiceComponents e) cs c)"
    by (rule keeps_run_steps [where ok = "in_scope t sb"])
      (auto intro: tenant_service_step_keeps [OF _ _ sb e st(1)] service_step_in_scope c)
  from keeps_run [OF this s t] have P1: "?P w1" .
  have c1: "in_scope t sb c1"
    by (rule run_steps_in_scope [OF _ s c]) (rule service_step_in_scope)
  from keeps_run [OF routing_step_keeps [OF c1 sb e st(2)] ro P1] have P2: "?P w2" .
  have c2: "in_scope t sb c2"
    by (rule step_in_scope [OF routing_comp.component_axioms _ _ c1 ro])
      (simp_all add: NewRoutingComponent_def)
  have obj: "OTenant (t\<lparr>tc_status := ?st\<rparr>) =
      only_status (OTenant t) (OTenant (final_status (with_tenant_conditions t cs2) c2 sb phase))"
    by (simp add: only_status_def)
  have "view w3 (KTenant, tenant_key t) = Some (OTenant (t\<lparr>tc_status := ?st\<rparr>))"
    using api_server_exec [OF api p] P2 pn unfolding obj by (simp add: obj_ref_def)
  moreover have "tenant_status_ok t sb ?st"
  proof -
    have dist: "distinct tenant_service_conditions" "TenantConditionRoutingReady \<notin> set tenant_service_conditions"
        "set prereq_conditions \<inter> set tenant_service_conditions = {}"
        "TenantConditionRoutingReady \<notin> set prereq_conditions"
      using tenant_conditions_distinct by (auto simp: tenant_conditions_def)
    from run_steps_conditions [OF laws s]
    have rec1: "recorded ?gen rs tenant_service_conditions cs1"
      and oth1: "\<And>ct. ct \<notin> set tenant_service_conditions \<Longrightarrow> find_condition cs1 ct = find_condition cs ct"
      by (simp_all add: tenant_steps_conditions dist)
    from reconcile_component_sets [OF ro] obtain cnd where
      cs2: "cs2 = set_status_condition e cs1 cnd" and
      out: "step_outcome (ready, err) TenantConditionRoutingReady ?gen cnd" by blast
    have cnd: "cond_type cnd = TenantConditionRoutingReady" using out by (simp add: step_outcome_def)
    have r2: "find_condition cs2 TenantConditionRoutingReady = Some cnd"
      and oth2: "\<And>ct. ct \<noteq> TenantConditionRoutingReady \<Longrightarrow> find_condition cs2 ct = find_condition cs1 ct"
      using condition_lawsD(1) [OF laws, of cs1 cnd] condition_lawsD(2) [OF laws, of _ cnd cs1]
      by (simp_all add: cs2 cnd)
    have "find_condition cs2 u = find_condition cs u" if "u \<in> set prereq_conditions" for u
      using that dist(3,4) oth1 [of u] oth2 [of u] by (metis disjoint_iff)
    then have recp: "recorded ?gen rs0 prereq_conditions cs2" by (rule recorded_other [OF rec])
    have recs: "recorded ?gen rs tenant_service_conditions cs2"
      by (rule recorded_other [OF rec1]) (use dist(2) oth2 in metis)
    have ct: "condition_true cs2 TenantConditionRoutingReady \<longleftrightarrow> ready"
        "condition_current ?gen cs2 TenantConditionRoutingReady"
      using out r2 by (auto simp: condition_true_def condition_current_def step_outcome_def)
    have "find_condition cs2 u = find_condition (tst_conditions (tc_status t)) u"
      if "u \<notin> set tenant_conditions" for u
      using that other [of u] oth1 [of u] oth2 [of u] by (auto simp: tenant_conditions_def)
    then show ?thesis
      using recorded_summary(1,3) [OF recp] recorded_summary(1,3) [OF recs] ct \<open>all_ready rs0\<close> c2
      by (auto simp: tenant_status_ok_def final_status_def tenant_conditions_def phase
          tenant_phase_def in_scope_def with_tenant_conditions_def)
  qed
  moreover have "tst_phase ?st = phase" by (simp add: final_status_def)
  ultimately show thesis using res w' by (intro that [of ?st]) simp_all
qed

section \<open>The branches of one pass\<close>

lemma Tenant_Reconcile_found:
  assumes api: "api_server e view admit" and t: "view w (KTenant, req) = Some (OTenant t)"
    and run: "run_state (Tenant_Reconcile e req) w = (r, w')"
  obtains (unreadable) err where "r = (no_requeue, Some err)" and "view w' = view w"
  | (found) w1 l w2 where "view w1 = view w" and "run_state (reconcile_found e t) w1 = ((r, l), w2)"
      and "view w' = view w2" and "tenant_key t = req"
proof -
  have key: "tenant_key t = req" using api_server_keyed [OF api t] by (simp add: obj_ref_def)
  obtain g w1 where g: "run_state (get_tenant e req) w = (g, w1)" by fastforce
  note get = reads_storeD [OF api_server_reads(14) [OF api] g]
  obtain l w2 where b: "run_state (tenant_reconcile_body e req) w = ((r, l), w2)"
    and o: "run_state (observe_reconcile e ''supabasetenant'' l) w2 = ((), w')"
    using run by (auto simp: Tenant_Reconcile_def split: prod.splits)
  have w': "view w' = view w2" by (rule silentD [OF api_server_silent(8) [OF api] o])
  show thesis
  proof (cases g)
    case (Inr x)
    with get(2) [OF Inr] t have "x = t" by simp
    with b g Inr have "run_state (reconcile_found e t) w1 = ((r, l), w2)"
      by (simp add: tenant_reconcile_body_def)
    from found [OF get(1) this w' key] show thesis .
  next
    case (Inl err)
    with get(3) [OF Inl] t have "\<not> is_not_found err" by auto
    with b g Inl w' get(1) show thesis
      by (intro unreadable [of err]) (simp_all add: tenant_reconcile_body_def)
  qed
qed

text \<open>Nothing but what the footprint names is touched, whatever the pass returns.\<close>

lemma Tenant_Reconcile_frame:
  assumes api: "api_server e view admit" and own: "owner_laws e"
    and t: "view w (KTenant, req) = Some (OTenant t)"
    and run: "run_state (Tenant_Reconcile e req) w = (r, w')"
    and q: "avoids (tenant_footprint t) q"
  shows "view w' q = view w q"
  using api t run
proof (cases rule: Tenant_Reconcile_found)
  case (found w1 l w2)
  have e: "client_laws e" using api_server_well_keyed [OF api] own by (simp add: client_laws_def)
  have "keeps (\<lambda>w'. view w' q = view w q) (reconcile_found e t)"
    by (rule reconcile_found_keeps [OF e api_server_stable [OF api q]])
  from keeps_run [OF this found(2)] found(1,3) show ?thesis by simp
qed simp

text \<open>The last write of the pass sent the status \<open>st\<close>; \<open>err\<close> is what the API server answered.\<close>

definition status_sent ::
  "'w env \<Rightarrow> 'w store_view \<Rightarrow> supabase_tenant \<Rightarrow> tenant_status \<Rightarrow> go_error option \<Rightarrow> 'w \<Rightarrow> bool" where
  "status_sent e view t st err w' \<longleftrightarrow>
     (\<exists>w1 w2. run_state (exec e (StatusPatch (OTenant t) (OTenant (t\<lparr>tc_status := st\<rparr>)))) w1 = (err, w2) \<and>
        view w' = view w2)"

text \<open>
  The three ways a pass over an active tenant ends without an error: the platform was not
  resolved, a prerequisite is not ready, or the whole pipeline ran.
\<close>

lemma Tenant_Reconcile_active:
  assumes api: "api_server e view admit" and own: "owner_laws e" and laws: "condition_laws e"
    and t: "view w (KTenant, req) = Some (OTenant t)"
    and active: "om_deletion (tc_meta t) = None"
      "contains_finalizer e (om_finalizers (tc_meta t)) tenantFinalizer"
    and run: "run_state (Tenant_Reconcile e req) w = ((res, None), w')"
  obtains (unresolved) "res = requeue_after (15 * second)"
      and "\<And>q. q \<noteq> (KTenant, req) \<Longrightarrow> view w' q = view w q"
  | (gated) "res = requeue_after (10 * second)"
      and "\<And>q. avoids (own_footprint t \<union> prereq_footprint t) q \<Longrightarrow> view w' q = view w q"
      and "\<exists>st err. status_sent e view t st err w' \<and> tst_phase st = TenantPhaseProvisioning \<and>
             tst_observed_generation st = om_generation (tc_meta t) \<and>
             \<not> list_all (condition_true (tst_conditions st)) prereq_conditions"
  | (complete) sb st where "view w (KSupabase, supabase_key t) = Some (OSupabase sb)"
      and "view w' (KTenant, req) = Some (OTenant (t\<lparr>tc_status := st\<rparr>))"
      and "tenant_status_ok t sb st"
      and "res = requeue_after ((if tst_phase st = TenantPhaseReady then 300 else 15) * second)"
  using api t run
proof (cases rule: Tenant_Reconcile_found)
  case (found w1 l w2)
  have e: "client_laws e" using api_server_well_keyed [OF api] own by (simp add: client_laws_def)
  have act: "run_state (reconcile_active e t) w1 = (((res, None), l), w2)"
    using found(2) active by (simp add: reconcile_found_def)
  obtain g w3 where g: "run_state (get_supabase e (supabase_key t)) w1 = (g, w3)" by fastforce
  note get = reads_storeD [OF api_server_reads(13) [OF api] g]
  have own_avoid: "avoids (own_footprint t) q" if "q \<noteq> (KTenant, req)" for q
    using that found(4) by (auto simp: avoids_def own_footprint_def)
  show thesis
  proof (cases g)
    case (Inl err)
    obtain u where u: "run_state (exec e (StatusPatch (OTenant t) (OTenant (unresolved_status e t err)))) w3 =
        (u, w2)" and res: "res = requeue_after (15 * second)"
      using act g Inl by (auto simp: reconcile_active_def split: prod.splits)
    have "view w' q = view w q" if "q \<noteq> (KTenant, req)" for q
    proof -
      have "keeps (\<lambda>w'. view w' q = view w q)
          (exec e (StatusPatch (OTenant t) (OTenant (unresolved_status e t err))))"
        by (rule own_write_keeps [OF api_server_stable [OF api own_avoid [OF that]], where t = t]) simp_all
      from keeps_run [OF this u] show ?thesis using get(1) found(1,3) by simp
    qed
    with res show thesis by (rule unresolved)
  next
    case (Inr sb)
    have vsb: "view w (KSupabase, supabase_key t) = Some (OSupabase sb)"
      using get(2) [OF Inr] found(1) by simp
    have key: "meta_key (sb_meta sb) = supabase_key t"
      using api_server_keyed [OF api vsb] by (simp add: obj_ref_def)
    obtain ok t' c w4 where pre: "run_state (reconcile_prereqs e (prereqComponents e) t
        (NewTenantContext t sb)) w3 = ((ok, t', c), w4)"
      by (metis prod.exhaust)
    note keep = reconcile_prereqs_keep [OF key NewTenantContext_in_scope e _ _ pre]
    show thesis
    proof (cases ok)
      case False
      obtain u where u: "run_state (exec e (StatusPatch (OTenant t)
          (OTenant (with_tenant_observed (with_tenant_phase t' TenantPhaseProvisioning))))) w4 = (u, w2)"
        and res: "res = requeue_after (10 * second)"
        using act g Inr pre False by (auto simp: reconcile_active_def split: prod.splits)
      have "view w' q = view w q" if q: "avoids (own_footprint t \<union> prereq_footprint t) q" for q
      proof -
        have st: "stable e (own_footprint t) (\<lambda>w'. view w' q = view w q)"
            "stable e (prereq_footprint t) (\<lambda>w'. view w' q = view w q)"
          using api_server_stable [OF api avoids_mono [OF q]] by blast+
        from keep(1) [OF st(2)] get(1) found(1) have "view w4 q = view w q" by simp
        moreover obtain cs where "t' = with_tenant_conditions t cs"
          using keep(3) [OF st(2)] get(1) found(1) by auto
        then have "keeps (\<lambda>w'. view w' q = view w q) (exec e (StatusPatch (OTenant t)
            (OTenant (with_tenant_observed (with_tenant_phase t' TenantPhaseProvisioning)))))"
          by (intro own_write_keeps [OF st(1), where t = t]) simp_all
        ultimately show ?thesis using keeps_run [OF _ u] found(3) by simp
      qed
      moreover have "\<exists>st err. status_sent e view t st err w' \<and> tst_phase st = TenantPhaseProvisioning \<and>
             tst_observed_generation st = om_generation (tc_meta t) \<and>
             \<not> list_all (condition_true (tst_conditions st)) prereq_conditions"
      proof -
        from pre have "run_state (reconcile_prereqs e (prereqComponents e)
            (with_tenant_conditions t (tst_conditions (tc_status t))) (NewTenantContext t sb)) w3 =
            ((ok, t', c), w4)" by simp
        from reconcile_prereqs_steps [OF this] False obtain n rs cs where
          t': "t' = with_tenant_conditions t cs" and rdy: "\<not> all_ready rs" and
          steps: "run_state (run_steps e (om_generation (tc_meta t)) (tenant_sync t)
            (take n (prereqComponents e)) (tst_conditions (tc_status t)) (NewTenantContext t sb)) w3 =
            ((rs, cs, c), w4)"
          by auto
        have "recorded (om_generation (tc_meta t)) rs (take n prereq_conditions) cs"
          using run_steps_conditions [OF laws steps] tenant_conditions_distinct
          by (simp add: take_map [symmetric] tenant_steps_conditions tenant_conditions_def)
        with rdy have notall: "\<not> list_all (condition_true cs) (take n prereq_conditions)"
          using recorded_summary(1) by blast
        have no: "\<not> list_all (condition_true cs) prereq_conditions"
        proof
          assume "list_all (condition_true cs) prereq_conditions"
          then have "list_all (condition_true cs) (take n prereq_conditions)"
            by (metis append_take_drop_id list_all_append)
          with notall show False ..
        qed
        let ?t = "with_tenant_observed (with_tenant_phase t' TenantPhaseProvisioning)"
        have obj: "?t = t\<lparr>tc_status := tc_status ?t\<rparr>"
          by (simp add: t' with_tenant_observed_def with_tenant_phase_def with_tenant_conditions_def)
        have "status_sent e view t (tc_status ?t) u w'"
          unfolding status_sent_def obj [symmetric] using u found(3) by blast
        with no show ?thesis
          by (intro exI [of _ "tc_status ?t"] exI [of _ u])
            (simp add: with_tenant_observed_def with_tenant_phase_def t' with_tenant_conditions_def)
      qed
      ultimately show thesis using res by (intro gated)
    next
      case True
      let ?P = "\<lambda>w. view w (KTenant, tenant_key t) = Some (OTenant t)"
      have st: "stable e (prereq_footprint t) ?P"
        using api_server_stable [OF api avoids_mono [OF tenant_kinds_avoid]] by blast
      have P3: "?P w3" using t get(1) found(1,4) by simp
      from pre have "run_state (reconcile_prereqs e (prereqComponents e)
          (with_tenant_conditions t (tst_conditions (tc_status t))) (NewTenantContext t sb)) w3 =
          ((ok, t', c), w4)" by simp
      from reconcile_prereqs_steps [OF this] True obtain rs cs where
        t': "t' = with_tenant_conditions t cs" and rdy: "all_ready rs" and
        steps: "run_state (run_steps e (om_generation (tc_meta t)) (tenant_sync t)
          (prereqComponents e) (tst_conditions (tc_status t)) (NewTenantContext t sb)) w3 = ((rs, cs, c), w4)"
        by auto
      have "run_state (reconcile_phases e t (with_tenant_conditions t cs) sb c) w4 = (((res, None), l), w2)"
        using act g Inr pre True t' by (simp add: reconcile_active_def)
      from reconcile_phases_status [OF api laws own key keep(2) [OF st P3] keep(1) [OF st P3] _ rdy _ this]
      obtain st where "view w2 (KTenant, tenant_key t) = Some (OTenant (t\<lparr>tc_status := st\<rparr>))"
        and "tenant_status_ok t sb st"
        and "res = requeue_after ((if tst_phase st = TenantPhaseReady then 300 else 15) * second)"
        using run_steps_conditions [OF laws steps] tenant_conditions_distinct
        by (auto simp: tenant_steps_conditions tenant_conditions_def)
      with vsb found(3,4) show thesis by (intro complete) simp_all
    qed
  qed
qed (use that in simp)

end
