(* ===== verification/TenantFinalize.thy ===== *)
theory TenantFinalize
  imports TenantStatus
begin

text \<open>
  What a pass over a deleted tenant has achieved when it lets the tenant go.
\<close>

section \<open>Finalization deletes what the tenant left outside its namespace\<close>

text \<open>A read fails only because there is no such object.\<close>

definition reliable :: "(obj_key \<Rightarrow> ('w, go_error + 'x) state) \<Rightarrow> bool" where
  "reliable g \<longleftrightarrow> (\<forall>k w err w'. run_state (g k) w = (Inl err, w') \<longrightarrow> is_not_found err)"

lemma delete_found_removed:
  assumes api: "api_server e view admit" and reads: "reads_store view K mk g"
    and kind: "\<And>x. obj_kind (mk x) = K"
    and get: "run_state (g k) w = (r, w1)"
    and del: "\<And>x. r = Inr x \<Longrightarrow> run_state (exec e (Delete (mk x))) w1 = (None, w')"
    and abs: "\<And>err. r = Inl err \<Longrightarrow> is_not_found err \<and> w' = w1"
  shows "removed view w' (K, k)"
proof (cases r)
  case (Inl err)
  with abs reads_storeD(1,3) [OF reads get] show ?thesis by (auto simp: removed_def)
next
  case (Inr x)
  have "view w (K, k) = Some (mk x)" by (rule reads_storeD(2) [OF reads get Inr])
  with api_server_keyed [OF api this] api_server_exec [OF api del [OF Inr]] show ?thesis by simp
qed

lemma deleteHTTPRoute_removed:
  assumes api: "api_server e view admit" and run: "run_state (deleteHTTPRoute e c) w = (None, w')"
  shows "removed view w' (route_ref c)"
proof -
  let ?k = "nn (platform_ns c) (httpRouteName c)"
  obtain r w1 where g: "run_state (get_http_route e ?k) w = (r, w1)" by fastforce
  show ?thesis
    unfolding route_ref_def
    by (rule delete_found_removed [OF api api_server_reads(9) [OF api] _ g])
      (use run g in \<open>auto simp: deleteHTTPRoute_def\<close>)
qed

lemma namespace_finalize_removed:
  assumes api: "api_server e view admit" and run: "run_state (namespace_finalize e c) w = (None, w')"
  shows "removed view w' (namespace_ref c)"
proof -
  let ?k = "nn '''' (tx_namespace c)"
  obtain r w1 where g: "run_state (get_namespace e ?k) w = (r, w1)" by fastforce
  show ?thesis
    unfolding namespace_ref_def
    by (rule delete_found_removed [OF api api_server_reads(1) [OF api] _ g])
      (use run g in \<open>auto simp: namespace_finalize_def\<close>)
qed

lemma delete_if_found_removed:
  assumes api: "api_server e view admit" and reads: "reads_store view K mk g" and rel: "reliable g"
    and kind: "\<And>x. obj_kind (mk x) = K"
    and run: "run_state (delete_if_found e g mk what k) w = (None, w')"
  shows "removed view w' (K, k)"
proof -
  obtain r w1 where g: "run_state (g k) w = (r, w1)" by fastforce
  show ?thesis
    by (rule delete_found_removed [OF api reads kind g])
      (use run g rel in \<open>auto simp: delete_if_found_def reliable_def run_simps
         split: option.splits prod.splits\<close>)
qed

text \<open>A deletion accepted earlier is not undone by a computation that leaves the object alone.\<close>

lemma removed_frame:
  assumes "api_server e view admit" and "\<And>P. stable e A P \<Longrightarrow> keeps P m" and "avoids A q"
    and "run_state m w = (r, w')" and "removed view w q"
  shows "removed view w' q"
proof -
  from keeps_run [OF assms(2) [OF api_server_stable [OF assms(1,3)]] assms(4) refl]
  have "view w' q = view w q" .
  with assms(5) show ?thesis by (simp add: removed_def)
qed

lemma database_finalize_removed:
  assumes api: "api_server e view admit" and e: "client_laws e"
    and rel: "reliable (get_database e)" "reliable (get_job e)"
    and run: "run_state (database_finalize e c) w = (None, w')"
  shows "removed view w' (database_ref c)" and "removed view w' (init_job_ref c)"
proof -
  let ?d = "delete_if_found e (get_database e) ODatabase ''CNPG Database''
      (nn (platform_ns c) (cnpgDatabaseName c))"
  let ?j = "delete_if_found e (get_job e) OJob ''init Job'' (nn (platform_ns c) (initJobName c))"
  obtain w1 where d: "run_state ?d w = (None, w1)" and j: "run_state ?j w1 = (None, w')"
    using run by (auto simp: database_finalize_def and_then_def run_simps
        split: option.splits prod.splits)
  have "removed view w1 (database_ref c)"
    unfolding database_ref_def
    by (rule delete_if_found_removed [OF api api_server_reads(4) [OF api] rel(1) _ d]) simp
  moreover have "keeps P ?j" if "stable e {(VDelete, init_job_ref c)} P" for P
    by (rule delete_if_found_keeps [OF that _ stable_get_job [OF that]])
      (simp_all add: client_reads_key [OF e] init_job_ref_def)
  ultimately show "removed view w' (database_ref c)"
    using removed_frame [OF api _ _ j, of "{(VDelete, init_job_ref c)}"]
    by (simp add: avoids_def init_job_ref_def database_ref_def)
  show "removed view w' (init_job_ref c)"
    unfolding init_job_ref_def
    by (rule delete_if_found_removed [OF api api_server_reads(5) [OF api] rel(2) _ j]) simp
qed

text \<open>All finalizers succeed only when everything they are for is gone.\<close>

lemma finalizers_removed:
  assumes api: "api_server e view admit" and e: "client_laws e"
    and rel: "reliable (get_database e)" "reliable (get_job e)"
    and sb: "meta_key (sb_meta sb) = supabase_key t" and c: "in_scope t sb c"
    and apart: "home_namespace t \<noteq> tenant_namespace t"
    and run: "run_state (run_finalizers (finalizers e) c) w = (True, w')"
  shows "removed view w' (t_route_ref t)" and "removed view w' (t_database_ref t)"
    and "removed view w' (t_job_ref t)" and "removed view w' (t_namespace_ref t)"
proof -
  note refs = scope_refs [OF c sb]
  obtain w1 w2 where r: "run_state (routing_finalize e c) w = (None, w1)"
    and d: "run_state (database_finalize e c) w1 = (None, w2)"
    and n: "run_state (namespace_finalize e c) w2 = (None, w')"
    using run
    by (auto simp: finalizers_def NewRoutingComponent_def NewDatabaseComponent_def
        NewNamespaceComponent_def run_simps split: option.splits prod.splits)
  have fd: "removed view w2 q" if "avoids (database_deletes c) q" "removed view w1 q" for q
    by (rule removed_frame [OF api _ that(1) d that(2)]) (rule database_comp.fin_keeps [OF e])
  have fn: "removed view w' q" if "avoids {(VDelete, namespace_ref c)} q" "removed view w2 q" for q
    by (rule removed_frame [OF api _ that(1) n that(2)]) (rule namespace_comp.fin_keeps [OF e])
  have av: "avoids (database_deletes c) (route_ref c)"
      "avoids {(VDelete, namespace_ref c)} (route_ref c)"
      "avoids {(VDelete, namespace_ref c)} (database_ref c)"
      "avoids {(VDelete, namespace_ref c)} (init_job_ref c)"
    using apart
    by (auto simp: refs avoids_def database_deletes_def t_database_ref_def t_job_ref_def
        t_route_ref_def t_namespace_ref_def)
  have "removed view w1 (route_ref c)"
    using deleteHTTPRoute_removed [OF api r [unfolded routing_finalize_def]] .
  from fn [OF av(2) fd [OF av(1) this]] show "removed view w' (t_route_ref t)" by (simp add: refs)
  note dj = database_finalize_removed [OF api e rel d]
  from fn [OF av(3) dj(1)] show "removed view w' (t_database_ref t)" by (simp add: refs)
  from fn [OF av(4) dj(2)] show "removed view w' (t_job_ref t)" by (simp add: refs)
  from namespace_finalize_removed [OF api n] show "removed view w' (t_namespace_ref t)"
    by (simp add: refs)
qed

lemma Tenant_Reconcile_finalized:
  assumes api: "api_server e view admit" and own: "owner_laws e"
    and rel: "reliable (get_supabase e)" "reliable (get_database e)" "reliable (get_job e)"
    and t: "view w (KTenant, req) = Some (OTenant t)"
    and sb: "view w (KSupabase, supabase_key t) = Some (OSupabase sb)"
    and del: "om_deletion (tc_meta t) \<noteq> None"
      "contains_finalizer e (om_finalizers (tc_meta t)) tenantFinalizer"
    and apart: "home_namespace t \<noteq> tenant_namespace t"
    and run: "run_state (Tenant_Reconcile e req) w = ((res, None), w')" and fin: "cr_requeue_after res = 0"
    and q: "q \<in> {t_route_ref t, t_database_ref t, t_job_ref t, t_namespace_ref t}"
  shows "removed view w' q"
  using api t run
proof (cases rule: Tenant_Reconcile_found)
  case (found w1 l w2)
  have e: "client_laws e" using api_server_well_keyed [OF api] own by (simp add: client_laws_def)
  let ?t = "with_tenant_phase t TenantPhaseDeleting"
  have f: "run_state (finalize e t t) w1 = ((res, None), w2)"
    using found(2) del by (auto simp: reconcile_found_def split: prod.splits)
  obtain u0 w3 where sp: "run_state (exec e (StatusPatch (OTenant t) (OTenant ?t))) w1 = (u0, w3)"
    by fastforce
  obtain g w4 where g: "run_state (get_supabase e (supabase_key ?t)) w3 = (g, w4)" by fastforce
  note get = reads_storeD [OF api_server_reads(13) [OF api] g]
  have key: "supabase_key ?t = supabase_key t" by (simp add: supabase_key_def)
  have "avoids (own_footprint t) (KSupabase, supabase_key t)"
    by (simp add: avoids_def own_footprint_def)
  from keeps_run [OF own_write_keeps(1) [OF api_server_stable [OF api this] order_refl] sp refl]
  have "view w3 (KSupabase, supabase_key t) = Some (OSupabase sb)"
    using sb found(1) by simp
  then have gsb: "g = Inr sb"
    using get(2,3) rel(1) g key by (cases g) (auto simp: reliable_def)
  obtain b w5 where rf: "run_state (run_finalizers (finalizers e) (NewTenantContext ?t sb)) w4 = (b, w5)"
    by fastforce
  have b: "b" using f sp g gsb rf del(2) fin
    by (cases b) (auto simp: finalize_def Let_def requeue_after_def second_def nanosecond_def)
  obtain u where up: "run_state (exec e (Update (OTenant (without_finalizer e ?t)))) w5 = (u, w2)"
    using f sp g gsb rf del(2) b by (auto simp: finalize_def Let_def split: prod.splits)
  have keysb: "meta_key (sb_meta sb) = supabase_key t"
    using api_server_keyed [OF api sb] by (simp add: obj_ref_def)
  have scope: "in_scope t sb (NewTenantContext ?t sb)"
    by (simp add: in_scope_def NewTenantContext_def tenant_namespace_def)
  have "removed view w5 q"
    using finalizers_removed [OF api e rel(2,3) keysb scope apart] rf b q by auto
  moreover have "avoids (own_footprint t) q"
    using q by (auto simp: avoids_def own_footprint_def t_route_ref_def t_database_ref_def
        t_job_ref_def t_namespace_ref_def)
  moreover have "keeps P (exec e (Update (OTenant (without_finalizer e ?t))))"
    if "stable e (own_footprint t) P" for P
    by (rule own_write_keeps(2) [OF that order_refl]) (simp add: without_finalizer_def)
  ultimately have "removed view w2 q" by (intro removed_frame [OF api _ _ up])
  with found(3) show ?thesis by (simp add: removed_def)
qed simp

end
