(* ===== verification/MemApi.thy ===== *)
theory MemApi
  imports PlatformStatus TenantFinalize
begin

text \<open>
  An environment that meets everything the operator relies on: an API server whose store is a
  list of objects, with the library calls as they are documented. \<open>settle\<close> is what becomes of
  a written object (admission, and controllers that act at once); \<open>faults\<close> makes chosen calls
  fail. The theorems that rest on a contract of the environment are applied here to concrete
  worlds.
\<close>

section \<open>The world\<close>

record world =
  w_objects :: "obj list"
  w_log :: "api_write list"        \<comment> \<open>the writes that were accepted, the last first\<close>
  w_events :: "event list"
  w_seed :: nat
  w_now :: int
  w_gauges :: "(gauge \<times> int) list"
  w_durations :: "(string \<times> string) list"

definition world_of :: "obj list \<Rightarrow> world" where
  "world_of xs =
     \<lparr>w_objects = xs, w_log = [], w_events = [], w_seed = 0, w_now = 1700000000,
      w_gauges = [], w_durations = []\<rparr>"

record faults =
  f_read :: "obj_ref \<Rightarrow> bool"
  f_write :: "verb \<times> obj_ref \<Rightarrow> bool"
  f_list :: "kind \<Rightarrow> bool"

definition no_faults :: faults where
  "no_faults = \<lparr>f_read = (\<lambda>_. False), f_write = (\<lambda>_. False), f_list = (\<lambda>_. False)\<rparr>"

definition unavailable :: go_error where
  "unavailable = ApiOther ''the server is currently unable to handle the request''"

definition mem_lookup :: "obj list \<Rightarrow> obj_ref \<rightharpoonup> obj" where
  "mem_lookup xs q = find (\<lambda>x. obj_ref x = q) xs"

definition mem_view :: "world store_view" where
  "mem_view w = mem_lookup (w_objects w)"

section \<open>Reads\<close>

text \<open>\<open>pick\<close> is the decoding of an object of the kind asked for.\<close>

definition mem_get :: "faults \<Rightarrow> kind \<Rightarrow> (obj \<Rightarrow> 'x option) \<Rightarrow> obj_key \<Rightarrow> (world, go_error + 'x) state" where
  "mem_get f K pick k =
     State (\<lambda>w. (if f_read f (K, k) then Inl unavailable
                 else case Option.bind (mem_view w (K, k)) pick of
                        None \<Rightarrow> Inl (ApiNotFound (k_name k @ '' not found''))
                      | Some x \<Rightarrow> Inr x, w))"

definition mem_list :: "faults \<Rightarrow> kind \<Rightarrow> (obj \<Rightarrow> 'x option) \<Rightarrow> (world, go_error + 'x list) state" where
  "mem_list f K pick =
     State (\<lambda>w. (if f_list f K then Inl unavailable
                 else Inr (List.map_filter pick (w_objects w)), w))"

section \<open>Writes\<close>

definition mem_put :: "obj \<Rightarrow> obj list \<Rightarrow> obj list" where
  "mem_put x xs = map (\<lambda>y. if obj_ref y = obj_ref x then x else y) xs"

definition mem_drop :: "(obj_ref \<Rightarrow> bool) \<Rightarrow> obj list \<Rightarrow> obj list" where
  "mem_drop P xs = filter (\<lambda>y. \<not> P (obj_ref y)) xs"

text \<open>The store after a write, or the error of a write that is refused.\<close>

fun mem_write :: "(obj \<Rightarrow> obj) \<Rightarrow> api_write \<Rightarrow> obj list \<Rightarrow> go_error + obj list" where
  "mem_write settle (Create x) xs =
     (case mem_lookup xs (obj_ref x) of
        None \<Rightarrow> Inr (settle x # xs)
      | Some y \<Rightarrow> Inl (ApiOther ''already exists''))"
| "mem_write settle (Patch b x) xs =
     (case mem_lookup xs (obj_ref x) of
        None \<Rightarrow> Inl (ApiNotFound ''not found'')
      | Some y \<Rightarrow> Inr (mem_put (settle (keep_status y x)) xs))"
| "mem_write settle (StatusPatch b x) xs =
     (case mem_lookup xs (obj_ref x) of
        None \<Rightarrow> Inl (ApiNotFound ''not found'')
      | Some y \<Rightarrow> Inr (mem_put (only_status y x) xs))"
| "mem_write settle (Update x) xs =
     (case mem_lookup xs (obj_ref x) of
        None \<Rightarrow> Inl (ApiNotFound ''not found'')
      | Some y \<Rightarrow>
          Inr (if om_deletion (obj_meta y) \<noteq> None \<and> om_finalizers (obj_meta x) = []
               then mem_drop (\<lambda>q. q = obj_ref x) xs
               else mem_put (settle (keep_status y x)) xs))"
| "mem_write settle (Delete x) xs =
     (case mem_lookup xs (obj_ref x) of
        None \<Rightarrow> Inl (ApiNotFound ''not found'')
      | Some y \<Rightarrow> Inr (mem_drop (\<lambda>q. q = obj_ref x \<or> cascades x q) xs))"

definition mem_exec :: "faults \<Rightarrow> (obj \<Rightarrow> obj) \<Rightarrow> api_write \<Rightarrow> (world, go_error option) state" where
  "mem_exec f settle wr =
     State (\<lambda>w.
       if f_write f (write_sig wr) then (Some unavailable, w)
       else case mem_write settle wr (w_objects w) of
              Inl err \<Rightarrow> (Some err, w)
            | Inr xs \<Rightarrow> (None, w\<lparr>w_objects := xs, w_log := wr # w_log w\<rparr>))"

section \<open>Library calls\<close>

fun mem_set_condition :: "condition list \<Rightarrow> condition \<Rightarrow> condition list" where
  "mem_set_condition [] c = [c]"
| "mem_set_condition (d # cs) c =
     (if cond_type d = cond_type c then c # cs else d # mem_set_condition cs c)"

definition mem_condition_true :: "condition list \<Rightarrow> string \<Rightarrow> bool" where
  "mem_condition_true cs t =
     (case find_condition cs t of None \<Rightarrow> False | Some c \<Rightarrow> cond_status c = CondTrue)"

definition mem_rand :: "nat \<Rightarrow> (world, go_error + string) state" where
  "mem_rand n =
     State (\<lambda>w. (Inr (map (\<lambda>i. char_of (w_seed w + i)) [0..<n]), w\<lparr>w_seed := w_seed w + n\<rparr>))"

definition mem_owner :: "supabase \<Rightarrow> object_meta \<Rightarrow> go_error + object_meta" where
  "mem_owner sb m =
     Inr (m\<lparr>om_owners := \<lparr>ow_kind = ''Supabase'', ow_name = om_name (sb_meta sb)\<rparr> # om_owners m\<rparr>)"

definition mem_env :: "faults \<Rightarrow> (obj \<Rightarrow> obj) \<Rightarrow> world env" where
  "mem_env f settle =
     \<lparr>get_namespace = mem_get f KNamespace (\<lambda>x. case x of ONamespace y \<Rightarrow> Some y | _ \<Rightarrow> None),
      get_network_policy = mem_get f KNetworkPolicy (\<lambda>x. case x of ONetworkPolicy y \<Rightarrow> Some y | _ \<Rightarrow> None),
      get_secret = mem_get f KSecret (\<lambda>x. case x of OSecret y \<Rightarrow> Some y | _ \<Rightarrow> None),
      get_database = mem_get f KDatabase (\<lambda>x. case x of ODatabase y \<Rightarrow> Some y | _ \<Rightarrow> None),
      get_job = mem_get f KJob (\<lambda>x. case x of OJob y \<Rightarrow> Some y | _ \<Rightarrow> None),
      get_deployment = mem_get f KDeployment (\<lambda>x. case x of ODeployment y \<Rightarrow> Some y | _ \<Rightarrow> None),
      get_service = mem_get f KService (\<lambda>x. case x of OService y \<Rightarrow> Some y | _ \<Rightarrow> None),
      get_config_map = mem_get f KConfigMap (\<lambda>x. case x of OConfigMap y \<Rightarrow> Some y | _ \<Rightarrow> None),
      get_http_route = mem_get f KHTTPRoute (\<lambda>x. case x of OHTTPRoute y \<Rightarrow> Some y | _ \<Rightarrow> None),
      get_cluster = mem_get f KCluster (\<lambda>x. case x of OCluster y \<Rightarrow> Some y | _ \<Rightarrow> None),
      get_scheduled_backup =
        mem_get f KScheduledBackup (\<lambda>x. case x of OScheduledBackup y \<Rightarrow> Some y | _ \<Rightarrow> None),
      get_gateway = mem_get f KGateway (\<lambda>x. case x of OGateway y \<Rightarrow> Some y | _ \<Rightarrow> None),
      get_supabase = mem_get f KSupabase (\<lambda>x. case x of OSupabase y \<Rightarrow> Some y | _ \<Rightarrow> None),
      get_tenant = mem_get f KTenant (\<lambda>x. case x of OTenant y \<Rightarrow> Some y | _ \<Rightarrow> None),
      list_clusters =
        (\<lambda>n. mem_list f KCluster (\<lambda>x. case x of OCluster y \<Rightarrow>
               if om_namespace (cl_meta y) = n then Some y else None | _ \<Rightarrow> None)),
      list_gateways =
        (\<lambda>n. mem_list f KGateway (\<lambda>x. case x of OGateway y \<Rightarrow>
               if om_namespace (gw_meta y) = n then Some y else None | _ \<Rightarrow> None)),
      list_tenants = mem_list f KTenant (\<lambda>x. case x of OTenant y \<Rightarrow> Some y | _ \<Rightarrow> None),
      exec = mem_exec f settle,
      emit = (\<lambda>ev. State (\<lambda>w. ((), w\<lparr>w_events := ev # w_events w\<rparr>))),
      rand_read = mem_rand,
      now_unix = State (\<lambda>w. (w_now w, w)),
      set_gauge = (\<lambda>g n. State (\<lambda>w. ((), w\<lparr>w_gauges := (g, n) # w_gauges w\<rparr>))),
      observe_reconcile = (\<lambda>c r. State (\<lambda>w. ((), w\<lparr>w_durations := (c, r) # w_durations w\<rparr>))),
      sign_hs256 = (\<lambda>claims key. Inr (jc_role claims @ ''.'' @ key)),
      set_controller_reference = mem_owner,
      set_status_condition = mem_set_condition,
      is_status_condition_true = mem_condition_true,
      contains_finalizer = (\<lambda>fs f. f \<in> set fs),
      add_finalizer = (\<lambda>fs f. if f \<in> set fs then fs else fs @ [f]),
      remove_finalizer = (\<lambda>fs f. filter (\<lambda>g. g \<noteq> f) fs)\<rparr>"

section \<open>The environment meets the contracts\<close>

lemma mem_lookup_ref: "mem_lookup xs q = Some x \<Longrightarrow> obj_ref x = q"
  by (auto simp: mem_lookup_def find_Some_iff)

lemma mem_lookup_Cons: "mem_lookup (x # xs) q = (if obj_ref x = q then Some x else mem_lookup xs q)"
  by (simp add: mem_lookup_def)

lemma mem_lookup_put:
  "mem_lookup (mem_put x xs) q =
     (if q = obj_ref x then (if mem_lookup xs q = None then None else Some x) else mem_lookup xs q)"
  by (induction xs) (auto simp: mem_put_def mem_lookup_def)

lemma mem_lookup_drop:
  "mem_lookup (mem_drop P xs) q = (if P q then None else mem_lookup xs q)"
  by (induction xs) (auto simp: mem_drop_def mem_lookup_def)

lemma obj_ref_only_status [simp]: "obj_ref (only_status old m) = obj_ref old"
  by (simp add: only_status_def obj_ref_def split: obj.split)

lemma mem_write_law:
  assumes settle: "\<And>x. obj_ref (settle x) = obj_ref x"
    and run: "run_state (mem_exec f settle wr) w = (r, w')"
  shows "write_law mem_view settle w wr r w'"
proof (cases "f_write f (write_sig wr)")
  case True
  with run have "r = Some unavailable" "w' = w" by (simp_all add: mem_exec_def)
  then show ?thesis by (cases wr) simp_all
next
  case False
  show ?thesis
  proof (cases "mem_write settle wr (w_objects w)")
    case (Inl err)
    with run False have "r = Some err" "w' = w" by (simp_all add: mem_exec_def)
    then show ?thesis by (cases wr) simp_all
  next
    case (Inr xs)
    with run False have w': "r = None" "w' = w\<lparr>w_objects := xs, w_log := wr # w_log w\<rparr>"
      by (auto simp: mem_exec_def)
    show ?thesis
    proof (cases wr)
      case (Create x)
      with Inr w' settle show ?thesis
        by (auto simp: mem_view_def mem_lookup_Cons split: option.splits)
    next
      case (Patch b x)
      with Inr w' settle show ?thesis
        by (auto simp: mem_view_def mem_lookup_put split: option.splits)
    next
      case (StatusPatch b x)
      with Inr obtain y where y: "mem_lookup (w_objects w) (obj_ref x) = Some y"
        "xs = mem_put (only_status y x) (w_objects w)"
        by (auto split: option.splits)
      then have "obj_ref y = obj_ref x" by (rule_tac mem_lookup_ref)
      with StatusPatch w' y show ?thesis
        by (cases "y = b") (simp_all add: mem_view_def mem_lookup_put del: split_paired_All)
    next
      case (Update x)
      with Inr w' settle show ?thesis
        by (auto simp: mem_view_def mem_lookup_put mem_lookup_drop split: option.splits if_splits)
    next
      case (Delete x)
      with Inr w' show ?thesis
        by (auto simp: mem_view_def mem_lookup_drop removed_def split: option.splits)
    qed
  qed
qed

lemma mem_get_reads:
  assumes "\<And>x y. pick x = Some y \<longleftrightarrow> x = mk y" and "\<And>y. obj_kind (mk y) = K"
    and "\<And>x. obj_kind x = K \<Longrightarrow> pick x \<noteq> None"
  shows "reads_store mem_view K mk (mem_get f K pick)"
  unfolding reads_store_def
proof (intro allI impI)
  fix k w r w'
  assume run: "run_state (mem_get f K pick k) w = (r, w')"
  then have w': "w' = w" by (simp add: mem_get_def)
  show "mem_view w' = mem_view w \<and>
      (case r of Inl err \<Rightarrow> is_not_found err \<longrightarrow> mem_view w (K, k) = None
       | Inr x \<Rightarrow> mem_view w (K, k) = Some (mk x))"
  proof (cases "mem_view w (K, k)")
    case None
    with run w' show ?thesis by (auto simp: mem_get_def unavailable_def split: if_splits)
  next
    case (Some x)
    then have "obj_kind x = K" using mem_lookup_ref [of "w_objects w" "(K, k)" x]
      by (simp add: mem_view_def obj_ref_def)
    with assms(3) obtain y where y: "pick x = Some y" by fastforce
    with assms(1) have "x = mk y" by blast
    with Some run w' y show ?thesis
      by (auto simp: mem_get_def unavailable_def split: if_splits)
  qed
qed

lemma silent_State: "(\<And>w. mem_view (snd (g w)) = mem_view w) \<Longrightarrow> silent mem_view (State g)"
  by (auto simp: silent_def) (metis snd_conv)

lemma mem_api_server:
  assumes "\<And>x. obj_ref (settle x) = obj_ref x"
  shows "api_server (mem_env f settle) mem_view settle"
proof -
  have keyed: "\<forall>w q x. mem_view w q = Some x \<longrightarrow> obj_ref x = q"
    using mem_lookup_ref by (auto simp: mem_view_def)
  have reads: "reads_store mem_view KNamespace ONamespace (get_namespace (mem_env f settle))"
    "reads_store mem_view KNetworkPolicy ONetworkPolicy (get_network_policy (mem_env f settle))"
    "reads_store mem_view KSecret OSecret (get_secret (mem_env f settle))"
    "reads_store mem_view KDatabase ODatabase (get_database (mem_env f settle))"
    "reads_store mem_view KJob OJob (get_job (mem_env f settle))"
    "reads_store mem_view KDeployment ODeployment (get_deployment (mem_env f settle))"
    "reads_store mem_view KService OService (get_service (mem_env f settle))"
    "reads_store mem_view KConfigMap OConfigMap (get_config_map (mem_env f settle))"
    "reads_store mem_view KHTTPRoute OHTTPRoute (get_http_route (mem_env f settle))"
    "reads_store mem_view KCluster OCluster (get_cluster (mem_env f settle))"
    "reads_store mem_view KScheduledBackup OScheduledBackup (get_scheduled_backup (mem_env f settle))"
    "reads_store mem_view KGateway OGateway (get_gateway (mem_env f settle))"
    "reads_store mem_view KSupabase OSupabase (get_supabase (mem_env f settle))"
    "reads_store mem_view KTenant OTenant (get_tenant (mem_env f settle))"
    by (simp_all add: mem_env_def, (rule mem_get_reads; (auto split: obj.splits elim: obj_kind.elims))+)
  have exec: "\<forall>wr w r w'. run_state (exec (mem_env f settle) wr) w = (r, w') \<longrightarrow>
      write_law mem_view settle w wr r w'"
    using mem_write_law [OF assms] by (simp add: mem_env_def)
  show ?thesis
    unfolding api_server_def
    using keyed assms reads exec
    by (simp add: mem_env_def mem_list_def mem_rand_def silent_State mem_view_def)
qed

lemma find_condition_set:
  "find_condition (mem_set_condition cs c) t =
     (if t = cond_type c then Some c else find_condition cs t)"
  by (induction cs) (auto simp: find_condition_def)

lemma mem_set_condition_types:
  "set (map cond_type (mem_set_condition cs c)) \<subseteq> insert (cond_type c) (set (map cond_type cs))"
  by (induction cs) auto

lemma mem_condition_laws: "condition_laws (mem_env f settle)"
proof -
  have "distinct (map cond_type (mem_set_condition cs c))" if "distinct (map cond_type cs)" for cs c
    using that
  proof (induction cs)
    case (Cons d cs)
    then show ?case using mem_set_condition_types [of cs c] by (auto simp: image_iff subset_iff)
  qed simp
  then show ?thesis
    by (auto simp: condition_laws_def mem_env_def find_condition_set mem_condition_true_def
        split: option.splits)
qed

lemma mem_owner_laws: "owner_laws (mem_env f settle)"
  by (auto simp: owner_laws_def mem_env_def mem_owner_def)

lemma mem_finalizer_laws: "finalizer_laws (mem_env f settle)"
  by (auto simp: finalizer_laws_def mem_env_def)

lemma mem_entropy_laws: "entropy_laws (mem_env f settle)"
  by (auto simp: entropy_laws_def mem_env_def mem_rand_def)

lemma mem_client_laws:
  assumes "\<And>x. obj_ref (settle x) = obj_ref x"
  shows "client_laws (mem_env f settle)"
  using api_server_well_keyed [OF mem_api_server [OF assms]] mem_owner_laws
  by (simp add: client_laws_def)

lemma mem_reliable:
  assumes "\<And>q. \<not> f_read f q"
  shows "reliable (get_supabase (mem_env f settle))" and "reliable (get_database (mem_env f settle))"
    and "reliable (get_job (mem_env f settle))" and "reliable (get_secret (mem_env f settle))"
  using assms by (auto simp: reliable_def mem_env_def mem_get_def split: option.splits)

section \<open>A concrete platform and tenant\<close>

text \<open>Controllers that act at once: what is written is running when the write returns.\<close>

fun settle :: "obj \<Rightarrow> obj" where
  "settle (ONamespace x) = ONamespace (x\<lparr>ns_phase := NamespaceActive\<rparr>)"
| "settle (ODeployment x) =
     ODeployment (x\<lparr>dep_ready_replicas :=
       (case ds_replicas (dep_spec x) of None \<Rightarrow> 1 | Some n \<Rightarrow> n)\<rparr>)"
| "settle (OJob x) = OJob (x\<lparr>job_succeeded := 1\<rparr>)"
| "settle (ODatabase x) = ODatabase (x\<lparr>cdb_applied := Some True\<rparr>)"
| "settle (OCluster x) =
     OCluster (x\<lparr>cl_conditions := [mk_condition ConditionClusterReady CondTrue ''Ready'' '''' 1]\<rparr>)"
| "settle (OGateway x) =
     OGateway (x\<lparr>gw_conditions := [mk_condition GatewayConditionAccepted CondTrue ''Accepted'' '''' 1]\<rparr>)"
| "settle x = x"

lemma obj_ref_settle [simp]: "obj_ref (settle x) = obj_ref x"
  by (cases x) (simp_all add: obj_ref_def)

definition env :: "world env" where
  "env = mem_env no_faults settle"

definition sample_service :: service_spec where
  "sample_service = \<lparr>ss_enabled = None, ss_replicas = None, ss_resources = no_resources\<rparr>"

definition sample_spec :: supabase_spec where
  "sample_spec =
     \<lparr>sp_database =
        \<lparr>dbs_instances = 1, dbs_image_name = '''',
         dbs_storage = \<lparr>ps_size = ''10Gi'', ps_storage_class_name = None\<rparr>,
         dbs_backup = None, dbs_resources = no_resources\<rparr>,
      sp_gateway = \<lparr>gws_class_name = ''envoy'', gws_base_domain = ''example.com'', gws_tls_secret = None\<rparr>,
      sp_imgproxy = sample_service, sp_studio = sample_service, sp_analytics = sample_service,
      sp_vector = sample_service, sp_supavisor = sample_service,
      sp_images = \<lparr>img_imgproxy = None, img_studio = None, img_analytics = None, img_vector = None,
                   img_supavisor = None\<rparr>\<rparr>"

definition sample_meta :: "string \<Rightarrow> object_meta" where
  "sample_meta n = (mk_meta ''platform'' n Map.empty)\<lparr>om_generation := 3\<rparr>"

definition sample_supabase :: supabase where
  "sample_supabase =
     \<lparr>sb_meta = sample_meta ''main'', sb_spec = sample_spec,
      sb_status = \<lparr>sst_phase = '''', sst_conditions = [], sst_database_ready = False,
                   sst_gateway_ready = False, sst_tenant_count = 0, sst_observed_generation = 0\<rparr>\<rparr>"

definition sample_tenant_spec :: "string \<Rightarrow> bool \<Rightarrow> tenant_spec" where
  "sample_tenant_spec tid susp =
     \<lparr>tn_id = tid, tn_supabase_ref = ''main'',
      tn_auth = \<lparr>au_site_url = ''https://app.example.com'', au_additional_redirect_urls = [],
                 au_disable_signup = False, au_email = None, au_smtp = None, au_external = None\<rparr>,
      tn_rest = \<lparr>re_schemas = [], re_max_rows = None\<rparr>,
      tn_realtime = sample_service,
      tn_storage = \<lparr>st_backend = StorageBackendFile, st_file_size_limit = None,
                    st_image_transformation = False, st_s3 = None, st_object_bucket = None\<rparr>,
      tn_functions = \<lparr>fn_verify_jwt = True, fn_source_config_map = None\<rparr>,
      tn_suspended = susp, tn_resources = ResourcePresetSmall\<rparr>"

definition no_status :: component_status where
  "no_status = \<lparr>cst_ready = False, cst_message = '''', cst_version = ''''\<rparr>"

definition sample_tenant_status :: tenant_status where
  "sample_tenant_status =
     \<lparr>tst_phase = '''', tst_conditions = [], tst_namespace = '''', tst_endpoint = '''',
      tst_components = \<lparr>tcs_database = no_status, tcs_auth = no_status, tcs_rest = no_status,
        tcs_realtime = no_status, tcs_storage = no_status, tcs_functions = no_status,
        tcs_routing = no_status\<rparr>,
      tst_observed_generation = 0\<rparr>"

definition sample_tenant :: "string \<Rightarrow> bool \<Rightarrow> supabase_tenant" where
  "sample_tenant tid susp =
     \<lparr>tc_meta = (sample_meta tid)\<lparr>om_finalizers := [tenantFinalizer]\<rparr>,
      tc_spec = sample_tenant_spec tid susp, tc_status = sample_tenant_status\<rparr>"

definition deleted_tenant :: "string \<Rightarrow> supabase_tenant" where
  "deleted_tenant tid =
     (sample_tenant tid False)
       \<lparr>tc_meta := (tc_meta (sample_tenant tid False))\<lparr>om_deletion := Some 1700000000\<rparr>\<rparr>"

definition platform_world :: world where
  "platform_world = world_of [OSupabase sample_supabase]"

definition tenant_world :: "supabase_tenant \<Rightarrow> world" where
  "tenant_world t = world_of [OTenant t, OSupabase sample_supabase]"

lemma env_laws:
  "api_server env mem_view settle" "owner_laws env" "condition_laws env" "finalizer_laws env"
  "entropy_laws env" "client_laws env"
  "reliable (get_supabase env)" "reliable (get_database env)" "reliable (get_job env)"
  "reliable (get_secret env)"
  unfolding env_def
  by (rule mem_api_server mem_owner_laws mem_condition_laws mem_finalizer_laws mem_entropy_laws
      mem_client_laws mem_reliable; simp add: no_faults_def)+

text \<open>
  A world in which the prerequisites of a tenant exist: its namespace and policy, its secrets
  (without data), its database and an init Job that succeeded.
\<close>

definition settled_world :: "supabase_tenant \<Rightarrow> world" where
  "settled_world t =
     (let c = NewTenantContext t sample_supabase
      in world_of
           [OTenant t, OSupabase sample_supabase, settle (ONamespace (buildNamespace c)),
            ONetworkPolicy (buildNetworkPolicy c),
            OSecret \<lparr>sec_meta = secret_meta c (jwtSecretName c), sec_data = []\<rparr>,
            OSecret \<lparr>sec_meta = secret_meta c (dbCredentialsSecretName c), sec_data = []\<rparr>,
            settle (ODatabase (buildCNPGDatabase c)),
            OJob \<lparr>job_meta = mk_meta (platform_ns c) (initJobName c) Map.empty,
                  job_backoff_limit = Some 3,
                  job_template = \<lparr>pt_labels = Map.empty, pt_annotations = Map.empty,
                    pt_restart_policy = RestartPolicyOnFailure, pt_containers = [], pt_volumes = []\<rparr>,
                  job_succeeded = 1, job_active = 0, job_failed = 0\<rparr>])"

definition main_key :: obj_key where
  "main_key = nn ''platform'' ''main''"

end
