(* ===== verification/PlatformProperties.thy ===== *)
theory PlatformProperties
  imports MemApi
begin

text \<open>
  The properties of the platform controller: what a pass leaves in the status, what it may
  write, and what happens when preflight or a critical component fails.
\<close>

lemma platform_world_view: "mem_view platform_world (KSupabase, main_key) = Some (OSupabase sample_supabase)"
  by (simp add: platform_world_def world_of_def mem_view_def mem_lookup_def obj_ref_def main_key_def
      sample_supabase_def sample_meta_def mk_meta_def meta_key_def)

section \<open>Properties\<close>

text \<open>
  C1: a pass over a platform that returns no error has written a status that says what the
  pass found: one current condition for each component it ran, the phase that these conditions
  amount to, the two ready flags; and the requeue interval is the one of that phase.
\<close>

theorem platform_status:
  assumes "api_server e view admit" and "owner_laws e" and "condition_laws e"
    and "view w (KSupabase, req) = Some (OSupabase sb)"
    and "run_state (Reconcile e req) w = ((res, None), w')"
  shows "\<exists>st. view w' (KSupabase, req) = Some (OSupabase (sb\<lparr>sb_status := st\<rparr>)) \<and>
    platform_status_ok (om_generation (sb_meta sb)) (sb_status sb) st \<and>
    res = requeue_after (requeue_interval (sst_phase st))"
  by (rule Reconcile_status [OF assms]) blast

lemma main_pass: "fst (run_state (Reconcile env main_key) platform_world) = (requeue_after (300 * second), None)"
  by code_simp

theorem platform_status_witness:
  "\<exists>st. mem_view (snd (run_state (Reconcile env main_key) platform_world)) (KSupabase, main_key) =
      Some (OSupabase (sample_supabase\<lparr>sb_status := st\<rparr>)) \<and>
    platform_status_ok 3 (sb_status sample_supabase) st \<and>
    requeue_after (300 * second) = requeue_after (requeue_interval (sst_phase st))"
proof -
  have "run_state (Reconcile env main_key) platform_world =
      ((requeue_after (300 * second), None), snd (run_state (Reconcile env main_key) platform_world))"
    using main_pass by (metis prod.collapse)
  from platform_status [OF env_laws(1-3) platform_world_view this]
  show ?thesis by (simp add: sample_supabase_def sample_meta_def)
qed

text \<open>
  C9: when a pass ends with a database, backup or gateway condition that records an error,
  nothing but the platform's own object and those three objects was touched: no service is
  created or changed on top of failed infrastructure.
\<close>

theorem critical_failure_isolates:
  assumes "api_server e view admit" and "owner_laws e" and "condition_laws e"
    and "view w (KSupabase, req) = Some (OSupabase sb)"
    and "run_state (Reconcile e req) w = ((res, None), w')"
    and "view w' (KSupabase, req) = Some (OSupabase sb')"
    and "list_ex (condition_error (sst_conditions (sb_status sb'))) critical_conditions"
    and "q \<noteq> (KSupabase, req)" and "q \<notin> critical_refs req"
  shows "view w' q = view w q"
  by (rule Reconcile_critical_failure [OF assms])

text \<open>An API server that refuses to create the gateway.\<close>

definition gateway_faults :: faults where
  "gateway_faults = no_faults\<lparr>f_write := (\<lambda>(v, q). fst q = KGateway)\<rparr>"

definition gateway_env :: "world env" where
  "gateway_env = mem_env gateway_faults settle"

lemma gateway_env_laws:
  "api_server gateway_env mem_view settle" "owner_laws gateway_env" "condition_laws gateway_env"
  unfolding gateway_env_def by (rule mem_api_server mem_owner_laws mem_condition_laws; simp)+

definition gateway_pass :: "reconcile_return \<times> world" where
  "gateway_pass = run_state (Reconcile gateway_env main_key) platform_world"

lemma gateway_pass_result: "snd (fst gateway_pass) = None"
  by code_simp

lemma gateway_pass_failed:
  "case mem_view (snd gateway_pass) (KSupabase, main_key) of
     Some (OSupabase sb') \<Rightarrow>
       list_ex (condition_error (sst_conditions (sb_status sb'))) critical_conditions
   | _ \<Rightarrow> False"
  by code_simp

theorem critical_failure_isolates_witness:
  "mem_view (snd gateway_pass) (KDeployment, nn ''platform'' ''main-studio'') =
   mem_view platform_world (KDeployment, nn ''platform'' ''main-studio'')"
proof -
  have run: "run_state (Reconcile gateway_env main_key) platform_world =
      ((fst (fst gateway_pass), None), snd gateway_pass)"
    using gateway_pass_result unfolding gateway_pass_def by (metis prod.collapse)
  obtain sb' where "mem_view (snd gateway_pass) (KSupabase, main_key) = Some (OSupabase sb')"
    and "list_ex (condition_error (sst_conditions (sb_status sb'))) critical_conditions"
    using gateway_pass_failed by (simp split: option.splits obj.splits)
  from critical_failure_isolates [OF gateway_env_laws platform_world_view run this]
  show ?thesis by (simp add: critical_refs_def)
qed

text \<open>
  C10: whatever a pass returns, it touches only the platform's own object and the fourteen
  objects that are named after it, in its namespace: no other platform, no tenant, no object
  of anyone else.
\<close>

theorem platform_frame:
  assumes "api_server e view admit" and "owner_laws e"
    and "run_state (Reconcile e req) w = (r, w')"
    and "q \<notin> insert (KSupabase, req) (critical_refs req \<union> service_refs req)"
  shows "view w' q = view w q"
proof -
  have "avoids (platform_footprint req) q"
    using assms(4) by (auto simp: avoids_def platform_footprint_def upserts_def)
  from Reconcile_keeps [OF api_client_laws [OF assms(1,2)] api_server_stable [OF assms(1) this]]
  show ?thesis using assms(3) by (rule keeps_run) simp
qed

theorem platform_frame_witness:
  "mem_view (snd (run_state (Reconcile env main_key) platform_world)) (KSecret, nn ''platform'' ''main-db'') =
   mem_view platform_world (KSecret, nn ''platform'' ''main-db'')"
  by (rule platform_frame [OF env_laws(1,2), of main_key platform_world
        "fst (run_state (Reconcile env main_key) platform_world)"])
    (auto simp: critical_refs_def service_refs_def)




text \<open>
  C21: a platform is left alone exactly when it needs attention most. A pass that returns no
  error asks for another one after an interval unless it ends in phase Error, and it ends in
  phase Error exactly when a component failed while the database is not ready: then it neither
  returns an error nor asks to be called again.
\<close>

theorem error_not_retried:
  assumes "api_server e view admit" and "owner_laws e" and "condition_laws e"
    and "view w (KSupabase, req) = Some (OSupabase sb)"
    and "run_state (Reconcile e req) w = ((res, None), w')"
    and "view w' (KSupabase, req) = Some (OSupabase sb')"
  shows "(cr_requeue_after res = 0 \<longleftrightarrow> sst_phase (sb_status sb') = SupphaseError) \<and> \<not> cr_requeue res \<and>
    (sst_phase (sb_status sb') = SupphaseError \<longleftrightarrow>
      list_ex (condition_error (sst_conditions (sb_status sb'))) platform_conditions \<and>
      \<not> condition_true (sst_conditions (sb_status sb')) ConditionDatabaseReady)"
proof -
  obtain st where "view w' (KSupabase, req) = Some (OSupabase (sb\<lparr>sb_status := st\<rparr>))"
    and ok: "platform_status_ok (om_generation (sb_meta sb)) (sb_status sb) st"
    and res: "res = requeue_after (requeue_interval (sst_phase st))"
    by (rule Reconcile_status [OF assms(1-5)])
  with assms(6) have st: "sb_status sb' = st" by auto
  have phase: "sst_phase st = platform_phase (sst_conditions st)"
    using ok by (simp add: platform_status_ok_def)
  have db: "ConditionDatabaseReady \<in> set platform_conditions"
    by (simp add: platform_conditions_def critical_conditions_def)
  have "sst_phase st = SupphaseError \<longleftrightarrow>
      list_ex (condition_error (sst_conditions st)) platform_conditions \<and>
      \<not> condition_true (sst_conditions st) ConditionDatabaseReady"
    using db unfolding phase by (auto simp: platform_phase_def Let_def supphase_defs list_all_iff)
  moreover have "sst_phase st \<in> {SupphaseReady, SupphaseDegraded, SupphaseError, SupphaseProvisioning}"
    unfolding phase by (simp add: platform_phase_def Let_def)
  ultimately show ?thesis
    using res unfolding st
    by (auto simp: requeue_after_def requeue_interval_def supphase_defs second_def minute_def nanosecond_def)
qed

text \<open>An API server that refuses to create the database cluster.\<close>

definition cluster_env :: "world env" where
  "cluster_env = mem_env (no_faults\<lparr>f_write := (\<lambda>(v, q). fst q = KCluster)\<rparr>) settle"

definition cluster_pass :: "reconcile_return \<times> world" where
  "cluster_pass = run_state (Reconcile cluster_env main_key) platform_world"

lemma cluster_pass_failed:
  "snd (fst cluster_pass) = None"
  "case mem_view (snd cluster_pass) (KSupabase, main_key) of
     Some (OSupabase sb') \<Rightarrow> sst_phase (sb_status sb') = SupphaseError
   | _ \<Rightarrow> False"
  by code_simp+

theorem error_not_retried_witness:
  "fst cluster_pass = (no_requeue, None)"
proof -
  have laws: "api_server cluster_env mem_view settle" "owner_laws cluster_env" "condition_laws cluster_env"
    unfolding cluster_env_def by (rule mem_api_server mem_owner_laws mem_condition_laws; simp)+
  have run: "run_state (Reconcile cluster_env main_key) platform_world =
      ((fst (fst cluster_pass), None), snd cluster_pass)"
    using cluster_pass_failed(1) unfolding cluster_pass_def by (metis prod.collapse)
  obtain sb' where "mem_view (snd cluster_pass) (KSupabase, main_key) = Some (OSupabase sb')"
    and "sst_phase (sb_status sb') = SupphaseError"
    using cluster_pass_failed(2) by (simp split: option.splits obj.splits)
  with error_not_retried [OF laws platform_world_view run] cluster_pass_failed(1) show ?thesis
    by (simp add: no_requeue_def prod_eq_iff)
qed

end
