(* ===== verification/TenantProperties.thy ===== *)
theory TenantProperties
  imports MemApi
begin

text \<open>
  The properties of the tenant controller: the pipeline and its gate, what a pass may touch,
  other tenants, suspension, finalization, metrics and the mapping from objects to tenants.
\<close>

section \<open>Concrete tenants\<close>

definition acme_key :: obj_key where "acme_key = nn ''platform'' ''acme''"

definition acme :: supabase_tenant where "acme = sample_tenant ''acme'' False"

definition umbrella :: supabase_tenant where "umbrella = sample_tenant ''umbrella'' False"

lemma tenant_world_view:
  assumes "tenant_key t = k"
  shows "mem_view (tenant_world t) (KTenant, k) = Some (OTenant t)"
    and "mem_view (tenant_world t) (KSupabase, main_key) = Some (OSupabase sample_supabase)"
  using assms
  by (simp_all add: tenant_world_def world_of_def mem_view_def mem_lookup_def obj_ref_def
      main_key_def sample_supabase_def sample_meta_def mk_meta_def meta_key_def)

lemma sample_keys:
  "tenant_key acme = acme_key" "tenant_key (deleted_tenant ''acme'') = acme_key"
  "supabase_key acme = main_key" "supabase_key umbrella = main_key"
  "supabase_key (deleted_tenant ''acme'') = main_key"
  by (simp_all add: acme_def umbrella_def sample_tenant_def deleted_tenant_def sample_meta_def
      mk_meta_def meta_key_def acme_key_def supabase_key_def sample_tenant_spec_def main_key_def)

text \<open>An API server on which no namespace ever becomes active.\<close>

definition inert_env :: "world env" where
  "inert_env = mem_env no_faults (\<lambda>x. x)"

lemma inert_env_laws:
  "api_server inert_env mem_view (\<lambda>x. x)" "owner_laws inert_env" "condition_laws inert_env"
  unfolding inert_env_def by (rule mem_api_server mem_owner_laws mem_condition_laws; simp)+

lemma inert_pass:
  "fst (run_state (Tenant_Reconcile inert_env acme_key) (tenant_world acme)) =
     (requeue_after (10 * second), None)"
  by code_simp



section \<open>The pipeline\<close>

text \<open>
  C2: a pass over an active tenant that returns no error ended in one of three ways. The
  platform could not be read: nothing but the tenant's own object was touched, next try in 15
  seconds. A prerequisite is not ready: the status that was sent says so, in phase Provisioning,
  and nothing but the tenant's own object, its namespace, its policy, its secrets, its database
  and its init Job was touched (no service, no route), next try in 10 seconds. Or the whole
  pipeline ran: the status has nine current conditions, the prerequisites are ready, the phase is
  what the conditions and the suspension amount to, and the interval is 5 minutes exactly when
  that phase is Ready.
\<close>

theorem tenant_pass:
  assumes "api_server e view admit" and "owner_laws e" and "condition_laws e"
    and "view w (KTenant, req) = Some (OTenant t)"
    and "om_deletion (tc_meta t) = None"
    and "contains_finalizer e (om_finalizers (tc_meta t)) tenantFinalizer"
    and "run_state (Tenant_Reconcile e req) w = ((res, None), w')"
  shows "(res = requeue_after (15 * second) \<and> (\<forall>q. q \<noteq> (KTenant, req) \<longrightarrow> view w' q = view w q)) \<or>
    (res = requeue_after (10 * second) \<and>
      (\<forall>q. avoids (own_footprint t \<union> prereq_footprint t) q \<longrightarrow> view w' q = view w q) \<and>
      (\<exists>st err. status_sent e view t st err w' \<and> tst_phase st = TenantPhaseProvisioning \<and>
         tst_observed_generation st = om_generation (tc_meta t) \<and>
         \<not> list_all (condition_true (tst_conditions st)) prereq_conditions)) \<or>
    (\<exists>sb st. view w (KSupabase, supabase_key t) = Some (OSupabase sb) \<and>
      view w' (KTenant, req) = Some (OTenant (t\<lparr>tc_status := st\<rparr>)) \<and> tenant_status_ok t sb st \<and>
      res = requeue_after ((if tst_phase st = TenantPhaseReady then 300 else 15) * second))"
  by (rule Tenant_Reconcile_active [OF assms]) blast+

lemma acme_active:
  "om_deletion (tc_meta acme) = None" "om_finalizers (tc_meta acme) = [tenantFinalizer]"
  by (simp_all add: acme_def sample_tenant_def sample_meta_def mk_meta_def)

theorem tenant_pass_witness:
  "mem_view (snd (run_state (Tenant_Reconcile inert_env acme_key) (tenant_world acme)))
     (KDeployment, nn ''supabase-acme'' ''acme-auth'') =
   mem_view (tenant_world acme) (KDeployment, nn ''supabase-acme'' ''acme-auth'')"
proof -
  let ?w' = "snd (run_state (Tenant_Reconcile inert_env acme_key) (tenant_world acme))"
  have run: "run_state (Tenant_Reconcile inert_env acme_key) (tenant_world acme) =
      ((requeue_after (10 * second), None), ?w')"
    using inert_pass by (metis prod.collapse)
  have fin: "contains_finalizer inert_env (om_finalizers (tc_meta acme)) tenantFinalizer"
    by (simp add: acme_active inert_env_def mem_env_def)
  have "avoids (own_footprint acme \<union> prereq_footprint acme)
      (KDeployment, nn ''supabase-acme'' ''acme-auth'')"
    by (auto simp: avoids_def own_footprint_def prereq_footprint_def t_namespace_ref_def
        t_policy_ref_def t_local_ref_def t_database_ref_def t_job_ref_def)
  with tenant_pass [OF inert_env_laws tenant_world_view(1) [OF sample_keys(1)] acme_active(1) fin run]
  show ?thesis
    by (auto simp: requeue_after_def second_def nanosecond_def split: if_splits)
qed

text \<open>
  C7: a pass over one tenant, whatever branch it takes and whatever it returns, does not touch
  anything that belongs to another tenant of the same platform.
\<close>

theorem tenant_isolation:
  assumes "api_server e view admit" and "owner_laws e"
    and "view w (KTenant, req) = Some (OTenant t)"
    and "run_state (Tenant_Reconcile e req) w = (r, w')"
    and "co_tenants t u" and "q \<in> tenant_objects u"
  shows "view w' q = view w q"
  by (rule Tenant_Reconcile_frame [OF assms(1-4) footprint_avoids_co_tenant [OF assms(5,6)]])

lemma acme_umbrella: "co_tenants acme umbrella"
  using sample_keys(3,4)
  by (simp add: co_tenants_def home_namespace_def main_key_def acme_def umbrella_def
      sample_tenant_def sample_tenant_spec_def tenant_namespace_def)

theorem tenant_isolation_witness:
  "mem_view (snd (run_state (Tenant_Reconcile env acme_key) (tenant_world acme))) (t_database_ref umbrella) =
   mem_view (tenant_world acme) (t_database_ref umbrella)"
  by (rule tenant_isolation [OF env_laws(1,2) tenant_world_view(1) [OF sample_keys(1)]
        prod.collapse [symmetric] acme_umbrella])
    (simp add: tenant_objects_def)




section \<open>Finalization\<close>







end
