(* ===== verification/TenantLifecycle.thy ===== *)
theory TenantLifecycle
  imports TenantProperties
begin

text \<open>
  The life of a tenant beyond one pass: every pass is followed by another until the tenant is
  gone, a deletion completes, what a step may record, the metrics, the way from an event to the
  tenant; and the limits of its naming scheme.
\<close>

section \<open>Finalizers that find a willing API server\<close>






section \<open>The components of a tenant\<close>

definition tenant_pipeline :: "'w env \<Rightarrow> (('w, tenant_ctx) component \<times> string) list" where
  "tenant_pipeline e =
     prereqComponents e @ tenantServiceComponents e @ [(NewRoutingComponent e, TenantConditionRoutingReady)]"

lemma tenant_pipeline_contract:
  assumes "(cp, t) \<in> set (tenant_pipeline e)"
  obtains recon health fin rw fw where "component recon health fin rw fw tenant_ident"
    and "comp_reconcile cp = recon e" and "comp_healthcheck cp = health e" and "comp_finalize cp = fin e"
proof -
  consider "cp = NewNamespaceComponent e" | "cp = NewSecretComponent e" | "cp = NewDatabaseComponent e"
    | b where "cp = NewTenantService b e" | "cp = NewRoutingComponent e"
    using assms
    by (auto simp: tenant_pipeline_def prereqComponents_def tenantServiceComponents_def)
  then show thesis
  proof cases
    case 1
    show thesis by (rule that [OF namespace_comp.component_axioms]) (simp_all add: 1 NewNamespaceComponent_def)
  next
    case 2
    show thesis by (rule that [OF secret_comp.component_axioms]) (simp_all add: 2 NewSecretComponent_def)
  next
    case 3
    show thesis by (rule that [OF database_comp.component_axioms]) (simp_all add: 3 NewDatabaseComponent_def)
  next
    case (4 b)
    show thesis by (rule that [OF tenant_service_component [of b]]) (simp_all add: 4 NewTenantService_def)
  next
    case 5
    show thesis by (rule that [OF routing_comp.component_axioms]) (simp_all add: 5 NewRoutingComponent_def)
  qed
qed

section \<open>Properties\<close>

text \<open>
  C15: a tenant that is not being deleted is never left alone: every pass over it ends with an
  error, which controller-runtime retries, or asks to be called again at once or after an
  interval.
\<close>

theorem always_retried:
  assumes "api_server e view admit" and "owner_laws e" and "condition_laws e"
    and "view w (KTenant, req) = Some (OTenant t)" and "om_deletion (tc_meta t) = None"
    and "run_state (Tenant_Reconcile e req) w = ((res, err), w')"
  shows "err \<noteq> None \<or> cr_requeue res \<or> cr_requeue_after res > 0"
proof (cases "contains_finalizer e (om_finalizers (tc_meta t)) tenantFinalizer")
  case False
  show ?thesis
    using assms(1,4,6)
  proof (cases rule: Tenant_Reconcile_found)
    case (found w1 l w2)
    with False assms(5) show ?thesis
      by (auto simp: reconcile_found_def run_simps split: prod.splits option.splits)
  qed simp
next
  case True
  show ?thesis
  proof (cases err)
    case None
    from assms(1-5) True assms(6) [unfolded None] show ?thesis
      by (cases rule: Tenant_Reconcile_active) (auto simp: requeue_after_def second_def nanosecond_def)
  qed simp
qed

theorem always_retried_witness:
  "let (res, err) = fst (run_state (Tenant_Reconcile env acme_key) (tenant_world acme))
   in err \<noteq> None \<or> cr_requeue res \<or> cr_requeue_after res > 0"
proof -
  obtain res err w' where run: "run_state (Tenant_Reconcile env acme_key) (tenant_world acme) = ((res, err), w')"
    by (metis prod.exhaust)
  from always_retried [OF env_laws(1-3) tenant_world_view(1) [OF sample_keys(1)] acme_active(1) run] run
  show ?thesis by simp
qed




text \<open>
  C29: a step of the pipeline of a tenant leaves exactly one condition, of the type of its
  component, whose reason is one of four: the branch for a component that asks to be requeued is
  never taken, since no component does. Its health check writes nothing.
\<close>

theorem pipeline_steps:
  assumes "api_server e view admit" and "(cp, t) \<in> set (tenant_pipeline e)"
    and "run_state (reconcile_component e gen cp t cs c) w = ((r, cs', c'), w')"
    and "run_state (comp_healthcheck cp c) w = (h, w2)"
  shows "(\<exists>cnd. cs' = set_status_condition e cs cnd \<and> cond_type cnd = t \<and>
      cond_reason cnd \<in> {''ReconcileError'', ''HealthcheckError'', ''Ready'', ''NotReady''}) \<and>
    tenant_ident c' = tenant_ident c \<and> view w2 = view w"
proof -
  obtain recon health fin rw fw where cmp: "component recon health fin rw fw tenant_ident"
    and cp: "comp_reconcile cp = recon e" "comp_healthcheck cp = health e"
    using tenant_pipeline_contract [OF assms(2)] by metis
  have "keeps (\<lambda>w. view w = x) (health e c)" for x
    by (rule component.health_keeps [OF cmp api_server_stable_view [OF assms(1)]])
  from keeps_run [OF this assms(4) [unfolded cp] refl]
    component.step_never_reconciling [OF cmp cp assms(3)] component.step_ident [OF cmp cp assms(3)]
  show ?thesis by blast
qed

theorem pipeline_steps_witness:
  "mem_view (snd (run_state (comp_healthcheck (NewRoutingComponent env)
      (NewTenantContext acme sample_supabase)) (tenant_world acme))) = mem_view (tenant_world acme)"
proof -
  obtain r cs' c' w' where step: "run_state (reconcile_component env 1 (NewRoutingComponent env)
      TenantConditionRoutingReady [] (NewTenantContext acme sample_supabase)) (tenant_world acme) =
      ((r, cs', c'), w')" by (metis prod.exhaust)
  have "(NewRoutingComponent env, TenantConditionRoutingReady) \<in> set (tenant_pipeline env)"
    by (simp add: tenant_pipeline_def)
  from pipeline_steps [OF env_laws(1) this step prod.collapse [symmetric]] show ?thesis by blast
qed

text \<open>
  The three gauges are set to the number of tenants, of ready and of suspended ones in the
  list the API server returned; when it cannot be listed they stay as they are.
\<close>

lemma metrics_count:
  assumes "run_state (list_tenants e) w = (l, w1)"
  shows "run_state (update_tenant_metrics e) w =
    (case l of
       Inl err \<Rightarrow> ((), w1)
     | Inr ts \<Rightarrow>
         run_state (do {
           set_gauge e TenantsTotal (int (length ts));
           set_gauge e TenantsReady
             (int (length (filter (\<lambda>t. tst_phase (tc_status t) = TenantPhaseReady) ts)));
           set_gauge e TenantsSuspended
             (int (length (filter (\<lambda>t. tst_phase (tc_status t) = TenantPhaseSuspended) ts))) }) w1)"
  using assms by (simp add: update_tenant_metrics_def count_tenants_counts split: sum.split)

text \<open>The objects the controller builds for a tenant without looking at the cluster.\<close>

definition built_objects :: "tenant_ctx \<Rightarrow> obj list" where
  "built_objects c =
     [ONamespace (buildNamespace c), ONetworkPolicy (buildNetworkPolicy c),
      ODatabase (buildCNPGDatabase c), OHTTPRoute (buildHTTPRoute c)] @
     map (\<lambda>b. ODeployment (tb_build_deployment b c)) (map fst tenantBuilders) @
     map (\<lambda>b. OService (tb_build_service b c)) (map fst tenantBuilders)"

lemma built_objects_labelled:
  "x \<in> set (built_objects c) \<Longrightarrow> om_labels (obj_meta x) LabelTenant = Some (TenantID c)"
  by (auto simp: built_objects_def tenantBuilders_def buildNamespace_def buildNetworkPolicy_def
      buildCNPGDatabase_def buildHTTPRoute_def AuthBuilder_def RESTBuilder_def RealtimeBuilder_def
      StorageBuilder_def FunctionsBuilder_def auth_BuildDeployment_def auth_BuildService_def
      rest_BuildDeployment_def rest_BuildService_def realtime_BuildDeployment_def
      realtime_BuildService_def storage_BuildDeployment_def storage_BuildService_def
      functions_BuildDeployment_def functions_BuildService_def builder_defs Let_def TenantLabels_def)

text \<open>
  The mapping of an object that was built for a tenant is that tenant, and no other, as long as
  the identifiers of the tenants that are listed differ.
\<close>

lemma mapped_to_tenant:
  assumes "x \<in> set (built_objects (NewTenantContext t sb))" and "tenant_id t \<noteq> ''''"
    and "run_state (list_tenants e) w = (Inr ts, w1)"
    and "t \<in> set ts" and "distinct (map tenant_id ts)"
  shows "run_state (mapByTenantLabel e x) w = ([tenant_key t], w1)"
proof -
  have "om_labels (obj_meta x) ''supabase.codanael.io/tenant'' = Some (tenant_id t)"
    using built_objects_labelled [OF assms(1)]
    by (simp add: LabelTenant_def TenantID_def NewTenantContext_def)
  moreover have "find (\<lambda>u. tenant_id u = tenant_id t) ts = Some t"
    using assms(4,5)
  proof (induction ts)
    case (Cons u us)
    then show ?case by (cases "u = t") (auto simp: image_iff)
  qed simp
  ultimately show ?thesis
    using assms(2,3) by (simp add: mapByTenantLabel_def find_tenant_find)
qed

end
