(* ===== verification/NamingProperties.thy ===== *)
theory NamingProperties
  imports TenantProperties
begin

text \<open>
  The naming scheme of a tenant's objects: how long names get, and the cases in which tenants
  that differ share an object, which the isolation theorems exclude by their hypotheses.
\<close>

section \<open>Names\<close>

text \<open>The names that have to be DNS labels: the namespace and the Services.\<close>

definition label_names :: "tenant_ctx \<Rightarrow> string list" where
  "label_names c =
     om_name (ns_meta (buildNamespace c)) #
     map (\<lambda>b. om_name (svc_meta (tb_build_service b c))) (map fst tenantBuilders)"

definition max_label :: nat where "max_label = 63"

lemma label_names_eq:
  "label_names (NewTenantContext t sb) =
     (''supabase-'' @ tenant_id t) # map (\<lambda>s. tenant_id t @ s) workload_suffixes"
  by (simp add: label_names_def buildNamespace_def NewTenantContext_def tenantBuilders_def
      workload_suffixes_def AuthBuilder_def RESTBuilder_def RealtimeBuilder_def StorageBuilder_def
      FunctionsBuilder_def auth_BuildService_def rest_BuildService_def realtime_BuildService_def
      storage_BuildService_def functions_BuildService_def builder_defs Let_def
      auth_resourceName_def rest_resourceName_def realtime_resourceName_def
      storage_resourceName_def functions_resourceName_def TenantID_def)

section \<open>Properties\<close>

text \<open>
  C40: the namespace and the Services of a tenant have names of at most 63 characters, what a
  DNS label may have, exactly when its identifier has at most 53; the CRD admits 63.
\<close>

theorem tenant_name_bound:
  "list_all (\<lambda>n. length n \<le> max_label) (label_names (NewTenantContext t sb)) \<longleftrightarrow>
     length (tenant_id t) \<le> 53"
  by (auto simp: label_names_eq workload_suffixes_def max_label_def)

text \<open>
  C39: the namespace of a tenant is named by its identifier alone. When the finalizer of a tenant
  has deleted it, it is gone for every tenant with this identifier, whatever platform that one
  belongs to; and for the tenant \<open>system\<close> of a platform in the namespace \<open>supabase-system\<close> it is
  the namespace of the platform itself.
\<close>

theorem namespace_clash:
  assumes "api_server e view admit"
    and "run_state (namespace_finalize e (NewTenantContext t sb)) w = (None, w')"
  shows "(tenant_id u = tenant_id t \<longrightarrow> removed view w' (t_namespace_ref u)) \<and>
    (tenant_id t = ''system'' \<and> om_namespace (sb_meta sb) = ''supabase-system'' \<longrightarrow>
      removed view w' (KNamespace, nn '''' (om_namespace (sb_meta sb))))"
  using namespace_finalize_removed [OF assms]
  by (auto simp: namespace_ref_def t_namespace_ref_def tenant_namespace_def NewTenantContext_def)

text \<open>The platform of the README, in its namespace, and a tenant \<open>system\<close>.\<close>

definition readme_platform :: supabase where
  "readme_platform =
     sample_supabase\<lparr>sb_meta := (sb_meta sample_supabase)\<lparr>om_namespace := ''supabase-system''\<rparr>\<rparr>"

definition readme_world :: world where
  "readme_world =
     world_of [OSupabase readme_platform,
       ONamespace \<lparr>ns_meta = mk_meta '''' ''supabase-system'' Map.empty, ns_phase = NamespaceActive\<rparr>]"

definition system_deletion :: "go_error option \<times> world" where
  "system_deletion =
     run_state (namespace_finalize env (NewTenantContext (sample_tenant ''system'' False) readme_platform))
       readme_world"

lemma system_deletion_accepted: "fst system_deletion = None"
  by code_simp

theorem namespace_clash_witness:
  "removed mem_view (snd system_deletion) (KNamespace, nn '''' ''supabase-system'')"
proof -
  have "run_state (namespace_finalize env (NewTenantContext (sample_tenant ''system'' False) readme_platform))
      readme_world = (None, snd system_deletion)"
    using system_deletion_accepted unfolding system_deletion_def by (metis prod.collapse)
  from namespace_clash [OF env_laws(1) this, of umbrella] show ?thesis
    by (simp add: sample_tenant_def sample_tenant_spec_def readme_platform_def sample_supabase_def
        sample_meta_def)
qed

text \<open>
  The Database object of a tenant is named by the platform and the identifier with a
  separator both may contain: tenants of two platforms in one namespace may share it.
\<close>

lemma database_clash:
  assumes "home_namespace t = home_namespace u"
    and "tenant_id t = q @ ''-db-'' @ tenant_id u"
    and "tn_supabase_ref (tc_spec u) = tn_supabase_ref (tc_spec t) @ ''-db-'' @ q"
  shows "t_database_ref t = t_database_ref u \<and> supabase_key t \<noteq> supabase_key u \<and> tenant_id t \<noteq> tenant_id u"
  using assms by (simp add: t_database_ref_def supabase_key_def)

end
