(* ===== verification/OperatorRuns.thy ===== *)
theory OperatorRuns
  imports PlatformProperties TenantProperties
begin

text \<open>
  The operator as a whole: runs in which passes over platforms and tenants alternate, in any
  order, with steps of whoever else writes to the cluster; and what holds throughout such a run.
\<close>

section \<open>Passes and runs\<close>

datatype request = PlatformReq obj_key | TenantReq obj_key

fun serve :: "'w env \<Rightarrow> request \<Rightarrow> ('w, reconcile_return) state" where
  "serve e (PlatformReq k) = Reconcile e k"
| "serve e (TenantReq k) = Tenant_Reconcile e k"

text \<open>
  \<open>admissible\<close> says which passes the run consists of, \<open>other\<close> what the other writers do.
\<close>

inductive operator_run ::
  "'w env \<Rightarrow> (request \<Rightarrow> 'w \<Rightarrow> bool) \<Rightarrow> ('w \<Rightarrow> 'w \<Rightarrow> bool) \<Rightarrow> 'w \<Rightarrow> 'w \<Rightarrow> bool"
  for e admissible other where
  idle: "operator_run e admissible other w w"
| pass: "operator_run e admissible other w w1 \<Longrightarrow> admissible r w1 \<Longrightarrow>
    run_state (serve e r) w1 = (x, w2) \<Longrightarrow> operator_run e admissible other w w2"
| interfere: "operator_run e admissible other w w1 \<Longrightarrow> other w1 w2 \<Longrightarrow> operator_run e admissible other w w2"

text \<open>What a pass may write, by the object it finds.\<close>

fun request_footprint :: "'w store_view \<Rightarrow> 'w \<Rightarrow> request \<Rightarrow> footprint" where
  "request_footprint view w (PlatformReq k) = platform_footprint k"
| "request_footprint view w (TenantReq k) =
     (case view w (KTenant, k) of Some (OTenant t) \<Rightarrow> tenant_footprint t | _ \<Rightarrow> {})"

lemma serve_keeps:
  assumes api: "api_server e view admit" and own: "owner_laws e"
    and st: "stable e (request_footprint view w r) (\<lambda>w. view w q = y)"
    and run: "run_state (serve e r) w = (x, w')" and q: "view w q = y"
  shows "view w' q = y"
proof -
  note e = api_client_laws [OF api own]
  show ?thesis
  proof (cases r)
    case (PlatformReq k)
    from Reconcile_keeps [OF e st [unfolded PlatformReq request_footprint.simps]] run q PlatformReq
    show ?thesis by (auto dest: keeps_run)
  next
    case (TenantReq k)
    have run': "run_state (Tenant_Reconcile e k) w = (x, w')" using run TenantReq by simp
    show ?thesis
    proof (cases "view w (KTenant, k)")
      case None
      obtain g w1 where g: "run_state (get_tenant e k) w = (g, w1)" by fastforce
      note get = reads_storeD [OF api_server_reads(14) [OF api] g]
      from get(2) None obtain err where "g = Inl err" by (cases g) auto
      then have "\<exists>l. run_state (observe_reconcile e ''supabasetenant'' l) w1 = ((), w')"
        using run' g
        by (auto simp: Tenant_Reconcile_def tenant_reconcile_body_def run_simps split: prod.splits if_splits)
      with get(1) q show ?thesis by (auto dest: silentD [OF api_server_silent(8) [OF api]])
    next
      case (Some z)
      from api_server_keyed [OF api Some] obtain t where z: "z = OTenant t"
        by (cases z) (simp_all add: obj_ref_def)
      from api Some [unfolded z] run' show ?thesis
      proof (cases rule: Tenant_Reconcile_found)
        case (found w1 l w2)
        have "keeps (\<lambda>w. view w q = y) (reconcile_found e t)"
          by (rule reconcile_found_keeps [OF e]) (use st Some z TenantReq in simp)
        from keeps_run [OF this found(2)] found(1,3) q show ?thesis by simp
      qed (simp add: q)
    qed
  qed
qed

text \<open>An object survives a run when every pass and every other writer leave it alone.\<close>

lemma run_invariant:
  assumes run: "operator_run e admissible other w w'"
    and api: "api_server e view admit" and own: "owner_laws e"
    and pass: "\<And>r v. admissible r v \<Longrightarrow> stable e (request_footprint view v r) (\<lambda>w. view w q = y)"
    and other: "\<And>v v'. other v v' \<Longrightarrow> view v q = y \<Longrightarrow> view v' q = y"
    and start: "view w q = y"
  shows "view w' q = y"
  using run start
proof (induction rule: operator_run.induct)
  case (pass w w1 r x w2)
  then show ?case using serve_keeps [OF api own assms(4)] by blast
next
  case (interfere w w1 w2)
  then show ?case using other by blast
qed

section \<open>Objects that are only ever created\<close>

text \<open>The footprint may create \<open>q\<close>, and does nothing else to it.\<close>

definition creates_only :: "footprint \<Rightarrow> obj_ref \<Rightarrow> bool" where
  "creates_only A q \<longleftrightarrow>
     (\<forall>(v, q') \<in> A. (q' = q \<longrightarrow> v = VCreate) \<and>
        \<not> (v = VDelete \<and> fst q' = KNamespace \<and> k_name (snd q') = k_namespace (snd q)))"

text \<open>The API server refuses to create what exists, so an object like this stays as it is.\<close>

lemma api_server_stable_present:
  assumes api: "api_server e view admit" and A: "creates_only A q"
  shows "stable e A (\<lambda>w. view w q = Some y)"
proof -
  have exec: "keeps (\<lambda>w. view w q = Some y) (exec e wr)" if wr: "write_sig wr \<in> A" for wr
  proof (rule keepsI)
    fix w assume y: "view w q = Some y"
    obtain r w' where run: "run_state (exec e wr) w = (r, w')" by fastforce
    note law = api_server_exec [OF api run]
    have "view w' q = view w q"
    proof (cases "obj_ref (write_obj wr) = q")
      case True
      with A wr obtain x where "wr = Create x"
        by (cases wr) (auto simp: creates_only_def)
      with law True y show ?thesis by simp
    next
      case False
      have "write_verb wr = VDelete \<Longrightarrow> \<not> cascades (write_obj wr) q"
        using A wr
        by (auto simp: creates_only_def write_sig_def write_ref_def cascades_def obj_ref_def meta_key_def)
      with law False show ?thesis by (cases wr) (simp_all del: split_paired_All)
    qed
    with y run show "view (snd (run_state (exec e wr) w)) q = Some y" by simp
  qed
  show ?thesis
    unfolding stable_def
    using exec api_server_silent [OF api, THEN silent_keeps]
      api_server_reads [OF api, THEN reads_store_keeps]
    by auto
qed

definition secret_refs :: "supabase_tenant \<Rightarrow> obj_ref set" where
  "secret_refs u = {t_local_ref u KSecret ''-jwt'', t_local_ref u KSecret ''-db-credentials''}"

text \<open>Passes over platforms and tenants, but for tenants of that namespace that are being deleted.\<close>

fun not_finalizing :: "'w store_view \<Rightarrow> supabase_tenant \<Rightarrow> request \<Rightarrow> 'w \<Rightarrow> bool" where
  "not_finalizing view u (PlatformReq k) w = True"
| "not_finalizing view u (TenantReq k) w =
     (case view w (KTenant, k) of
        Some (OTenant t) \<Rightarrow> om_deletion (tc_meta t) = None \<or> tenant_namespace t \<noteq> tenant_namespace u
      | _ \<Rightarrow> True)"

lemma secrets_only_created:
  assumes "not_finalizing view u r w" and "q \<in> secret_refs u"
  shows "creates_only (request_footprint view w r) q"
proof (cases r)
  case (PlatformReq k)
  with assms(2) show ?thesis
    by (auto simp: creates_only_def secret_refs_def t_local_ref_def platform_footprint_def upserts_def
        critical_refs_def service_refs_def)
next
  case (TenantReq k)
  with assms show ?thesis
    by (auto simp: creates_only_def secret_refs_def t_local_ref_def tenant_footprint_def
        own_footprint_def finalize_footprint_def prereq_footprint_def workload_footprint_def
        route_footprint_def t_namespace_ref_def t_policy_ref_def t_database_ref_def t_job_ref_def
        t_route_ref_def split: option.splits obj.splits if_splits)
qed

text \<open>Passes that have nothing to do with a tenant: over its co-tenants, over platforms elsewhere.\<close>

fun foreign :: "'w store_view \<Rightarrow> supabase_tenant \<Rightarrow> request \<Rightarrow> 'w \<Rightarrow> bool" where
  "foreign view u (PlatformReq k) w = (k_namespace k \<noteq> tenant_namespace u)"
| "foreign view u (TenantReq k) w =
     (case view w (KTenant, k) of Some (OTenant t) \<Rightarrow> co_tenants t u | _ \<Rightarrow> True)"

lemma foreign_avoids:
  assumes "foreign view u r w" and "q \<in> tenant_objects u"
  shows "avoids (request_footprint view w r) q"
proof (cases r)
  case (PlatformReq k)
  with assms show ?thesis
    by (auto simp: avoids_def tenant_objects_def platform_footprint_def upserts_def
        critical_refs_def service_refs_def t_namespace_ref_def t_database_ref_def t_job_ref_def
        t_route_ref_def)
next
  case (TenantReq k)
  with assms show ?thesis
    by (auto simp: avoids_def split: option.splits obj.splits
        dest: footprint_avoids_co_tenant [unfolded avoids_def])
qed

text \<open>Runs compose.\<close>

lemma run_trans:
  assumes "operator_run e admissible other w w1" and "operator_run e admissible other w1 w2"
  shows "operator_run e admissible other w w2"
  using assms(2,1) by (induction rule: operator_run.induct) (auto intro: operator_run.intros)

lemma run_pass:
  "operator_run e admissible other w w1 \<Longrightarrow> admissible r w1 \<Longrightarrow>
     operator_run e admissible other w (snd (run_state (serve e r) w1))"
  by (rule pass [where x = "fst (run_state (serve e r) w1)"]) simp_all

section \<open>Properties\<close>

text \<open>
  C11: the secrets of a tenant are never rewritten. However many passes run over any platforms
  and tenants, in whatever order and between whatever steps of others that leave the secret
  alone, a secret that exists is the same afterwards, unless a tenant of that namespace is being
  deleted.
\<close>

theorem secrets_never_rewritten:
  assumes "api_server e view admit" and "owner_laws e"
    and "operator_run e (not_finalizing view u) other w w'"
    and "\<And>v v'. other v v' \<Longrightarrow> view v' q = view v q"
    and "q \<in> secret_refs u" and "view w q = Some s"
  shows "view w' q = Some s"
proof (rule run_invariant [OF assms(3,1,2)])
  show "stable e (request_footprint view v r) (\<lambda>w. view w q = Some s)"
    if "not_finalizing view u r v" for r v
    by (rule api_server_stable_present [OF assms(1) secrets_only_created [OF that assms(5)]])
qed (use assms(4,6) in auto)

definition acme_secret_ref :: obj_ref where
  "acme_secret_ref = t_local_ref acme KSecret ''-jwt''"

definition after_one :: world where
  "after_one = snd (run_state (serve env (TenantReq acme_key)) (settled_world acme))"

definition after_two :: world where
  "after_two = snd (run_state (serve env (PlatformReq main_key)) after_one)"

lemma settled_world_view:
  "mem_view (settled_world acme) (KTenant, acme_key) = Some (OTenant acme)"
  "\<exists>s. mem_view (settled_world acme) acme_secret_ref = Some (OSecret s)"
  by (simp_all add: settled_world_def Let_def mem_view_def world_of_def mem_lookup_Cons obj_ref_def
      sample_keys acme_secret_ref_def t_local_ref_def secret_meta_def jwtSecretName_def
      NewTenantContext_def TenantID_def tenant_namespace_def)

theorem secrets_never_rewritten_witness:
  "mem_view after_two acme_secret_ref = mem_view (settled_world acme) acme_secret_ref"
proof -
  have "not_finalizing mem_view acme (TenantReq acme_key) (settled_world acme)"
    by (simp add: settled_world_view acme_active)
  then have "operator_run env (not_finalizing mem_view acme) (\<lambda>w w'. False) (settled_world acme) after_one"
    unfolding after_one_def by (intro run_pass idle)
  then have run: "operator_run env (not_finalizing mem_view acme) (\<lambda>w w'. False) (settled_world acme) after_two"
    unfolding after_two_def by (rule run_pass) simp
  obtain s where s: "mem_view (settled_world acme) acme_secret_ref = Some (OSecret s)"
    using settled_world_view(2) by blast
  from secrets_never_rewritten [OF env_laws(1,2) run _ _ s] s show ?thesis
    by (simp add: acme_secret_ref_def secret_refs_def)
qed

text \<open>
  Isolation holds over runs. Whatever passes over platforms of other namespaces and over
  other tenants of its platform are run, in any order, nothing that belongs to a tenant changes
  unless someone else changes it.
\<close>

lemma runs_isolate:
  assumes "api_server e view admit" and "owner_laws e"
    and "operator_run e (foreign view u) other w w'"
    and "\<And>v v'. other v v' \<Longrightarrow> view v' q = view v q"
    and "q \<in> tenant_objects u"
  shows "view w' q = view w q"
proof (rule run_invariant [OF assms(3,1,2)])
  show "stable e (request_footprint view v r) (\<lambda>w. view w q = x)" if "foreign view u r v" for r v x
    by (rule api_server_stable [OF assms(1) foreign_avoids [OF that assms(5)]])
qed (use assms(4) in auto)

lemma runs_isolate_example:
  "mem_view after_two (t_database_ref umbrella) = mem_view (settled_world acme) (t_database_ref umbrella)"
proof -
  have "foreign mem_view umbrella (TenantReq acme_key) (settled_world acme)"
    by (simp add: settled_world_view acme_umbrella)
  then have "operator_run env (foreign mem_view umbrella) (\<lambda>w w'. False) (settled_world acme) after_one"
    unfolding after_one_def by (intro run_pass idle)
  then have run: "operator_run env (foreign mem_view umbrella) (\<lambda>w w'. False) (settled_world acme) after_two"
    unfolding after_two_def by (rule run_pass) (simp add: main_key_def tenant_namespace_def)
  show ?thesis
    by (rule runs_isolate [OF env_laws(1,2) run]) (simp_all add: tenant_objects_def)
qed

end
