(* ===== verification/Encodings.thy ===== *)
theory Encodings
  imports Credentials DatabaseInit
begin

text \<open>
  Reference decoders for the encodings the operator produces, written after the formats'
  definitions (RFC 4648 base64, the userinfo part of a URL, decimal numbers), and the facts
  about sizes and alphabets of what \<open>internal/credentials\<close> generates.
\<close>

section \<open>Base64\<close>

definition b64_value :: "char \<Rightarrow> nat" where
  "b64_value c = length (takeWhile (\<lambda>d. d \<noteq> c) b64_alphabet)"

fun b64_decode :: "string \<Rightarrow> string option" where
  "b64_decode [] = Some []"
| "b64_decode (a # b # c # d # rest) =
     (if c = CHR ''='' \<and> d = CHR ''='' then
        (if rest = [] then Some [char_of (b64_value a * 4 + b64_value b div 16)] else None)
      else if d = CHR ''='' then
        (if rest = [] then
           Some [char_of (b64_value a * 4 + b64_value b div 16),
                 char_of (b64_value b mod 16 * 16 + b64_value c div 4)]
         else None)
      else
        map_option (\<lambda>bs. char_of (b64_value a * 4 + b64_value b div 16) #
                         char_of (b64_value b mod 16 * 16 + b64_value c div 4) #
                         char_of (b64_value c mod 4 * 64 + b64_value d) # bs)
          (b64_decode rest))"
| "b64_decode _ = None"

lemma b64_alphabet_table:
  "list_all (\<lambda>n. b64_value (b64_char n) = n \<and> b64_char n \<noteq> CHR ''='' \<and> b64_char n \<in> set b64_alphabet)
     [0..<64]"
  by code_simp

lemma b64_char_facts:
  assumes "n < 64"
  shows "b64_value (b64_char n) = n" "b64_char n \<noteq> CHR ''=''" "b64_char n \<in> set b64_alphabet"
  using assms b64_alphabet_table by (auto simp: list_all_iff)

lemma byte_less: "byte c < 256"
  by (metis of_char_mod_256 mod_less_divisor zero_less_numeral)

lemma byte_div_less: "byte c div 4 < 64" "byte c div 16 < 16" "byte c div 64 < 4"
  using byte_less [of c] by linarith+

lemma join_digits:
  "m < k \<Longrightarrow> (x * k + m) div k = x" "m < k \<Longrightarrow> (x * k + m) mod k = m" for k :: nat
  by simp_all

lemma b64_decode_encode: "b64_decode (b64_encode bs) = Some bs"
proof (induction bs rule: b64_encode.induct)
  case (2 a)
  have "byte a mod 4 * 16 < 64" by simp
  then show ?case by (simp add: b64_char_facts byte_div_less)
next
  case (3 a b)
  have *: "byte b mod 16 * 4 div 4 = byte b mod 16" by simp
  have "(byte a mod 4 * 16 + byte b div 16) div 16 = byte a mod 4"
    and "(byte a mod 4 * 16 + byte b div 16) mod 16 = byte b div 16"
    by (simp_all add: join_digits byte_div_less)
  moreover have "byte a mod 4 * 16 + byte b div 16 < 64" using byte_less [of b] by linarith
  ultimately show ?case by (simp add: b64_char_facts byte_div_less *)
next
  case (4 a b c rest)
  have "(byte a mod 4 * 16 + byte b div 16) div 16 = byte a mod 4"
    and "(byte a mod 4 * 16 + byte b div 16) mod 16 = byte b div 16"
    and "(byte b mod 16 * 4 + byte c div 64) div 4 = byte b mod 16"
    and "(byte b mod 16 * 4 + byte c div 64) mod 4 = byte c div 64"
    by (simp_all add: join_digits byte_div_less)
  moreover have "byte a mod 4 * 16 + byte b div 16 < 64" "byte b mod 16 * 4 + byte c div 64 < 64"
    using byte_less [of b] byte_less [of c] by linarith+
  ultimately show ?case
    using 4 by (simp add: b64_char_facts byte_div_less)
qed simp

lemma length_b64_encode: "length (b64_encode bs) = 4 * ((length bs + 2) div 3)"
proof (induction bs rule: b64_encode.induct)
  case (4 a b c rest)
  have "length (b64_encode (a # b # c # rest)) = 4 + length (b64_encode rest)" by simp
  moreover have "length (a # b # c # rest) + 2 = length rest + 2 + 3" by simp
  then have "(length (a # b # c # rest) + 2) div 3 = (length rest + 2) div 3 + 1" by simp
  ultimately show ?case using 4 by simp
qed simp_all

lemma set_b64_encode: "set (b64_encode bs) \<subseteq> insert (CHR ''='') (set b64_alphabet)"
proof (induction bs rule: b64_encode.induct)
  case (2 a)
  show ?case by (simp add: b64_char_facts byte_div_less)
next
  case (3 a b)
  have "byte a mod 4 * 16 + byte b div 16 < 64" using byte_less [of b] by linarith
  then show ?case by (simp add: b64_char_facts byte_div_less)
next
  case (4 a b c rest)
  have "byte a mod 4 * 16 + byte b div 16 < 64" "byte b mod 16 * 4 + byte c div 64 < 64"
    using byte_less [of b] byte_less [of c] by linarith+
  then show ?case using 4 by (simp add: b64_char_facts byte_div_less)
qed simp

section \<open>Decimal numbers\<close>

fun dec_value :: "int \<Rightarrow> string \<Rightarrow> int" where
  "dec_value acc [] = acc"
| "dec_value acc (c # cs) =
     dec_value (10 * acc + int (length (takeWhile (\<lambda>d. d \<noteq> c) dec_digits))) cs"

definition atoi :: "string \<Rightarrow> int" where
  "atoi s = (case s of [] \<Rightarrow> 0 | c # cs \<Rightarrow> if c = CHR ''-'' then - dec_value 0 cs else dec_value 0 s)"

lemma dec_value_append: "dec_value acc (xs @ ys) = dec_value (dec_value acc xs) ys"
  by (induction xs arbitrary: acc) simp_all

lemma dec_digit_table:
  "list_all (\<lambda>n. length (takeWhile (\<lambda>d. d \<noteq> dec_digits ! n) dec_digits) = n \<and> dec_digits ! n \<noteq> CHR ''-'') [0..<10]"
  by code_simp

lemma dec_digit:
  assumes "0 \<le> n" and "n < 10"
  shows "int (length (takeWhile (\<lambda>d. d \<noteq> dec_digits ! nat n) dec_digits)) = n"
    and "dec_digits ! nat n \<noteq> CHR ''-''"
proof -
  have "nat n < 10" using assms by simp
  with dec_digit_table have "length (takeWhile (\<lambda>d. d \<noteq> dec_digits ! nat n) dec_digits) = nat n \<and>
      dec_digits ! nat n \<noteq> CHR ''-''"
    by (auto simp: list_all_iff)
  with assms show "int (length (takeWhile (\<lambda>d. d \<noteq> dec_digits ! nat n) dec_digits)) = n"
    "dec_digits ! nat n \<noteq> CHR ''-''" by auto
qed

lemma dec_nonneg_value:
  "0 \<le> n \<Longrightarrow> dec_value 0 (dec_nonneg n) = n \<and> dec_nonneg n \<noteq> [] \<and> hd (dec_nonneg n) \<noteq> CHR ''-''"
proof (induction n rule: dec_nonneg.induct)
  case (1 n)
  note digit = dec_digit [of "n mod 10"]
  show ?case
  proof (cases "n < 10")
    case True
    with 1(2) digit show ?thesis by (subst (1 2 3) dec_nonneg.simps) simp
  next
    case False
    with 1 have "dec_value 0 (dec_nonneg (n div 10)) = n div 10 \<and> dec_nonneg (n div 10) \<noteq> [] \<and>
        hd (dec_nonneg (n div 10)) \<noteq> CHR ''-''" by auto
    with False digit show ?thesis
      by (subst (1 2 3) dec_nonneg.simps) (simp add: dec_value_append)
  qed
qed

lemma atoi_itoa: "atoi (itoa i) = i"
proof (cases "i < 0")
  case True
  then show ?thesis using dec_nonneg_value [of "- i"] by (simp add: atoi_def itoa_def)
next
  case False
  then have v: "dec_value 0 (dec_nonneg i) = i \<and> dec_nonneg i \<noteq> [] \<and> hd (dec_nonneg i) \<noteq> CHR ''-''"
    by (intro dec_nonneg_value) simp
  then show ?thesis using False by (cases "dec_nonneg i") (simp_all add: atoi_def itoa_def)
qed

section \<open>The userinfo of a URL\<close>

definition hex_value :: "char \<Rightarrow> nat" where
  "hex_value c = length (takeWhile (\<lambda>d. d \<noteq> c) hex_upper)"

text \<open>Percent-decoding; in a userinfo a plus sign stands for itself.\<close>

fun userinfo_unescape :: "string \<Rightarrow> string option" where
  "userinfo_unescape [] = Some []"
| "userinfo_unescape (c # cs) =
     (if c \<noteq> CHR ''%'' then map_option ((#) c) (userinfo_unescape cs)
      else (case cs of
              h # l # rest \<Rightarrow>
                if h \<in> set hex_upper \<and> l \<in> set hex_upper
                then map_option ((#) (char_of (hex_value h * 16 + hex_value l))) (userinfo_unescape rest)
                else None
            | _ \<Rightarrow> None))"

lemma hex_table:
  "list_all (\<lambda>n. hex_value (hex_upper ! n) = n \<and> hex_upper ! n \<in> set hex_upper \<and> unreserved (hex_upper ! n))
     [0..<16]"
  by code_simp

lemma hex_digit:
  assumes "n < 16"
  shows "hex_value (hex_upper ! n) = n" and "hex_upper ! n \<in> set hex_upper"
    and "unreserved (hex_upper ! n)"
  using assms hex_table by (auto simp: list_all_iff)

lemma reserved_chars:
  "\<not> unreserved CHR ''%''" "\<not> unreserved CHR '':''" "\<not> unreserved CHR ''@''"
  "\<not> unreserved CHR ''/''" "\<not> unreserved CHR ''?''"
  by code_simp+

lemma unescape_escape_char:
  assumes "c \<noteq> CHR '' ''"
  shows "userinfo_unescape (escape_char c @ rest) = map_option ((#) c) (userinfo_unescape rest)"
proof (cases "unreserved c")
  case True
  with reserved_chars(1) have "c \<noteq> CHR ''%''" by metis
  with True show ?thesis by (simp add: escape_char_def)
next
  case False
  have "byte c div 16 < 16" using byte_less [of c] by linarith
  with False assms show ?thesis by (simp add: escape_char_def hex_digit)
qed

lemma userinfo_unescape_escape:
  "CHR '' '' \<notin> set s \<Longrightarrow> userinfo_unescape (query_escape s) = Some s"
  by (induction s) (auto simp: query_escape_def unescape_escape_char)

lemma set_query_escape: "c \<in> set (query_escape s) \<Longrightarrow> unreserved c \<or> c = CHR ''%'' \<or> c = CHR ''+''"
proof -
  have "unreserved c \<or> c = CHR ''%'' \<or> c = CHR ''+''" if "c \<in> set (escape_char d)" for d
    using that hex_digit(3) [of "byte d div 16"] hex_digit(3) [of "byte d mod 16"] byte_div_less(2) [of d]
    by (auto simp: escape_char_def split: if_splits)
  then show "c \<in> set (query_escape s) \<Longrightarrow> ?thesis" by (auto simp: query_escape_def)
qed

lemma query_escape_free:
  "CHR '':'' \<notin> set (query_escape s)" "CHR ''@'' \<notin> set (query_escape s)"
  using set_query_escape [of "CHR '':''" s] set_query_escape [of "CHR ''@''" s] reserved_chars by auto

section \<open>Sizes of digests\<close>

lemma length_be_bytes [simp]: "length (be_bytes n x) = n"
  by (induction n arbitrary: x) simp_all

lemma length_hex_string [simp]: "length (hex_string bs) = 2 * length bs"
  by (induction bs) (simp_all add: hex_string_def hex_byte_def)

lemma length_sha_round: "length s = 8 \<Longrightarrow> length (sha_round s kw) = 8"
  by (induction s kw rule: sha_round.induct) (simp_all add: Let_def)

lemma length_sha_rounds: "length s = 8 \<Longrightarrow> length (foldl sha_round s kws) = 8"
  by (induction kws arbitrary: s) (simp_all add: length_sha_round)

lemma length_sha_block: "length h = 8 \<Longrightarrow> length (sha_block h ws) = 8"
  by (simp add: sha_block_def length_sha_rounds)

lemma length_sha_blocks: "length h = 8 \<Longrightarrow> length (sha_blocks n h ws) = 8"
  by (induction n h ws rule: sha_blocks.induct) (simp_all add: length_sha_block)

lemma length_sha256 [simp]: "length (sha256 s) = 32"
proof -
  have "length (concat (map (\<lambda>w. be_bytes 4 (uint w)) (ws :: 32 word list))) = 4 * length ws" for ws
    by (induction ws) simp_all
  moreover have "length sha_h0 = 8" by (simp add: sha_h0_def)
  ultimately show ?thesis by (simp add: sha256_def Let_def length_sha_blocks)
qed

end
