(* ===== verification/ServiceProperties.thy ===== *)
theory ServiceProperties
  imports MemApi Encodings
begin

text \<open>
  The properties of the Deployment + Service pairs and of what surrounds them: creation, patch,
  suspension and resumption, readiness, the way from the gateway to the pods, the network
  policy, the presets.
\<close>

section \<open>What a pass over a service stores\<close>

definition deployment_ref :: "tenant_builder \<Rightarrow> tenant_ctx \<Rightarrow> obj_ref" where
  "deployment_ref b c = obj_ref (ODeployment (tb_build_deployment b c))"

definition service_ref :: "tenant_builder \<Rightarrow> tenant_ctx \<Rightarrow> obj_ref" where
  "service_ref b c = obj_ref (OService (tb_build_service b c))"

text \<open>The desired object, or the existing one with its mutable fields made the desired ones.\<close>

definition upserted_deployment :: "(obj \<Rightarrow> obj) \<Rightarrow> deployment \<Rightarrow> obj option \<Rightarrow> obj" where
  "upserted_deployment admit desired old =
     admit (case old of
       Some (ODeployment d) \<Rightarrow> keep_status (ODeployment d) (ODeployment (mergeDeployment desired d))
     | _ \<Rightarrow> ODeployment desired)"

definition upserted_service :: "(obj \<Rightarrow> obj) \<Rightarrow> service \<Rightarrow> obj option \<Rightarrow> obj" where
  "upserted_service admit desired old =
     admit (case old of
       Some (OService s) \<Rightarrow> OService (mergeService desired s)
     | _ \<Rightarrow> OService desired)"

lemma kind_inj: "inj ODeployment" "inj OService"
  by (simp_all add: inj_def)

lemma view_kind:
  assumes "api_server e view admit" and "view w (K, k) = Some y"
  shows "K = KDeployment \<Longrightarrow> \<exists>d. y = ODeployment d" and "K = KService \<Longrightarrow> \<exists>s. y = OService s"
  using api_server_keyed [OF assms] by (cases y; simp add: obj_ref_def)+

lemma upsert_deployment:
  assumes api: "api_server e view admit"
    and run: "run_state (create_or_patch e (get_deployment e) ODeployment what ev
      (mergeDeployment desired) desired) w = (None, w')"
  shows "view w' = (view w)(obj_ref (ODeployment desired) \<mapsto>
    upserted_deployment admit desired (view w (obj_ref (ODeployment desired))))"
proof (cases "view w (obj_ref (ODeployment desired))")
  case None
  note ok = create_or_patch_ok(1) [OF api api_server_reads(6) [OF api] _ kind_inj(1) _ run]
  from None show ?thesis by (subst ok) (simp_all add: upserted_deployment_def key_simps)
next
  case (Some y)
  then obtain d where y: "y = ODeployment d"
    using view_kind(1) [OF api, of w KDeployment] by (auto simp: obj_ref_def)
  note ok = create_or_patch_ok(2) [OF api api_server_reads(6) [OF api] _ kind_inj(1) _ run]
  from Some y show ?thesis by (subst ok) (simp_all add: upserted_deployment_def key_simps)
qed

lemma upsert_service:
  assumes api: "api_server e view admit"
    and run: "run_state (create_or_patch e (get_service e) OService what ev
      (mergeService desired) desired) w = (None, w')"
  shows "view w' = (view w)(obj_ref (OService desired) \<mapsto>
    upserted_service admit desired (view w (obj_ref (OService desired))))"
proof (cases "view w (obj_ref (OService desired))")
  case None
  note ok = create_or_patch_ok(1) [OF api api_server_reads(7) [OF api] _ kind_inj(2) _ run]
  from None show ?thesis by (subst ok) (simp_all add: upserted_service_def key_simps)
next
  case (Some y)
  then obtain s where y: "y = OService s"
    using view_kind(2) [OF api, of w KService] by (auto simp: obj_ref_def)
  note ok = create_or_patch_ok(2) [OF api api_server_reads(7) [OF api] _ kind_inj(2) _ run]
  from Some y show ?thesis by (subst ok) (simp_all add: upserted_service_def key_simps keep_status_def)
qed

lemma and_then_ok:
  assumes "run_state (and_then m n) w = (None, w')"
  obtains w1 where "run_state m w = (None, w1)" and "run_state n w1 = (None, w')"
proof -
  obtain r w1 where m: "run_state m w = (r, w1)" by fastforce
  with assms show thesis by (cases r) (auto simp: and_then_def run_simps intro: that)
qed

lemma result_of_ok:
  assumes "run_state (result_of c m) w = ((Inr res, c'), w')"
  shows "run_state m w = (None, w')" and "c' = c"
  using assms by (auto simp: result_of_def split: prod.splits option.splits)

lemma tenant_service_stores:
  assumes api: "api_server e view admit" and active: "\<not> suspended c"
    and run: "run_state (tenant_service_reconcile b e c) w = ((Inr res, c'), w')"
  shows "view w' = (view w)
    (deployment_ref b c \<mapsto>
       upserted_deployment admit (tb_build_deployment b c) (view w (deployment_ref b c)),
     service_ref b c \<mapsto>
       upserted_service admit (tb_build_service b c) (view w (service_ref b c)))"
proof -
  have run': "run_state (result_of c
        (and_then
          (create_or_patch e (get_deployment e) ODeployment ''deployment''
             (created_event (tenant_ref (tx_tenant c)) ''Deployment''
                (om_name (dep_meta (tb_build_deployment b c))))
             (mergeDeployment (tb_build_deployment b c)) (tb_build_deployment b c))
          (create_or_patch e (get_service e) OService ''service''
             (created_event (tenant_ref (tx_tenant c)) ''Service''
                (om_name (svc_meta (tb_build_service b c))))
             (mergeService (tb_build_service b c)) (tb_build_service b c)))) w = ((Inr res, c'), w')"
    using run active by (simp add: tenant_service_reconcile_def)
  obtain w1 where one: "run_state (create_or_patch e (get_deployment e) ODeployment ''deployment''
             (created_event (tenant_ref (tx_tenant c)) ''Deployment''
                (om_name (dep_meta (tb_build_deployment b c))))
             (mergeDeployment (tb_build_deployment b c)) (tb_build_deployment b c)) w = (None, w1)"
    and two: "run_state (create_or_patch e (get_service e) OService ''service''
             (created_event (tenant_ref (tx_tenant c)) ''Service''
                (om_name (svc_meta (tb_build_service b c))))
             (mergeService (tb_build_service b c)) (tb_build_service b c)) w1 = (None, w')"
    using result_of_ok(1) [OF run'] by (rule and_then_ok)
  have "service_ref b c \<noteq> deployment_ref b c"
    by (simp add: service_ref_def deployment_ref_def obj_ref_def)
  with upsert_deployment [OF api one] upsert_service [OF api two] show ?thesis
    by (simp add: service_ref_def deployment_ref_def)
qed

section \<open>Admission that leaves the spec alone\<close>

text \<open>
  Admission sets no more than the ready replicas of a Deployment and the address of a Service,
  and leaves alone what it has admitted.
\<close>

definition plain_admission :: "(obj \<Rightarrow> obj) \<Rightarrow> bool" where
  "plain_admission admit \<longleftrightarrow>
     (\<forall>d. \<exists>n. admit (ODeployment d) = ODeployment (d\<lparr>dep_ready_replicas := n\<rparr>)) \<and>
     (\<forall>s. \<exists>ip. admit (OService s) = OService (s\<lparr>svc_cluster_ip := ip\<rparr>)) \<and>
     (\<forall>x. admit (admit x) = admit x)"

lemma plain_admissionE:
  assumes "plain_admission admit"
  obtains n where "admit (ODeployment d) = ODeployment (d\<lparr>dep_ready_replicas := n\<rparr>)"
  using assms unfolding plain_admission_def by blast

lemma plain_admissionE_service:
  assumes "plain_admission admit"
  obtains ip where "admit (OService s) = OService (s\<lparr>svc_cluster_ip := ip\<rparr>)"
  using assms unfolding plain_admission_def by blast

text \<open>What is stored has the desired spec, whatever was there; storing it again changes nothing.\<close>

lemma upserted_deployment_spec:
  assumes "plain_admission admit"
  obtains d where "upserted_deployment admit desired old = ODeployment d"
    and "dep_spec d = dep_spec desired" and "mergeDeployment desired d = d"
proof -
  let ?d = "case old of Some (ODeployment d) \<Rightarrow>
      (mergeDeployment desired d)\<lparr>dep_ready_replicas := dep_ready_replicas d\<rparr> | _ \<Rightarrow> desired"
  have up: "upserted_deployment admit desired old = admit (ODeployment ?d)"
    by (simp add: upserted_deployment_def keep_status_def split: option.split obj.split)
  have spec: "dep_spec ?d = dep_spec desired \<and> om_labels (dep_meta ?d) = om_labels (dep_meta desired)"
    by (simp add: mergeDeployment_def split: option.split obj.split)
  obtain n where n: "admit (ODeployment ?d) = ODeployment (?d\<lparr>dep_ready_replicas := n\<rparr>)"
    using plain_admissionE [OF assms] by blast
  show thesis
    by (rule that [of "?d\<lparr>dep_ready_replicas := n\<rparr>"])
      (use up n spec in \<open>simp_all add: mergeDeployment_def\<close>)
qed

lemma upserted_service_spec:
  assumes "plain_admission admit"
  obtains s where "upserted_service admit desired old = OService s" and "mergeService desired s = s"
proof -
  let ?s = "case old of Some (OService s) \<Rightarrow> mergeService desired s | _ \<Rightarrow> desired"
  have up: "upserted_service admit desired old = admit (OService ?s)"
    by (simp add: upserted_service_def split: option.split obj.split)
  have spec: "svc_ports ?s = svc_ports desired \<and> svc_selector ?s = svc_selector desired \<and>
      om_labels (svc_meta ?s) = om_labels (svc_meta desired)"
    by (simp add: mergeService_def split: option.split obj.split)
  obtain ip where ip: "admit (OService ?s) = OService (?s\<lparr>svc_cluster_ip := ip\<rparr>)"
    using plain_admissionE_service [OF assms] by blast
  show thesis
    by (rule that [of "?s\<lparr>svc_cluster_ip := ip\<rparr>"])
      (use up ip spec in \<open>simp_all add: mergeService_def\<close>)
qed

lemma upserted_again:
  assumes "plain_admission admit"
  shows "upserted_deployment admit desired (Some (upserted_deployment admit desired old)) =
      upserted_deployment admit desired old"
    and "upserted_service admit sv (Some (upserted_service admit sv old)) = upserted_service admit sv old"
proof -
  have again: "admit z = z" if "admit y = z" for y z
    using assms that unfolding plain_admission_def by blast
  obtain d where d: "upserted_deployment admit desired old = ODeployment d"
    "mergeDeployment desired d = d" using upserted_deployment_spec [OF assms] by blast
  then have "upserted_deployment admit desired (Some (ODeployment d)) = admit (ODeployment d)"
    by (simp add: upserted_deployment_def keep_status_def)
  also have "\<dots> = ODeployment d"
    by (rule again [OF d(1) [unfolded upserted_deployment_def]])
  finally show "upserted_deployment admit desired (Some (upserted_deployment admit desired old)) =
      upserted_deployment admit desired old" by (simp add: d)
  obtain s where s: "upserted_service admit sv old = OService s" "mergeService sv s = s"
    using upserted_service_spec [OF assms] by blast
  then have "upserted_service admit sv (Some (OService s)) = admit (OService s)"
    by (simp add: upserted_service_def)
  also have "\<dots> = OService s"
    by (rule again [OF s(1) [unfolded upserted_service_def]])
  finally show "upserted_service admit sv (Some (upserted_service admit sv old)) =
      upserted_service admit sv old" by (simp add: s)
qed

lemma settle_plain: "plain_admission settle"
proof -
  have "settle (settle x) = settle x" for x by (cases x) simp_all
  moreover have "settle (OService s) = OService (s\<lparr>svc_cluster_ip := svc_cluster_ip s\<rparr>)" for s by simp
  moreover have "\<exists>n. settle (ODeployment d) = ODeployment (d\<lparr>dep_ready_replicas := n\<rparr>)" for d by auto
  ultimately show ?thesis unfolding plain_admission_def by blast
qed

section \<open>Suspension\<close>

lemma suspend_effect:
  assumes api: "api_server e view admit"
    and run: "run_state (suspend_deployment b e c) w = (r, w')"
  shows "q \<noteq> deployment_ref b c \<Longrightarrow> view w' q = view w q"
    and "r = None \<Longrightarrow> reliable (get_deployment e) \<Longrightarrow> view w (deployment_ref b c) = Some (ODeployment d) \<Longrightarrow>
      view w' (deployment_ref b c) = Some (admit (keep_status (ODeployment d) (ODeployment (scale_to_zero d))))"
proof -
  let ?k = "meta_key (dep_meta (tb_build_deployment b c))"
  have ref: "deployment_ref b c = (KDeployment, ?k)" by (simp add: deployment_ref_def obj_ref_def)
  obtain g w1 where g: "run_state (get_deployment e ?k) w = (g, w1)" by fastforce
  note get = reads_storeD [OF api_server_reads(6) [OF api] g]
  have key: "obj_ref (ODeployment (scale_to_zero x)) = deployment_ref b c" if "g = Inr x" for x
    using api_server_keyed [OF api get(2) [OF that]] by (simp add: ref obj_ref_def scale_to_zero_def)
  show "view w' q = view w q" if "q \<noteq> deployment_ref b c"
  proof (cases g)
    case (Inl err)
    with run g get(1) show ?thesis by (simp add: suspend_deployment_def)
  next
    case (Inr x)
    obtain p w2 where p: "run_state (exec e (Patch (ODeployment x) (ODeployment (scale_to_zero x)))) w1 = (p, w2)"
      by fastforce
    with run g Inr have "w' = w2" by (auto simp: suspend_deployment_def run_simps split: option.splits)
    with api_server_exec [OF api p] key [OF Inr] that get(1) show ?thesis
      by (simp del: split_paired_All)
  qed
  show "view w' (deployment_ref b c) = Some (admit (keep_status (ODeployment d) (ODeployment (scale_to_zero d))))"
    if none: "r = None" and there: "reliable (get_deployment e)" "view w (deployment_ref b c) = Some (ODeployment d)"
  proof -
    have gd: "g = Inr d"
      using get(2,3) there g by (cases g) (auto simp: reliable_def ref)
    obtain p where p: "run_state (exec e (Patch (ODeployment d) (ODeployment (scale_to_zero d)))) w1 = (p, w')"
      and "p = None"
      using run g gd none
      by (auto simp: suspend_deployment_def run_simps split: option.splits prod.splits)
    with api_server_exec [OF api p] key [OF gd] get(1) there(2) show ?thesis by simp
  qed
qed

section \<open>Properties\<close>

text \<open>
  C26: a successful pass over a service of an active tenant leaves the store as it was but for
  its Deployment and its Service: absent ones are created as desired, existing ones keep what
  the operator does not manage and get the desired spec, ports, selector and labels.
\<close>

theorem tenant_service_upserts:
  assumes "api_server e view admit" and "\<not> suspended c"
    and "run_state (tenant_service_reconcile b e c) w = ((Inr res, c'), w')"
  shows "view w' = (view w)
    (deployment_ref b c \<mapsto>
       upserted_deployment admit (tb_build_deployment b c) (view w (deployment_ref b c)),
     service_ref b c \<mapsto>
       upserted_service admit (tb_build_service b c) (view w (service_ref b c)))"
  by (rule tenant_service_stores [OF assms])

definition acme_ctx_of :: "bool \<Rightarrow> tenant_ctx" where
  "acme_ctx_of susp = NewTenantContext (sample_tenant ''acme'' susp) sample_supabase"

lemma acme_suspended: "suspended (acme_ctx_of s) = s"
  by (simp add: acme_ctx_of_def NewTenantContext_def sample_tenant_def sample_tenant_spec_def)

lemma rest_deployment_ref:
  "deployment_ref RESTBuilder (acme_ctx_of True) = deployment_ref RESTBuilder (acme_ctx_of False)"
  by (simp add: deployment_ref_def acme_ctx_of_def obj_ref_def RESTBuilder_def rest_BuildDeployment_def
      builder_defs Let_def rest_resourceName_def TenantID_def NewTenantContext_def
      sample_tenant_def sample_tenant_spec_def)

lemma env_deployments: "reliable (get_deployment env)"
  by (auto simp: reliable_def env_def mem_env_def mem_get_def no_faults_def split: option.splits)

definition rest_pass :: "bool \<Rightarrow> world \<Rightarrow> ((go_error + ctrl_result) \<times> tenant_ctx) \<times> world" where
  "rest_pass susp w = run_state (tenant_service_reconcile RESTBuilder env (acme_ctx_of susp)) w"

lemma rest_pass_results:
  "fst (fst (rest_pass False (world_of []))) = Inr no_requeue"
  "fst (fst (rest_pass True (snd (rest_pass False (world_of []))))) = Inr no_requeue"
  "fst (fst (rest_pass False (snd (rest_pass True (snd (rest_pass False (world_of []))))))) = Inr no_requeue"
  by code_simp+

lemma rest_pass_run:
  "fst (fst (rest_pass s w)) = Inr no_requeue \<Longrightarrow>
     run_state (tenant_service_reconcile RESTBuilder env (acme_ctx_of s)) w =
       ((Inr no_requeue, snd (fst (rest_pass s w))), snd (rest_pass s w))"
  unfolding rest_pass_def by (metis prod.collapse)

theorem tenant_service_upserts_witness:
  "mem_view (snd (rest_pass False (world_of []))) (service_ref RESTBuilder (acme_ctx_of False)) =
     Some (OService (rest_BuildService (acme_ctx_of False)))"
  using tenant_service_upserts [OF env_laws(1) _ rest_pass_run [OF rest_pass_results(1)]]
  by (simp add: acme_suspended upserted_service_def mem_view_def world_of_def mem_lookup_def
      RESTBuilder_def)

text \<open>
  C27: a pass over a service of a suspended tenant touches nothing but its Deployment: the
  Service keeps its address. If the Deployment exists and the pass succeeds, it is stored with
  the replicas set to zero and is otherwise as it was.
\<close>

theorem suspension_scales_to_zero:
  assumes "api_server e view admit" and "suspended c"
    and "run_state (tenant_service_reconcile b e c) w = ((r, c'), w')"
  shows "(\<forall>q. q \<noteq> deployment_ref b c \<longrightarrow> view w' q = view w q) \<and>
    (\<forall>d res. reliable (get_deployment e) \<and> r = Inr res \<and>
        view w (deployment_ref b c) = Some (ODeployment d) \<longrightarrow>
      view w' (deployment_ref b c) =
        Some (admit (ODeployment (d\<lparr>dep_spec := (dep_spec d)\<lparr>ds_replicas := Some 0\<rparr>\<rparr>))))"
proof -
  obtain s where run: "run_state (suspend_deployment b e c) w = (s, w')"
    and r: "r = (case s of Some err \<Rightarrow> Inl err | None \<Rightarrow> Inr no_requeue)"
    using assms(2,3) by (auto simp: tenant_service_reconcile_def result_of_def split: prod.splits)
  have "keep_status (ODeployment d) (ODeployment (scale_to_zero d)) = ODeployment (scale_to_zero d)" for d
    by (simp add: keep_status_def scale_to_zero_def)
  with suspend_effect [OF assms(1) run] r show ?thesis
    by (auto simp: scale_to_zero_def split: option.splits simp del: split_paired_All)
qed

theorem suspension_scales_to_zero_witness:
  "\<exists>d. mem_view (snd (rest_pass True (snd (rest_pass False (world_of [])))))
      (deployment_ref RESTBuilder (acme_ctx_of True)) = Some (ODeployment d) \<and>
    ds_replicas (dep_spec d) = Some 0"
proof -
  let ?w = "snd (rest_pass False (world_of []))" and ?q = "deployment_ref RESTBuilder (acme_ctx_of True)"
  have "service_ref RESTBuilder (acme_ctx_of False) \<noteq> ?q"
    by (simp add: service_ref_def deployment_ref_def obj_ref_def)
  then have "mem_view ?w ?q = Some (upserted_deployment settle (tb_build_deployment RESTBuilder
      (acme_ctx_of False)) (mem_view (world_of []) ?q))"
    using tenant_service_stores [OF env_laws(1) _ rest_pass_run [OF rest_pass_results(1)]]
    by (simp add: acme_suspended rest_deployment_ref)
  with upserted_deployment_spec [OF settle_plain] obtain d where d: "mem_view ?w ?q = Some (ODeployment d)"
    by metis
  from suspension_scales_to_zero [OF env_laws(1) _ rest_pass_run [OF rest_pass_results(2)]] d env_deployments
  show ?thesis by (simp add: acme_suspended)
qed

text \<open>
  C28: suspending a service and resuming it is a round trip: the store is what a pass over the
  active tenant, had it not been suspended in between, would have left.
\<close>

theorem suspend_resume:
  assumes "api_server e view admit" and "plain_admission admit" and "reliable (get_deployment e)"
    and "\<not> suspended c" and "suspended s" and "deployment_ref b s = deployment_ref b c"
    and "run_state (tenant_service_reconcile b e c) w = ((Inr res1, c1), w1)"
    and "run_state (tenant_service_reconcile b e s) w1 = ((Inr res2, c2), w2)"
    and "run_state (tenant_service_reconcile b e c) w2 = ((Inr res3, c3), w3)"
  shows "\<exists>d d'. view w1 (deployment_ref b c) = Some (ODeployment d) \<and>
    view w3 (deployment_ref b c) = Some (ODeployment d') \<and> dep_spec d' = dep_spec d \<and>
    dep_meta d' = dep_meta d \<and>
    (\<forall>q. q \<noteq> deployment_ref b c \<longrightarrow> view w3 q = view w1 q)"
proof -
  let ?d = "deployment_ref b c" and ?s = "service_ref b c" and ?D = "tb_build_deployment b c"
  have ds: "?s \<noteq> ?d" by (simp add: service_ref_def deployment_ref_def obj_ref_def)
  note first = tenant_service_stores [OF assms(1,4,7)]
  note third = tenant_service_stores [OF assms(1,4,9)]
  note second = suspension_scales_to_zero [OF assms(1,5,8)]
  obtain d where d: "view w1 ?d = Some (ODeployment d)" "dep_spec d = dep_spec ?D"
    "mergeDeployment ?D d = d"
    using upserted_deployment_spec [OF assms(2), of ?D "view w ?d"] first ds by auto
  obtain n where "view w2 ?d = Some (ODeployment
      (d\<lparr>dep_spec := (dep_spec d)\<lparr>ds_replicas := Some 0\<rparr>, dep_ready_replicas := n\<rparr>))"
    using second assms(3,6) d(1)
      plain_admissionE [OF assms(2), of "d\<lparr>dep_spec := (dep_spec d)\<lparr>ds_replicas := Some 0\<rparr>\<rparr>"]
    by metis
  moreover have "mergeDeployment ?D (d\<lparr>dep_spec := sp, dep_ready_replicas := n\<rparr>) =
      d\<lparr>dep_ready_replicas := n\<rparr>" for sp
    using arg_cong [OF d(3), of dep_meta] d(2) by (simp add: mergeDeployment_def)
  ultimately have up: "upserted_deployment admit ?D (view w2 ?d) = admit (ODeployment (d\<lparr>dep_ready_replicas := n\<rparr>))"
    by (simp add: upserted_deployment_def keep_status_def)
  obtain m where "admit (ODeployment (d\<lparr>dep_ready_replicas := n\<rparr>)) = ODeployment (d\<lparr>dep_ready_replicas := m\<rparr>)"
    using plain_admissionE [OF assms(2), of "d\<lparr>dep_ready_replicas := n\<rparr>"] by auto
  with third ds up have "view w3 ?d = Some (ODeployment (d\<lparr>dep_ready_replicas := m\<rparr>))" by simp
  then obtain d' where d': "view w3 ?d = Some (ODeployment d')" "dep_spec d' = dep_spec d"
    "dep_meta d' = dep_meta d" by simp
  have w2: "view w2 q = view w1 q" if "q \<noteq> ?d" for q
    using second assms(6) that by (simp del: split_paired_All)
  have "view w1 ?s = Some (upserted_service admit (tb_build_service b c) (view w ?s))"
    by (simp add: first)
  then have "view w3 q = view w1 q" if "q \<noteq> ?d" for q
    using third w2 that ds upserted_again(2) [OF assms(2)] by simp
  with d(1) d' show ?thesis by blast
qed

theorem suspend_resume_witness:
  "\<exists>d d'. mem_view (snd (rest_pass False (world_of []))) (deployment_ref RESTBuilder (acme_ctx_of False)) =
      Some (ODeployment d) \<and>
    mem_view (snd (rest_pass False (snd (rest_pass True (snd (rest_pass False (world_of [])))))))
      (deployment_ref RESTBuilder (acme_ctx_of False)) = Some (ODeployment d') \<and>
    dep_spec d' = dep_spec d"
proof -
  from suspend_resume [OF env_laws(1) settle_plain env_deployments _ _ rest_deployment_ref rest_pass_run [OF rest_pass_results(1)]
      rest_pass_run [OF rest_pass_results(2)] rest_pass_run [OF rest_pass_results(3)]]
  show ?thesis by (auto simp: acme_suspended)
qed

text \<open>
  C37: suspension is reported whether or not it happened. When the Deployment of a suspended
  tenant's service cannot be read, for whatever reason, the step changes nothing, records no
  error and sets the condition of the service to true.
\<close>

theorem suspension_unread:
  assumes "api_server e view admit" and "suspended c"
    and "\<And>w. \<exists>err. fst (run_state (get_deployment e (meta_key (dep_meta (tb_build_deployment b c)))) w) = Inl err"
    and "run_state (reconcile_component e gen (NewTenantService b e) t cs c) w = ((r, cs', c'), w')"
  shows "r = (True, False) \<and> view w' = view w \<and>
    cs' = set_status_condition e cs (mk_condition t CondTrue ''Ready'' ''suspended'' gen)"
proof -
  let ?k = "meta_key (dep_meta (tb_build_deployment b c))"
  obtain g w1 where g: "run_state (get_deployment e ?k) w = (g, w1)" by fastforce
  obtain err where "g = Inl err" using assms(3) [of w] g by auto
  with g assms(2,4) reads_storeD(1) [OF api_server_reads(6) [OF assms(1)] g] show ?thesis
    by (auto simp: reconcile_component_def NewTenantService_def tenant_service_reconcile_def
        result_of_def suspend_deployment_def tenant_service_healthcheck_def no_requeue_def run_simps)
qed

text \<open>An API server that does not answer reads of Deployments.\<close>

definition deaf_env :: "world env" where
  "deaf_env = mem_env (no_faults\<lparr>f_read := (\<lambda>q. fst q = KDeployment)\<rparr>) settle"

theorem suspension_unread_witness:
  "fst (fst (run_state (reconcile_component deaf_env 1 (NewTenantService RESTBuilder deaf_env)
      TenantConditionRESTReady [] (acme_ctx_of True)) (world_of []))) = (True, False)"
proof -
  have api: "api_server deaf_env mem_view settle" unfolding deaf_env_def by (rule mem_api_server) simp
  have "\<exists>err. fst (run_state (get_deployment deaf_env k) w) = Inl err" for k w
    by (simp add: deaf_env_def mem_env_def mem_get_def)
  with suspension_unread [OF api, of "acme_ctx_of True" RESTBuilder] show ?thesis
    by (metis acme_suspended prod.collapse)
qed

text \<open>
  The condition of a service of an active tenant is true for one reason only: its
  Deployment exists and has as many ready replicas as it asks for, at least one. Reading it
  writes nothing.
\<close>

lemma tenant_service_readiness:
  assumes "api_server e view admit" and "reliable (get_deployment e)" and "\<not> suspended c"
    and "run_state (tenant_service_healthcheck b e c) w = ((ready, msg, err), w')"
  shows "view w' = view w \<and> err = None \<and>
    (ready \<longleftrightarrow> (\<exists>d. view w (deployment_ref b c) = Some (ODeployment d) \<and> 1 \<le> dep_ready_replicas d \<and>
       dep_ready_replicas d = (case ds_replicas (dep_spec d) of None \<Rightarrow> 1 | Some n \<Rightarrow> n)))"
proof -
  let ?k = "meta_key (dep_meta (tb_build_deployment b c))"
  have ref: "deployment_ref b c = (KDeployment, ?k)" by (simp add: deployment_ref_def obj_ref_def)
  obtain g w1 where g: "run_state (get_deployment e ?k) w = (g, w1)" by fastforce
  note get = reads_storeD [OF api_server_reads(6) [OF assms(1)] g]
  show ?thesis
  proof (cases g)
    case (Inl x)
    with assms(2) g have "is_not_found x" by (auto simp: reliable_def)
    with get(1) get(3) [OF Inl] Inl g assms(3,4) show ?thesis
      by (auto simp: tenant_service_healthcheck_def ref)
  next
    case (Inr d)
    with get(1) get(2) [OF Inr] g assms(3,4) show ?thesis
      by (auto simp: tenant_service_healthcheck_def ref replica_health_def Let_def)
  qed
qed

section \<open>Services of the platform\<close>

text \<open>The desired object with the owner reference \<open>SetControllerReference\<close> gives it.\<close>

definition owned :: "'w env \<Rightarrow> platform_ctx \<Rightarrow> object_meta \<Rightarrow> object_meta" where
  "owned e c m = (case set_controller_reference e (px_supabase c) m of Inl err \<Rightarrow> m | Inr m' \<Rightarrow> m')"

definition owned_deployment :: "'w env \<Rightarrow> platform_builder \<Rightarrow> platform_ctx \<Rightarrow> deployment" where
  "owned_deployment e b c =
     (pb_build_deployment b c)\<lparr>dep_meta := owned e c (dep_meta (pb_build_deployment b c))\<rparr>"

definition owned_service :: "'w env \<Rightarrow> platform_builder \<Rightarrow> platform_ctx \<Rightarrow> service" where
  "owned_service e b c =
     (pb_build_service b c)\<lparr>svc_meta := owned e c (svc_meta (pb_build_service b c))\<rparr>"

lemma with_owner_ok:
  assumes "run_state (with_owner e c what m f) w = (None, w')"
  shows "run_state (f (owned e c m)) w = (None, w')"
  using assms by (auto simp: with_owner_def owned_def split: sum.splits)

lemma platform_service_stores:
  assumes api: "api_server e view admit" and on: "pb_is_enabled b c"
    and plain: "pb_build_config_map b = None"
    and run: "run_state (service_reconcile b e c) w = ((Inr res, c'), w')"
  defines "D \<equiv> owned_deployment e b c" and "S \<equiv> owned_service e b c"
  shows "view w' = (view w)
    (obj_ref (ODeployment D) \<mapsto> upserted_deployment admit D (view w (obj_ref (ODeployment D))),
     obj_ref (OService S) \<mapsto> upserted_service admit S (view w (obj_ref (OService S))))"
proof -
  have "run_state (result_of c (and_then (reconcile_config_map e b c)
      (and_then (reconcile_deployment e b c) (reconcile_service e b c)))) w = ((Inr res, c'), w')"
    using run on by (simp add: service_reconcile_def)
  from result_of_ok(1) [OF this] obtain w0 w1 where
    none: "run_state (reconcile_config_map e b c) w = (None, w0)"
    and one: "run_state (reconcile_deployment e b c) w0 = (None, w1)"
    and two: "run_state (reconcile_service e b c) w1 = (None, w')"
    by (metis and_then_ok)
  have w0: "w0 = w" using none plain by (simp add: reconcile_config_map_def)
  note d = with_owner_ok [OF one [unfolded reconcile_deployment_def w0]]
  note s = with_owner_ok [OF two [unfolded reconcile_service_def]]
  have "obj_ref (OService S) \<noteq> obj_ref (ODeployment D)" by (simp add: obj_ref_def)
  with upsert_deployment [OF api d] upsert_service [OF api s] show ?thesis
    by (simp add: D_def S_def owned_deployment_def owned_service_def)
qed

text \<open>
  An optional service of the platform that is switched off is ready without the cluster
  being asked and nothing is written for it (what it left when it was on stays); one that is on
  is stored, owned by the platform, like a service of a tenant.
\<close>

lemma platform_service_upserts:
  assumes "api_server e view admit" and "pb_build_config_map b = None"
    and "run_state (service_reconcile b e c) w = ((Inr res, c'), w')"
  shows "(\<not> pb_is_enabled b c \<longrightarrow> view w' = view w \<and>
      run_state (service_healthcheck b e c) w' = ((True, ''component disabled'', None), w')) \<and>
    (pb_is_enabled b c \<longrightarrow> view w' = (view w)
      (obj_ref (ODeployment (owned_deployment e b c)) \<mapsto>
         upserted_deployment admit (owned_deployment e b c)
           (view w (obj_ref (ODeployment (owned_deployment e b c)))),
       obj_ref (OService (owned_service e b c)) \<mapsto>
         upserted_service admit (owned_service e b c)
           (view w (obj_ref (OService (owned_service e b c))))))"
  using platform_service_stores [OF assms(1) _ assms(2,3)] assms(3)
  by (auto simp: service_reconcile_def service_healthcheck_def)

definition studio_ctx :: platform_ctx where "studio_ctx = \<lparr>px_supabase = sample_supabase\<rparr>"

definition studio_pass :: "((go_error + ctrl_result) \<times> platform_ctx) \<times> world" where
  "studio_pass = run_state (service_reconcile StudioBuilder env studio_ctx) (world_of [])"

lemma studio_pass_result: "fst (fst studio_pass) = Inr no_requeue"
  by code_simp

lemma platform_service_upserts_example:
  "mem_view (snd studio_pass) (obj_ref (OService (owned_service env StudioBuilder studio_ctx))) =
     Some (OService (owned_service env StudioBuilder studio_ctx))"
proof -
  have run: "run_state (service_reconcile StudioBuilder env studio_ctx) (world_of []) =
      ((Inr no_requeue, snd (fst studio_pass)), snd studio_pass)"
    using studio_pass_result unfolding studio_pass_def by (metis prod.collapse)
  have "pb_is_enabled StudioBuilder studio_ctx" "pb_build_config_map StudioBuilder = None"
    by (simp_all add: StudioBuilder_def studio_ctx_def sample_supabase_def sample_spec_def
        sample_service_def IsEnabled_def)
  with platform_service_upserts [OF env_laws(1) _ run] show ?thesis
    by (simp add: upserted_service_def mem_view_def world_of_def mem_lookup_def)
qed

end
