(* ===== verification/NetworkProperties.thy ===== *)
theory NetworkProperties
  imports MemApi Encodings
begin

text \<open>
  The way of a request: from the gateway through the route of a tenant and a Service to the
  pods, which pods the network policy lets in, and what the presets ask for.
\<close>

section \<open>The builders of a tenant\<close>

abbreviation builders :: "tenant_builder list" where
  "builders \<equiv> map fst tenantBuilders"

lemma builders_eq:
  "builders = [AuthBuilder, RESTBuilder, RealtimeBuilder, StorageBuilder, FunctionsBuilder]"
  by (simp add: tenantBuilders_def)

lemma builder_cases:
  assumes "b \<in> set builders"
  obtains "b = AuthBuilder" | "b = RESTBuilder" | "b = RealtimeBuilder" | "b = StorageBuilder"
    | "b = FunctionsBuilder"
  using assms unfolding builders_eq by auto

lemma tenant_workload:
  assumes "b \<in> set builders"
  shows "workload (tb_build_deployment b) (tb_build_service b) tenant_owner_id"
  using assms
  by (cases rule: builder_cases)
    (simp_all add: AuthBuilder_def RESTBuilder_def RealtimeBuilder_def StorageBuilder_def
      FunctionsBuilder_def auth_workload.workload_axioms rest_workload.workload_axioms
      realtime_workload.workload_axioms storage_workload.workload_axioms
      functions_workload.workload_axioms)

lemma platform_workload:
  assumes "b \<in> set serviceBuilders"
  shows "workload (pb_build_deployment b) (pb_build_service b) platform_id"
  using assms
  by (auto simp: serviceBuilders_def AnalyticsBuilder_def ImgproxyBuilder_def StudioBuilder_def SupavisorBuilder_def
      VectorBuilder_def analytics_workload.workload_axioms imgproxy_workload.workload_axioms
      studio_workload.workload_axioms supavisor_workload.workload_axioms
      vector_workload.workload_axioms)

lemmas tenant_builder_defs = AuthBuilder_def RESTBuilder_def RealtimeBuilder_def StorageBuilder_def
  FunctionsBuilder_def

lemmas tenant_build_unfold = tenant_builder_defs auth_BuildDeployment_def auth_BuildService_def
  rest_BuildDeployment_def rest_BuildService_def realtime_BuildDeployment_def
  realtime_BuildService_def storage_BuildDeployment_def storage_BuildService_def
  functions_BuildDeployment_def functions_BuildService_def auth_resourceName_def
  rest_resourceName_def realtime_resourceName_def storage_resourceName_def
  functions_resourceName_def builder_defs Let_def

lemmas component_names = componentAuth_def componentREST_def componentRealtime_def
  componentStorage_def componentFunctions_def

section \<open>Gateway API\<close>



section \<open>Quantities\<close>

text \<open>\<open>resource.ParseQuantity\<close> for the suffixes the presets use, in thousandths.\<close>

fun milli :: "quantity \<Rightarrow> int" where
  "milli (MustParse s) =
     (if s \<noteq> [] \<and> last s = CHR ''m'' then atoi (butlast s)
      else if length s > 2 \<and> drop (length s - 2) s = ''Mi'' then
        atoi (take (length s - 2) s) * 1000 * 2 ^ 20
      else if length s > 2 \<and> drop (length s - 2) s = ''Gi'' then
        atoi (take (length s - 2) s) * 1000 * 2 ^ 30
      else atoi s * 1000)"

definition amount :: "(string \<rightharpoonup> quantity) \<Rightarrow> string \<Rightarrow> int option" where
  "amount m r = map_option milli (m r)"

definition preset_amounts :: "preset_resources \<Rightarrow> int list" where
  "preset_amounts p =
     map (\<lambda>(m, r). case amount m r of None \<Rightarrow> 0 | Some n \<Rightarrow> n)
       [(rr_requests (pre_resources p), ''cpu''), (rr_limits (pre_resources p), ''cpu''),
        (rr_requests (pre_resources p), ''memory''), (rr_limits (pre_resources p), ''memory'')]"

lemma preset_table:
  "preset_amounts (GetPreset ResourcePresetSmall) =
     [100, 500, 128 * 1000 * 2 ^ 20, 512 * 1000 * 2 ^ 20]"
  "preset_amounts (GetPreset ResourcePresetMedium) =
     [250, 1000, 256 * 1000 * 2 ^ 20, 1 * 1000 * 2 ^ 30]"
  "preset_amounts (GetPreset ResourcePresetLarge) =
     [500, 2000, 512 * 1000 * 2 ^ 20, 2 * 1000 * 2 ^ 30]"
  by code_simp+

lemma preset_replicas:
  "pre_replicas (GetPreset ResourcePresetSmall) = 1" "pre_replicas (GetPreset ResourcePresetMedium) = 2"
  "pre_replicas (GetPreset ResourcePresetLarge) = 3"
  by simp_all

lemma preset_deployments:
  "list_all (\<lambda>b. ds_replicas (dep_spec (tb_build_deployment b c)) =
     Some (pre_replicas (GetPreset (tn_resources (tc_spec (tx_tenant c)))))) builders"
  unfolding builders_eq by (simp add: tenant_build_unfold)



section \<open>Properties\<close>



text \<open>
  C31: every port of a Service the operator builds, for a tenant or for the platform, leads to a
  port that a container of the pods it selects opens; the selector and the key of a Deployment
  depend only on the identity of its owner, so that no later change of a spec makes the operator
  patch an immutable selector.
\<close>

theorem services_reach_pods:
  assumes "b \<in> set builders" and "p \<in> set (svc_ports (tb_build_service b c))"
    and "tenant_owner_id c = tenant_owner_id c'"
    and "pb \<in> set serviceBuilders" and "pp \<in> set (svc_ports (pb_build_service pb pc))"
    and "platform_id pc = platform_id pc'"
  shows "selects (svc_selector (tb_build_service b c))
      (pt_labels (ds_template (dep_spec (tb_build_deployment b c)))) \<and>
    sp_target_port p \<in> exposed_ports (tb_build_deployment b c) \<and>
    ds_selector (dep_spec (mergeDeployment (tb_build_deployment b c') (tb_build_deployment b c))) =
      ds_selector (dep_spec (tb_build_deployment b c)) \<and>
    selects (svc_selector (pb_build_service pb pc))
      (pt_labels (ds_template (dep_spec (pb_build_deployment pb pc)))) \<and>
    sp_target_port pp \<in> exposed_ports (pb_build_deployment pb pc) \<and>
    ds_selector (dep_spec (mergeDeployment (pb_build_deployment pb pc') (pb_build_deployment pb pc))) =
      ds_selector (dep_spec (pb_build_deployment pb pc))"
proof -
  note t = tenant_workload [OF assms(1)]
  note q = platform_workload [OF assms(4)]
  show ?thesis
    using workload.service_reaches_pods [OF t assms(2)] workload.merge_keeps_identity(2) [OF t assms(3)]
      workload.service_reaches_pods [OF q assms(5)] workload.merge_keeps_identity(2) [OF q assms(6)]
    by blast
qed

definition tenant_at :: "string \<Rightarrow> tenant_ctx" where
  "tenant_at n = NewTenantContext (sample_tenant n False) sample_supabase"

theorem services_reach_pods_witness:
  "selects (svc_selector (auth_BuildService (tenant_at ''acme'')))
      (pt_labels (ds_template (dep_spec (auth_BuildDeployment (tenant_at ''acme''))))) \<and>
    authPort \<in> exposed_ports (auth_BuildDeployment (tenant_at ''acme''))"
proof -
  note ports = tenant_build_unfold AuthBuilder_def auth_BuildService_def authPort_def
  show ?thesis
    using services_reach_pods [of AuthBuilder
        "\<lparr>sp_name = ''http'', sp_port = 9999, sp_target_port = 9999, sp_protocol = ''TCP''\<rparr>"
        "tenant_at ''acme''" "tenant_at ''acme''" StudioBuilder
        "\<lparr>sp_name = ''http'', sp_port = 3000, sp_target_port = 3000, sp_protocol = ''TCP''\<rparr>"
        "\<lparr>px_supabase = sample_supabase\<rparr>" "\<lparr>px_supabase = sample_supabase\<rparr>"]
    by (simp add: builders_eq serviceBuilders_def StudioBuilder_def studio_BuildService_def
        studioPort_def ports)
qed

text \<open>
  C32: no Service of a tenant selects the pods of another component, of another tenant or of
  another platform.
\<close>

theorem selectors_disjoint:
  assumes "b \<in> set builders" and "b' \<in> set builders"
    and "selects (svc_selector (tb_build_service b c))
      (pt_labels (ds_template (dep_spec (tb_build_deployment b' c'))))"
  shows "b = b' \<and> TenantID c = TenantID c' \<and> TInstanceName c = TInstanceName c'"
proof -
  have sel: "svc_selector (tb_build_service x c) = tenant_selector c (tb_component_name x)"
    if "x \<in> set builders" for x c
    using that by (cases rule: builder_cases) (simp_all add: tenant_build_unfold)
  have lab: "pt_labels (ds_template (dep_spec (tb_build_deployment x c))) =
      TenantLabels (TInstanceName c) (TenantID c) (tb_component_name x)"
    if "x \<in> set builders" for x c
    using that by (cases rule: builder_cases) (simp_all add: tenant_build_unfold tenant_selector_def)
  have "tenant_selector c (tb_component_name b) \<subseteq>\<^sub>m
      TenantLabels (TInstanceName c') (TenantID c') (tb_component_name b')"
    using assms(3) by (simp add: selects_def sel [OF assms(1)] lab [OF assms(2)])
  then have same: "tb_component_name b = tb_component_name b'"
    and "TenantID c = TenantID c' \<and> TInstanceName c = TInstanceName c'"
    unfolding map_le_def tenant_selector_def SelectorLabels_def TenantLabels_def PlatformLabels_def
    by (simp_all add: label_defs)
  moreover have "b = b'" using same assms(1,2)
    by (auto simp: builders_eq tenant_builder_defs component_names)
  ultimately show ?thesis by simp
qed

theorem selectors_disjoint_witness:
  "\<not> selects (svc_selector (auth_BuildService (tenant_at ''acme'')))
     (pt_labels (ds_template (dep_spec (auth_BuildDeployment (tenant_at ''umbrella'')))))"
  using selectors_disjoint [of AuthBuilder AuthBuilder "tenant_at ''acme''" "tenant_at ''umbrella''"]
  by (auto simp: builders_eq AuthBuilder_def tenant_at_def NewTenantContext_def sample_tenant_def
      sample_tenant_spec_def TenantID_def)


text \<open>
  The Deployments of a tenant ask for one to three replicas, and every preset requests
  no more than its limit, of processor and of memory; a larger preset asks for no less of
  anything.
\<close>

lemma presets_ordered:
  "list_all (\<lambda>p. 1 \<le> pre_replicas (GetPreset p) \<and> pre_replicas (GetPreset p) \<le> 3 \<and>
      (case preset_amounts (GetPreset p) of
         [rc, lc, rm, lm] \<Rightarrow> 0 < rc \<and> rc \<le> lc \<and> 0 < rm \<and> rm \<le> lm | _ \<Rightarrow> False))
     [ResourcePresetSmall, ResourcePresetMedium, ResourcePresetLarge] \<and>
   sorted (map (\<lambda>p. pre_replicas (GetPreset p))
     [ResourcePresetSmall, ResourcePresetMedium, ResourcePresetLarge]) \<and>
   sorted_wrt (list_all2 (\<le>)) (map (\<lambda>p. preset_amounts (GetPreset p))
     [ResourcePresetSmall, ResourcePresetMedium, ResourcePresetLarge]) \<and>
   list_all (\<lambda>b. ds_replicas (dep_spec (tb_build_deployment b c)) =
     Some (pre_replicas (GetPreset (tn_resources (tc_spec (tx_tenant c)))))) builders"
  by (simp add: preset_table preset_replicas preset_deployments del: GetPreset.simps)

end
