(* ===== verification/InitSql.thy ===== *)
theory InitSql
  imports Encodings
begin

text \<open>
  What the init SQL of a tenant says: the scripts render without error for every parameter,
  and the string literals of the rendered SQL are those of the scripts with the parameters put
  in, as long as no parameter contains a quote. A script is followed as a sequence of tokens,
  characters and field names.
\<close>

section \<open>String literals of an SQL text\<close>

text \<open>Outside a literal, and inside one with the characters read so far in reverse.\<close>

fun literals_out :: "string \<Rightarrow> string list" and literals_in :: "string \<Rightarrow> string \<Rightarrow> string list" where
  "literals_out [] = []"
| "literals_out (c # cs) = (if c = CHR 0x27 then literals_in [] cs else literals_out cs)"
| "literals_in acc [] = []"
| "literals_in acc (c # cs) =
     (if c = CHR 0x27 then rev acc # literals_out cs else literals_in (c # acc) cs)"

definition sql_literals :: "string \<Rightarrow> string list" where
  "sql_literals s = literals_out s"

section \<open>The same on tokens\<close>

type_synonym token = "char + string"

fun seg_tokens :: "segment \<Rightarrow> token list" where
  "seg_tokens (Text t) = map Inl t"
| "seg_tokens (Field f) = [Inr f]"

definition tokens :: "string \<Rightarrow> token list" where
  "tokens s = (case parse_text [] s of None \<Rightarrow> [] | Some ss \<Rightarrow> concat (map seg_tokens ss))"

fun tok_out :: "token list \<Rightarrow> token list list" and tok_in :: "token list \<Rightarrow> token list \<Rightarrow> token list list" where
  "tok_out [] = []"
| "tok_out (c # cs) = (if c = Inl (CHR 0x27) then tok_in [] cs else tok_out cs)"
| "tok_in acc [] = []"
| "tok_in acc (c # cs) =
     (if c = Inl (CHR 0x27) then rev acc # tok_out cs else tok_in (c # acc) cs)"

definition expand :: "init_params \<Rightarrow> token \<Rightarrow> string" where
  "expand p t = (case t of Inl c \<Rightarrow> [c]
     | Inr f \<Rightarrow> (case init_field p f of None \<Rightarrow> '''' | Some v \<Rightarrow> v))"

definition expand_all :: "init_params \<Rightarrow> token list \<Rightarrow> string" where
  "expand_all p ts = concat (map (expand p) ts)"

definition quote_free :: "init_params \<Rightarrow> bool" where
  "quote_free p \<longleftrightarrow> list_all (\<lambda>s. CHR 0x27 \<notin> set s)
     [ip_database_name p, ip_jwt_secret p, ip_authenticator_password p, ip_auth_admin_password p,
      ip_storage_admin_password p]"

lemma expand_quote_free:
  "quote_free p \<Longrightarrow> CHR 0x27 \<in> set (expand p t) \<Longrightarrow> t = Inl (CHR 0x27)"
  by (auto simp: quote_free_def expand_def init_field_def split: sum.splits if_splits)

lemma literals_skip:
  "CHR 0x27 \<notin> set xs \<Longrightarrow> literals_out (xs @ ys) = literals_out ys"
  "CHR 0x27 \<notin> set xs \<Longrightarrow> literals_in acc (xs @ ys) = literals_in (rev xs @ acc) ys"
  by (induction xs arbitrary: acc) auto

lemma literals_expand:
  assumes "quote_free p"
  shows "literals_out (expand_all p ts) = map (expand_all p) (tok_out ts)"
    and "literals_in (rev (expand_all p (rev acc))) (expand_all p ts) = map (expand_all p) (tok_in acc ts)"
proof (induction ts arbitrary: acc)
  case Nil
  {
    case 1
    show ?case by (simp add: expand_all_def)
  next
    case 2
    show ?case by (simp add: expand_all_def)
  }
next
  case (Cons t ts)
  have skip: "t \<noteq> Inl (CHR 0x27) \<Longrightarrow> CHR 0x27 \<notin> set (expand p t)"
    using expand_quote_free [OF assms] by blast
  {
    case 1
    show ?case
    proof (cases "t = Inl (CHR 0x27)")
      case True
      with Cons.IH(2) [of "[]"] show ?thesis by (simp add: expand_all_def expand_def)
    next
      case False
      with Cons.IH(1) skip show ?thesis by (simp add: expand_all_def literals_skip)
    qed
  next
    case 2
    show ?case
    proof (cases "t = Inl (CHR 0x27)")
      case True
      with Cons.IH(1) show ?thesis by (simp add: expand_all_def expand_def)
    next
      case False
      with Cons.IH(2) [of "t # acc"] skip show ?thesis by (simp add: expand_all_def literals_skip)
    qed
  }
qed

section \<open>Rendering\<close>

definition known_field :: "string \<Rightarrow> bool" where
  "known_field f \<longleftrightarrow> f \<in> {''DatabaseName'', ''JWTSecret'', ''AuthenticatorPassword'',
     ''AuthAdminPassword'', ''StorageAdminPassword''}"

fun known_segment :: "segment \<Rightarrow> bool" where
  "known_segment (Text t) = True"
| "known_segment (Field f) = known_field f"

lemma exec_template_expand:
  "list_all known_segment ss \<Longrightarrow>
     exec_template p ss = Some (expand_all p (concat (map seg_tokens ss)))"
proof (induction ss)
  case (Cons s ss)
  have "expand_all p (map Inl t) = t" for t by (induction t) (simp_all add: expand_all_def expand_def)
  moreover have "expand_all p (xs @ ys) = expand_all p xs @ expand_all p ys" for xs ys
    by (simp add: expand_all_def)
  ultimately show ?case
    using Cons by (cases s) (auto simp: known_field_def init_field_def expand_all_def expand_def)
qed (simp add: expand_all_def)

text \<open>Every script parses, with known fields only.\<close>

definition good_script :: "string \<Rightarrow> bool" where
  "good_script s = (case parse_text [] s of None \<Rightarrow> False | Some ss \<Rightarrow> list_all known_segment ss)"

lemma scripts_good: "list_all (\<lambda>(n, s). good_script s) scriptFS"
  by code_simp

lemma scripts_sorted: "sort_key fst scriptFS = scriptFS"
  by code_simp

lemma render_entry_good: "good_script s \<Longrightarrow> render_entry p (n, s) = Inr (expand_all p (tokens s))"
  by (auto simp: good_script_def render_entry_def tokens_def exec_template_expand split: option.splits)

lemma render_entries_good:
  "list_all (\<lambda>(n, s). good_script s) xs \<Longrightarrow>
     render_entries p xs = Inr (map (\<lambda>(n, s). expand_all p (tokens s)) xs)"
  by (induction p xs rule: render_entries.induct) (auto simp: render_entry_good)

text \<open>The tokens of the whole SQL: those of the scripts, joined by newlines.\<close>

definition init_tokens :: "token list" where
  "init_tokens =
     tokens webhooks_sql @ [Inl (CHR 0x0A)] @ tokens jwt_sql @ [Inl (CHR 0x0A)] @
     tokens realtime_sql @ [Inl (CHR 0x0A)] @ tokens roles_sql"

lemma CombinedInitSQL_tokens: "CombinedInitSQL p = Inr (expand_all p init_tokens)"
  using render_entries_good [OF scripts_good, of p]
  by (simp add: CombinedInitSQL_def RenderInitScripts_def scripts_sorted)
    (simp add: scriptFS_def init_tokens_def nl_def expand_all_def expand_def)

lemma init_literals:
  "tok_out init_tokens =
     [[Inr ''JWTSecret''], map Inl ''3600'', map Inl ''anon'', map Inl ''authenticated'',
      map Inl ''service_role'', map Inl ''authenticator'',
      [Inr ''AuthenticatorPassword''], [Inr ''AuthenticatorPassword''],
      map Inl ''supabase_auth_admin'', [Inr ''AuthAdminPassword''], [Inr ''AuthAdminPassword''],
      map Inl ''supabase_storage_admin'', [Inr ''StorageAdminPassword''],
      [Inr ''StorageAdminPassword'']]"
  by code_simp

lemma expand_all_simps:
  "expand_all p [] = []" "expand_all p (Inl c # ts) = c # expand_all p ts"
  "expand_all p [Inr f] = (case init_field p f of None \<Rightarrow> '''' | Some v \<Rightarrow> v)"
  by (simp_all add: expand_all_def expand_def)

lemma CombinedInitSQL_literals:
  assumes "quote_free p"
  shows "\<exists>sql. CombinedInitSQL p = Inr sql \<and>
    sql_literals sql =
      [ip_jwt_secret p, ''3600'', ''anon'', ''authenticated'', ''service_role'', ''authenticator'',
       ip_authenticator_password p, ip_authenticator_password p,
       ''supabase_auth_admin'', ip_auth_admin_password p, ip_auth_admin_password p,
       ''supabase_storage_admin'', ip_storage_admin_password p, ip_storage_admin_password p]"
  unfolding CombinedInitSQL_tokens sql_literals_def
  by (simp add: literals_expand(1) [OF assms] init_literals expand_all_simps init_field_def)

end
