(* ===== verification/CredentialProperties.thy ===== *)
theory CredentialProperties
  imports MemApi InitSql
begin

text \<open>
  The properties of credentials: what is generated, how the connection strings and the init SQL
  carry it, and that a tenant keeps the credentials it was given.
\<close>

section \<open>Secrets once generated\<close>

text \<open>The credentials a context carries.\<close>

definition credentials_of :: "tenant_ctx \<Rightarrow> string list" where
  "credentials_of c =
     [tx_jwt_secret c, tx_anon_key c, tx_service_role_key c, tx_database_password c, tx_secret_hash c]"

lemma generators_silent:
  assumes "api_server e view admit"
  shows "keeps (\<lambda>w. view w = x) (buildJWTSecret e c)"
    and "keeps (\<lambda>w. view w = x) (buildDBCredentialsSecret e c)"
  unfolding buildJWTSecret_def buildDBCredentialsSecret_def GenerateHMACSecret_def
    GenerateAnonKey_def GenerateServiceRoleKey_def generateRoleKey_def GeneratePassword_def
  by (intro keeps_intros silent_keeps_view api_server_silent [OF assms])+

lemma ensure_secret_existing:
  assumes api: "api_server e view admit"
    and s: "view w (KSecret, nn (tx_namespace c) n) = Some (OSecret s)"
    and run: "run_state (ensure_secret e c n what kd build) w = (r, w')"
  shows "(\<exists>err. r = Inl err) \<or> r = Inr (sec_data s)" and "view w' = view w"
proof -
  obtain g w1 where g: "run_state (get_secret e (nn (tx_namespace c) n)) w = (g, w1)" by fastforce
  note get = reads_storeD [OF api_server_reads(3) [OF api] g]
  have "(\<exists>err. r = Inl err) \<or> r = Inr (sec_data s)" "w' = w1"
  proof (atomize (full), cases g)
    case (Inl err)
    with get(3) [OF Inl] s have "\<not> is_not_found err" by auto
    with run g Inl show "((\<exists>err. r = Inl err) \<or> r = Inr (sec_data s)) \<and> w' = w1"
      by (auto simp: ensure_secret_def run_simps)
  next
    case (Inr x)
    with run g get(2) [OF Inr] s show "((\<exists>err. r = Inl err) \<or> r = Inr (sec_data s)) \<and> w' = w1"
      by (auto simp: ensure_secret_def run_simps)
  qed
  with get(1) show "(\<exists>err. r = Inl err) \<or> r = Inr (sec_data s)" and "view w' = view w" by simp_all
qed

lemma ensure_secret_created:
  assumes api: "api_server e view admit"
    and absent: "view w (KSecret, nn (tx_namespace c) n) = None"
    and silent: "\<And>x. keeps (\<lambda>w. view w = x) build"
    and run: "run_state (ensure_secret e c n what kd build) w = (Inr d, w')"
  shows "\<exists>s w1 w2. run_state build w1 = (Inr s, w2) \<and> d = sec_data s \<and>
    view w' = (view w)(obj_ref (OSecret s) \<mapsto> admit (OSecret s))"
proof -
  obtain g w1 where g: "run_state (get_secret e (nn (tx_namespace c) n)) w = (g, w1)" by fastforce
  note get = reads_storeD [OF api_server_reads(3) [OF api] g]
  obtain err where err: "g = Inl err" using get(2) absent by (cases g) auto
  obtain b w2 where b: "run_state build w1 = (b, w2)" by fastforce
  obtain s where s: "b = Inr s" and nf: "is_not_found err"
    using run g err b by (cases b) (auto simp: ensure_secret_def run_simps split: if_splits)
  obtain cr w3 where cr: "run_state (exec e (Create (OSecret s))) w2 = (cr, w3)" by fastforce
  have none: "cr = None" and emit: "run_state (emit e (created_event (tenant_ref (tx_tenant c)) kd
      (om_name (sec_meta s)))) w3 = ((), w')" and d: "d = sec_data s"
    using run g err b s nf cr
    by (auto simp: ensure_secret_def run_simps split: option.splits prod.splits)
  have "view w2 = view w1" using keeps_run [OF silent b] by simp
  then have "view w3 = (view w)(obj_ref (OSecret s) \<mapsto> admit (OSecret s))"
    using api_server_exec [OF api cr] none get(1) by (auto simp del: split_paired_All)
  with silentD [OF api_server_silent(4) [OF api] emit] b s d show ?thesis by auto
qed

lemma api_server_kind:
  assumes "api_server e view admit" and "view w (KSecret, k) = Some y"
  shows "\<exists>s. y = OSecret s"
  using api_server_keyed [OF assms] by (cases y) (auto simp: obj_ref_def)

text \<open>After it succeeded, the object is there and holds the data returned.\<close>

lemma ensure_secret_holds:
  assumes api: "api_server e view admit" and admit: "\<And>s. admit (OSecret s) = OSecret s"
    and silent: "\<And>x. keeps (\<lambda>w. view w = x) build"
    and at: "results (secret_at (KSecret, nn (tx_namespace c) n)) build"
    and run: "run_state (ensure_secret e c n what kd build) w = (Inr d, w')"
  shows "\<exists>s. view w' (KSecret, nn (tx_namespace c) n) = Some (OSecret s) \<and> d = sec_data s"
    and "q \<noteq> (KSecret, nn (tx_namespace c) n) \<Longrightarrow> view w' q = view w q"
proof -
  let ?q = "(KSecret, nn (tx_namespace c) n)"
  have "(\<exists>s. view w' ?q = Some (OSecret s) \<and> d = sec_data s) \<and> (q \<noteq> ?q \<longrightarrow> view w' q = view w q)"
  proof (cases "view w ?q")
    case (Some y)
    with api_server_kind [OF api Some] obtain s where "view w ?q = Some (OSecret s)" by blast
    from ensure_secret_existing [OF api this run] this show ?thesis by auto
  next
    case None
    from ensure_secret_created [OF api this silent run] obtain s w1 w2 where
      b: "run_state build w1 = (Inr s, w2)" and d: "d = sec_data s"
      and v: "view w' = (view w)(obj_ref (OSecret s) \<mapsto> admit (OSecret s))" by blast
    from results_run [OF at b] have "obj_ref (OSecret s) = ?q" by (simp add: secret_at_def)
    with d v admit show ?thesis by auto
  qed
  then show "\<exists>s. view w' ?q = Some (OSecret s) \<and> d = sec_data s"
    and "q \<noteq> ?q \<Longrightarrow> view w' q = view w q" by blast+
qed

lemma secret_names_distinct: "jwtSecretName c \<noteq> dbCredentialsSecretName c"
  by (simp add: jwtSecretName_def dbCredentialsSecretName_def)

text \<open>A pass that succeeds leaves both secrets in the store, and carries what they hold.\<close>

lemma secret_reconcile_holds:
  assumes api: "api_server e view admit" and admit: "\<And>s. admit (OSecret s) = OSecret s"
    and run: "run_state (secret_reconcile e c) w = ((Inr res, c'), w')"
  shows "\<exists>j d. view w' (jwt_ref c) = Some (OSecret j) \<and>
    view w' (db_credentials_ref c) = Some (OSecret d) \<and>
    c' = with_credentials c (sec_data j) (sec_data d)"
proof -
  let ?qj = "(KSecret, nn (tx_namespace c) (jwtSecretName c))"
  let ?qd = "(KSecret, nn (tx_namespace c) (dbCredentialsSecretName c))"
  obtain jd w1 where j: "run_state (ensure_secret e c (jwtSecretName c) ''JWT secret'' ''JWT Secret''
      (buildJWTSecret e c)) w = (Inr jd, w1)"
    using run by (auto simp: secret_reconcile_def run_simps split: sum.splits prod.splits)
  obtain dd where d: "run_state (ensure_secret e c (dbCredentialsSecretName c) ''DB credentials secret''
      ''DB Credentials Secret'' (buildDBCredentialsSecret e c)) w1 = (Inr dd, w')"
    and c': "c' = with_credentials c jd dd"
    using run j by (auto simp: secret_reconcile_def run_simps split: sum.splits prod.splits)
  note hj = ensure_secret_holds [OF api admit generators_silent(1) [OF api]
      buildJWTSecret_at [unfolded jwt_ref_def] j]
  note hd = ensure_secret_holds [OF api admit generators_silent(2) [OF api]
      buildDBCredentialsSecret_at [unfolded db_credentials_ref_def] d]
  from hj(1) obtain sj where "view w1 ?qj = Some (OSecret sj)" "jd = sec_data sj" by blast
  moreover have "view w' ?qj = view w1 ?qj"
    using secret_names_distinct [of c] by (intro hd(2)) simp
  ultimately show ?thesis using hd(1) c' by (auto simp: jwt_ref_def db_credentials_ref_def)
qed

lemma secret_reconcile_existing:
  assumes api: "api_server e view admit"
    and j: "view w (jwt_ref c) = Some (OSecret j)"
    and d: "view w (db_credentials_ref c) = Some (OSecret d)"
    and run: "run_state (secret_reconcile e c) w = ((r, c'), w')"
  shows "view w' = view w" and "r = Inr res \<Longrightarrow> c' = with_credentials c (sec_data j) (sec_data d)"
proof -
  obtain rj w1 where rj: "run_state (ensure_secret e c (jwtSecretName c) ''JWT secret'' ''JWT Secret''
      (buildJWTSecret e c)) w = (rj, w1)" by fastforce
  note ej = ensure_secret_existing [OF api j [unfolded jwt_ref_def] rj]
  obtain rd w2 where rd: "run_state (ensure_secret e c (dbCredentialsSecretName c) ''DB credentials secret''
      ''DB Credentials Secret'' (buildDBCredentialsSecret e c)) w1 = (rd, w2)" by fastforce
  note ed = ensure_secret_existing [OF api _ rd]
  have d1: "view w1 (KSecret, nn (tx_namespace c) (dbCredentialsSecretName c)) = Some (OSecret d)"
    using d ej(2) by (simp add: db_credentials_ref_def)
  show "view w' = view w" "r = Inr res \<Longrightarrow> c' = with_credentials c (sec_data j) (sec_data d)"
    using run rj rd ej ed [OF d1]
    by (auto simp: secret_reconcile_def run_simps split: sum.splits)
qed

lemma with_credentials_of:
  "credentials_of (with_credentials c jd dd) = credentials_of (with_credentials c' jd dd)"
  by (simp add: credentials_of_def with_credentials_def with_jwt_def)

text \<open>With a store that answers, nothing fails on a tenant whose secrets exist.\<close>

lemma secret_reconcile_settled:
  assumes api: "api_server e view admit" and rel: "reliable (get_secret e)"
    and j: "view w (jwt_ref c) = Some (OSecret j)"
    and d: "view w (db_credentials_ref c) = Some (OSecret s)"
  shows "fst (fst (run_state (secret_reconcile e c) w)) = Inr no_requeue"
proof -
  have get: "\<exists>w'. run_state (get_secret e k) v = (Inr x, w') \<and> view w' = view v"
    if "view v (KSecret, k) = Some (OSecret x)" for k v x
  proof -
    obtain r w' where r: "run_state (get_secret e k) v = (r, w')" by fastforce
    note g = reads_storeD [OF api_server_reads(3) [OF api] r]
    from rel r that g show ?thesis by (cases r) (auto simp: reliable_def)
  qed
  from get [OF j [unfolded jwt_ref_def]] obtain w1 where
    w1: "run_state (get_secret e (nn (tx_namespace c) (jwtSecretName c))) w = (Inr j, w1)"
    and v1: "view w1 = view w" by blast
  from get [of w1 _ s] d v1 obtain w2 where
    w2: "run_state (get_secret e (nn (tx_namespace c) (dbCredentialsSecretName c))) w1 = (Inr s, w2)"
    by (auto simp: db_credentials_ref_def)
  from w1 w2 show ?thesis by (simp add: secret_reconcile_def ensure_secret_def run_simps)
qed

definition acme_ctx :: tenant_ctx where
  "acme_ctx = NewTenantContext (sample_tenant ''acme'' False) sample_supabase"

definition acme_world :: world where
  "acme_world = settled_world (sample_tenant ''acme'' False)"

lemma acme_secrets:
  "mem_view acme_world (jwt_ref acme_ctx) =
     Some (OSecret \<lparr>sec_meta = secret_meta acme_ctx (jwtSecretName acme_ctx), sec_data = []\<rparr>)"
  "mem_view acme_world (db_credentials_ref acme_ctx) =
     Some (OSecret \<lparr>sec_meta = secret_meta acme_ctx (dbCredentialsSecretName acme_ctx), sec_data = []\<rparr>)"
  by (simp_all add: acme_world_def settled_world_def acme_ctx_def Let_def mem_view_def world_of_def
      mem_lookup_Cons obj_ref_def jwt_ref_def db_credentials_ref_def secret_meta_def
      jwtSecretName_def dbCredentialsSecretName_def)

section \<open>What is generated\<close>

text \<open>A generated value is the base64 text of \<open>n\<close> random bytes.\<close>

definition generated :: "nat \<Rightarrow> string \<Rightarrow> bool" where
  "generated n p \<longleftrightarrow>
     (case b64_decode p of None \<Rightarrow> False | Some b \<Rightarrow> length b = n) \<and>
     set p \<subseteq> insert (CHR ''='') (set b64_alphabet)"

lemma generated_encode: "generated (length b) (b64_encode b)"
  by (simp add: generated_def b64_decode_encode set_b64_encode)

lemma rand_read_gives: "entropy_laws e \<Longrightarrow> results (gives (\<lambda>b. length b = n)) (rand_read e n)"
  by (auto simp: results_def gives_def entropy_laws_def split: sum.split)
    (metis prod.collapse)

lemma generators_give:
  assumes "entropy_laws e"
  shows "results (gives (generated n)) (GeneratePassword e n)"
    and "results (gives (generated n)) (GenerateHMACSecret e n)"
  unfolding GeneratePassword_def GenerateHMACSecret_def
  by (rule results_gives_bind [OF rand_read_gives [OF assms, of n]]; auto intro!: results_return
      simp: generated_encode)+

text \<open>No base64 text has a blank or a quote in it.\<close>

lemma alphabet_safe: "list_all (\<lambda>c. c \<noteq> CHR '' '' \<and> c \<noteq> CHR 0x27) (CHR ''='' # b64_alphabet)"
  by code_simp

lemma generated_safe:
  assumes "generated n p"
  shows "CHR '' '' \<notin> set p" and "CHR 0x27 \<notin> set p"
  using assms alphabet_safe by (auto simp: generated_def list_all_iff)

lemma db_credentials_generated:
  assumes "entropy_laws e"
  shows "results (gives (\<lambda>s. map fst (sec_data s) =
      [''postgres-password'', ''authenticator-password'', ''auth-admin-password'',
       ''storage-admin-password''] \<and> list_all (\<lambda>(k, p). generated 24 p) (sec_data s)))
      (buildDBCredentialsSecret e c)"
  unfolding buildDBCredentialsSecret_def
  by (rule results_gives_bind [OF generators_give(1) [OF assms]], simp add: results_return, simp)+
    (simp add: results_return)

section \<open>Properties\<close>

text \<open>
  C13: the credentials of a tenant are stable. Once a pass over its secrets has succeeded, any
  later pass on a store that still holds them succeeds only with the same five credentials, and
  writes nothing, whatever the random source and the clock give by then.
\<close>

theorem credentials_stable:
  assumes "api_server e view admit" and "\<And>s. admit (OSecret s) = OSecret s"
    and "run_state (secret_reconcile e c) w = ((Inr res, c1), w1)"
    and "tenant_ident d = tenant_ident c"
    and "view v (jwt_ref c) = view w1 (jwt_ref c)"
    and "view v (db_credentials_ref c) = view w1 (db_credentials_ref c)"
    and "run_state (secret_reconcile e d) v = ((r, d1), v1)"
  shows "view v1 = view v \<and> (\<forall>res. r = Inr res \<longrightarrow> credentials_of d1 = credentials_of c1)"
proof -
  have refs: "jwt_ref d = jwt_ref c" "db_credentials_ref d = db_credentials_ref c"
    using assms(4)
    by (simp_all add: tenant_ident_def jwt_ref_def db_credentials_ref_def jwtSecretName_def
        dbCredentialsSecretName_def TenantID_def)
  from secret_reconcile_holds [OF assms(1-3)] obtain j s where
    js: "view v (jwt_ref d) = Some (OSecret j)" "view v (db_credentials_ref d) = Some (OSecret s)"
    and c1: "c1 = with_credentials c (sec_data j) (sec_data s)"
    using assms(5,6) refs by auto
  from secret_reconcile_existing [OF assms(1) js assms(7)] with_credentials_of [of d _ _ c] c1
  show ?thesis by blast
qed

text \<open>A second pass over the secrets of a sample tenant, with another random source and clock.\<close>

theorem credentials_stable_witness:
  "\<exists>c1 w1 d1 v1.
     run_state (secret_reconcile env acme_ctx) acme_world = ((Inr no_requeue, c1), w1) \<and>
     run_state (secret_reconcile env acme_ctx) (acme_world\<lparr>w_seed := 7, w_now := 1800000000\<rparr>) =
       ((Inr no_requeue, d1), v1) \<and>
     mem_view v1 = mem_view acme_world \<and> credentials_of d1 = credentials_of c1"
proof -
  let ?v = "acme_world\<lparr>w_seed := 7, w_now := 1800000000\<rparr>"
  have v: "mem_view ?v = mem_view acme_world" by (simp add: mem_view_def fun_eq_iff)
  obtain r c1 w1 where run: "run_state (secret_reconcile env acme_ctx) acme_world = ((r, c1), w1)"
    by (metis prod.exhaust)
  obtain s d1 v1 where again: "run_state (secret_reconcile env acme_ctx) ?v = ((s, d1), v1)"
    by (metis prod.exhaust)
  note ok = secret_reconcile_settled [OF env_laws(1,10)]
  from ok [OF acme_secrets] run have r: "r = Inr no_requeue" by simp
  from ok [of ?v, unfolded v, OF acme_secrets] again have s: "s = Inr no_requeue" by simp
  have w1: "mem_view w1 = mem_view acme_world"
    by (rule secret_reconcile_existing(1) [OF env_laws(1) acme_secrets run])
  note stable = credentials_stable [OF env_laws(1) _ run [unfolded r] refl _ _ again]
  have "mem_view v1 = mem_view ?v \<and> (\<forall>res. s = Inr res \<longrightarrow> credentials_of d1 = credentials_of c1)"
    by (rule stable) (simp_all add: v w1)
  with run again r s v show ?thesis by auto
qed

text \<open>
  The database credentials a tenant is given are four passwords under the four documented
  keys, each the base64 text of 24 random bytes.
\<close>

lemma generated_db_credentials:
  assumes "entropy_laws e" and "run_state (buildDBCredentialsSecret e c) w = (Inr s, w')"
  shows "obj_ref (OSecret s) = db_credentials_ref c \<and>
    map fst (sec_data s) =
      [''postgres-password'', ''authenticator-password'', ''auth-admin-password'',
       ''storage-admin-password''] \<and>
    list_all (\<lambda>(k, p). generated 24 p) (sec_data s)"
  using results_run [OF db_credentials_generated [OF assms(1)] assms(2)]
    results_run [OF buildDBCredentialsSecret_at assms(2)]
  by (simp add: secret_at_def)

text \<open>
  The role keys of a tenant expire ten years of 365 days after they are issued, the
  lifetime fits the int64 of a duration, and for every clock that is not within ten years of the
  end of int64 the expiry does too.
\<close>

lemma role_key_expiry:
  assumes "0 \<le> now" and "now < 2 ^ 63 - 315360000"
  shows "jc_exp (role_claims role now) = jc_iat (role_claims role now) + 315360000 \<and>
    role_key_lifetime < 2 ^ 63 \<and> jc_exp (role_claims role now) < 2 ^ 63 \<and>
    jc_role (role_claims role now) = role"
  using assms
  by (simp add: role_claims_def role_key_lifetime_def hour_def minute_def second_def nanosecond_def)

lemma role_key_expiry_example:
  "jc_exp (role_claims ''anon'' 1700000000) = 2015360000"
  using role_key_expiry [of 1700000000 "''anon''"]
  by (simp add: role_claims_def)

section \<open>Hashes\<close>

text \<open>Two secrets hold the same data when one lists the entries of the other in another order.\<close>

lemma sorted_keys_perm:
  assumes "mset d = mset d'"
  shows "sort (map fst d) = sort (map fst d')"
  using assms by (metis mset_map sorted_list_of_multiset_mset)

lemma data_get_perm:
  assumes "mset d = mset d'" and "distinct (map fst d)"
  shows "data_get d k = data_get d' k"
proof -
  have "distinct (map fst d')" using assms by (metis mset_eq_imp_distinct_iff mset_map)
  with assms have "map_of d = map_of d'" by (metis map_of_inject_set mset_eq_setD)
  then show ?thesis by (simp add: data_get_def)
qed

lemma rotation_input_perm:
  "mset d = mset d' \<Longrightarrow> distinct (map fst d) \<Longrightarrow> rotation_input d = rotation_input d'"
  using sorted_keys_perm [of d d'] data_get_perm [of d d'] by (simp add: rotation_input_def)

lemma secret_hash_input_perm:
  "mset d = mset d' \<Longrightarrow> distinct (map fst d) \<Longrightarrow> secret_hash_input d = secret_hash_input d'"
  using sorted_keys_perm [of d d'] data_get_perm [of d d'] by (simp add: secret_hash_input_def)

text \<open>
  The two hashes do not depend on the order in which Go ranges over the data of a secret,
  and have 64 and 16 digits.
\<close>

lemma hashes_deterministic:
  assumes "list_all2 (\<lambda>d d'. mset d = mset d' \<and> distinct (map fst d)) ds ds'"
    and "mset d = mset d'" and "distinct (map fst d)"
  shows "ComputeSecretHash ds = ComputeSecretHash ds' \<and> length (ComputeSecretHash ds) = 64 \<and>
    SecretHash d = SecretHash d' \<and> length (SecretHash d) = 16"
proof -
  have "map rotation_input ds = map rotation_input ds'"
    using assms(1) by (induction rule: list_all2_induct) (auto simp: rotation_input_perm)
  then show ?thesis
    using secret_hash_input_perm [OF assms(2,3)]
    by (simp add: ComputeSecretHash_def SecretHash_def)
qed

text \<open>
  The rotation hash runs keys and values together: data whose keys and values concatenate to the
  same text has the same hash, so that a change between them is not seen.
\<close>

lemma rotation_hash_ambiguous:
  "(ComputeSecretHash [[(''ab'', ''c'')]] = ComputeSecretHash [[(''a'', ''bc'')]] \<and>
    ComputeSecretHash [[(''a'', ''b'')], [(''c'', ''d'')]] = ComputeSecretHash [[(''a'', ''b''), (''c'', ''d'')]])
   \<and> secret_hash_input [(''ab'', ''c'')] \<noteq> secret_hash_input [(''a'', ''bc'')]"
proof -
  have "rotation_input [(''ab'', ''c'')] = rotation_input [(''a'', ''bc'')]"
    "rotation_input [(''a'', ''b'')] @ rotation_input [(''c'', ''d'')] =
      rotation_input [(''a'', ''b''), (''c'', ''d'')]"
    "secret_hash_input [(''ab'', ''c'')] \<noteq> secret_hash_input [(''a'', ''bc'')]"
    by (code_simp+)
  then show ?thesis by (simp add: ComputeSecretHash_def)
qed

end
