(* ===== verification/CommandLine.thy ===== *)
theory CommandLine
  imports Prelude
begin

text \<open>
  Package \<open>flag\<close> of Go's standard library as \<open>main\<close> uses it: variables of type string and bool
  bound to names, \<open>flag.Parse\<close> with the error handling \<open>ExitOnError\<close>, and the flags that other
  packages have registered, of which only is known whether they take a value and which values
  they accept. The loop of \<open>FlagSet.Parse\<close> is a partial function: \<open>None\<close> is a loop that does
  not end, and that there is none is a theorem.
\<close>

section \<open>Flags\<close>

text \<open>\<open>'f\<close> is the record of the variables the flags are bound to.\<close>

datatype 'f flag_var =
    StringVar "string \<Rightarrow> 'f \<Rightarrow> 'f"
  | BoolVar "bool \<Rightarrow> 'f \<Rightarrow> 'f"
  | ForeignVar bool "string \<Rightarrow> bool"

type_synonym 'f formal = "(string \<times> 'f flag_var) list"

datatype flag_error =
    BadSyntax string
  | HelpRequested
  | NotDefined string
  | InvalidValue string string
  | NeedsArgument string

text \<open>\<open>strconv.ParseBool\<close>\<close>

definition parse_bool :: "string \<Rightarrow> bool option" where
  "parse_bool s =
     (if s \<in> set [''1'', ''t'', ''T'', ''TRUE'', ''true'', ''True''] then Some True
      else if s \<in> set [''0'', ''f'', ''F'', ''FALSE'', ''false'', ''False''] then Some False
      else None)"

text \<open>\<open>Value.Set\<close> and \<open>IsBoolFlag\<close>\<close>

fun set_flag :: "'f flag_var \<Rightarrow> string \<Rightarrow> 'f \<Rightarrow> 'f option" where
  "set_flag (StringVar upd) s f = Some (upd s f)"
| "set_flag (BoolVar upd) s f = map_option (\<lambda>b. upd b f) (parse_bool s)"
| "set_flag (ForeignVar b accepts) s f = (if accepts s then Some f else None)"

fun is_bool_flag :: "'f flag_var \<Rightarrow> bool" where
  "is_bool_flag (StringVar upd) = False"
| "is_bool_flag (BoolVar upd) = True"
| "is_bool_flag (ForeignVar b accepts) = b"

section \<open>parseOne\<close>

text \<open>The name and the value of \<open>name=value\<close>; the sign cannot be the first character.\<close>

definition split_flag :: "string \<Rightarrow> string \<times> string option" where
  "split_flag name =
     (let n = takeWhile (\<lambda>c. c \<noteq> CHR ''='') (tl name); r = dropWhile (\<lambda>c. c \<noteq> CHR ''='') (tl name)
      in (hd name # n, if r = [] then None else Some (tl r)))"

text \<open>\<open>parseOne\<close> returns \<open>(false, nil)\<close>, an error, or \<open>(true, nil)\<close>.\<close>

datatype 'f parse_step =
    NotSeen "string list"
  | Failed flag_error
  | Seen 'f "string list"

definition set_value :: "'f flag_var \<Rightarrow> string \<Rightarrow> string \<Rightarrow> 'f \<Rightarrow> string list \<Rightarrow> 'f parse_step" where
  "set_value var n v f rest =
     (case set_flag var v f of None \<Rightarrow> Failed (InvalidValue n v) | Some f' \<Rightarrow> Seen f' rest)"

fun parseOne :: "'f formal \<Rightarrow> 'f \<Rightarrow> string list \<Rightarrow> 'f parse_step" where
  "parseOne formal f [] = NotSeen []"
| "parseOne formal f (s # rest) =
     (if length s < 2 \<or> hd s \<noteq> CHR ''-'' then NotSeen (s # rest)
      else if s = ''--'' then NotSeen rest
      else let name = (if s ! 1 = CHR ''-'' then drop 2 s else drop 1 s)
        in if name = [] \<or> hd name = CHR ''-'' \<or> hd name = CHR ''='' then Failed (BadSyntax s)
           else let (n, v) = split_flag name
             in case map_of formal n of
                  None \<Rightarrow> Failed (if n = ''help'' \<or> n = ''h'' then HelpRequested else NotDefined n)
                | Some var \<Rightarrow>
                    if is_bool_flag var
                    then set_value var n (case v of None \<Rightarrow> ''true'' | Some x \<Rightarrow> x) f rest
                    else case v of
                        Some x \<Rightarrow> set_value var n x f rest
                      | None \<Rightarrow> (case rest of
                            [] \<Rightarrow> Failed (NeedsArgument n)
                          | x # rest' \<Rightarrow> set_value var n x f rest'))"

section \<open>Parse\<close>

partial_function (option) Parse ::
  "'f formal \<Rightarrow> 'f \<Rightarrow> string list \<Rightarrow> (flag_error + 'f \<times> string list) option" where
  "Parse formal f args =
     (case parseOne formal f args of
        NotSeen rest \<Rightarrow> Some (Inr (f, rest))
      | Failed err \<Rightarrow> Some (Inl err)
      | Seen f' rest \<Rightarrow> Parse formal f' rest)"

declare Parse.simps [code]

text \<open>Every flag that is seen is consumed, so the loop ends.\<close>

lemma set_value_Seen: "set_value var n v f rest = Seen f' rest' \<Longrightarrow> rest' = rest"
  by (simp add: set_value_def split: option.splits)

lemma parseOne_consumes:
  assumes "parseOne formal f args = Seen f' rest"
  shows "\<exists>n > 0. n \<le> length args \<and> rest = drop n args"
proof (cases args)
  case (Cons s as)
  have "rest = as \<or> (\<exists>x. as = x # rest)"
    using assms unfolding Cons parseOne.simps Let_def
    by (auto split: if_split_asm prod.split_asm option.split_asm list.split_asm dest!: set_value_Seen)
  then show ?thesis
  proof
    assume "\<exists>x. as = x # rest"
    then show ?thesis by (intro exI [of _ 2]) (auto simp: Cons)
  qed (auto simp: Cons intro: exI [of _ 1])
qed (use assms in simp)

lemma Parse_returns: "\<exists>r. Parse formal f args = Some r"
proof (induction args arbitrary: f rule: length_induct)
  case (1 args)
  show ?case
  proof (cases "parseOne formal f args")
    case (Seen f' rest)
    then have "length rest < length args" using parseOne_consumes [OF Seen] by auto
    with 1 Seen show ?thesis by (subst Parse.simps) simp
  qed (simp_all add: Parse.simps)
qed

text \<open>A flag that is written \<open>--name=value\<close>.\<close>

definition flag_arg :: "string \<Rightarrow> string \<Rightarrow> string" where
  "flag_arg n v = ''--'' @ n @ ''='' @ v"

definition good_name :: "string \<Rightarrow> bool" where
  "good_name n \<longleftrightarrow> n \<noteq> [] \<and> hd n \<noteq> CHR ''-'' \<and> CHR ''='' \<notin> set n"

lemma split_flag_arg:
  assumes "good_name n"
  shows "split_flag (n @ ''='' @ v) = (n, Some v)"
proof -
  obtain c cs where n: "n = c # cs" using assms by (cases n) (auto simp: good_name_def)
  have "CHR ''='' \<notin> set cs" using assms n by (simp add: good_name_def)
  then have "takeWhile (\<lambda>c. c \<noteq> CHR ''='') (cs @ ''='' @ v) = cs"
    "dropWhile (\<lambda>c. c \<noteq> CHR ''='') (cs @ ''='' @ v) = ''='' @ v"
    by (induction cs) auto
  then show ?thesis by (simp add: n split_flag_def)
qed

lemma parseOne_flag_arg:
  assumes "good_name n" and "map_of formal n = Some var" and "set_flag var v f = Some f'"
  shows "parseOne formal f (flag_arg n v # rest) = Seen f' rest"
proof -
  have "n \<noteq> []" "hd n \<noteq> CHR ''-''" "hd n \<noteq> CHR ''=''" using assms(1) by (cases n; auto simp: good_name_def)+
  then show ?thesis
    using split_flag_arg [OF assms(1)] assms(2,3)
    by (simp add: flag_arg_def set_value_def)
qed

lemma Parse_flag_arg:
  assumes "good_name n" and "map_of formal n = Some var" and "set_flag var v f = Some f'"
  shows "Parse formal f (flag_arg n v # rest) = Parse formal f' rest"
  using parseOne_flag_arg [OF assms] by (subst Parse.simps) simp

end
