(* ===== verification/EntryPoint.thy ===== *)
theory EntryPoint
  imports CommandLine Client GoStd
begin

text \<open>
  The program (\<open>cmd/main.go\<close>): registration of the metrics and of the API types, the command
  line, the options of the controller manager, and the calls of controller-runtime that
  assemble it. These calls are a parameter: a function from \<open>setup_call\<close> to computations of
  the state monad.
\<close>

section \<open>filepath.Join\<close>

fun split_slash :: "string \<Rightarrow> string list" where
  "split_slash [] = [[]]"
| "split_slash (c # cs) =
     (if c = CHR ''/'' then [] # split_slash cs
      else case split_slash cs of [] \<Rightarrow> [[c]] | w # ws \<Rightarrow> (c # w) # ws)"

text \<open>One element of a path is appended to the elements so far, the last one first.\<close>

definition clean_step :: "bool \<Rightarrow> string list \<Rightarrow> string \<Rightarrow> string list" where
  "clean_step rooted out x =
     (if x = '''' \<or> x = ''.'' then out
      else if x = ''..''
      then (case out of
              [] \<Rightarrow> if rooted then [] else [''..'']
            | y # ys \<Rightarrow> if y = ''..'' then ''..'' # out else ys)
      else x # out)"

definition path_clean :: "string \<Rightarrow> string" where
  "path_clean s =
     (let rooted = (s \<noteq> [] \<and> hd s = CHR ''/'');
          out = (if rooted then ''/'' else '''') @
            join ''/'' (rev (foldl (clean_step rooted) [] (split_slash s)))
      in if out = '''' then ''.'' else out)"

definition path_join :: "string list \<Rightarrow> string" where
  "path_join xs =
     (case dropWhile (\<lambda>x. x = '''') xs of [] \<Rightarrow> '''' | ys \<Rightarrow> path_clean (join ''/'' ys))"

section \<open>What is assembled\<close>

text \<open>A \<open>certwatcher.CertWatcher\<close>, named by the files it watches.\<close>

record cert_watcher =
  cw_cert :: string
  cw_key :: string

text \<open>The functions in \<open>TLSOpts\<close>, and what they do to a \<open>tls.Config\<close>.\<close>

datatype tls_opt = DisableHTTP2 | UseWatcher cert_watcher

record tls_config =
  NextProtos :: "string list"
  GetCertificate :: "cert_watcher option"

fun apply_tls_opt :: "tls_opt \<Rightarrow> tls_config \<Rightarrow> tls_config" where
  "apply_tls_opt DisableHTTP2 c = c\<lparr>NextProtos := [''http/1.1'']\<rparr>"
| "apply_tls_opt (UseWatcher cw) c = c\<lparr>GetCertificate := Some cw\<rparr>"

datatype metrics_filter = WithAuthenticationAndAuthorization

record metrics_options =
  BindAddress :: string
  SecureServing :: bool
  FilterProvider :: "metrics_filter option"
  MetricsTLSOpts :: "tls_opt list"

record manager_options =
  ManagerMetrics :: metrics_options
  WebhookTLSOpts :: "tls_opt list"
  HealthProbeBindAddress :: string
  LeaderElection :: bool
  LeaderElectionID :: string

text \<open>
  What \<open>SetupWithManager\<close> tells the controller builder: the kind it is for, the kinds whose
  events go to the owner, those whose events go through \<open>mapByTenantLabel\<close>.
\<close>

record controller_setup =
  cs_name :: "string option"
  cs_for :: kind
  cs_owns :: "kind list"
  cs_watches :: "kind list"
  cs_max_concurrent :: "int option"

definition supabase_setup :: controller_setup where
  "supabase_setup =
    \<lparr>cs_name = Some ''supabase'', cs_for = KSupabase,
     cs_owns = [KDeployment, KService, KConfigMap, KCluster, KScheduledBackup, KGateway],
     cs_watches = [], cs_max_concurrent = None\<rparr>"

definition tenant_setup :: controller_setup where
  "tenant_setup =
    \<lparr>cs_name = None, cs_for = KTenant, cs_owns = [],
     cs_watches = [KDeployment, KService, KDatabase, KHTTPRoute], cs_max_concurrent = Some 5\<rparr>"

datatype setup_call =
    MustRegister "(string \<times> string) list"
  | AddToScheme string
  | NewCertWatcher cert_watcher
  | GetConfig
  | NewManager manager_options
  | SetupController controller_setup string
  | AddWatcher cert_watcher
  | AddHealthzCheck string
  | AddReadyzCheck string
  | StartManager

type_synonym 'w setup_lib = "setup_call \<Rightarrow> ('w, go_error option) state"

text \<open>How the process ends: \<open>Hangs\<close> if the command line is never parsed to its end.\<close>

datatype process_end = Exit nat | Returned | Hangs

text \<open>A call whose error ends the process.\<close>

definition or_exit :: "'w setup_lib \<Rightarrow> nat \<Rightarrow> setup_call \<Rightarrow> ('w, process_end) state \<Rightarrow> ('w, process_end) state" where
  "or_exit lib code c k =
     do { r \<leftarrow> lib c;
          case r of None \<Rightarrow> k | Some err \<Rightarrow> ret (Exit code) }"

section \<open>The command line\<close>

record flags =
  metricsAddr :: string
  probeAddr :: string
  enableLeaderElection :: bool
  secureMetrics :: bool
  webhookCertPath :: string
  webhookCertName :: string
  webhookCertKey :: string
  metricsCertPath :: string
  metricsCertName :: string
  metricsCertKey :: string
  enableHTTP2 :: bool

definition default_flags :: flags where
  "default_flags =
    \<lparr>metricsAddr = ''0'', probeAddr = '':8081'', enableLeaderElection = False, secureMetrics = True,
     webhookCertPath = '''', webhookCertName = ''tls.crt'', webhookCertKey = ''tls.key'',
     metricsCertPath = '''', metricsCertName = ''tls.crt'', metricsCertKey = ''tls.key'',
     enableHTTP2 = False\<rparr>"

definition own_flags :: "flags formal" where
  "own_flags =
    [(''metrics-bind-address'', StringVar (\<lambda>s f. f\<lparr>metricsAddr := s\<rparr>)),
     (''health-probe-bind-address'', StringVar (\<lambda>s f. f\<lparr>probeAddr := s\<rparr>)),
     (''leader-elect'', BoolVar (\<lambda>b f. f\<lparr>enableLeaderElection := b\<rparr>)),
     (''metrics-secure'', BoolVar (\<lambda>b f. f\<lparr>secureMetrics := b\<rparr>)),
     (''webhook-cert-path'', StringVar (\<lambda>s f. f\<lparr>webhookCertPath := s\<rparr>)),
     (''webhook-cert-name'', StringVar (\<lambda>s f. f\<lparr>webhookCertName := s\<rparr>)),
     (''webhook-cert-key'', StringVar (\<lambda>s f. f\<lparr>webhookCertKey := s\<rparr>)),
     (''metrics-cert-path'', StringVar (\<lambda>s f. f\<lparr>metricsCertPath := s\<rparr>)),
     (''metrics-cert-name'', StringVar (\<lambda>s f. f\<lparr>metricsCertName := s\<rparr>)),
     (''metrics-cert-key'', StringVar (\<lambda>s f. f\<lparr>metricsCertKey := s\<rparr>)),
     (''enable-http2'', BoolVar (\<lambda>b f. f\<lparr>enableHTTP2 := b\<rparr>))]"

text \<open>
  The flags that imported packages bind to the same command line (those of zap and
  \<open>kubeconfig\<close>): the name, whether it is boolean, the values it accepts.
\<close>

type_synonym foreign_flags = "(string \<times> bool \<times> (string \<Rightarrow> bool)) list"

definition all_flags :: "foreign_flags \<Rightarrow> flags formal" where
  "all_flags ext = own_flags @ map (\<lambda>(n, b, accepts). (n, ForeignVar b accepts)) ext"

section \<open>main\<close>

definition setupLog_exit :: nat where "setupLog_exit = 1"

definition or_exit_if :: "bool \<Rightarrow> 'w setup_lib \<Rightarrow> setup_call \<Rightarrow> ('w, process_end) state \<Rightarrow> ('w, process_end) state" where
  "or_exit_if b lib c k = (if b then or_exit lib setupLog_exit c k else k)"

text \<open>
  \<open>main\<close> after \<open>flag.Parse\<close>. The slice \<open>tlsOpts\<close> has no spare capacity when the two lists of
  options are appended to it, so that each \<open>append\<close> makes a copy.
\<close>

definition main_parsed :: "'w setup_lib \<Rightarrow> flags \<Rightarrow> ('w, process_end) state" where
  "main_parsed lib f =
     (let tlsOpts = (if \<not> enableHTTP2 f then [] @ [DisableHTTP2] else []);
          webhookCertWatcher = \<lparr>cw_cert = path_join [webhookCertPath f, webhookCertName f],
                                cw_key = path_join [webhookCertPath f, webhookCertKey f]\<rparr>;
          webhookTLSOpts = (if length (webhookCertPath f) > 0
                            then tlsOpts @ [UseWatcher webhookCertWatcher] else tlsOpts);
          metricsServerOptions = \<lparr>BindAddress = metricsAddr f, SecureServing = secureMetrics f,
                                  FilterProvider = None, MetricsTLSOpts = tlsOpts\<rparr>;
          metricsServerOptions = (if secureMetrics f
             then metricsServerOptions\<lparr>FilterProvider := Some WithAuthenticationAndAuthorization\<rparr>
             else metricsServerOptions);
          metricsCertWatcher = \<lparr>cw_cert = path_join [metricsCertPath f, metricsCertName f],
                                cw_key = path_join [metricsCertPath f, metricsCertKey f]\<rparr>;
          metricsServerOptions = (if length (metricsCertPath f) > 0
             then metricsServerOptions\<lparr>MetricsTLSOpts :=
                    MetricsTLSOpts metricsServerOptions @ [UseWatcher metricsCertWatcher]\<rparr>
             else metricsServerOptions)
      in or_exit_if (length (webhookCertPath f) > 0) lib (NewCertWatcher webhookCertWatcher) (
         or_exit_if (length (metricsCertPath f) > 0) lib (NewCertWatcher metricsCertWatcher) (
         or_exit lib 1 GetConfig (
         or_exit lib setupLog_exit (NewManager
           \<lparr>ManagerMetrics = metricsServerOptions, WebhookTLSOpts = webhookTLSOpts,
            HealthProbeBindAddress = probeAddr f, LeaderElection = enableLeaderElection f,
            LeaderElectionID = ''397ee1a9.codanael.io''\<rparr>) (
         or_exit lib setupLog_exit (SetupController supabase_setup ''supabase-controller'') (
         or_exit lib setupLog_exit (SetupController tenant_setup ''supabasetenant-controller'') (
         or_exit_if (length (metricsCertPath f) > 0) lib (AddWatcher metricsCertWatcher) (
         or_exit_if (length (webhookCertPath f) > 0) lib (AddWatcher webhookCertWatcher) (
         or_exit lib setupLog_exit (AddHealthzCheck ''healthz'') (
         or_exit lib setupLog_exit (AddReadyzCheck ''readyz'') (
         or_exit lib setupLog_exit StartManager (
         ret Returned))))))))))))"

text \<open>
  Binding a name twice panics (status 2); \<open>ExitOnError\<close> ends the process with status 0 when
  help is asked for and with 2 on every other error.
\<close>

definition main :: "'w setup_lib \<Rightarrow> foreign_flags \<Rightarrow> string list \<Rightarrow> ('w, process_end) state" where
  "main lib ext args =
     (if \<not> distinct (map fst (all_flags ext)) then ret (Exit 2)
      else case Parse (all_flags ext) default_flags args of
        None \<Rightarrow> ret Hangs
      | Some (Inl HelpRequested) \<Rightarrow> ret (Exit 0)
      | Some (Inl err) \<Rightarrow> ret (Exit 2)
      | Some (Inr (f, rest)) \<Rightarrow> main_parsed lib f)"

section \<open>Package initialization\<close>

text \<open>The collectors of package \<open>metrics\<close>: name and type.\<close>

definition collectors :: "(string \<times> string) list" where
  "collectors =
    [(''supabase_tenants_total'', ''gauge''), (''supabase_tenants_ready'', ''gauge''),
     (''supabase_tenants_suspended'', ''gauge''),
     (''supabase_reconcile_duration_seconds'', ''histogram'')]"

definition metrics_init :: "'w setup_lib \<Rightarrow> ('w, process_end) state \<Rightarrow> ('w, process_end) state" where
  "metrics_init lib k = or_exit lib 2 (MustRegister collectors) k"

text \<open>\<open>utilruntime.Must\<close> panics on an error.\<close>

definition scheme_init :: "'w setup_lib \<Rightarrow> ('w, process_end) state \<Rightarrow> ('w, process_end) state" where
  "scheme_init lib k =
     or_exit lib 2 (AddToScheme ''clientgoscheme'') (
     or_exit lib 2 (AddToScheme ''supabasev1alpha1'') (
     or_exit lib 2 (AddToScheme ''cnpgv1'') (
     or_exit lib 2 (AddToScheme ''gatewayv1'') k)))"

text \<open>The process: the packages \<open>main\<close> imports are initialized before it.\<close>

definition run_program :: "'w setup_lib \<Rightarrow> foreign_flags \<Rightarrow> string list \<Rightarrow> ('w, process_end) state" where
  "run_program lib ext args = metrics_init lib (scheme_init lib (main lib ext args))"

end
