(* ===== verification/Rbac.thy ===== *)
theory Rbac
  imports ApiServer
begin

text \<open>
  The role of the operator: the RBAC rules its controllers declare
  (\<open>config/rbac/role.yaml\<close> is generated from these markers), the API requests a call of the
  client makes, and an API server that refuses what the role does not grant.
\<close>

section \<open>The role\<close>

record rbac_rule =
  rl_group :: string
  rl_resources :: "string list"
  rl_verbs :: "string list"

definition all_verbs :: "string list" where
  "all_verbs = [''get'', ''list'', ''watch'', ''create'', ''update'', ''patch'', ''delete'']"

abbreviation rule :: "string \<Rightarrow> string list \<Rightarrow> string list \<Rightarrow> rbac_rule" where
  "rule g rs vs \<equiv> \<lparr>rl_group = g, rl_resources = rs, rl_verbs = vs\<rparr>"

text \<open>The markers above \<open>SupabaseReconciler.Reconcile\<close>.\<close>

definition supabase_rules :: "rbac_rule list" where
  "supabase_rules =
    [rule ''supabase.codanael.io'' [''supabases''] all_verbs,
     rule ''supabase.codanael.io'' [''supabases/status''] [''get'', ''update'', ''patch''],
     rule ''supabase.codanael.io'' [''supabases/finalizers''] [''update''],
     rule ''postgresql.cnpg.io'' [''clusters''] all_verbs,
     rule ''postgresql.cnpg.io'' [''scheduledbackups''] all_verbs,
     rule ''gateway.networking.k8s.io'' [''gateways''] all_verbs,
     rule ''apps'' [''deployments''] all_verbs,
     rule '''' [''services''] all_verbs,
     rule '''' [''configmaps''] all_verbs,
     rule '''' [''events''] [''create'', ''patch'']]"

text \<open>The markers above \<open>SupabaseTenantReconciler.Reconcile\<close>.\<close>

definition tenant_rules :: "rbac_rule list" where
  "tenant_rules =
    [rule ''supabase.codanael.io'' [''supabasetenants''] all_verbs,
     rule ''supabase.codanael.io'' [''supabasetenants/status''] [''get'', ''update'', ''patch''],
     rule ''supabase.codanael.io'' [''supabasetenants/finalizers''] [''update''],
     rule ''supabase.codanael.io'' [''supabases''] [''get'', ''list'', ''watch''],
     rule ''postgresql.cnpg.io'' [''databases''] all_verbs,
     rule ''gateway.networking.k8s.io'' [''httproutes''] all_verbs,
     rule ''apps'' [''deployments''] all_verbs,
     rule '''' [''namespaces'', ''services'', ''secrets'', ''configmaps''] all_verbs,
     rule '''' [''events''] [''create'', ''patch''],
     rule ''networking.k8s.io'' [''networkpolicies''] all_verbs,
     rule ''batch'' [''jobs''] all_verbs]"

definition operator_role :: "rbac_rule list" where
  "operator_role = supabase_rules @ tenant_rules"

text \<open>The role that is deployed, \<open>config/rbac/role.yaml\<close>.\<close>

definition manager_verbs :: "string list" where
  "manager_verbs = [''create'', ''delete'', ''get'', ''list'', ''patch'', ''update'', ''watch'']"

definition manager_role :: "rbac_rule list" where
  "manager_role =
    [rule '''' [''configmaps'', ''namespaces'', ''secrets'', ''services''] manager_verbs,
     rule '''' [''events''] [''create'', ''patch''],
     rule ''apps'' [''deployments''] manager_verbs,
     rule ''batch'' [''jobs''] manager_verbs,
     rule ''gateway.networking.k8s.io'' [''gateways'', ''httproutes''] manager_verbs,
     rule ''networking.k8s.io'' [''networkpolicies''] manager_verbs,
     rule ''postgresql.cnpg.io'' [''clusters'', ''databases'', ''scheduledbackups''] manager_verbs,
     rule ''supabase.codanael.io'' [''supabases'', ''supabasetenants''] manager_verbs,
     rule ''supabase.codanael.io'' [''supabases/finalizers'', ''supabasetenants/finalizers''] [''update''],
     rule ''supabase.codanael.io'' [''supabases/status'', ''supabasetenants/status'']
       [''get'', ''patch'', ''update'']]"

section \<open>Requests\<close>

text \<open>An API request: group, resource and verb.\<close>

type_synonym api_request = "string \<times> string \<times> string"

text \<open>The verbs the rules grant on a resource of a group.\<close>

definition verbs_on :: "rbac_rule list \<Rightarrow> string \<Rightarrow> string \<Rightarrow> string list" where
  "verbs_on rules g r =
     concat (map rl_verbs (filter (\<lambda>x. r \<in> set (rl_resources x)) (filter (\<lambda>x. rl_group x = g) rules)))"

definition grants :: "rbac_rule list \<Rightarrow> api_request \<Rightarrow> bool" where
  "grants rules q \<longleftrightarrow> (case q of (g, r, v) \<Rightarrow> v \<in> set (verbs_on rules g r))"

text \<open>The deployed role grants what the markers declare.\<close>

definition within :: "rbac_rule list \<Rightarrow> rbac_rule list \<Rightarrow> bool" where
  "within rules rules' \<longleftrightarrow>
     list_all (\<lambda>x. list_all (\<lambda>r. set (rl_verbs x) \<subseteq> set (verbs_on rules' (rl_group x) r)) (rl_resources x)) rules"

lemma within_grants: "within rules rules' \<Longrightarrow> grants rules q \<Longrightarrow> grants rules' q"
  by (cases q) (force simp: within_def grants_def verbs_on_def list_all_iff)

lemma verb_sets: "set manager_verbs = set all_verbs" "''get'' \<in> set all_verbs" "''list'' \<in> set all_verbs"
    "''watch'' \<in> set all_verbs"
  by (auto simp: manager_verbs_def all_verbs_def)

lemma within_simps:
  "within [] rules'"
  "within (rule g rs vs # xs) rules' \<longleftrightarrow>
     list_all (\<lambda>r. set vs \<subseteq> set (verbs_on rules' g r)) rs \<and> within xs rules'"
  by (simp_all add: within_def)

lemma within_both: "within manager_role operator_role" "within operator_role manager_role"
proof -
  show "within manager_role operator_role"
    by (simp only: manager_role_def within_simps list.pred_inject)
      (simp add: operator_role_def supabase_rules_def tenant_rules_def verbs_on_def verb_sets insert_absorb)
  show "within operator_role manager_role"
    by (simp only: operator_role_def supabase_rules_def tenant_rules_def append.simps within_simps list.pred_inject)
      (simp add: manager_role_def verbs_on_def verb_sets)
qed

lemma roles_agree: "grants manager_role = grants operator_role"
  using within_both within_grants by blast

fun kind_resource :: "kind \<Rightarrow> string \<times> string" where
  "kind_resource KNamespace = ('''', ''namespaces'')"
| "kind_resource KNetworkPolicy = (''networking.k8s.io'', ''networkpolicies'')"
| "kind_resource KSecret = ('''', ''secrets'')"
| "kind_resource KDatabase = (''postgresql.cnpg.io'', ''databases'')"
| "kind_resource KJob = (''batch'', ''jobs'')"
| "kind_resource KDeployment = (''apps'', ''deployments'')"
| "kind_resource KService = ('''', ''services'')"
| "kind_resource KConfigMap = ('''', ''configmaps'')"
| "kind_resource KHTTPRoute = (''gateway.networking.k8s.io'', ''httproutes'')"
| "kind_resource KCluster = (''postgresql.cnpg.io'', ''clusters'')"
| "kind_resource KScheduledBackup = (''postgresql.cnpg.io'', ''scheduledbackups'')"
| "kind_resource KGateway = (''gateway.networking.k8s.io'', ''gateways'')"
| "kind_resource KSupabase = (''supabase.codanael.io'', ''supabases'')"
| "kind_resource KTenant = (''supabase.codanael.io'', ''supabasetenants'')"

definition on_kind :: "kind \<Rightarrow> string \<Rightarrow> string \<Rightarrow> api_request" where
  "on_kind K sub v = (fst (kind_resource K), snd (kind_resource K) @ sub, v)"

text \<open>The request a writing call of the client makes; \<open>Status().Patch\<close> is on a subresource.\<close>

fun verb_request :: "verb \<Rightarrow> kind \<Rightarrow> api_request" where
  "verb_request VCreate K = on_kind K '''' ''create''"
| "verb_request VPatch K = on_kind K '''' ''patch''"
| "verb_request VStatus K = on_kind K ''/status'' ''patch''"
| "verb_request VUpdate K = on_kind K '''' ''update''"
| "verb_request VDelete K = on_kind K '''' ''delete''"

definition write_request :: "api_write \<Rightarrow> api_request" where
  "write_request wr = verb_request (write_verb wr) (obj_kind (write_obj wr))"

section \<open>An API server that authorizes\<close>

text \<open>
  The world with a mark that is set when a request was refused. The cached client of
  controller-runtime gets, lists and watches the kinds it reads; the recorder creates events,
  and patches them when they repeat.
\<close>

type_synonym 'w guarded = "'w \<times> bool"

definition forbidden :: go_error where
  "forbidden = ApiOther ''forbidden''"

definition authorized :: "rbac_rule list \<Rightarrow> api_request list \<Rightarrow> 'a \<Rightarrow> ('w, 'a) state \<Rightarrow> ('w guarded, 'a) state" where
  "authorized rules qs refusal m =
     State (\<lambda>(w, b). if list_all (grants rules) qs
        then let (r, w') = run_state m w in (r, (w', b))
        else (refusal, (w, True)))"

definition read_requests :: "kind \<Rightarrow> api_request list" where
  "read_requests K = [on_kind K '''' ''get'', on_kind K '''' ''list'', on_kind K '''' ''watch'']"

definition event_requests :: "api_request list" where
  "event_requests = [('''', ''events'', ''create''), ('''', ''events'', ''patch'')]"

abbreviation reading :: "rbac_rule list \<Rightarrow> kind \<Rightarrow> ('w, go_error + 'a) state \<Rightarrow> ('w guarded, go_error + 'a) state" where
  "reading rules K m \<equiv>
     authorized rules (read_requests K) (Inl forbidden) m"

definition authorized_env :: "rbac_rule list \<Rightarrow> 'w env \<Rightarrow> 'w guarded env" where
  "authorized_env rules e =
    \<lparr>get_namespace = (\<lambda>k. reading rules KNamespace (get_namespace e k)),
     get_network_policy = (\<lambda>k. reading rules KNetworkPolicy (get_network_policy e k)),
     get_secret = (\<lambda>k. reading rules KSecret (get_secret e k)),
     get_database = (\<lambda>k. reading rules KDatabase (get_database e k)),
     get_job = (\<lambda>k. reading rules KJob (get_job e k)),
     get_deployment = (\<lambda>k. reading rules KDeployment (get_deployment e k)),
     get_service = (\<lambda>k. reading rules KService (get_service e k)),
     get_config_map = (\<lambda>k. reading rules KConfigMap (get_config_map e k)),
     get_http_route = (\<lambda>k. reading rules KHTTPRoute (get_http_route e k)),
     get_cluster = (\<lambda>k. reading rules KCluster (get_cluster e k)),
     get_scheduled_backup = (\<lambda>k. reading rules KScheduledBackup (get_scheduled_backup e k)),
     get_gateway = (\<lambda>k. reading rules KGateway (get_gateway e k)),
     get_supabase = (\<lambda>k. reading rules KSupabase (get_supabase e k)),
     get_tenant = (\<lambda>k. reading rules KTenant (get_tenant e k)),
     list_clusters = (\<lambda>n. reading rules KCluster (list_clusters e n)),
     list_gateways = (\<lambda>n. reading rules KGateway (list_gateways e n)),
     list_tenants = reading rules KTenant (list_tenants e),
     exec = (\<lambda>wr. authorized rules [write_request wr] (Some forbidden) (exec e wr)),
     emit = (\<lambda>ev. authorized rules event_requests () (emit e ev)),
     rand_read = (\<lambda>n. authorized rules [] (Inl forbidden) (rand_read e n)),
     now_unix = authorized rules [] 0 (now_unix e),
     set_gauge = (\<lambda>g n. authorized rules [] () (set_gauge e g n)),
     observe_reconcile = (\<lambda>c l. authorized rules [] () (observe_reconcile e c l)),
     sign_hs256 = sign_hs256 e,
     set_controller_reference = set_controller_reference e,
     set_status_condition = set_status_condition e,
     is_status_condition_true = is_status_condition_true e,
     contains_finalizer = contains_finalizer e,
     add_finalizer = add_finalizer e,
     remove_finalizer = remove_finalizer e\<rparr>"

lemma run_authorized:
  "run_state (authorized rules qs refusal m) (w, b) =
     (if list_all (grants rules) qs then (fst (run_state m w), (snd (run_state m w), b))
      else (refusal, (w, True)))"
  by (simp add: authorized_def split_beta Let_def)

lemma authorized_keeps:
  "list_all (grants rules) qs \<Longrightarrow> keeps (\<lambda>w. \<not> snd w) (authorized rules qs refusal m)"
  by (auto simp: keeps_def run_authorized)

lemma reading_reads_key:
  "reads_key mt g \<Longrightarrow> reads_key mt (\<lambda>k. authorized rules qs (Inl x) (g k))"
  unfolding reads_key_def by (auto simp: run_authorized split: if_splits) (metis prod.collapse)

lemma authorized_client_laws: "client_laws e \<Longrightarrow> client_laws (authorized_env rules e)"
  by (auto simp: client_laws_def well_keyed_def owner_laws_def authorized_env_def
      intro!: reading_reads_key)

text \<open>The role lets the operator read every kind, and record events.\<close>

definition all_kinds :: "kind list" where
  "all_kinds =
     [KNamespace, KNetworkPolicy, KSecret, KDatabase, KJob, KDeployment, KService, KConfigMap,
      KHTTPRoute, KCluster, KScheduledBackup, KGateway, KSupabase, KTenant]"

lemma kinds_readable: "list_all (\<lambda>K. list_all (grants operator_role) (read_requests K)) all_kinds"
  by code_simp

lemma role_reads:
  "list_all (grants operator_role) (read_requests K)"
  "list_all (grants operator_role) event_requests"
proof -
  have "K \<in> set all_kinds" unfolding all_kinds_def by (cases K) simp_all
  with kinds_readable show "list_all (grants operator_role) (read_requests K)"
    unfolding list_all_iff by fast
  show "list_all (grants operator_role) event_requests" by code_simp
qed

lemma role_stable:
  assumes "\<And>v K k. (v, (K, k)) \<in> A \<Longrightarrow> grants operator_role (verb_request v K)"
  shows "stable (authorized_env operator_role e) A (\<lambda>w. \<not> snd w)"
proof -
  have "list_all (grants operator_role) [write_request wr]" if "write_sig wr \<in> A" for wr
    using assms that by (auto simp: write_request_def write_sig_def write_ref_def obj_ref_def)
  then show ?thesis
    unfolding stable_def authorized_env_def env.simps by (intro conjI allI impI authorized_keeps role_reads) simp_all
qed

text \<open>What the passes do, as verbs on kinds.\<close>

definition platform_calls :: "(verb \<times> kind) list" where
  "platform_calls =
     List.product [VCreate, VPatch] [KCluster, KScheduledBackup, KGateway, KConfigMap, KDeployment, KService] @
     [(VStatus, KSupabase)]"

definition tenant_calls :: "(verb \<times> kind) list" where
  "tenant_calls =
     List.product [VCreate] [KNamespace, KNetworkPolicy, KSecret, KDatabase, KJob] @
     List.product [VCreate, VPatch] [KDeployment, KService, KHTTPRoute] @
     List.product [VDelete] [KHTTPRoute, KDatabase, KJob, KNamespace] @
     [(VStatus, KTenant), (VUpdate, KTenant)]"

lemma calls_granted:
  "list_all (\<lambda>(v, K). grants operator_role (verb_request v K)) platform_calls"
  "list_all (\<lambda>(v, K). grants operator_role (verb_request v K)) tenant_calls"
  by code_simp+

end
