(* ===== verification/Permissions.thy ===== *)
theory Permissions
  imports OperatorRuns Rbac
begin

text \<open>
  The passes of both controllers under the role of the operator.
\<close>

lemma platform_footprint_calls: "(v, (K, k)) \<in> platform_footprint req \<Longrightarrow> (v, K) \<in> set platform_calls"
  unfolding platform_footprint_def upserts_def critical_refs_def service_refs_def platform_calls_def
  by auto

lemma tenant_footprint_calls: "(v, (K, k)) \<in> tenant_footprint t \<Longrightarrow> (v, K) \<in> set tenant_calls"
proof -
  note refs = t_namespace_ref_def t_policy_ref_def t_local_ref_def t_database_ref_def t_job_ref_def t_route_ref_def
  have "(v, K) \<in> set tenant_calls" if "(v, (K, k)) \<in> own_footprint t \<union> finalize_footprint t"
    using that unfolding own_footprint_def finalize_footprint_def refs tenant_calls_def by auto
  moreover have "(v, K) \<in> set tenant_calls" if "(v, (K, k)) \<in> prereq_footprint t"
    using that unfolding prereq_footprint_def refs tenant_calls_def by auto
  moreover have "(v, K) \<in> set tenant_calls" if "(v, (K, k)) \<in> workload_footprint t"
    using that unfolding workload_footprint_def refs tenant_calls_def by auto
  moreover have "(v, K) \<in> set tenant_calls" if "(v, (K, k)) \<in> route_footprint t"
    using that unfolding route_footprint_def refs tenant_calls_def by (auto split: if_splits)
  ultimately show "(v, (K, k)) \<in> tenant_footprint t \<Longrightarrow> (v, K) \<in> set tenant_calls"
    unfolding tenant_footprint_def by (cases "om_deletion (tc_meta t) = None") auto
qed

lemma footprint_granted:
  "(v, (K, k)) \<in> platform_footprint req \<Longrightarrow> grants operator_role (verb_request v K)"
  "(v, (K, k)) \<in> tenant_footprint t \<Longrightarrow> grants operator_role (verb_request v K)"
  using calls_granted [unfolded list_all_iff] by (fast dest: platform_footprint_calls tenant_footprint_calls)+

section \<open>Properties\<close>

text \<open>
  C16: the role suffices. The deployed role grants exactly what the markers of the controllers
  declare, and whatever a pass over a platform or a tenant meets, an API server that enforces the
  role never refuses one of its requests.
\<close>

theorem role_suffices:
  assumes "client_laws e"
    and "run_state (serve (authorized_env manager_role e) r) (w, False) = (x, (w', refused))"
  shows "\<not> refused \<and> (grants manager_role q \<longleftrightarrow> grants operator_role q)"
proof -
  have same: "authorized_env manager_role = (authorized_env operator_role :: 'a env \<Rightarrow> 'a guarded env)"
    by (simp add: authorized_env_def authorized_def roles_agree fun_eq_iff)
  note laws = authorized_client_laws [OF assms(1), of operator_role]
  have "keeps (\<lambda>w. \<not> snd w) (serve (authorized_env operator_role e) r)"
  proof (cases r)
    case (PlatformReq k)
    show ?thesis
      unfolding PlatformReq serve.simps
      by (rule Reconcile_keeps [OF laws role_stable [OF footprint_granted(1)]])
  next
    case (TenantReq k)
    show ?thesis
      unfolding TenantReq serve.simps
      by (rule Tenant_Reconcile_keeps [OF laws role_stable [OF footprint_granted(2)] role_stable]) simp_all
  qed
  from keeps_run [OF this assms(2) [unfolded same]] show ?thesis by (simp add: roles_agree)
qed

theorem role_suffices_witness:
  "\<not> snd (snd (run_state (serve (authorized_env manager_role env) (TenantReq acme_key)) (tenant_world acme, False)))"
  using role_suffices [OF api_client_laws [OF env_laws(1,2)], of "TenantReq acme_key" "tenant_world acme"]
  by (metis prod.collapse)

end
