(* ===== verification/ProgramProperties.thy ===== *)
theory ProgramProperties
  imports EntryPoint Permissions TenantLifecycle
begin

text \<open>
  The program as a whole: its command line, the order in which it is assembled, how its servers
  are configured, and the passes to which an event on an object leads.
\<close>

section \<open>The command line\<close>

definition render_flags :: "flags \<Rightarrow> string list" where
  "render_flags f =
    [flag_arg ''metrics-bind-address'' (metricsAddr f),
     flag_arg ''health-probe-bind-address'' (probeAddr f),
     flag_arg ''leader-elect'' (format_bool (enableLeaderElection f)),
     flag_arg ''metrics-secure'' (format_bool (secureMetrics f)),
     flag_arg ''webhook-cert-path'' (webhookCertPath f),
     flag_arg ''webhook-cert-name'' (webhookCertName f),
     flag_arg ''webhook-cert-key'' (webhookCertKey f),
     flag_arg ''metrics-cert-path'' (metricsCertPath f),
     flag_arg ''metrics-cert-name'' (metricsCertName f),
     flag_arg ''metrics-cert-key'' (metricsCertKey f),
     flag_arg ''enable-http2'' (format_bool (enableHTTP2 f))]"

lemma own_flags_first: "map_of own_flags n = Some var \<Longrightarrow> map_of (all_flags ext) n = Some var"
  by (simp add: all_flags_def)

lemma own_flag_names: "list_all (\<lambda>(n, var). good_name n) own_flags" "distinct (map fst own_flags)"
  by code_simp+

lemma Parse_own_flag:
  assumes "(n, var) \<in> set own_flags" and "set_flag var v f = Some f'"
  shows "Parse (all_flags ext) f (flag_arg n v # rest) = Parse (all_flags ext) f' rest"
proof (rule Parse_flag_arg [OF _ own_flags_first assms(2)])
  show "good_name n" using own_flag_names(1) assms(1) by (auto simp: list_all_iff)
  show "map_of own_flags n = Some var" using own_flag_names(2) assms(1) by simp
qed

lemma parse_format_bool [simp]: "parse_bool (format_bool b) = Some b"
  by (simp add: parse_bool_def format_bool_def)

lemma Parse_string_flag:
  "(n, StringVar upd) \<in> set own_flags \<Longrightarrow>
     Parse (all_flags ext) f (flag_arg n v # rest) = Parse (all_flags ext) (upd v f) rest"
  by (erule Parse_own_flag) simp

lemma Parse_bool_flag:
  "(n, BoolVar updb) \<in> set own_flags \<Longrightarrow>
     Parse (all_flags ext) f (flag_arg n (format_bool b) # rest) = Parse (all_flags ext) (updb b f) rest"
  by (erule Parse_own_flag) simp

section \<open>Assembly\<close>

text \<open>The calls one after the other, up to the first that fails, with the status it ends with.\<close>

fun run_calls :: "'w setup_lib \<Rightarrow> (nat \<times> setup_call) list \<Rightarrow> ('w, process_end) state" where
  "run_calls lib [] = ret Returned"
| "run_calls lib ((code, c) # cs) = or_exit lib code c (run_calls lib cs)"

definition webhook_watcher :: "flags \<Rightarrow> cert_watcher" where
  "webhook_watcher f = \<lparr>cw_cert = path_join [webhookCertPath f, webhookCertName f],
                        cw_key = path_join [webhookCertPath f, webhookCertKey f]\<rparr>"

definition metrics_watcher :: "flags \<Rightarrow> cert_watcher" where
  "metrics_watcher f = \<lparr>cw_cert = path_join [metricsCertPath f, metricsCertName f],
                        cw_key = path_join [metricsCertPath f, metricsCertKey f]\<rparr>"

text \<open>What a server is meant to be configured with.\<close>

definition server_tls :: "bool \<Rightarrow> string \<Rightarrow> cert_watcher \<Rightarrow> tls_config \<Rightarrow> tls_config" where
  "server_tls http2 path cw c =
     \<lparr>NextProtos = (if http2 then NextProtos c else [''http/1.1'']),
      GetCertificate = (if path = '''' then GetCertificate c else Some cw)\<rparr>"

definition meant_options :: "flags \<Rightarrow> manager_options \<Rightarrow> bool" where
  "meant_options f mo \<longleftrightarrow>
     (\<forall>c. fold apply_tls_opt (WebhookTLSOpts mo) c =
        server_tls (enableHTTP2 f) (webhookCertPath f) (webhook_watcher f) c) \<and>
     (\<forall>c. fold apply_tls_opt (MetricsTLSOpts (ManagerMetrics mo)) c =
        server_tls (enableHTTP2 f) (metricsCertPath f) (metrics_watcher f) c) \<and>
     (FilterProvider (ManagerMetrics mo) = None \<longleftrightarrow> \<not> SecureServing (ManagerMetrics mo)) \<and>
     SecureServing (ManagerMetrics mo) = secureMetrics f \<and>
     BindAddress (ManagerMetrics mo) = metricsAddr f \<and>
     HealthProbeBindAddress mo = probeAddr f \<and> LeaderElection mo = enableLeaderElection f"

text \<open>The calls of a process whose command line is parsed.\<close>

definition startup_calls :: "flags \<Rightarrow> manager_options \<Rightarrow> (nat \<times> setup_call) list" where
  "startup_calls f mo =
     map (Pair 2)
       (MustRegister collectors #
        map AddToScheme [''clientgoscheme'', ''supabasev1alpha1'', ''cnpgv1'', ''gatewayv1'']) @
     map (Pair 1)
       ((if webhookCertPath f = '''' then [] else [NewCertWatcher (webhook_watcher f)]) @
        (if metricsCertPath f = '''' then [] else [NewCertWatcher (metrics_watcher f)]) @
        [GetConfig, NewManager mo,
         SetupController supabase_setup ''supabase-controller'',
         SetupController tenant_setup ''supabasetenant-controller''] @
        (if metricsCertPath f = '''' then [] else [AddWatcher (metrics_watcher f)]) @
        (if webhookCertPath f = '''' then [] else [AddWatcher (webhook_watcher f)]) @
        [AddHealthzCheck ''healthz'', AddReadyzCheck ''readyz'', StartManager])"

section \<open>Properties\<close>

text \<open>
  C18: the loop that parses the command line ends on every one, and a command line on which
  every flag is written out is read back as it was written, whatever flags other packages add.
\<close>

theorem flags_parsed:
  "(\<exists>r. Parse (all_flags ext) f args = Some r) \<and>
   Parse (all_flags ext) f (render_flags g) = Some (Inr (g, []))"
proof
  show "\<exists>r. Parse (all_flags ext) f args = Some r" by (rule Parse_returns)
  have "Parse (all_flags ext) f (render_flags g) = Parse (all_flags ext) g []"
    unfolding render_flags_def
    by (subst Parse_string_flag Parse_bool_flag, (simp add: own_flags_def; fail))+ (cases f, cases g, simp)
  then show "Parse (all_flags ext) f (render_flags g) = Some (Inr (g, []))"
    by (simp add: Parse.simps)
qed

text \<open>
  C17: once the command line is parsed, the process is the sequence of its set-up calls, ended
  with a non-zero status by the first that fails; the manager is started last. Each of its two
  servers speaks HTTP/2 only if that was asked for, takes its certificate from its own watcher
  and from no other, and the metrics are served securely only behind the authorization filter.
\<close>

theorem program_starts:
  assumes "distinct (map fst (all_flags ext))"
    and "Parse (all_flags ext) default_flags args = Some (Inr (f, rest))"
  shows "\<exists>mo. meant_options f mo \<and>
    (\<forall>lib. run_program lib ext args = run_calls (lib :: 'w setup_lib) (startup_calls f mo))"
proof -
  let ?tls = "if enableHTTP2 f then [] else [DisableHTTP2]"
  let ?mo = "\<lparr>ManagerMetrics =
       \<lparr>BindAddress = metricsAddr f, SecureServing = secureMetrics f,
        FilterProvider = (if secureMetrics f then Some WithAuthenticationAndAuthorization else None),
        MetricsTLSOpts = ?tls @ (if metricsCertPath f = '''' then [] else [UseWatcher (metrics_watcher f)])\<rparr>,
     WebhookTLSOpts = ?tls @ (if webhookCertPath f = '''' then [] else [UseWatcher (webhook_watcher f)]),
     HealthProbeBindAddress = probeAddr f, LeaderElection = enableLeaderElection f,
     LeaderElectionID = ''397ee1a9.codanael.io''\<rparr>"
  have "meant_options f ?mo" by (simp add: meant_options_def server_tls_def)
  moreover have "main_parsed lib f = run_calls lib (drop 5 (startup_calls f ?mo))" for lib :: "'w setup_lib"
    by (simp add: main_parsed_def startup_calls_def Let_def or_exit_if_def setupLog_exit_def
        webhook_watcher_def metrics_watcher_def)
  then have "run_program lib ext args = run_calls lib (startup_calls f ?mo)" for lib :: "'w setup_lib"
    using assms
    by (simp add: run_program_def metrics_init_def scheme_init_def main_def startup_calls_def)
  ultimately show ?thesis by blast
qed

text \<open>The command line of \<open>config/manager/manager.yaml\<close>, and a log of the calls.\<close>

definition deployed_args :: "string list" where
  "deployed_args = [''--leader-elect'', ''--health-probe-bind-address=:8081'']"

definition logging :: "(setup_call \<Rightarrow> bool) \<Rightarrow> setup_call list setup_lib" where
  "logging fails c = State (\<lambda>log. (if fails c then Some (ApiOther '''') else None, log @ [c]))"

theorem program_starts_witness:
  "fst (run_state (run_program (logging (\<lambda>c. False)) [] deployed_args) []) = Returned \<and>
   fst (run_state (run_program (logging (\<lambda>c. c = SetupController tenant_setup ''supabasetenant-controller'')) []
     deployed_args) []) = Exit 1"
proof -
  let ?f = "default_flags\<lparr>enableLeaderElection := True\<rparr>"
  have names: "distinct (map fst (all_flags []))" by code_simp
  have p: "Parse (all_flags []) default_flags deployed_args = Some (Inr (?f, []))"
    by (simp add: all_flags_def own_flags_def deployed_args_def Parse.simps split_flag_def set_value_def
        parse_bool_def default_flags_def Let_def)
  obtain mo where run: "run_program lib [] deployed_args = run_calls lib (startup_calls ?f mo)"
    for lib :: "setup_call list setup_lib"
    using program_starts [where 'w = "setup_call list", OF names p] by blast
  show ?thesis
    unfolding run by (simp add: startup_calls_def or_exit_def logging_def default_flags_def)
qed

section \<open>Watches\<close>

definition watched :: "controller_setup \<Rightarrow> kind set" where
  "watched s = set (cs_for s # cs_owns s @ cs_watches s)"

text \<open>The requests an event on an object puts into the queue of the tenant controller.\<close>

definition tenant_requests :: "'w env \<Rightarrow> obj \<Rightarrow> ('w, obj_key list) state" where
  "tenant_requests e x =
     (if obj_kind x = cs_for tenant_setup then ret [meta_key (obj_meta x)]
      else if obj_kind x \<in> set (cs_watches tenant_setup) then mapByTenantLabel e x
      else ret [])"

text \<open>
  C19: whatever a pass over a platform writes is of a kind whose events come back to the platform
  controller. Of what a pass over a tenant writes, the namespace, the network policy, the secrets
  and the init Job are of kinds the tenant controller does not watch; an event on any other
  object built for a tenant asks for a pass over that tenant, and over no other, as long as the
  identifiers of the tenants differ.
\<close>

theorem watches_cover:
  assumes "x \<in> set (built_objects (NewTenantContext t sb))" and "tenant_id t \<noteq> ''''"
    and "run_state (list_tenants e) w = (Inr ts, w1)"
    and "t \<in> set ts" and "distinct (map tenant_id ts)"
  shows "(q \<in> snd ` platform_footprint req \<longrightarrow> fst q \<in> watched supabase_setup) \<and>
    (q \<in> snd ` tenant_footprint t \<longrightarrow>
      (fst q \<in> watched tenant_setup \<longleftrightarrow> fst q \<notin> {KNamespace, KNetworkPolicy, KSecret, KJob})) \<and>
    run_state (tenant_requests e x) w =
      (if obj_kind x \<in> {KNamespace, KNetworkPolicy} then ([], w) else ([tenant_key t], w1))"
proof (intro conjI impI)
  show "fst q \<in> watched supabase_setup" if "q \<in> snd ` platform_footprint req"
    using that by (auto simp: watched_def supabase_setup_def platform_calls_def dest!: platform_footprint_calls)
  show "fst q \<in> watched tenant_setup \<longleftrightarrow> fst q \<notin> {KNamespace, KNetworkPolicy, KSecret, KJob}"
    if "q \<in> snd ` tenant_footprint t"
    using that by (auto simp: watched_def tenant_setup_def tenant_calls_def dest!: tenant_footprint_calls)
  have "obj_kind x \<noteq> KTenant \<and> (obj_kind x \<notin> {KNamespace, KNetworkPolicy} \<longleftrightarrow> obj_kind x \<in> set (cs_watches tenant_setup))"
    using assms(1) by (auto simp: built_objects_def tenant_setup_def)
  then show "run_state (tenant_requests e x) w =
      (if obj_kind x \<in> {KNamespace, KNetworkPolicy} then ([], w) else ([tenant_key t], w1))"
    using mapped_to_tenant [OF assms] by (auto simp: tenant_requests_def tenant_setup_def)
qed

theorem watches_cover_witness:
  "fst (run_state (tenant_requests env (ODatabase (buildCNPGDatabase (NewTenantContext acme sample_supabase))))
     (tenant_world acme)) = [acme_key]"
proof -
  let ?x = "ODatabase (buildCNPGDatabase (NewTenantContext acme sample_supabase))"
  have l: "run_state (list_tenants env) (tenant_world acme) = (Inr [acme], tenant_world acme)"
    by (simp add: env_def mem_env_def mem_list_def no_faults_def tenant_world_def world_of_def
        List.map_filter_def)
  have "?x \<in> set (built_objects (NewTenantContext acme sample_supabase))" by (simp add: built_objects_def)
  moreover have "tenant_id acme \<noteq> ''''" by (simp add: acme_def sample_tenant_def sample_tenant_spec_def)
  ultimately have "run_state (tenant_requests env ?x) (tenant_world acme) = ([tenant_key acme], tenant_world acme)"
    using watches_cover [OF _ _ l, of ?x acme sample_supabase] by simp
  then show ?thesis by (simp add: sample_keys)
qed

end
