(* ===== verification/TenantAtRest.thy ===== *)
theory TenantAtRest
  imports ServiceProperties CredentialProperties NetworkProperties
begin

text \<open>
  A tenant at rest: all its objects exist as a pass would leave them. A pass over a tenant that
  is at rest changes nothing but the tenant's own status, whatever fails in it; and a pass that
  ends in phase Ready leaves the tenant at rest.
\<close>

section \<open>Properties of some objects\<close>

text \<open>What depends on objects only that no write of the footprint concerns is stable.\<close>

lemma stable_objects:
  assumes api: "api_server e view admit" and A: "\<And>q. q \<in> Q \<Longrightarrow> avoids A q"
    and P: "\<And>w w'. (\<And>q. q \<in> Q \<Longrightarrow> view w' q = view w q) \<Longrightarrow> P w \<Longrightarrow> P w'"
  shows "stable e A P"
proof -
  have keep: "keeps P m" if "\<And>q x. q \<in> Q \<Longrightarrow> keeps (\<lambda>w. view w q = x) m" for m :: "('a, 'b) state"
    using that P unfolding keeps_def by blast
  note st = api_server_stable [OF api A]
  show ?thesis
    unfolding stable_def by (intro conjI allI impI keep) (use st in \<open>auto simp: stable_def\<close>)
qed

text \<open>The objects other than the tenant's own are those of \<open>v\<close>.\<close>

definition as_before :: "'w store_view \<Rightarrow> (obj_ref \<rightharpoonup> obj) \<Rightarrow> 'w \<Rightarrow> bool" where
  "as_before view v w \<longleftrightarrow> (\<forall>q. fst q \<noteq> KTenant \<longrightarrow> view w q = v q)"

lemma as_before_stable:
  assumes api: "api_server e view admit" and A: "\<And>v q. (v, q) \<in> A \<Longrightarrow> fst q = KTenant"
  shows "stable e A (as_before view v)"
proof (rule stable_objects [OF api, where Q = "{q :: obj_ref. fst q \<noteq> KTenant}"])
  fix q :: obj_ref assume "q \<in> {q. fst q \<noteq> KTenant}"
  then show "avoids A q" using A by (force simp: avoids_def)
qed (simp add: as_before_def)

text \<open>
  A patch is applied or it is not, whatever the caller is told.
\<close>

definition patches_atomic :: "'w env \<Rightarrow> 'w store_view \<Rightarrow> (obj \<Rightarrow> obj) \<Rightarrow> bool" where
  "patches_atomic e view admit \<longleftrightarrow>
     (\<forall>b x w r w'. run_state (exec e (Patch b x)) w = (r, w') \<and> view w (obj_ref x) = Some b \<longrightarrow>
        view w' (obj_ref x) = Some b \<or> view w' (obj_ref x) = Some (admit (keep_status b x)))"

lemma fixed_patch:
  assumes api: "api_server e view admit" and atomic: "patches_atomic e view admit"
    and fixed: "admit (keep_status b x) = b" and there: "view w (obj_ref x) = Some b"
    and run: "run_state (exec e (Patch b x)) w = (r, w')"
  shows "view w' = view w"
proof
  fix q
  show "view w' q = view w q"
  proof (cases "q = obj_ref x")
    case True
    with atomic run there fixed show ?thesis unfolding patches_atomic_def by metis
  next
    case False
    with api_server_exec [OF api run] show ?thesis by (simp del: split_paired_All)
  qed
qed

text \<open>The two idioms on an object that is there and is as desired.\<close>

lemma rest_create:
  assumes api: "api_server e view admit" and reads: "reads_store view K mk g"
    and kind: "\<And>x. obj_kind (mk x) = K"
    and there: "v (obj_ref (mk desired)) \<noteq> None" and K: "K \<noteq> KTenant"
  shows "keeps (as_before view v) (create_if_absent e g mk what ev desired)"
proof (rule keepsI)
  let ?k = "meta_key (obj_meta (mk desired))"
  fix w assume w: "as_before view v w"
  obtain r w1 where g: "run_state (g ?k) w = (r, w1)" by fastforce
  note get = reads_storeD [OF reads g]
  have "view w (K, ?k) \<noteq> None" using w there K by (simp add: as_before_def obj_ref_def kind)
  with get(3) have "snd (run_state (create_if_absent e g mk what ev desired) w) = w1"
    using g by (cases r) (auto simp: create_if_absent_def run_simps)
  with w get(1) show "as_before view v (snd (run_state (create_if_absent e g mk what ev desired) w))"
    by (simp add: as_before_def)
qed

definition patch_fixed :: "(obj \<Rightarrow> obj) \<Rightarrow> (obj_ref \<rightharpoonup> obj) \<Rightarrow> ('x \<Rightarrow> obj) \<Rightarrow> ('x \<Rightarrow> 'x) \<Rightarrow> obj_ref \<Rightarrow> bool" where
  "patch_fixed admit v mk merge q \<longleftrightarrow>
     (\<exists>x. v q = Some (mk x) \<and> admit (keep_status (mk x) (mk (merge x))) = mk x)"

lemma rest_patch:
  assumes api: "api_server e view admit" and atomic: "patches_atomic e view admit"
    and reads: "reads_store view K mk g" and kind: "\<And>x. obj_kind (mk x) = K" and inj: "inj mk"
    and merge: "\<And>x. meta_key (obj_meta (mk (merge x))) = meta_key (obj_meta (mk x))"
    and fixed: "patch_fixed admit v mk merge (obj_ref (mk desired))" and K: "K \<noteq> KTenant"
  shows "keeps (as_before view v) (create_or_patch e g mk what ev merge desired)"
proof (rule keepsI)
  let ?m = "create_or_patch e g mk what ev merge desired"
  let ?k = "meta_key (obj_meta (mk desired))"
  fix w assume w: "as_before view v w"
  have q: "obj_ref (mk desired) = (K, ?k)" by (simp add: obj_ref_def kind)
  from fixed obtain x where v: "v (K, ?k) = Some (mk x)"
    and adm: "admit (keep_status (mk x) (mk (merge x))) = mk x" by (auto simp: patch_fixed_def q)
  have there: "view w (K, ?k) = Some (mk x)" using w v K by (simp add: as_before_def)
  have ref: "obj_ref (mk (merge x)) = (K, ?k)"
    using api_server_keyed [OF api there] by (simp add: obj_ref_def kind merge)
  obtain r w1 where g: "run_state (g ?k) w = (r, w1)" by fastforce
  note get = reads_storeD [OF reads g]
  obtain p w2 where p: "run_state (exec e (Patch (mk x) (mk (merge x)))) w1 = (p, w2)" by fastforce
  have w2: "view w2 = view w1"
    by (rule fixed_patch [OF api atomic adm _ p]) (use ref there get(1) in simp)
  have "view (snd (run_state ?m w)) = view w"
  proof (cases r)
    case (Inl err)
    with get(3) there have "\<not> is_not_found err" by auto
    with g Inl get(1) show ?thesis by (simp add: create_or_patch_def run_simps)
  next
    case (Inr y)
    with get(2) there inj have "y = x" by (simp add: inj_eq)
    with g Inr p w2 get(1) show ?thesis by (simp add: create_or_patch_def run_simps split: option.splits)
  qed
  with w show "as_before view v (snd (run_state ?m w))" by (simp add: as_before_def)
qed

section \<open>At rest\<close>

definition service_at_rest :: "(obj \<Rightarrow> obj) \<Rightarrow> (obj_ref \<rightharpoonup> obj) \<Rightarrow> tenant_ctx \<Rightarrow> tenant_builder \<Rightarrow> bool" where
  "service_at_rest admit v c b \<longleftrightarrow>
     (if suspended c
      then v (deployment_ref b c) = None \<or> patch_fixed admit v ODeployment scale_to_zero (deployment_ref b c)
      else patch_fixed admit v ODeployment (mergeDeployment (tb_build_deployment b c)) (deployment_ref b c) \<and>
           patch_fixed admit v OService (mergeService (tb_build_service b c)) (service_ref b c))"

definition route_at_rest :: "(obj \<Rightarrow> obj) \<Rightarrow> (obj_ref \<rightharpoonup> obj) \<Rightarrow> tenant_ctx \<Rightarrow> bool" where
  "route_at_rest admit v c \<longleftrightarrow>
     (if suspended c then v (route_ref c) = None
      else patch_fixed admit v OHTTPRoute (mergeHTTPRoute (buildHTTPRoute c)) (route_ref c))"

text \<open>The prerequisites exist, and the context carries what the secrets hold.\<close>

definition prereqs_at_rest :: "(obj_ref \<rightharpoonup> obj) \<Rightarrow> tenant_ctx \<Rightarrow> bool" where
  "prereqs_at_rest v c \<longleftrightarrow>
     (\<forall>q \<in> {namespace_ref c, policy_ref c, database_ref c, init_job_ref c}. v q \<noteq> None) \<and>
     (\<exists>j d. v (jwt_ref c) = Some (OSecret j) \<and> v (db_credentials_ref c) = Some (OSecret d) \<and>
        credentials_of c = credentials_of (with_credentials c (sec_data j) (sec_data d)))"

definition at_rest :: "(obj \<Rightarrow> obj) \<Rightarrow> (obj_ref \<rightharpoonup> obj) \<Rightarrow> tenant_ctx \<Rightarrow> bool" where
  "at_rest admit v c \<longleftrightarrow>
     prereqs_at_rest v c \<and> (\<forall>b \<in> set builders. service_at_rest admit v c b) \<and> route_at_rest admit v c"

text \<open>The status of the tenant is nothing a builder looks at.\<close>

abbreviation with_status :: "tenant_ctx \<Rightarrow> tenant_status \<Rightarrow> tenant_ctx" where
  "with_status c s \<equiv> c\<lparr>tx_tenant := (tx_tenant c)\<lparr>tc_status := s\<rparr>\<rparr>"

lemma names_status [simp]:
  "TenantID (with_status c s) = TenantID c" "TInstanceName (with_status c s) = TInstanceName c"
  "BaseDomain (with_status c s) = BaseDomain c" "DatabaseDSN (with_status c s) u p = DatabaseDSN c u p"
  by (simp_all add: TenantID_def TInstanceName_def BaseDomain_def DatabaseDSN_def)

lemma selector_status [simp]: "tenant_selector (with_status c s) n = tenant_selector c n"
  by (simp add: tenant_selector_def)

lemma env_status:
  "auth_env (with_status c s) = auth_env c" "rest_env (with_status c s) = rest_env c"
  "realtime_env (with_status c s) = realtime_env c" "storage_env (with_status c s) = storage_env c"
  "functions_env (with_status c s) = functions_env c"
  by (simp_all add: auth_env_def rest_env_def realtime_env_def storage_env_def functions_env_def)

lemma resource_names_status:
  "auth_resourceName (with_status c s) = auth_resourceName c"
  "rest_resourceName (with_status c s) = rest_resourceName c"
  "realtime_resourceName (with_status c s) = realtime_resourceName c"
  "storage_resourceName (with_status c s) = storage_resourceName c"
  "functions_resourceName (with_status c s) = functions_resourceName c"
  by (simp_all add: auth_resourceName_def rest_resourceName_def realtime_resourceName_def
      storage_resourceName_def functions_resourceName_def)

lemma builds_status:
  assumes "b \<in> set builders"
  shows "tb_build_deployment b (with_status c s) = tb_build_deployment b c"
    and "tb_build_service b (with_status c s) = tb_build_service b c"
  by (rule builder_cases [OF assms];
      simp add: tenant_builder_defs auth_BuildDeployment_def auth_BuildService_def
        rest_BuildDeployment_def rest_BuildService_def realtime_BuildDeployment_def
        realtime_BuildService_def storage_BuildDeployment_def storage_BuildService_def
        functions_BuildDeployment_def functions_BuildService_def env_status resource_names_status
        del: GetPreset.simps)+

lemma prereqs_status: "prereqs_at_rest v (with_status c s) \<longleftrightarrow> prereqs_at_rest v c"
  by (simp add: prereqs_at_rest_def namespace_ref_def policy_ref_def database_ref_def
      init_job_ref_def jwt_ref_def db_credentials_ref_def jwtSecretName_def
      dbCredentialsSecretName_def cnpgDatabaseName_def initJobName_def credentials_of_def
      with_credentials_def with_jwt_def)

lemma service_status:
  "b \<in> set builders \<Longrightarrow> service_at_rest admit v (with_status c s) b = service_at_rest admit v c b"
  by (simp add: service_at_rest_def builds_status deployment_ref_def service_ref_def)

lemma route_status: "route_at_rest admit v (with_status c s) \<longleftrightarrow> route_at_rest admit v c"
proof -
  have "buildHTTPRoute (with_status c s) = buildHTTPRoute c"
    by (simp add: buildHTTPRoute_def httpRouteName_def)
  then show ?thesis by (simp add: route_at_rest_def route_ref_def httpRouteName_def)
qed

lemma at_rest_status: "at_rest admit v (with_status c s) \<longleftrightarrow> at_rest admit v c"
  by (simp add: at_rest_def prereqs_status service_status route_status)

text \<open>Two contexts of a tenant with the same credentials differ in its status at most.\<close>

lemma scope_determines:
  assumes "in_scope t sb c" and "in_scope t sb c'" and "credentials_of c' = credentials_of c"
  shows "c' = with_status c (tc_status (tx_tenant c'))"
  using assms by (cases c, cases c') (simp add: in_scope_def credentials_of_def)

section \<open>The components of a tenant at rest\<close>

lemma step_keeps_as_before:
  assumes "keeps P (comp_reconcile cp c)" and "\<And>c. keeps P (comp_healthcheck cp c)"
  shows "keeps P (reconcile_component e gen cp ct cs c)"
  unfolding reconcile_component_def by (intro keeps_intros assms)

lemma plain_step:
  assumes "\<And>c. plain_result c (comp_reconcile cp c)"
    and "run_state (reconcile_component e gen cp ct cs c) w = ((r, cs', c'), w')"
  shows "c' = c"
proof -
  obtain res c1 w1 where rc: "run_state (comp_reconcile cp c) w = ((res, c1), w1)" by (metis prod.exhaust)
  obtain ready msg herr w2 where "run_state (comp_healthcheck cp c1) w1 = ((ready, msg, herr), w2)"
    by (metis prod.exhaust)
  with assms(2) rc plain_resultD(1) [OF assms(1) rc] show ?thesis
    by (auto simp: reconcile_component_def run_simps split: if_splits option.splits sum.splits)
qed

lemma ready_step_reconciled:
  assumes "run_state (reconcile_component e gen cp ct cs c) w = (((True, err), cs', c'), w')"
  obtains res w1 where "run_state (comp_reconcile cp c) w = ((Inr res, c'), w1)"
    and "\<exists>h. run_state (comp_healthcheck cp c') w1 = (h, w')"
proof -
  obtain res c1 w1 where rc: "run_state (comp_reconcile cp c) w = ((res, c1), w1)" by (metis prod.exhaust)
  obtain ready msg herr w2 where "run_state (comp_healthcheck cp c1) w1 = ((ready, msg, herr), w2)"
    by (metis prod.exhaust)
  with assms rc show thesis
    by (auto simp: reconcile_component_def run_simps intro: that
        split: if_splits option.splits sum.splits)
qed

lemma namespace_rest:
  assumes api: "api_server e view admit" and "v (namespace_ref c) \<noteq> None" and "v (policy_ref c) \<noteq> None"
  shows "keeps (as_before view v) (namespace_reconcile e c)"
  unfolding namespace_reconcile_def
  by (intro keeps_intros rest_create [OF api api_server_reads(1) [OF api]]
      rest_create [OF api api_server_reads(2) [OF api]])
    (use assms(2,3) in \<open>simp_all add: key_simps\<close>)

lemma database_rest:
  assumes api: "api_server e view admit" and "v (database_ref c) \<noteq> None" and "v (init_job_ref c) \<noteq> None"
  shows "keeps (as_before view v) (database_reconcile e c)"
  unfolding database_reconcile_def ensure_init_job_def
  by (intro keeps_intros rest_create [OF api api_server_reads(4) [OF api]]
      rest_create [OF api api_server_reads(5) [OF api]])
    (use assms(2,3) in \<open>simp_all add: key_simps buildInitJob_ref\<close>)

lemma secret_rest:
  assumes api: "api_server e view admit"
    and v: "v (jwt_ref c) = Some (OSecret j)" "v (db_credentials_ref c) = Some (OSecret d)"
  shows "keeps (as_before view v) (secret_reconcile e c)"
proof (rule keepsI)
  fix w assume w: "as_before view v w"
  have "view w (jwt_ref c) = Some (OSecret j)" "view w (db_credentials_ref c) = Some (OSecret d)"
    using w v by (simp_all add: as_before_def jwt_ref_def db_credentials_ref_def)
  from secret_reconcile_existing(1) [OF api this] have "view (snd (run_state (secret_reconcile e c) w)) = view w"
    by (metis prod.collapse)
  with w show "as_before view v (snd (run_state (secret_reconcile e c) w))" by (simp add: as_before_def)
qed

lemma keep_status_other [simp]:
  "keep_status (OService s) x = x" "keep_status (OHTTPRoute r) x = x"
  by (simp_all add: keep_status_def)

lemma suspend_rest:
  assumes api: "api_server e view admit" and atomic: "patches_atomic e view admit"
    and v: "v (deployment_ref b c) = None \<or> patch_fixed admit v ODeployment scale_to_zero (deployment_ref b c)"
  shows "keeps (as_before view v) (suspend_deployment b e c)"
proof (rule keepsI)
  let ?k = "meta_key (dep_meta (tb_build_deployment b c))"
  fix w assume w: "as_before view v w"
  have q: "deployment_ref b c = (KDeployment, ?k)" by (simp add: deployment_ref_def obj_ref_def)
  obtain r w1 where g: "run_state (get_deployment e ?k) w = (r, w1)" by fastforce
  note get = reads_storeD [OF api_server_reads(6) [OF api] g]
  have "view (snd (run_state (suspend_deployment b e c) w)) = view w"
  proof (cases r)
    case (Inl err)
    with g get(1) show ?thesis by (simp add: suspend_deployment_def)
  next
    case (Inr d)
    from get(2) [OF Inr] have there: "view w (KDeployment, ?k) = Some (ODeployment d)" .
    with w have "v (KDeployment, ?k) = Some (ODeployment d)" by (simp add: as_before_def)
    with v q have adm: "admit (keep_status (ODeployment d) (ODeployment (scale_to_zero d))) = ODeployment d"
      by (auto simp: patch_fixed_def)
    have ref: "obj_ref (ODeployment (scale_to_zero d)) = (KDeployment, ?k)"
      using api_server_keyed [OF api there] by (simp add: obj_ref_def scale_to_zero_def)
    obtain p w2 where p: "run_state (exec e (Patch (ODeployment d) (ODeployment (scale_to_zero d)))) w1 = (p, w2)"
      by fastforce
    have "view w2 = view w1"
      by (rule fixed_patch [OF api atomic adm _ p]) (use ref there get(1) in simp)
    with g Inr p get(1) show ?thesis
      by (simp add: suspend_deployment_def run_simps split: option.splits)
  qed
  with w show "as_before view v (snd (run_state (suspend_deployment b e c) w))" by (simp add: as_before_def)
qed

lemma service_rest:
  assumes api: "api_server e view admit" and atomic: "patches_atomic e view admit"
    and v: "service_at_rest admit v c b"
  shows "keeps (as_before view v) (tenant_service_reconcile b e c)"
proof (cases "suspended c")
  case True
  with v suspend_rest [OF api atomic] show ?thesis
    by (auto simp: service_at_rest_def tenant_service_reconcile_def intro!: keeps_result_of)
next
  case False
  with v show ?thesis
    unfolding tenant_service_reconcile_def service_at_rest_def
    by (auto simp: key_simps deployment_ref_def service_ref_def
        intro!: keeps_result_of keeps_and_then
          rest_patch [OF api atomic api_server_reads(6) [OF api] _ kind_inj(1)]
          rest_patch [OF api atomic api_server_reads(7) [OF api] _ kind_inj(2)])
qed

lemma route_rest:
  assumes api: "api_server e view admit" and atomic: "patches_atomic e view admit"
    and v: "route_at_rest admit v c"
  shows "keeps (as_before view v) (routing_reconcile e c)"
proof (cases "suspended c")
  case True
  have "keeps (as_before view v) (deleteHTTPRoute e c)"
  proof (rule keepsI)
    let ?k = "nn (platform_ns c) (httpRouteName c)"
    fix w assume w: "as_before view v w"
    obtain r w1 where g: "run_state (get_http_route e ?k) w = (r, w1)" by fastforce
    note get = reads_storeD [OF api_server_reads(9) [OF api] g]
    have "view w (KHTTPRoute, ?k) = None"
      using v w True by (simp add: route_at_rest_def route_ref_def as_before_def)
    with get(2) obtain err where "r = Inl err" by (cases r) auto
    with g get(1) w show "as_before view v (snd (run_state (deleteHTTPRoute e c) w))"
      by (simp add: deleteHTTPRoute_def as_before_def)
  qed
  with True show ?thesis by (simp add: routing_reconcile_def keeps_result_of)
next
  case False
  have "inj OHTTPRoute" by (simp add: inj_def)
  with v False show ?thesis
    unfolding routing_reconcile_def route_at_rest_def
    by (auto simp: key_simps intro!: keeps_result_of rest_patch [OF api atomic api_server_reads(9) [OF api]])
qed

text \<open>What every step keeps of the context holds after the sequence.\<close>

lemma run_steps_ok:
  assumes "run_state (run_steps e gen sync steps cs c) w = ((rs, cs', c'), w')"
    and "\<And>cp t cs c w r cs' c' w'. (cp, t) \<in> set steps \<Longrightarrow> ok c \<Longrightarrow>
      run_state (reconcile_component e gen cp t cs (sync cs c)) w = ((r, cs', c'), w') \<Longrightarrow> ok c'"
    and "ok c"
  shows "ok c'"
  using assms
proof (induction steps arbitrary: cs c w rs)
  case (Cons s steps)
  obtain cp t where s: "s = (cp, t)" by fastforce
  obtain r cs1 c1 w1 where
    one: "run_state (reconcile_component e gen cp t cs (sync cs c)) w = ((r, cs1, c1), w1)"
    by (metis prod.exhaust)
  obtain rs2 where rest: "run_state (run_steps e gen sync steps cs1 c1) w1 = ((rs2, cs', c'), w')"
    using Cons.prems(1) one by (auto simp: s split: prod.splits)
  have "ok c1" by (rule Cons.prems(2) [OF _ Cons.prems(3) one]) (simp add: s)
  from Cons.IH [OF rest _ this] Cons.prems(2) show ?case by (meson list.set_intros(2))
qed simp

section \<open>A pass over a tenant at rest\<close>

lemma prereq_step_rest:
  assumes api: "api_server e view admit" and rest: "prereqs_at_rest v c0"
    and c0: "in_scope t sb c0" and sb: "meta_key (sb_meta sb) = supabase_key t"
    and cp: "(cp, ct) \<in> set (prereqComponents e)" and c: "in_scope t sb c"
  shows "keeps (as_before view v) (reconcile_component e gen cp ct cs (tenant_sync t cs' c))"
proof -
  let ?c = "tenant_sync t cs' c"
  have refs: "namespace_ref ?c = namespace_ref c0" "policy_ref ?c = policy_ref c0"
    "jwt_ref ?c = jwt_ref c0" "db_credentials_ref ?c = db_credentials_ref c0"
    "database_ref ?c = database_ref c0" "init_job_ref ?c = init_job_ref c0"
    using scope_refs [OF c0 sb] scope_refs [OF in_scope_sync [OF c] sb] by simp_all
  have st: "stable e {} (as_before view v)" by (rule as_before_stable [OF api]) simp
  from rest obtain j d where jd: "v (jwt_ref ?c) = Some (OSecret j)" "v (db_credentials_ref ?c) = Some (OSecret d)"
    unfolding refs prereqs_at_rest_def by blast
  have ex: "v (namespace_ref ?c) \<noteq> None" "v (policy_ref ?c) \<noteq> None" "v (database_ref ?c) \<noteq> None"
    "v (init_job_ref ?c) \<noteq> None"
    using rest unfolding refs prereqs_at_rest_def by simp_all
  from cp show ?thesis
    by (auto simp: prereqComponents_def NewNamespaceComponent_def NewSecretComponent_def
        NewDatabaseComponent_def
        intro!: step_keeps_as_before namespace_rest [OF api ex(1,2)] secret_rest [OF api jd]
          database_rest [OF api ex(3,4)] namespace_healthcheck_keeps secret_healthcheck_keeps
          database_healthcheck_keeps st)
qed

lemma prereqs_credentials:
  assumes api: "api_server e view admit" and rest: "prereqs_at_rest v c0"
    and c0: "in_scope t sb c0" and sb: "meta_key (sb_meta sb) = supabase_key t"
    and c: "in_scope t sb c" and w: "as_before view v w"
    and run: "run_state (run_steps e gen (tenant_sync t) (prereqComponents e) cs c) w = ((rs, cs', c'), w')"
    and ready: "all_ready rs"
  shows "credentials_of c' = credentials_of c0"
proof -
  let ?ns = "(NewNamespaceComponent e, TenantConditionNamespaceReady)"
  let ?se = "(NewSecretComponent e, TenantConditionSecretsReady)"
  let ?db = "(NewDatabaseComponent e, TenantConditionDatabaseReady)"
  have comps: "prereqComponents e = [?ns, ?se, ?db]" by (simp add: prereqComponents_def)
  obtain r1 cs1 c1 w1 where s1: "run_state (reconcile_component e gen (fst ?ns) (snd ?ns) cs (tenant_sync t cs c)) w =
      ((r1, cs1, c1), w1)" by (metis prod.exhaust)
  obtain r2 cs2 c2 w2 where s2: "run_state (reconcile_component e gen (fst ?se) (snd ?se) cs1 (tenant_sync t cs1 c1)) w1 =
      ((r2, cs2, c2), w2)" by (metis prod.exhaust)
  obtain r3 cs3 c3 w3 where s3: "run_state (reconcile_component e gen (fst ?db) (snd ?db) cs2 (tenant_sync t cs2 c2)) w2 =
      ((r3, cs3, c3), w3)" by (metis prod.exhaust)
  have rs: "rs = [r1, r2, r3]" and c': "c' = c3"
    using run s1 s2 s3 by (simp_all add: comps)
  have c1: "in_scope t sb c1"
    by (rule prereq_in_scope [OF _ c s1]) (simp add: comps)
  have w1: "as_before view v w1"
    by (rule keeps_run [OF prereq_step_rest [OF api rest c0 sb _ c] s1 w]) (simp add: comps)
  let ?c1 = "tenant_sync t cs1 c1"
  have refs: "jwt_ref ?c1 = jwt_ref c0" "db_credentials_ref ?c1 = db_credentials_ref c0"
    using scope_refs [OF c0 sb] scope_refs [OF in_scope_sync [OF c1] sb] by simp_all
  from rest obtain j d where jd: "v (jwt_ref c0) = Some (OSecret j)" "v (db_credentials_ref c0) = Some (OSecret d)"
    and cr: "credentials_of c0 = credentials_of (with_credentials c0 (sec_data j) (sec_data d))"
    unfolding prereqs_at_rest_def by blast
  have there: "view w1 (jwt_ref ?c1) = Some (OSecret j)" "view w1 (db_credentials_ref ?c1) = Some (OSecret d)"
    using w1 jd unfolding refs by (simp_all add: as_before_def jwt_ref_def db_credentials_ref_def)
  obtain err2 where "r2 = (True, err2)" using ready rs by (cases r2) auto
  then have "\<exists>res w2'. run_state (comp_reconcile (fst ?se) ?c1) w1 = ((Inr res, c2), w2')"
    using s2 by (auto elim!: ready_step_reconciled)
  then obtain res w2' where "run_state (secret_reconcile e ?c1) w1 = ((Inr res, c2), w2')"
    by (auto simp: NewSecretComponent_def)
  from secret_reconcile_existing(2) [OF api there this]
  have c2: "c2 = with_credentials ?c1 (sec_data j) (sec_data d)" by simp
  have "c3 = tenant_sync t cs2 c2"
    by (rule plain_step [OF _ s3]) (simp add: NewDatabaseComponent_def database_plain)
  then have "credentials_of c' = credentials_of c2" by (simp add: c' credentials_of_def tenant_sync_def)
  with c2 cr with_credentials_of show ?thesis by metis
qed

lemma service_step_rest:
  assumes api: "api_server e view admit" and atomic: "patches_atomic e view admit"
    and rest: "at_rest admit v c0" and c0: "in_scope t sb c0"
    and c: "in_scope t sb c" "credentials_of c = credentials_of c0"
  shows "(cp, ct) \<in> set (tenantServiceComponents e) \<Longrightarrow>
      keeps (as_before view v) (reconcile_component e gen cp ct cs (tenant_sync t cs' c))"
    and "keeps (as_before view v) (reconcile_component e gen (NewRoutingComponent e) ct cs (tenant_sync t cs' c))"
proof -
  let ?c = "tenant_sync t cs' c"
  have "credentials_of ?c = credentials_of c0" using c(2) by (simp add: credentials_of_def tenant_sync_def)
  from scope_determines [OF c0 in_scope_sync [OF c(1)] this]
  have "at_rest admit v ?c" using rest at_rest_status by metis
  then have srv: "\<And>b. b \<in> set builders \<Longrightarrow> service_at_rest admit v ?c b"
    and route: "route_at_rest admit v ?c"
    by (auto simp: at_rest_def)
  have st: "stable e {} (as_before view v)" by (rule as_before_stable [OF api]) simp
  show "keeps (as_before view v) (reconcile_component e gen cp ct cs ?c)"
    if cp: "(cp, ct) \<in> set (tenantServiceComponents e)"
  proof -
    from cp obtain b where b: "(b, ct) \<in> set tenantBuilders" "cp = NewTenantService b e"
      by (auto simp: tenantServiceComponents_def)
    from b(1) have "b \<in> set builders" by force
    from srv [OF this] show ?thesis
      by (auto simp: b(2) NewTenantService_def
          intro!: step_keeps_as_before service_rest [OF api atomic] tenant_service_healthcheck_keeps st)
  qed
  show "keeps (as_before view v) (reconcile_component e gen (NewRoutingComponent e) ct cs ?c)"
    by (auto simp: NewRoutingComponent_def
        intro!: step_keeps_as_before route_rest [OF api atomic route] routing_healthcheck_keeps st)
qed

lemma service_step_scope:
  assumes "(cp, ct) \<in> set (tenantServiceComponents e)"
    and "in_scope t sb c \<and> credentials_of c = cr"
    and "run_state (reconcile_component e gen cp ct cs (tenant_sync t cs' c)) w = ((r, cs1, c1), w1)"
  shows "in_scope t sb c1 \<and> credentials_of c1 = cr"
proof -
  have "c1 = tenant_sync t cs' c"
    using assms(1) by (intro plain_step [OF _ assms(3)])
      (auto simp: tenantServiceComponents_def NewTenantService_def tenant_service_plain)
  with assms(2) show ?thesis by (simp add: credentials_of_def) (simp add: tenant_sync_def)
qed

lemma phases_rest:
  assumes api: "api_server e view admit" and atomic: "patches_atomic e view admit"
    and rest: "at_rest admit v c0" and c0: "in_scope t sb c0"
    and c: "in_scope t sb c" "credentials_of c = credentials_of c0"
    and w: "as_before view v w"
    and run: "run_state (reconcile_phases e base (with_tenant_conditions t cs) sb c) w = (r, w')"
  shows "as_before view v w'"
proof (rule reconcile_phases_steps [OF run])
  fix rs cs1 c1 w1 ready err cs2 c2 w2 phase p w3
  let ?gen = "om_generation (tc_meta t)"
  assume s: "run_state (run_steps e ?gen (tenant_sync t) (tenantServiceComponents e) cs c) w =
      ((rs, cs1, c1), w1)"
    and ro: "run_state (reconcile_component e ?gen (NewRoutingComponent e)
      TenantConditionRoutingReady cs1 (tenant_sync t cs1 c1)) w1 = (((ready, err), cs2, c2), w2)"
    and p: "run_state (exec e (StatusPatch (OTenant base)
      (OTenant (final_status (with_tenant_conditions t cs2) c2 sb phase)))) w2 = (p, w3)"
    and r: "case p of
           Some patchErr \<Rightarrow> r = ((no_requeue, Some patchErr), ''error'') \<and> w' = w3
         | None \<Rightarrow> r = ((requeue_after ((if phase = TenantPhaseReady then 300 else 15) * second), None),
                       ''success'') \<and> run_state (update_tenant_metrics e) w3 = ((), w')"
  note steps = service_step_rest [OF api atomic rest c0]
  let ?ok = "\<lambda>c. in_scope t sb c \<and> credentials_of c = credentials_of c0"
  have "keeps (as_before view v) (run_steps e ?gen (tenant_sync t) (tenantServiceComponents e) cs c)"
    by (rule keeps_run_steps [where ok = ?ok], use steps(1) in blast, erule (2) service_step_scope)
      (simp add: c)
  from keeps_run [OF this s w] have w1: "as_before view v w1" .
  have "?ok c1" by (rule run_steps_ok [OF s, where ok = ?ok], erule (2) service_step_scope) (simp add: c)
  then have "as_before view v w2" using keeps_run [OF steps(2) ro w1] by blast
  moreover have own: "stable e (own_footprint t) (as_before view v)"
    by (rule as_before_stable [OF api]) (auto simp: own_footprint_def)
  ultimately have "as_before view v w3"
    using keeps_run [OF own_write_keeps(1) [OF own order_refl] p] by simp
  with r keeps_run [OF update_tenant_metrics_keeps [OF own]] show "as_before view v w'"
    by (auto split: option.splits)
qed

lemma active_rest:
  assumes api: "api_server e view admit" and atomic: "patches_atomic e view admit"
    and sbv: "v (KSupabase, supabase_key t) = Some (OSupabase sb)"
    and rest: "at_rest admit v c0" and c0: "in_scope t sb c0"
    and w: "as_before view v w" and run: "run_state (reconcile_active e t) w = (r, w')"
  shows "as_before view v w'"
proof -
  have own: "stable e (own_footprint t) (as_before view v)"
    by (rule as_before_stable [OF api]) (auto simp: own_footprint_def)
  have pre_rest: "prereqs_at_rest v c0" using rest by (simp add: at_rest_def)
  obtain g w1 where g: "run_state (get_supabase e (supabase_key t)) w = (g, w1)" by fastforce
  note get = reads_storeD [OF api_server_reads(13) [OF api] g]
  have w1: "as_before view v w1" using w get(1) by (simp add: as_before_def)
  show ?thesis
  proof (cases g)
    case (Inl err)
    obtain u where "run_state (exec e (StatusPatch (OTenant t) (OTenant (unresolved_status e t err)))) w1 = (u, w')"
      using run g Inl by (auto simp: reconcile_active_def split: prod.splits)
    from keeps_run [OF own_write_keeps(1) [OF own order_refl] this w1] show ?thesis by simp
  next
    case (Inr sb')
    have vsb: "view w (KSupabase, supabase_key t) = Some (OSupabase sb)"
      using w sbv by (simp add: as_before_def)
    with get(2) [OF Inr] have sb': "sb' = sb" by simp
    have key: "meta_key (sb_meta sb) = supabase_key t"
      using api_server_keyed [OF api vsb] by (simp add: obj_ref_def)
    obtain ok t' c w2 where pre: "run_state (reconcile_prereqs e (prereqComponents e) t
        (NewTenantContext t sb)) w1 = ((ok, t', c), w2)"
      by (metis prod.exhaust)
    then have "run_state (reconcile_prereqs e (prereqComponents e)
        (with_tenant_conditions t (tst_conditions (tc_status t))) (NewTenantContext t sb)) w1 =
        ((ok, t', c), w2)" by simp
    from reconcile_prereqs_steps [OF this] obtain n rs cs where
      t': "t' = with_tenant_conditions t cs" and
      steps: "run_state (run_steps e (om_generation (tc_meta t)) (tenant_sync t)
        (take n (prereqComponents e)) (tst_conditions (tc_status t)) (NewTenantContext t sb)) w1 =
        ((rs, cs, c), w2)" and
      full: "ok \<longrightarrow> n = length (prereqComponents e) \<and> all_ready rs" by blast
    have "keeps (as_before view v) (run_steps e (om_generation (tc_meta t)) (tenant_sync t)
        (take n (prereqComponents e)) (tst_conditions (tc_status t)) (NewTenantContext t sb))"
      by (rule keeps_run_steps [where ok = "in_scope t sb"])
        (auto intro: prereq_step_rest [OF api pre_rest c0 key] prereq_in_scope dest: in_set_takeD)
    from keeps_run [OF this steps w1] have w2: "as_before view v w2" .
    show ?thesis
    proof (cases ok)
      case False
      obtain u where "run_state (exec e (StatusPatch (OTenant t)
          (OTenant (with_tenant_observed (with_tenant_phase t' TenantPhaseProvisioning))))) w2 = (u, w')"
        using run g Inr sb' pre False by (auto simp: reconcile_active_def split: prod.splits)
      from keeps_run [OF own_write_keeps(1) [OF own order_refl] this w2] show ?thesis by (simp add: t')
    next
      case True
      with full steps have all: "run_state (run_steps e (om_generation (tc_meta t)) (tenant_sync t)
        (prereqComponents e) (tst_conditions (tc_status t)) (NewTenantContext t sb)) w1 = ((rs, cs, c), w2)"
        and rdy: "all_ready rs" by simp_all
      have cr: "credentials_of c = credentials_of c0"
        by (rule prereqs_credentials [OF api pre_rest c0 key NewTenantContext_in_scope w1 all rdy])
      have sc: "in_scope t sb c"
        by (rule run_steps_in_scope [OF _ all NewTenantContext_in_scope]) (rule prereq_in_scope)
      have "run_state (reconcile_phases e t (with_tenant_conditions t cs) sb c) w2 = (r, w')"
        using run g Inr sb' pre True t' by (simp add: reconcile_active_def)
      from phases_rest [OF api atomic rest c0 sc cr w2 this] show ?thesis .
    qed
  qed
qed

section \<open>Passes over a tenant at rest\<close>

lemma pass_at_rest:
  assumes api: "api_server e view admit" and own: "owner_laws e"
    and atomic: "patches_atomic e view admit"
    and t: "view w (KTenant, req) = Some (OTenant t)" and active: "om_deletion (tc_meta t) = None"
    and sb: "view w (KSupabase, supabase_key t) = Some (OSupabase sb)"
    and rest: "in_scope t sb c" "at_rest admit (view w) c"
    and run: "run_state (Tenant_Reconcile e req) w = (r, w')" and q: "q \<noteq> (KTenant, req)"
  shows "view w' q = view w q"
proof (cases "fst q = KTenant")
  case True
  have key: "tenant_key t = req" using api_server_keyed [OF api t] by (simp add: obj_ref_def)
  have "avoids (own_footprint t) q" using q key by (auto simp: avoids_def own_footprint_def)
  moreover have "avoids (prereq_footprint t \<union> workload_footprint t \<union> route_footprint t) q"
    using tenant_kinds_avoid [of t "snd q"] True by (metis prod.collapse)
  ultimately have "avoids (tenant_footprint t) q"
    using active by (auto simp: avoids_def tenant_footprint_def)
  from Tenant_Reconcile_frame [OF api own t run this] show ?thesis .
next
  case other: False
  have "as_before view (view w) w'"
    using api t run
  proof (cases rule: Tenant_Reconcile_found)
    case (found w1 l w2)
    have w1: "as_before view (view w) w1" using found(1) by (simp add: as_before_def)
    have st: "stable e (own_footprint t) (as_before view (view w))"
      by (rule as_before_stable [OF api]) (auto simp: own_footprint_def)
    have "keeps (as_before view (view w)) (reconcile_found e t)"
    proof (cases "contains_finalizer e (om_finalizers (tc_meta t)) tenantFinalizer")
      case False
      with active show ?thesis
        by (auto simp: reconcile_found_def intro!: keeps_intros own_write_keeps(2) [OF st order_refl])
    next
      case True
      have "keeps (as_before view (view w)) (reconcile_active e t)"
        by (rule keepsI) (metis active_rest [OF api atomic sb rest(2,1)] prod.collapse)
      with True active show ?thesis by (simp add: reconcile_found_def)
    qed
    from keeps_run [OF this found(2) w1] found(3) show ?thesis by (simp add: as_before_def)
  qed (simp add: as_before_def)
  with other show ?thesis by (simp add: as_before_def del: split_paired_All)
qed

end
