(* ===== verification/TenantSettling.thy ===== *)
theory TenantSettling
  imports TenantAtRest
begin

text \<open>
  A pass over a tenant that ends in phase Ready leaves the tenant at rest.
\<close>

section \<open>What a component establishes\<close>

text \<open>Admission that leaves secrets and routes as they are written, and specs.\<close>

definition settled_admission :: "(obj \<Rightarrow> obj) \<Rightarrow> bool" where
  "settled_admission admit \<longleftrightarrow>
     plain_admission admit \<and> (\<forall>s. admit (OSecret s) = OSecret s) \<and> (\<forall>r. admit (OHTTPRoute r) = OHTTPRoute r)"

lemma settle_settled: "settled_admission settle"
  by (simp add: settled_admission_def settle_plain)

text \<open>What a successful reconcile establishes.\<close>

lemma created_there:
  assumes "api_server e view admit" and "reads_store view K mk g" and "\<And>x. obj_kind (mk x) = K"
    and "run_state (create_if_absent e g mk what ev desired) w = (None, w')"
  shows "view w' (obj_ref (mk desired)) \<noteq> None" and "view w q \<noteq> None \<Longrightarrow> view w' q \<noteq> None"
  using create_if_absent_ok [OF assms] by (auto split: option.splits)

lemma namespace_establishes:
  assumes api: "api_server e view admit"
    and run: "run_state (namespace_reconcile e c) w = ((Inr res, c'), w')"
  shows "view w' (namespace_ref c) \<noteq> None" and "view w' (policy_ref c) \<noteq> None"
proof -
  from run have "run_state (result_of c
       (and_then
         (create_if_absent e (get_namespace e) ONamespace ''namespace''
            (created_event (tenant_ref (tx_tenant c)) ''Namespace''
               (om_name (ns_meta (buildNamespace c))))
            (buildNamespace c))
         (create_if_absent e (get_network_policy e) ONetworkPolicy ''network policy''
            (created_event (tenant_ref (tx_tenant c)) ''NetworkPolicy''
               (om_name (np_meta (buildNetworkPolicy c))))
            (buildNetworkPolicy c)))) w = ((Inr res, c'), w')"
    by (simp add: namespace_reconcile_def)
  from result_of_ok(1) [OF this] obtain w1 where
    one: "run_state (create_if_absent e (get_namespace e) ONamespace ''namespace''
            (created_event (tenant_ref (tx_tenant c)) ''Namespace''
               (om_name (ns_meta (buildNamespace c))))
            (buildNamespace c)) w = (None, w1)"
    and two: "run_state (create_if_absent e (get_network_policy e) ONetworkPolicy ''network policy''
            (created_event (tenant_ref (tx_tenant c)) ''NetworkPolicy''
               (om_name (np_meta (buildNetworkPolicy c))))
            (buildNetworkPolicy c)) w1 = (None, w')"
    by (rule and_then_ok)
  from created_there(1) [OF api api_server_reads(1) [OF api] _ one]
    created_there [OF api api_server_reads(2) [OF api] _ two]
  show "view w' (namespace_ref c) \<noteq> None" and "view w' (policy_ref c) \<noteq> None"
    by (simp_all add: key_simps)
qed

lemma database_establishes:
  assumes api: "api_server e view admit"
    and run: "run_state (database_reconcile e c) w = ((Inr res, c'), w')"
  shows "view w' (database_ref c) \<noteq> None" and "view w' (init_job_ref c) \<noteq> None"
proof -
  from result_of_ok(1) [OF run [unfolded database_reconcile_def]] obtain w1 where
    one: "run_state (create_if_absent e (get_database e) ODatabase ''CNPG Database''
            (created_event (tenant_ref (tx_tenant c)) ''CNPG Database''
               (om_name (cdb_meta (buildCNPGDatabase c))))
            (buildCNPGDatabase c)) w = (None, w1)"
    and two: "run_state (ensure_init_job e c) w1 = (None, w')"
    by (rule and_then_ok)
  from two obtain j where j: "buildInitJob c = Inr j"
    and job: "run_state (create_if_absent e (get_job e) OJob ''init Job''
        (created_event (tenant_ref (tx_tenant c)) ''init Job'' (om_name (job_meta j))) j) w1 = (None, w')"
    by (cases "buildInitJob c") (auto simp: ensure_init_job_def)
  from created_there(1) [OF api api_server_reads(4) [OF api] _ one]
    created_there [OF api api_server_reads(5) [OF api] _ job]
  show "view w' (database_ref c) \<noteq> None" and "view w' (init_job_ref c) \<noteq> None"
    by (simp_all add: key_simps buildInitJob_ref [OF j])
qed

lemma service_establishes:
  assumes api: "api_server e view admit" and admit: "settled_admission admit" and active: "\<not> suspended c"
    and run: "run_state (tenant_service_reconcile b e c) w = ((Inr res, c'), w')"
  shows "service_at_rest admit (view w') c b"
proof -
  have plain: "plain_admission admit" using admit by (simp add: settled_admission_def)
  let ?D = "tb_build_deployment b c" and ?S = "tb_build_service b c"
  let ?d = "deployment_ref b c" and ?s = "service_ref b c"
  have "?s \<noteq> ?d" by (simp add: service_ref_def deployment_ref_def obj_ref_def)
  with tenant_service_stores [OF api active run]
  have v: "view w' ?d = Some (upserted_deployment admit ?D (view w ?d))"
    "view w' ?s = Some (upserted_service admit ?S (view w ?s))" by simp_all
  obtain d where d: "upserted_deployment admit ?D (view w ?d) = ODeployment d"
    using upserted_deployment_spec [OF plain] by metis
  obtain s where s: "upserted_service admit ?S (view w ?s) = OService s"
    using upserted_service_spec [OF plain] by metis
  show ?thesis
    using active v d s upserted_again(1) [OF plain, of ?D "view w ?d"] upserted_again(2) [OF plain, of ?S "view w ?s"]
    by (auto simp: service_at_rest_def patch_fixed_def upserted_deployment_def upserted_service_def)
qed

lemma route_establishes:
  assumes api: "api_server e view admit" and admit: "settled_admission admit" and active: "\<not> suspended c"
    and run: "run_state (routing_reconcile e c) w = ((Inr res, c'), w')"
  shows "route_at_rest admit (view w') c"
proof -
  have inj: "inj OHTTPRoute" by (simp add: inj_def)
  have up: "run_state (create_or_patch e (get_http_route e) OHTTPRoute ''HTTPRoute''
           (created_event (tenant_ref (tx_tenant c)) ''HTTPRoute''
              (om_name (hr_meta (buildHTTPRoute c))))
           (mergeHTTPRoute (buildHTTPRoute c)) (buildHTTPRoute c)) w = (None, w')"
    using run active by (intro result_of_ok(1)) (simp add: routing_reconcile_def)
  note ok = create_or_patch_ok [OF api api_server_reads(9) [OF api] _ inj _ up]
  have "\<exists>r. view w' (route_ref c) = Some (OHTTPRoute r) \<and> mergeHTTPRoute (buildHTTPRoute c) r = r"
  proof (cases "view w (route_ref c)")
    case None
    with ok(1) admit show ?thesis
      by (auto simp: key_simps settled_admission_def mergeHTTPRoute_def)
  next
    case (Some y)
    then obtain r where r: "y = OHTTPRoute r"
      using api_server_keyed [OF api Some] by (cases y) (auto simp: obj_ref_def route_ref_def)
    with ok(2) [of r] Some admit show ?thesis
      by (auto simp: key_simps settled_admission_def mergeHTTPRoute_def)
  qed
  with active admit show ?thesis
    by (auto simp: route_at_rest_def patch_fixed_def settled_admission_def)
qed


section \<open>What a step leaves alone\<close>

text \<open>The objects of other kinds are those of \<open>v\<close>.\<close>

definition same_but :: "kind set \<Rightarrow> 'w store_view \<Rightarrow> (obj_ref \<rightharpoonup> obj) \<Rightarrow> 'w \<Rightarrow> bool" where
  "same_but Ks view v w \<longleftrightarrow> (\<forall>q. fst q \<notin> Ks \<longrightarrow> view w q = v q)"

lemma same_butD: "same_but Ks view v w \<Longrightarrow> fst q \<notin> Ks \<Longrightarrow> view w q = v q"
  by (simp add: same_but_def del: split_paired_All)

lemma same_but_refl: "same_but Ks view (view w) w"
  by (simp add: same_but_def)

lemma same_but_stable:
  assumes api: "api_server e view admit" and A: "\<And>v q. (v, q) \<in> A \<Longrightarrow> fst q \<in> Ks"
    and "KNamespace \<notin> Ks"
  shows "stable e A (same_but Ks view v)"
proof (rule stable_objects [OF api, where Q = "{q :: obj_ref. fst q \<notin> Ks}"])
  fix q :: obj_ref assume "q \<in> {q. fst q \<notin> Ks}"
  then show "avoids A q" using A assms(3) by (force simp: avoids_def)
qed (simp add: same_but_def)

lemma footprint_kinds:
  "(v, q) \<in> workload_footprint t \<Longrightarrow> fst q \<in> {KDeployment, KService}"
  "(v, q) \<in> route_footprint t \<Longrightarrow> fst q \<in> {KHTTPRoute}"
  by (auto simp: workload_footprint_def route_footprint_def t_local_ref_def t_route_ref_def
      split: if_splits)

text \<open>The references of the objects of a tenant, by their kinds.\<close>

lemma ref_kinds:
  "fst (namespace_ref c) = KNamespace" "fst (policy_ref c) = KNetworkPolicy"
  "fst (jwt_ref c) = KSecret" "fst (db_credentials_ref c) = KSecret"
  "fst (database_ref c) = KDatabase" "fst (init_job_ref c) = KJob"
  "fst (deployment_ref b c) = KDeployment" "fst (service_ref b c) = KService"
  "fst (route_ref c) = KHTTPRoute"
  by (simp_all add: namespace_ref_def policy_ref_def jwt_ref_def db_credentials_ref_def
      database_ref_def init_job_ref_def deployment_ref_def service_ref_def route_ref_def obj_ref_def)

lemma patch_fixed_cong: "v' q = v q \<Longrightarrow> patch_fixed admit v' mk m q = patch_fixed admit v mk m q"
  by (simp add: patch_fixed_def)

lemma prereqs_cong:
  assumes "\<And>q. fst q \<in> {KNamespace, KNetworkPolicy, KSecret, KDatabase, KJob} \<Longrightarrow> v' q = v q"
  shows "prereqs_at_rest v' c \<longleftrightarrow> prereqs_at_rest v c"
proof -
  have "v' (namespace_ref c) = v (namespace_ref c)" "v' (policy_ref c) = v (policy_ref c)"
    "v' (database_ref c) = v (database_ref c)" "v' (init_job_ref c) = v (init_job_ref c)"
    "v' (jwt_ref c) = v (jwt_ref c)" "v' (db_credentials_ref c) = v (db_credentials_ref c)"
    by (rule assms; simp add: ref_kinds)+
  then show ?thesis by (simp add: prereqs_at_rest_def)
qed

lemma service_cong:
  assumes "v' (deployment_ref b c) = v (deployment_ref b c)" and "v' (service_ref b c) = v (service_ref b c)"
  shows "service_at_rest admit v' c b \<longleftrightarrow> service_at_rest admit v c b"
  by (simp add: service_at_rest_def assms(1) patch_fixed_cong [of v' "deployment_ref b c" v, OF assms(1)]
      patch_fixed_cong [of v' "service_ref b c" v, OF assms(2)])

lemma route_cong:
  assumes "v' (route_ref c) = v (route_ref c)"
  shows "route_at_rest admit v' c \<longleftrightarrow> route_at_rest admit v c"
  by (simp add: route_at_rest_def assms patch_fixed_cong [of v' "route_ref c" v, OF assms])

section \<open>The services of a tenant\<close>

text \<open>No two services of a tenant share an object.\<close>

lemma builder_refs_distinct:
  assumes "(b, ct) \<in> set tenantBuilders" and "(b', ct') \<in> set tenantBuilders" and "ct \<noteq> ct'"
    and "tx_namespace c = tx_namespace c'" and "TenantID c = TenantID c'"
  shows "deployment_ref b c \<noteq> deployment_ref b' c'" and "service_ref b c \<noteq> service_ref b' c'"
  using assms(1-3) unfolding tenantBuilders_def list.set insert_iff
  by (elim disjE; simp add: deployment_ref_def service_ref_def obj_ref_def tenant_service_keys assms(4,5))+



text \<open>A step of one service leaves the objects of the others.\<close>

lemma service_step_others:
  assumes api: "api_server e view admit" and e: "client_laws e"
    and b: "(b, ct) \<in> set tenantBuilders" "(b', ct') \<in> set tenantBuilders" "ct \<noteq> ct'"
    and c: "in_scope t sb c" "in_scope t sb c'" and sb: "meta_key (sb_meta sb) = supabase_key t"
    and run: "run_state (reconcile_component e gen (NewTenantService b e) ct cs (tenant_sync t cs' c)) w =
      ((r, cs1, c1), w')"
    and q: "q = deployment_ref b' c' \<or> q = service_ref b' c'"
  shows "view w' q = view w q"
proof -
  let ?c = "tenant_sync t cs' c"
  have names: "tx_namespace ?c = tx_namespace c'" "TenantID ?c = TenantID c'"
    using scope_names [OF in_scope_sync [OF c(1)] sb] scope_names [OF c(2) sb] by simp_all
  have kinds: "deployment_ref b ?c \<noteq> service_ref b' c'" "service_ref b ?c \<noteq> deployment_ref b' c'"
    by (metis ref_kinds(7) ref_kinds(8) kind.distinct(1) kind.simps)+
  have "tenant_service_writes b ?c = upsert_sigs (deployment_ref b ?c) \<union> upsert_sigs (service_ref b ?c)"
    by (simp add: tenant_service_writes_def deployment_ref_def service_ref_def obj_ref_def)
  then have "avoids (tenant_service_writes b ?c) q"
    using q builder_refs_distinct [OF b names] kinds by (auto simp: avoids_def upsert_sigs_def)
  from component.step_keeps [OF tenant_service_component _ _ e api_server_stable [OF api this]]
  have "keeps (\<lambda>w'. view w' q = view w q)
      (reconcile_component e gen (NewTenantService b e) ct cs ?c)"
    by (simp add: NewTenantService_def)
  from keeps_run [OF this run] show ?thesis by simp
qed


text \<open>
  When the steps of a list are all ready, what each establishes for its own condition type holds
  at the end, if the steps of the others leave it.
\<close>

lemma run_steps_establish:
  assumes "run_state (run_steps e gen sync steps cs c) w = ((rs, cs', c'), w')" and "all_ready rs"
    and "distinct (map snd steps)" and "ok c"
    and "\<And>cp ct cs c w r cs1 c1 w1. (cp, ct) \<in> set steps \<Longrightarrow> ok c \<Longrightarrow>
      run_state (reconcile_component e gen cp ct cs (sync cs c)) w = ((r, cs1, c1), w1) \<Longrightarrow> ok c1"
    and "\<And>cp ct cs c w err cs1 c1 w1. (cp, ct) \<in> set steps \<Longrightarrow> ok c \<Longrightarrow>
      run_state (reconcile_component e gen cp ct cs (sync cs c)) w = (((True, err), cs1, c1), w1) \<Longrightarrow>
      E ct w1"
    and "\<And>cp ct ct' cs c w r cs1 c1 w1. (cp, ct) \<in> set steps \<Longrightarrow> ct' \<in> X \<Longrightarrow> ct \<noteq> ct' \<Longrightarrow> ok c \<Longrightarrow>
      run_state (reconcile_component e gen cp ct cs (sync cs c)) w = ((r, cs1, c1), w1) \<Longrightarrow>
      E ct' w \<Longrightarrow> E ct' w1"
    and "snd ` set steps \<subseteq> X" and "ct \<in> snd ` set steps \<or> ct \<in> X \<and> E ct w"
  shows "E ct w'"
  using assms
proof (induction steps arbitrary: cs c w rs)
  case (Cons s steps)
  obtain cp ct1 where s: "s = (cp, ct1)" by fastforce
  obtain r cs1 c1 w1 where
    one: "run_state (reconcile_component e gen cp ct1 cs (sync cs c)) w = ((r, cs1, c1), w1)"
    by (metis prod.exhaust)
  obtain rs2 where rest: "run_state (run_steps e gen sync steps cs1 c1) w1 = ((rs2, cs', c'), w')"
    and rs: "rs = r # rs2"
    using Cons.prems(1) one by (auto simp: s split: prod.splits)
  obtain err where r: "r = (True, err)" using Cons.prems(2) by (cases r) (auto simp: rs)
  have mem: "(cp, ct1) \<in> set (s # steps)" by (simp add: s)
  have ok: "ok c1" by (rule Cons.prems(5) [OF mem Cons.prems(4) one])
  have "E ct1 w1" by (rule Cons.prems(6) [OF mem Cons.prems(4) one [unfolded r]])
  moreover have "E ct w1" if "ct \<in> X" "ct \<noteq> ct1" "E ct w"
    using Cons.prems(7) [OF mem that(1) _ Cons.prems(4) one] that by simp
  ultimately have "ct \<in> snd ` set steps \<or> ct \<in> X \<and> E ct w1"
    using Cons.prems(8,9) by (auto simp: s)
  then show ?case
    using Cons.prems(2,3,8) rs
    by (intro Cons.IH [OF rest _ _ ok Cons.prems(5,6,7)]) (auto simp: s)
qed simp


lemma same_scope_rest:
  assumes "in_scope t sb c" and "in_scope t sb c'" and "credentials_of c' = credentials_of c"
  shows "prereqs_at_rest v c' \<longleftrightarrow> prereqs_at_rest v c"
    and "b \<in> set builders \<Longrightarrow> service_at_rest admit v c' b \<longleftrightarrow> service_at_rest admit v c b"
    and "route_at_rest admit v c' \<longleftrightarrow> route_at_rest admit v c"
  using scope_determines [OF assms] prereqs_status service_status route_status by metis+

lemma services_settle:
  assumes api: "api_server e view admit" and own: "owner_laws e" and admit: "settled_admission admit"
    and active: "\<not> tn_suspended (tc_spec t)" and sb: "meta_key (sb_meta sb) = supabase_key t"
    and c: "in_scope t sb c"
    and run: "run_state (run_steps e gen (tenant_sync t) (tenantServiceComponents e) cs c) w =
      ((rs, cs', c'), w')" and rdy: "all_ready rs" and b: "b \<in> set builders"
  shows "service_at_rest admit (view w') c b"
proof -
  have e: "client_laws e" using api_server_well_keyed [OF api] own by (simp add: client_laws_def)
  let ?ok = "\<lambda>c'. in_scope t sb c' \<and> credentials_of c' = credentials_of c"
  let ?E = "\<lambda>ct w. \<forall>b. (b, ct) \<in> set tenantBuilders \<longrightarrow> service_at_rest admit (view w) c b"
  have dist: "distinct (map snd (tenantServiceComponents e))" "distinct (map snd tenantBuilders)"
    using tenant_conditions_distinct
    by (simp_all add: tenant_steps_conditions tenant_conditions_def)
      (simp add: tenantBuilders_def tenant_service_conditions_def)
  obtain ct where ct: "(b, ct) \<in> set tenantBuilders" using b by auto
  then have mem: "ct \<in> snd ` set (tenantServiceComponents e)"
    by (force simp: tenantServiceComponents_def)
  have sync: "service_at_rest admit v (tenant_sync t cs d) b = service_at_rest admit v c b"
    if "?ok d" "b \<in> set builders" for v cs d b
    by (rule same_scope_rest(2) [OF c in_scope_sync [OF conjunct1 [OF that(1)]] _ that(2)])
      (use that(1) in \<open>simp add: credentials_of_def tenant_sync_def\<close>)
  have est: "?E ct w1" if cp: "(cp, ct) \<in> set (tenantServiceComponents e)" and d: "?ok d"
    and st: "run_state (reconcile_component e gen cp ct cs (tenant_sync t cs d)) w = (((True, err), cs1, c1), w1)"
    for cp ct cs d w err cs1 c1 w1
  proof (intro allI impI)
    fix b assume b: "(b, ct) \<in> set tenantBuilders"
    from cp obtain b' where b': "(b', ct) \<in> set tenantBuilders" "cp = NewTenantService b' e"
      by (auto simp: tenantServiceComponents_def)
    have "inj_on snd (set tenantBuilders)" using dist(2) by (simp add: distinct_map)
    from inj_onD [OF this _ b'(1) b] have eq: "b' = b" by simp
    have b_in: "b \<in> set builders" using b by force
    let ?c = "tenant_sync t cs d"
    from ready_step_reconciled [OF st] obtain res wa h where
      rc: "run_state (tenant_service_reconcile b e ?c) w = ((Inr res, c1), wa)"
      and hc: "run_state (tenant_service_healthcheck b e c1) wa = (h, w1)"
      by (simp add: b'(2) eq NewTenantService_def) blast
    have "\<not> suspended ?c" using scope_names(5) [OF in_scope_sync [OF conjunct1 [OF d]] sb] active by simp
    from service_establishes [OF api admit this rc] have "service_at_rest admit (view wa) ?c b" .
    moreover have "view w1 = view wa"
      using keeps_run [OF tenant_service_healthcheck_keeps [OF api_server_stable_view [OF api]] hc] by simp
    ultimately show "service_at_rest admit (view w1) c b" using sync [OF d b_in] by simp
  qed
  have pres: "?E ct' w1" if cp: "(cp, ct) \<in> set (tenantServiceComponents e)" and ne: "ct \<noteq> ct'" and d: "?ok d"
    and st: "run_state (reconcile_component e gen cp ct cs (tenant_sync t cs d)) w = ((r, cs1, c1), w1)"
    and E: "?E ct' w" for cp ct ct' cs d w r cs1 c1 w1
  proof (intro allI impI)
    fix b assume b: "(b, ct') \<in> set tenantBuilders"
    from cp obtain b' where b': "(b', ct) \<in> set tenantBuilders" "cp = NewTenantService b' e"
      by (auto simp: tenantServiceComponents_def)
    have "view w1 q = view w q" if "q = deployment_ref b c \<or> q = service_ref b c" for q
      by (rule service_step_others [OF api e b'(1) b ne _ c sb st [unfolded b'(2)] that]) (use d in simp)
    then show "service_at_rest admit (view w1) c b"
      using E b service_cong [of "view w1" b c "view w" admit] by blast
  qed
  have "?E ct w'"
  proof (rule run_steps_establish [OF run rdy dist(1), where ok = ?ok and E = ?E and X = UNIV])
    show "?ok c1" if "(cp, ct) \<in> set (tenantServiceComponents e)" and "?ok c2"
      and "run_state (reconcile_component e gen cp ct cs (tenant_sync t cs c2)) w = ((r, cs1, c1), w1)"
      for cp ct cs c2 w r cs1 c1 w1
      by (rule service_step_scope [OF that])
  qed (use c mem in simp, fact est, erule (1) pres, auto intro: disjI1 mem)
  with ct show ?thesis by blast
qed


section \<open>The prerequisites of a tenant\<close>

lemma prereq_kinds:
  "(v, q) \<in> secret_writes c \<Longrightarrow> fst q \<in> {KSecret}"
  "(v, q) \<in> database_writes c \<Longrightarrow> fst q \<in> {KDatabase, KJob}"
  by (auto simp: secret_writes_def database_writes_def create_sigs_def ref_kinds)

lemma ready_step_view:
  assumes api: "api_server e view admit"
    and health: "\<And>P c. stable e {} P \<Longrightarrow> keeps P (comp_healthcheck cp c)"
    and run: "run_state (reconcile_component e gen cp ct cs c) w = (((True, err), cs', c'), w')"
  obtains res w1 where "run_state (comp_reconcile cp c) w = ((Inr res, c'), w1)" and "view w' = view w1"
proof (rule ready_step_reconciled [OF run])
  fix res w1
  assume rc: "run_state (comp_reconcile cp c) w = ((Inr res, c'), w1)"
    and "\<exists>h. run_state (comp_healthcheck cp c') w1 = (h, w')"
  then obtain h where hc: "run_state (comp_healthcheck cp c') w1 = (h, w')" by blast
  have "view w' = view w1" using keeps_run [OF health [OF api_server_stable_view [OF api]] hc] by simp
  with rc show thesis by (rule that)
qed

lemma namespace_step_settles:
  assumes api: "api_server e view admit"
    and run: "run_state (reconcile_component e gen (NewNamespaceComponent e) ct cs c) w =
      (((True, err), cs', c'), w')"
  shows "view w' (namespace_ref c) \<noteq> None" and "view w' (policy_ref c) \<noteq> None"
  by (rule ready_step_view [OF api _ run]; simp add: NewNamespaceComponent_def namespace_healthcheck_keeps
      namespace_establishes [OF api])+

lemma secret_step_settles:
  assumes api: "api_server e view admit" and admit: "settled_admission admit"
    and run: "run_state (reconcile_component e gen (NewSecretComponent e) ct cs c) w =
      (((True, err), cs', c'), w')"
  shows "\<exists>j d. view w' (jwt_ref c) = Some (OSecret j) \<and> view w' (db_credentials_ref c) = Some (OSecret d) \<and>
    c' = with_credentials c (sec_data j) (sec_data d)"
proof (rule ready_step_view [OF api _ run])
  show "keeps P (comp_healthcheck (NewSecretComponent e) c)" if "stable e {} P" for P c
    using that by (simp add: NewSecretComponent_def secret_healthcheck_keeps)
next
  fix res w1
  assume "run_state (comp_reconcile (NewSecretComponent e) c) w = ((Inr res, c'), w1)"
    and v: "view w' = view w1"
  then have "run_state (secret_reconcile e c) w = ((Inr res, c'), w1)"
    by (simp add: NewSecretComponent_def)
  from secret_reconcile_holds [OF api _ this] admit v show ?thesis
    by (simp add: settled_admission_def)
qed

lemma database_step_settles:
  assumes api: "api_server e view admit"
    and run: "run_state (reconcile_component e gen (NewDatabaseComponent e) ct cs c) w =
      (((True, err), cs', c'), w')"
  shows "view w' (database_ref c) \<noteq> None" and "view w' (init_job_ref c) \<noteq> None" and "c' = c"
proof -
  show "view w' (database_ref c) \<noteq> None" "view w' (init_job_ref c) \<noteq> None"
    by (rule ready_step_view [OF api _ run]; simp add: NewDatabaseComponent_def database_healthcheck_keeps
        database_establishes [OF api])+
  show "c' = c"
    by (rule plain_step [OF _ run]) (simp add: NewDatabaseComponent_def database_plain)
qed

text \<open>A step leaves the objects of the kinds it does not write.\<close>

lemma prereq_step_frame:
  assumes api: "api_server e view admit" and own: "owner_laws e"
  shows "run_state (reconcile_component e gen (NewSecretComponent e) ct cs c) w = (r, w') \<Longrightarrow>
      fst q \<noteq> KSecret \<Longrightarrow> view w' q = view w q"
    and "run_state (reconcile_component e gen (NewDatabaseComponent e) ct cs c) w = (r, w') \<Longrightarrow>
      fst q \<noteq> KDatabase \<Longrightarrow> fst q \<noteq> KJob \<Longrightarrow> view w' q = view w q"
proof -
  have e: "client_laws e" using api_server_well_keyed [OF api] own by (simp add: client_laws_def)
  have st: "stable e (secret_writes c) (same_but {KSecret} view (view w))"
    "stable e (database_writes c) (same_but {KDatabase, KJob} view (view w))"
    by (rule same_but_stable [OF api]; use prereq_kinds in \<open>blast | simp\<close>)+
  have steps: "keeps (same_but {KSecret} view (view w)) (reconcile_component e gen (NewSecretComponent e) ct cs c)"
    "keeps (same_but {KDatabase, KJob} view (view w)) (reconcile_component e gen (NewDatabaseComponent e) ct cs c)"
    by (rule secret_comp.step_keeps [OF _ _ e st(1)] database_comp.step_keeps [OF _ _ e st(2)];
        simp add: NewSecretComponent_def NewDatabaseComponent_def)+
  show "view w' q = view w q"
    if "run_state (reconcile_component e gen (NewSecretComponent e) ct cs c) w = (r, w')" "fst q \<noteq> KSecret"
    using same_butD [OF keeps_run [OF steps(1) that(1) same_but_refl]] that(2) by simp
  show "view w' q = view w q"
    if "run_state (reconcile_component e gen (NewDatabaseComponent e) ct cs c) w = (r, w')"
      "fst q \<noteq> KDatabase" "fst q \<noteq> KJob"
    using same_butD [OF keeps_run [OF steps(2) that(1) same_but_refl]] that(2,3) by simp
qed

lemma prereqs_settle:
  assumes api: "api_server e view admit" and own: "owner_laws e" and admit: "settled_admission admit"
    and sb: "meta_key (sb_meta sb) = supabase_key t" and c: "in_scope t sb c"
    and run: "run_state (run_steps e gen (tenant_sync t) (prereqComponents e) cs c) w = ((rs, cs', c'), w')"
    and ready: "all_ready rs"
  shows "prereqs_at_rest (view w') c'"
proof -
  let ?ns = "(NewNamespaceComponent e, TenantConditionNamespaceReady)"
  let ?se = "(NewSecretComponent e, TenantConditionSecretsReady)"
  let ?db = "(NewDatabaseComponent e, TenantConditionDatabaseReady)"
  have comps: "prereqComponents e = [?ns, ?se, ?db]" by (simp add: prereqComponents_def)
  obtain r1 cs1 c1 w1 where s1: "run_state (reconcile_component e gen (fst ?ns) (snd ?ns) cs (tenant_sync t cs c)) w =
      ((r1, cs1, c1), w1)" by (metis prod.exhaust)
  obtain r2 cs2 c2 w2 where s2: "run_state (reconcile_component e gen (fst ?se) (snd ?se) cs1 (tenant_sync t cs1 c1)) w1 =
      ((r2, cs2, c2), w2)" by (metis prod.exhaust)
  obtain r3 cs3 c3 w3 where s3: "run_state (reconcile_component e gen (fst ?db) (snd ?db) cs2 (tenant_sync t cs2 c2)) w2 =
      ((r3, cs3, c3), w3)" by (metis prod.exhaust)
  have rs: "rs = [r1, r2, r3]" and c': "c' = c3" and w': "w' = w3"
    using run s1 s2 s3 by (simp_all add: comps)
  have c1: "in_scope t sb c1" by (rule prereq_in_scope [OF _ c s1]) (simp add: comps)
  have c2: "in_scope t sb c2" by (rule prereq_in_scope [OF _ c1 s2]) (simp add: comps)
  have c3: "in_scope t sb c3" by (rule prereq_in_scope [OF _ c2 s3]) (simp add: comps)
  note refs = scope_refs [OF c3 sb] scope_refs [OF in_scope_sync [OF c] sb]
    scope_refs [OF in_scope_sync [OF c1] sb] scope_refs [OF in_scope_sync [OF c2] sb]
  obtain e1 e2 e3 where r: "r1 = (True, e1)" "r2 = (True, e2)" "r3 = (True, e3)"
    using ready rs by (cases r1; cases r2; cases r3) auto
  note ns = namespace_step_settles [OF api s1 [simplified r fst_conv]]
  note db = database_step_settles [OF api s3 [simplified r fst_conv]]
  from secret_step_settles [OF api admit s2 [simplified r fst_conv]] obtain j d where
    se: "view w2 (jwt_ref c3) = Some (OSecret j)" "view w2 (db_credentials_ref c3) = Some (OSecret d)"
    and c2': "c2 = with_credentials (tenant_sync t cs1 c1) (sec_data j) (sec_data d)"
    unfolding refs by blast
  note fr2 = prereq_step_frame(1) [OF api own s2 [simplified fst_conv]]
  note fr3 = prereq_step_frame(2) [OF api own s3 [simplified fst_conv]]
  have "view w3 q \<noteq> None" if "q \<in> {namespace_ref c3, policy_ref c3}" for q
  proof -
    have "view w1 q \<noteq> None" using that ns unfolding refs by blast
    moreover have "fst q \<noteq> KSecret" "fst q \<noteq> KDatabase" "fst q \<noteq> KJob"
      using that ref_kinds(1,2) [of c3] by auto
    ultimately show ?thesis using fr2 fr3 by simp
  qed
  moreover have "view w3 (jwt_ref c3) = Some (OSecret j)" "view w3 (db_credentials_ref c3) = Some (OSecret d)"
    using se fr3 by (simp_all add: ref_kinds)
  moreover have "credentials_of c3 = credentials_of (with_credentials c3 (sec_data j) (sec_data d))"
    using db(3) c2' by (simp add: credentials_of_def with_credentials_def with_jwt_def tenant_sync_def)
  ultimately show ?thesis using db unfolding prereqs_at_rest_def c' w' refs by blast
qed


section \<open>The pass\<close>

lemma ready_phase:
  assumes "requeue_after ((if phase = TenantPhaseReady then 300 else 15) * second) = requeue_after (5 * minute)"
    and "phase = tenant_phase susp ok"
  shows "phase = TenantPhaseReady" and ok and "\<not> susp"
proof -
  have "requeue_after (15 * second) \<noteq> requeue_after (5 * minute)"
    by (simp add: requeue_after_def second_def nanosecond_def minute_def)
  with assms(1) show ph: "phase = TenantPhaseReady" by (metis (full_types))
  have "TenantPhaseSuspended \<noteq> TenantPhaseReady" "TenantPhaseProvisioning \<noteq> TenantPhaseReady"
    by (simp_all add: tenant_phase_defs)
  then show ok "\<not> susp"
    using ph unfolding assms(2) tenant_phase_def by presburger+
qed

lemma phases_settle:
  assumes api: "api_server e view admit" and own: "owner_laws e" and admit: "settled_admission admit"
    and sb: "meta_key (sb_meta sb) = supabase_key t" and c: "in_scope t sb c"
    and pre: "prereqs_at_rest (view w) c"
    and run: "run_state (reconcile_phases e base (with_tenant_conditions t cs) sb c) w =
      (((requeue_after (5 * minute), None), l), w')" and base: "tc_meta base = tc_meta t"
  shows "at_rest admit (view w') c"
proof (rule reconcile_phases_steps [OF run])
  fix rs cs1 c1 w1 ready err cs2 c2 w2 phase p w3
  let ?gen = "om_generation (tc_meta t)" and ?c = "tenant_sync t cs1 c1"
  assume s: "run_state (run_steps e ?gen (tenant_sync t) (tenantServiceComponents e) cs c) w =
      ((rs, cs1, c1), w1)"
    and ro: "run_state (reconcile_component e ?gen (NewRoutingComponent e)
      TenantConditionRoutingReady cs1 ?c) w1 = (((ready, err), cs2, c2), w2)"
    and ph: "phase = tenant_phase (tn_suspended (tc_spec t)) (all_ready rs \<and> ready)"
    and p: "run_state (exec e (StatusPatch (OTenant base)
      (OTenant (final_status (with_tenant_conditions t cs2) c2 sb phase)))) w2 = (p, w3)"
    and r: "case p of
           Some patchErr \<Rightarrow> ((requeue_after (5 * minute), None), l) = ((no_requeue, Some patchErr), ''error'') \<and> w' = w3
         | None \<Rightarrow> ((requeue_after (5 * minute), None), l) =
             ((requeue_after ((if phase = TenantPhaseReady then 300 else 15) * second), None), ''success'') \<and>
             run_state (update_tenant_metrics e) w3 = ((), w')"
  have e: "client_laws e" using api_server_well_keyed [OF api] own by (simp add: client_laws_def)
  from r have "requeue_after ((if phase = TenantPhaseReady then 300 else 15) * second) = requeue_after (5 * minute)"
    and metrics: "run_state (update_tenant_metrics e) w3 = ((), w')"
    by (cases p; simp)+
  note rdy = ready_phase [OF this(1) ph]
  have act: "\<not> tn_suspended (tc_spec t)" "all_ready rs" ready using rdy by simp_all
  let ?ok = "\<lambda>d. in_scope t sb d \<and> credentials_of d = credentials_of c"
  have c1: "in_scope t sb c1 \<and> credentials_of c1 = credentials_of c"
    by (rule run_steps_ok [OF s, where ok = ?ok], erule (2) service_step_scope) (simp add: c)
  have same: "credentials_of ?c = credentials_of c" using c1 by (simp add: credentials_of_def tenant_sync_def)
  have api_w: "\<And>q. fst q \<noteq> KDeployment \<Longrightarrow> fst q \<noteq> KService \<Longrightarrow> view w1 q = view w q"
  proof -
    fix q :: obj_ref assume q: "fst q \<noteq> KDeployment" "fst q \<noteq> KService"
    let ?P = "same_but {KDeployment, KService} view (view w)"
    have st: "stable e (workload_footprint t) ?P"
      by (rule same_but_stable [OF api]) (use footprint_kinds(1) in \<open>blast | simp\<close>)+
    have "keeps ?P (run_steps e ?gen (tenant_sync t) (tenantServiceComponents e) cs c)"
      by (rule keeps_run_steps [where ok = "in_scope t sb", OF tenant_service_step_keeps [OF _ _ sb e st]
            service_step_in_scope c])
    from same_butD [OF keeps_run [OF this s same_but_refl]] q show "view w1 q = view w q" by simp
  qed
  have route_w: "view w2 q = view w1 q" if "fst q \<noteq> KHTTPRoute" for q
  proof -
    let ?P = "same_but {KHTTPRoute} view (view w1)"
    have st: "stable e (route_footprint t) ?P"
      by (rule same_but_stable [OF api]) (use footprint_kinds(2) in \<open>blast | simp\<close>)+
    from same_butD [OF keeps_run [OF routing_step_keeps [OF conjunct1 [OF c1] sb e st] ro same_but_refl]] that
    show ?thesis by simp
  qed
  have own_w: "view w' q = view w2 q" if "fst q \<noteq> KTenant" for q
  proof -
    let ?P = "same_but {KTenant} view (view w2)"
    have st: "stable e (own_footprint t) ?P"
      by (rule same_but_stable [OF api]) (auto simp: own_footprint_def)
    have "?P w3"
      by (rule keeps_run [OF own_write_keeps(1) [OF st order_refl] p same_but_refl]) simp
    from same_butD [OF keeps_run [OF update_tenant_metrics_keeps [OF st] metrics this]] that
    show ?thesis by simp
  qed
  have "route_at_rest admit (view w2) ?c"
  proof (rule ready_step_view [OF api _ ro [unfolded eqTrueI [OF act(3)]]])
    show "keeps P (comp_healthcheck (NewRoutingComponent e) c)" if "stable e {} P" for P c
      using that by (simp add: NewRoutingComponent_def routing_healthcheck_keeps)
  next
    fix res wa
    assume "run_state (comp_reconcile (NewRoutingComponent e) ?c) w1 = ((Inr res, c2), wa)"
      and v: "view w2 = view wa"
    then have "run_state (routing_reconcile e ?c) w1 = ((Inr res, c2), wa)"
      by (simp add: NewRoutingComponent_def)
    moreover have "\<not> suspended ?c"
      using scope_names(5) [OF in_scope_sync [OF conjunct1 [OF c1]] sb] act(1) by simp
    ultimately show "route_at_rest admit (view w2) ?c" using route_establishes [OF api admit] v by simp
  qed
  then have "route_at_rest admit (view w2) c"
    using same_scope_rest(3) [OF c in_scope_sync [OF conjunct1 [OF c1]] same] by simp
  then have "route_at_rest admit (view w') c"
    using own_w by (subst route_cong [of "view w'" c "view w2"]) (simp_all add: ref_kinds)
  moreover have "service_at_rest admit (view w') c b" if b: "b \<in> set builders" for b
  proof -
    from services_settle [OF api own admit act(1) sb c s act(2) b]
    have "service_at_rest admit (view w1) c b" .
    then show ?thesis
      by (subst service_cong [of "view w'" b c "view w1"]) (simp_all add: ref_kinds own_w route_w)
  qed
  moreover have "prereqs_at_rest (view w') c"
    using pre by (subst prereqs_cong [of "view w'" "view w"]) (auto simp: own_w route_w api_w)
  ultimately show "at_rest admit (view w') c" by (simp add: at_rest_def)
qed


lemma active_settles:
  assumes api: "api_server e view admit" and own: "owner_laws e" and admit: "settled_admission admit"
    and run: "run_state (reconcile_active e t) w = (((requeue_after (5 * minute), None), l), w')"
  shows "\<exists>sb c. view w (KSupabase, supabase_key t) = Some (OSupabase sb) \<and> in_scope t sb c \<and>
    at_rest admit (view w') c"
proof -
  have differ: "requeue_after (15 * second) \<noteq> requeue_after (5 * minute)"
    "requeue_after (10 * second) \<noteq> requeue_after (5 * minute)"
    by (simp_all add: requeue_after_def second_def nanosecond_def minute_def)
  obtain g w1 where g: "run_state (get_supabase e (supabase_key t)) w = (g, w1)" by fastforce
  note get = reads_storeD [OF api_server_reads(13) [OF api] g]
  obtain sb where gsb: "g = Inr sb"
    using run g differ(1) by (cases g) (auto simp: reconcile_active_def split: prod.splits)
  have vsb: "view w (KSupabase, supabase_key t) = Some (OSupabase sb)" using get(2) [OF gsb] .
  have key: "meta_key (sb_meta sb) = supabase_key t"
    using api_server_keyed [OF api vsb] by (simp add: obj_ref_def)
  obtain ok t' c w2 where pre: "run_state (reconcile_prereqs e (prereqComponents e) t
      (NewTenantContext t sb)) w1 = ((ok, t', c), w2)"
    by (metis prod.exhaust)
  have ok
    using run g gsb pre differ(2) by (auto simp: reconcile_active_def split: prod.splits if_splits)
  from pre have "run_state (reconcile_prereqs e (prereqComponents e)
      (with_tenant_conditions t (tst_conditions (tc_status t))) (NewTenantContext t sb)) w1 =
      ((ok, t', c), w2)" by simp
  from reconcile_prereqs_steps [OF this] \<open>ok\<close> obtain rs cs where t': "t' = with_tenant_conditions t cs"
    and steps: "run_state (run_steps e (om_generation (tc_meta t)) (tenant_sync t)
      (prereqComponents e) (tst_conditions (tc_status t)) (NewTenantContext t sb)) w1 = ((rs, cs, c), w2)"
    and rdy: "all_ready rs" by auto
  have c: "in_scope t sb c"
    by (rule run_steps_in_scope [OF _ steps NewTenantContext_in_scope]) (rule prereq_in_scope)
  have rest: "prereqs_at_rest (view w2) c"
    by (rule prereqs_settle [OF api own admit key NewTenantContext_in_scope steps rdy])
  have "run_state (reconcile_phases e t (with_tenant_conditions t cs) sb c) w2 =
      (((requeue_after (5 * minute), None), l), w')"
    using run g gsb pre \<open>ok\<close> t' by (simp add: reconcile_active_def)
  from phases_settle [OF api own admit key c rest this refl] vsb c show ?thesis by blast
qed

text \<open>The status of a tenant does not move its objects.\<close>

lemma in_scope_status: "in_scope (t\<lparr>tc_status := st\<rparr>) sb c \<longleftrightarrow> in_scope t sb c"
  by (simp add: in_scope_def tenant_namespace_def NewTenantContext_def)

lemma ready_pass_settles:
  assumes api: "api_server e view admit" and own: "owner_laws e" and laws: "condition_laws e"
    and admit: "settled_admission admit"
    and t: "view w (KTenant, req) = Some (OTenant t)" and active: "om_deletion (tc_meta t) = None"
    and fin: "contains_finalizer e (om_finalizers (tc_meta t)) tenantFinalizer"
    and run: "run_state (Tenant_Reconcile e req) w = ((requeue_after (5 * minute), None), w')"
  obtains st sb c where "view w' (KTenant, req) = Some (OTenant (t\<lparr>tc_status := st\<rparr>))"
    and "view w' (KSupabase, supabase_key t) = Some (OSupabase sb)"
    and "in_scope (t\<lparr>tc_status := st\<rparr>) sb c" and "at_rest admit (view w') c"
proof -
  have differ: "requeue_after (15 * second) \<noteq> requeue_after (5 * minute)"
    "requeue_after (10 * second) \<noteq> requeue_after (5 * minute)"
    by (simp_all add: requeue_after_def second_def nanosecond_def minute_def)
  obtain st where st: "view w' (KTenant, req) = Some (OTenant (t\<lparr>tc_status := st\<rparr>))"
    using api own laws t active fin run
    by (cases rule: Tenant_Reconcile_active) (use differ in simp_all)
  have "avoids (tenant_footprint t) (KSupabase, supabase_key t)"
    using active by (auto simp: avoids_def tenant_footprint_def own_footprint_def prereq_footprint_def
        workload_footprint_def route_footprint_def t_namespace_ref_def t_policy_ref_def
        t_local_ref_def t_database_ref_def t_job_ref_def t_route_ref_def split: if_splits)
  note sbv = Tenant_Reconcile_frame [OF api own t run this]
  from api t run obtain sb c where "view w (KSupabase, supabase_key t) = Some (OSupabase sb)"
    "in_scope t sb c" "at_rest admit (view w') c"
  proof (cases rule: Tenant_Reconcile_found)
    case (found w1 l w2)
    have "run_state (reconcile_active e t) w1 = (((requeue_after (5 * minute), None), l), w2)"
      using found(2) active fin by (simp add: reconcile_found_def)
    from active_settles [OF api own admit this] that found(1,3) show thesis by auto
  qed (use that in simp)
  with st sbv in_scope_status that show thesis by metis
qed

lemma ready_pass_rest:
  assumes api: "api_server e view admit" and own: "owner_laws e" and laws: "condition_laws e"
    and admit: "settled_admission admit" and atomic: "patches_atomic e view admit"
    and t: "view w (KTenant, req) = Some (OTenant t)" and active: "om_deletion (tc_meta t) = None"
    and fin: "contains_finalizer e (om_finalizers (tc_meta t)) tenantFinalizer"
    and run: "run_state (Tenant_Reconcile e req) w = ((requeue_after (5 * minute), None), w')"
    and again: "run_state (Tenant_Reconcile e req) w' = (r, w'')" and q: "q \<noteq> (KTenant, req)"
  shows "view w'' q = view w' q"
proof (rule ready_pass_settles [OF api own laws admit t active fin run])
  fix st sb c
  assume "view w' (KTenant, req) = Some (OTenant (t\<lparr>tc_status := st\<rparr>))"
    and "view w' (KSupabase, supabase_key t) = Some (OSupabase sb)"
    and "in_scope (t\<lparr>tc_status := st\<rparr>) sb c" and "at_rest admit (view w') c"
  then show ?thesis
    using active by (intro pass_at_rest [OF api own atomic _ _ _ _ _ again q]) (simp_all add: supabase_key_def)
qed

end
