(* ===== verification/TenantConvergence.thy ===== *)
theory TenantConvergence
  imports TenantSettling InitSql TenantProperties
begin

text \<open>
  Progress of a tenant: with an API server that answers and accepts, a source of entropy, and
  controllers that act on what is written, a pass over an active tenant ends in phase Ready.
\<close>

section \<open>A server that answers and accepts, controllers that act\<close>

text \<open>Every read of the kinds a tenant's pass reads finds the object or reports NotFound.\<close>

definition answering :: "'w env \<Rightarrow> bool" where
  "answering e \<longleftrightarrow>
     reliable (get_namespace e) \<and> reliable (get_network_policy e) \<and> reliable (get_secret e) \<and>
     reliable (get_database e) \<and> reliable (get_job e) \<and> reliable (get_deployment e) \<and>
     reliable (get_service e) \<and> reliable (get_http_route e) \<and> reliable (get_supabase e) \<and>
     reliable (get_tenant e)"

text \<open>What is absent can be created, what is there can be patched.\<close>

definition accepting :: "'w env \<Rightarrow> 'w store_view \<Rightarrow> bool" where
  "accepting e view \<longleftrightarrow>
     (\<forall>x w r w'. run_state (exec e (Create x)) w = (r, w') \<and> view w (obj_ref x) = None \<longrightarrow> r = None) \<and>
     (\<forall>b x w r w'. run_state (exec e (Patch b x)) w = (r, w') \<and> view w (obj_ref x) = Some b \<longrightarrow> r = None) \<and>
     (\<forall>b x w r w'. run_state (exec e (StatusPatch b x)) w = (r, w') \<and> view w (obj_ref x) = Some b \<longrightarrow>
        r = None)"

definition entropy_available :: "'w env \<Rightarrow> bool" where
  "entropy_available e \<longleftrightarrow>
     (\<forall>n. results (\<lambda>r. \<exists>b. r = Inr b) (rand_read e n)) \<and> (\<forall>cl k. \<exists>s. sign_hs256 e cl k = Inr s)"

text \<open>An object the controllers of its kind have acted on; a Deployment that wants pods has them.\<close>

fun running :: "obj \<Rightarrow> bool" where
  "running (ONamespace n) \<longleftrightarrow> ns_phase n = NamespaceActive"
| "running (ODatabase d) \<longleftrightarrow> cdb_applied d \<noteq> Some False"
| "running (OJob j) \<longleftrightarrow> job_succeeded j > 0"
| "running (ODeployment d) \<longleftrightarrow>
     (case ds_replicas (dep_spec d) of None \<Rightarrow> True | Some n \<Rightarrow> n \<ge> 1 \<longrightarrow> dep_ready_replicas d = n)"
| "running _ \<longleftrightarrow> True"

definition starts_at_once :: "(obj \<Rightarrow> obj) \<Rightarrow> bool" where
  "starts_at_once admit \<longleftrightarrow> (\<forall>x. running (admit x))"

text \<open>Those of the objects that are only created that exist are running.\<close>

definition prereqs_running :: "(obj_ref \<rightharpoonup> obj) \<Rightarrow> supabase_tenant \<Rightarrow> bool" where
  "prereqs_running v t \<longleftrightarrow>
     (\<forall>q \<in> {t_namespace_ref t, t_database_ref t, t_job_ref t}.
        case v q of None \<Rightarrow> True | Some x \<Rightarrow> running x)"

lemma reliable_found:
  assumes "reads_store view K mk g" and "reliable g" and "inj mk" and "view w (K, k) = Some (mk x)"
  obtains w' where "run_state (g k) w = (Inr x, w')" and "view w' = view w"
proof -
  obtain r w' where g: "run_state (g k) w = (r, w')" by fastforce
  note get = reads_storeD [OF assms(1) g]
  show thesis
  proof (cases r)
    case (Inl err)
    with g assms(2) have "is_not_found err" by (auto simp: reliable_def)
    with get(3) [OF Inl] assms(4) show thesis by simp
  next
    case (Inr y)
    with get(2) assms(3,4) have "y = x" by (simp add: inj_eq)
    with g Inr get(1) that show thesis by simp
  qed
qed

text \<open>The two idioms succeed.\<close>

lemma create_succeeds:
  assumes api: "api_server e view admit" and acc: "accepting e view"
    and reads: "reads_store view K mk g" and rel: "reliable g" and kind: "\<And>x. obj_kind (mk x) = K"
  shows "fst (run_state (create_if_absent e g mk what ev desired) w) = None"
proof -
  let ?k = "meta_key (obj_meta (mk desired))"
  obtain r w1 where g: "run_state (g ?k) w = (r, w1)" by fastforce
  note get = reads_storeD [OF reads g]
  have q: "obj_ref (mk desired) = (K, ?k)" by (simp add: obj_ref_def kind)
  show ?thesis
  proof (cases r)
    case (Inl err)
    with g rel have nf: "is_not_found err" by (auto simp: reliable_def)
    with get(3) [OF Inl] get(1) q have none: "view w1 (obj_ref (mk desired)) = None" by simp
    obtain c w2 where c: "run_state (exec e (Create (mk desired))) w1 = (c, w2)" by fastforce
    with acc none have "c = None" unfolding accepting_def by blast
    with g Inl nf c show ?thesis by (simp add: create_if_absent_def run_simps split_beta)
  qed (use g in \<open>simp add: create_if_absent_def run_simps\<close>)
qed

lemma patch_succeeds:
  assumes api: "api_server e view admit" and acc: "accepting e view"
    and reads: "reads_store view K mk g" and rel: "reliable g" and kind: "\<And>x. obj_kind (mk x) = K"
    and merge: "\<And>x. meta_key (obj_meta (mk (merge x))) = meta_key (obj_meta (mk x))"
  shows "fst (run_state (create_or_patch e g mk what ev merge desired) w) = None"
proof -
  let ?k = "meta_key (obj_meta (mk desired))"
  obtain r w1 where g: "run_state (g ?k) w = (r, w1)" by fastforce
  note get = reads_storeD [OF reads g]
  have q: "obj_ref (mk desired) = (K, ?k)" by (simp add: obj_ref_def kind)
  show ?thesis
  proof (cases r)
    case (Inl err)
    with g rel have nf: "is_not_found err" by (auto simp: reliable_def)
    with get(3) [OF Inl] get(1) q have none: "view w1 (obj_ref (mk desired)) = None" by simp
    obtain c w2 where c: "run_state (exec e (Create (mk desired))) w1 = (c, w2)" by fastforce
    with acc none have "c = None" unfolding accepting_def by blast
    with g Inl nf c show ?thesis by (simp add: create_or_patch_def run_simps split_beta)
  next
    case (Inr x)
    from get(2) [OF Inr] get(1) have there: "view w1 (K, ?k) = Some (mk x)" by simp
    have "obj_ref (mk (merge x)) = (K, ?k)"
      using api_server_keyed [OF api there] by (simp add: obj_ref_def kind merge)
    with there have at: "view w1 (obj_ref (mk (merge x))) = Some (mk x)" by simp
    obtain p w2 where p: "run_state (exec e (Patch (mk x) (mk (merge x)))) w1 = (p, w2)" by fastforce
    with acc at have "p = None" unfolding accepting_def by blast
    with g Inr p show ?thesis by (simp add: create_or_patch_def run_simps)
  qed
qed


section \<open>Each component reconciles\<close>

lemma results_then:
  "results (\<lambda>r. r = None) m \<Longrightarrow> results (\<lambda>r. r = None) n \<Longrightarrow> results (\<lambda>r. r = None) (and_then m n)"
  unfolding and_then_def results_def by (simp add: split_beta)

lemma results_result_of:
  "results (\<lambda>r. r = None) m \<Longrightarrow> results (\<lambda>r. r = (Inr no_requeue, c)) (result_of c m)"
  unfolding result_of_def results_def by (simp add: split_beta)

lemma answeringD:
  assumes "answering e"
  shows "reliable (get_namespace e)" "reliable (get_network_policy e)" "reliable (get_secret e)"
    "reliable (get_database e)" "reliable (get_job e)" "reliable (get_deployment e)"
    "reliable (get_service e)" "reliable (get_http_route e)" "reliable (get_supabase e)"
    "reliable (get_tenant e)"
  using assms by (simp_all add: answering_def)

text \<open>The laws this theory rests on, together.\<close>

definition cooperative :: "'w env \<Rightarrow> 'w store_view \<Rightarrow> (obj \<Rightarrow> obj) \<Rightarrow> bool" where
  "cooperative e view admit \<longleftrightarrow>
     api_server e view admit \<and> answering e \<and> accepting e view \<and> entropy_available e \<and>
     settled_admission admit \<and> starts_at_once admit"

lemma cooperativeD:
  assumes "cooperative e view admit"
  shows "api_server e view admit" "answering e" "accepting e view" "entropy_available e"
    "settled_admission admit" "starts_at_once admit"
  using assms by (simp_all add: cooperative_def)

lemma namespace_succeeds:
  assumes co: "cooperative e view admit"
  shows "results (\<lambda>r. r = (Inr no_requeue, c)) (namespace_reconcile e c)"
proof -
  note api = cooperativeD(1) [OF co]
  note step = create_succeeds [OF api cooperativeD(3) [OF co]]
  show ?thesis
    unfolding namespace_reconcile_def
    by (intro results_result_of results_then; unfold results_def; intro allI
        step [OF api_server_reads(1) [OF api]] step [OF api_server_reads(2) [OF api]])
      (simp_all add: answeringD [OF cooperativeD(2) [OF co]])
qed

lemma database_succeeds:
  assumes co: "cooperative e view admit"
  shows "results (\<lambda>r. r = (Inr no_requeue, c)) (database_reconcile e c)"
proof -
  note api = cooperativeD(1) [OF co]
  note step = create_succeeds [OF api cooperativeD(3) [OF co]]
  obtain j where j: "buildInitJob c = Inr j" by (simp add: buildInitJob_def CombinedInitSQL_tokens Let_def)
  show ?thesis
    unfolding database_reconcile_def ensure_init_job_def j sum.case
    by (intro results_result_of results_then; unfold results_def; intro allI
        step [OF api_server_reads(4) [OF api]] step [OF api_server_reads(5) [OF api]])
      (simp_all add: answeringD [OF cooperativeD(2) [OF co]])
qed

lemma tenant_service_succeeds:
  assumes co: "cooperative e view admit" and active: "\<not> suspended c"
  shows "results (\<lambda>r. r = (Inr no_requeue, c)) (tenant_service_reconcile b e c)"
proof -
  note api = cooperativeD(1) [OF co]
  note step = patch_succeeds [OF api cooperativeD(3) [OF co]]
  show ?thesis
    using active unfolding tenant_service_reconcile_def
    by (simp, intro results_result_of results_then; unfold results_def; intro allI
        step [OF api_server_reads(6) [OF api]] step [OF api_server_reads(7) [OF api]])
      (simp_all add: answeringD [OF cooperativeD(2) [OF co]] mergeDeployment_def mergeService_def meta_key_def)
qed

lemma routing_succeeds:
  assumes co: "cooperative e view admit" and active: "\<not> suspended c"
  shows "results (\<lambda>r. r = (Inr no_requeue, c)) (routing_reconcile e c)"
proof -
  note api = cooperativeD(1) [OF co]
  note step = patch_succeeds [OF api cooperativeD(3) [OF co]]
  show ?thesis
    using active unfolding routing_reconcile_def
    by (simp, intro results_result_of; unfold results_def; intro allI step [OF api_server_reads(9) [OF api]])
      (simp_all add: answeringD [OF cooperativeD(2) [OF co]] mergeHTTPRoute_def meta_key_def)
qed


text \<open>With entropy, whatever is generated is.\<close>

abbreviation (input) succeeds :: "('w, 'e + 'a) state \<Rightarrow> bool" where
  "succeeds m \<equiv> results (\<lambda>r. \<exists>x. r = Inr x) m"

lemma succeeds_bind:
  assumes "succeeds m" and "\<And>x. results S (f (Inr x))"
  shows "results S (State_Monad.bind m f)"
  unfolding results_def
proof
  fix w
  obtain r w' where run: "run_state m w = (r, w')" by fastforce
  with results_run [OF assms(1) run] assms(2) show "S (fst (run_state (State_Monad.bind m f) w))"
    by (auto simp: results_def)
qed

lemma generators_succeed:
  assumes "entropy_available e"
  shows "succeeds (GenerateHMACSecret e n)" and "succeeds (GeneratePassword e n)"
    and "succeeds (GenerateAnonKey e s)" and "succeeds (GenerateServiceRoleKey e s)"
proof -
  have rand: "succeeds (rand_read e n)" for n using assms by (simp add: entropy_available_def)
  have key: "succeeds (generateRoleKey e s role)" for role
    unfolding generateRoleKey_def
  proof (rule results_bind)
    fix now
    obtain tok where "sign_hs256 e (role_claims role now) s = Inr tok"
      using assms unfolding entropy_available_def by blast
    then show "succeeds (case sign_hs256 e (role_claims role now) s of
        Inl err \<Rightarrow> ret (Inl (Wrap (''signing '' @ role @ '' key'') err)) | Inr token \<Rightarrow> ret (Inr token))"
      by (simp add: results_return)
  qed
  show "succeeds (GenerateHMACSecret e n)" "succeeds (GeneratePassword e n)"
    unfolding GenerateHMACSecret_def GeneratePassword_def
    by (rule succeeds_bind [OF rand], simp add: results_return)+
  show "succeeds (GenerateAnonKey e s)" "succeeds (GenerateServiceRoleKey e s)"
    unfolding GenerateAnonKey_def GenerateServiceRoleKey_def by (rule key)+
qed

lemma builds_succeed:
  assumes ent: "entropy_available e"
  shows "succeeds (buildJWTSecret e c)" and "succeeds (buildDBCredentialsSecret e c)"
  unfolding buildJWTSecret_def buildDBCredentialsSecret_def
  by (intro succeeds_bind [OF generators_succeed(1) [OF ent]] succeeds_bind [OF generators_succeed(2) [OF ent]]
      succeeds_bind [OF generators_succeed(3) [OF ent]] succeeds_bind [OF generators_succeed(4) [OF ent]];
      simp add: results_return
        succeeds_bind [OF generators_succeed(2) [OF ent]] succeeds_bind [OF generators_succeed(3) [OF ent]]
        succeeds_bind [OF generators_succeed(4) [OF ent]])+

lemma ensure_secret_succeeds:
  assumes co: "cooperative e view admit"
    and silent: "\<And>x. keeps (\<lambda>w. view w = x) build" and build: "succeeds build"
    and at: "results (secret_at (KSecret, nn (tx_namespace c) n)) build"
  shows "\<exists>d. fst (run_state (ensure_secret e c n what kd build) w) = Inr d"
proof -
  note api = cooperativeD(1) [OF co]
  let ?k = "nn (tx_namespace c) n"
  obtain r w1 where g: "run_state (get_secret e ?k) w = (r, w1)" by fastforce
  note get = reads_storeD [OF api_server_reads(3) [OF api] g]
  show ?thesis
  proof (cases r)
    case (Inl err)
    with g answeringD(3) [OF cooperativeD(2) [OF co]] have nf: "is_not_found err"
      by (auto simp: reliable_def)
    with get(3) [OF Inl] get(1) have none: "view w1 (KSecret, ?k) = None" by simp
    obtain b w2 where b: "run_state build w1 = (b, w2)" by fastforce
    from results_run [OF build b] obtain s where s: "b = Inr s" by blast
    have ref: "obj_ref (OSecret s) = (KSecret, ?k)"
      using results_run [OF at b] s by (simp add: secret_at_def)
    have "view w2 = view w1" using keeps_run [OF silent b] by simp
    with none ref have absent: "view w2 (obj_ref (OSecret s)) = None" by simp
    obtain cr w3 where cr: "run_state (exec e (Create (OSecret s))) w2 = (cr, w3)" by fastforce
    with absent cooperativeD(3) [OF co] have "cr = None" unfolding accepting_def by blast
    with g Inl nf b s cr show ?thesis by (simp add: ensure_secret_def run_simps split_beta)
  qed (use g in \<open>simp add: ensure_secret_def run_simps\<close>)
qed

lemma secret_succeeds:
  assumes co: "cooperative e view admit"
  shows "\<exists>c'. fst (run_state (secret_reconcile e c) w) = (Inr no_requeue, c')"
proof -
  note api = cooperativeD(1) [OF co]
  note ent = builds_succeed [OF cooperativeD(4) [OF co]]
  note j = ensure_secret_succeeds [OF co generators_silent(1) [OF api] ent(1) buildJWTSecret_at [unfolded jwt_ref_def]]
  note d = ensure_secret_succeeds [OF co generators_silent(2) [OF api] ent(2)
      buildDBCredentialsSecret_at [unfolded db_credentials_ref_def]]
  obtain jd w1 where one: "run_state (ensure_secret e c (jwtSecretName c) ''JWT secret'' ''JWT Secret''
      (buildJWTSecret e c)) w = (Inr jd, w1)" using j by (metis prod.collapse)
  obtain dd w2 where two: "run_state (ensure_secret e c (dbCredentialsSecretName c) ''DB credentials secret''
      ''DB Credentials Secret'' (buildDBCredentialsSecret e c)) w1 = (Inr dd, w2)" using d by (metis prod.collapse)
  from one two show ?thesis by (simp add: secret_reconcile_def run_simps)
qed


section \<open>Each component is ready after it reconciled\<close>

lemma step_ready:
  assumes "run_state (comp_reconcile cp c) w = ((Inr no_requeue, c1), w1)"
    and "\<exists>msg. fst (run_state (comp_healthcheck cp c1) w1) = (True, msg, None)"
  shows "fst (fst (run_state (reconcile_component e gen cp ct cs c) w)) = (True, False)"
  using assms by (auto simp: reconcile_component_def run_simps no_requeue_def split_beta)

definition running_at :: "(obj_ref \<rightharpoonup> obj) \<Rightarrow> obj_ref \<Rightarrow> bool" where
  "running_at v q \<longleftrightarrow> (case v q of None \<Rightarrow> True | Some x \<Rightarrow> running x)"

lemma create_running:
  assumes co: "cooperative e view admit" and reads: "reads_store view K mk g"
    and kind: "\<And>x. obj_kind (mk x) = K" and before: "running_at (view w) (obj_ref (mk desired))"
    and run: "run_state (create_if_absent e g mk what ev desired) w = (None, w')"
  shows "\<exists>x. view w' (obj_ref (mk desired)) = Some x \<and> running x"
    and "q \<noteq> obj_ref (mk desired) \<Longrightarrow> view w' q = view w q"
  using create_if_absent_ok [OF cooperativeD(1) [OF co] reads kind run] before cooperativeD(6) [OF co]
  by (auto simp: running_at_def starts_at_once_def split: option.splits)

lemma namespace_runs:
  assumes co: "cooperative e view admit" and before: "running_at (view w) (namespace_ref c)"
    and run: "run_state (namespace_reconcile e c) w = ((Inr res, c1), w1)"
  shows "\<exists>x. view w1 (namespace_ref c) = Some x \<and> running x"
proof -
  note api = cooperativeD(1) [OF co]
  from result_of_ok(1) [OF run [unfolded namespace_reconcile_def]] obtain wa where
    one: "run_state (create_if_absent e (get_namespace e) ONamespace ''namespace''
            (created_event (tenant_ref (tx_tenant c)) ''Namespace'' (om_name (ns_meta (buildNamespace c))))
            (buildNamespace c)) w = (None, wa)"
    and two: "run_state (create_if_absent e (get_network_policy e) ONetworkPolicy ''network policy''
            (created_event (tenant_ref (tx_tenant c)) ''NetworkPolicy'' (om_name (np_meta (buildNetworkPolicy c))))
            (buildNetworkPolicy c)) wa = (None, w1)"
    by (rule and_then_ok)
  have "namespace_ref c \<noteq> obj_ref (ONetworkPolicy (buildNetworkPolicy c))"
    by (simp add: namespace_ref_def obj_ref_def)
  with create_running(1) [OF co api_server_reads(1) [OF api] _ _ one] before
    create_if_absent_ok [OF api api_server_reads(2) [OF api] _ two]
  show ?thesis by (simp add: key_simps)
qed

lemma database_runs:
  assumes co: "cooperative e view admit"
    and before: "running_at (view w) (database_ref c)" "running_at (view w) (init_job_ref c)"
    and run: "run_state (database_reconcile e c) w = ((Inr res, c1), w1)"
  shows "\<exists>x. view w1 (database_ref c) = Some x \<and> running x"
    and "\<exists>x. view w1 (init_job_ref c) = Some x \<and> running x"
proof -
  note api = cooperativeD(1) [OF co]
  from result_of_ok(1) [OF run [unfolded database_reconcile_def]] obtain wa where
    one: "run_state (create_if_absent e (get_database e) ODatabase ''CNPG Database''
            (created_event (tenant_ref (tx_tenant c)) ''CNPG Database''
               (om_name (cdb_meta (buildCNPGDatabase c))))
            (buildCNPGDatabase c)) w = (None, wa)"
    and two: "run_state (ensure_init_job e c) wa = (None, w1)"
    by (rule and_then_ok)
  from two obtain j where j: "buildInitJob c = Inr j"
    and job: "run_state (create_if_absent e (get_job e) OJob ''init Job''
        (created_event (tenant_ref (tx_tenant c)) ''init Job'' (om_name (job_meta j))) j) wa = (None, w1)"
    by (cases "buildInitJob c") (auto simp: ensure_init_job_def)
  have ne: "database_ref c \<noteq> init_job_ref c" by (simp add: database_ref_def init_job_ref_def)
  note db = create_running [OF co api_server_reads(4) [OF api] _ _ one, unfolded key_simps]
  have "running_at (view wa) (init_job_ref c)"
    using before db(2) [of "init_job_ref c"] ne by (simp add: running_at_def)
  with create_running [OF co api_server_reads(5) [OF api] _ _ job] buildInitJob_ref [OF j] db before ne
  show "\<exists>x. view w1 (database_ref c) = Some x \<and> running x"
    and "\<exists>x. view w1 (init_job_ref c) = Some x \<and> running x"
    by simp_all
qed

lemma results_exact:
  assumes "results (\<lambda>r. r = x) m"
  obtains w' where "run_state m w = (x, w')"
proof -
  obtain r w' where run: "run_state m w = (r, w')" by fastforce
  with results_run [OF assms run] that show thesis by simp
qed

lemma namespace_ready:
  assumes co: "cooperative e view admit" and before: "running_at (view w) (namespace_ref c)"
  shows "fst (fst (run_state (reconcile_component e gen (NewNamespaceComponent e) ct cs c) w)) = (True, False)"
proof -
  note api = cooperativeD(1) [OF co] and ans = answeringD [OF cooperativeD(2) [OF co]]
  obtain w1 where run: "run_state (namespace_reconcile e c) w = ((Inr no_requeue, c), w1)"
    by (rule results_exact [OF namespace_succeeds [OF co]])
  from namespace_runs [OF co before run] obtain x where x: "view w1 (namespace_ref c) = Some x" "running x" by blast
  then obtain n where n: "x = ONamespace n"
    using api_server_keyed [OF api x(1)] by (cases x) (auto simp: namespace_ref_def obj_ref_def)
  have at: "view w1 (KNamespace, nn '''' (tx_namespace c)) = Some (ONamespace n)"
    using x n by (simp add: namespace_ref_def)
  obtain w2 where "run_state (get_namespace e (nn '''' (tx_namespace c))) w1 = (Inr n, w2)"
    by (rule reliable_found [OF api_server_reads(1) [OF api] ans(1) _ at]) (auto simp: inj_def)
  with run x n show ?thesis
    by (intro step_ready [where cp = "NewNamespaceComponent e" and c = c and w = w and ?c1.0 = c and ?w1.0 = w1]) (simp_all add: NewNamespaceComponent_def namespace_healthcheck_def run_simps)
qed

lemma database_ready:
  assumes co: "cooperative e view admit"
    and before: "running_at (view w) (database_ref c)" "running_at (view w) (init_job_ref c)"
  shows "fst (fst (run_state (reconcile_component e gen (NewDatabaseComponent e) ct cs c) w)) = (True, False)"
proof -
  note api = cooperativeD(1) [OF co] and ans = answeringD [OF cooperativeD(2) [OF co]]
  obtain w1 where run: "run_state (database_reconcile e c) w = ((Inr no_requeue, c), w1)"
    by (rule results_exact [OF database_succeeds [OF co]])
  from database_runs(1) [OF co before run] obtain x where x: "view w1 (database_ref c) = Some x" "running x" by blast
  then obtain d where d: "x = ODatabase d"
    using api_server_keyed [OF api x(1)] by (cases x) (auto simp: database_ref_def obj_ref_def)
  from database_runs(2) [OF co before run] obtain y where y: "view w1 (init_job_ref c) = Some y" "running y" by blast
  then obtain j where j: "y = OJob j"
    using api_server_keyed [OF api y(1)] by (cases y) (auto simp: init_job_ref_def obj_ref_def)
  obtain w2 where w2: "run_state (get_database e (nn (platform_ns c) (cnpgDatabaseName c))) w1 = (Inr d, w2)"
    and v2: "view w2 = view w1"
    by (rule reliable_found [OF api_server_reads(4) [OF api] ans(4), of w1 _ d])
      (use x d in \<open>auto simp: inj_def database_ref_def\<close>)
  obtain w3 where w3: "run_state (get_job e (nn (platform_ns c) (initJobName c))) w2 = (Inr j, w3)"
    by (rule reliable_found [OF api_server_reads(5) [OF api] ans(5), of w2 _ j])
      (use y j v2 in \<open>auto simp: inj_def init_job_ref_def\<close>)
  from run x d y j w2 w3 show ?thesis
    by (intro step_ready [where cp = "NewDatabaseComponent e" and c = c and w = w and ?c1.0 = c and ?w1.0 = w1]) (simp_all add: NewDatabaseComponent_def database_healthcheck_def run_simps)
qed

lemma secret_ready:
  assumes co: "cooperative e view admit"
  shows "fst (fst (run_state (reconcile_component e gen (NewSecretComponent e) ct cs c) w)) = (True, False)"
proof -
  note api = cooperativeD(1) [OF co] and ans = answeringD [OF cooperativeD(2) [OF co]]
  obtain c1 w1 where run: "run_state (secret_reconcile e c) w = ((Inr no_requeue, c1), w1)"
    using secret_succeeds [OF co, of c w] by (cases "run_state (secret_reconcile e c) w") auto
  have admit: "\<And>s. admit (OSecret s) = OSecret s"
    using cooperativeD(5) [OF co] by (simp add: settled_admission_def)
  from secret_reconcile_holds [OF api admit run] obtain j d where
    v: "view w1 (jwt_ref c) = Some (OSecret j)" "view w1 (db_credentials_ref c) = Some (OSecret d)"
    and c1: "c1 = with_credentials c (sec_data j) (sec_data d)" by blast
  obtain w2 where w2: "run_state (get_secret e (nn (tx_namespace c) (jwtSecretName c))) w1 = (Inr j, w2)"
    and v2: "view w2 = view w1"
    by (rule reliable_found [OF api_server_reads(3) [OF api] ans(3), of w1 _ j])
      (use v in \<open>auto simp: inj_def jwt_ref_def\<close>)
  obtain w3 where w3: "run_state (get_secret e (nn (tx_namespace c) (dbCredentialsSecretName c))) w2 = (Inr d, w3)"
    by (rule reliable_found [OF api_server_reads(3) [OF api] ans(3), of w2 _ d])
      (use v v2 in \<open>auto simp: inj_def db_credentials_ref_def\<close>)
  have names: "tx_namespace c1 = tx_namespace c" "jwtSecretName c1 = jwtSecretName c"
    "dbCredentialsSecretName c1 = dbCredentialsSecretName c"
    by (simp_all add: c1 with_credentials_def with_jwt_def jwtSecretName_def dbCredentialsSecretName_def TenantID_def)
  from run w2 w3 show ?thesis
    by (intro step_ready [where cp = "NewSecretComponent e" and c = c and w = w and ?c1.0 = c1 and ?w1.0 = w1]) (simp_all add: NewSecretComponent_def secret_healthcheck_def run_simps names)
qed


lemma preset_replicas_pos: "pre_replicas (GetPreset p) \<ge> 1"
  by (cases p rule: GetPreset.cases) simp_all

lemma service_ready:
  assumes co: "cooperative e view admit" and active: "\<not> suspended c" and b: "b \<in> set builders"
  shows "fst (fst (run_state (reconcile_component e gen (NewTenantService b e) ct cs c) w)) = (True, False)"
proof -
  note api = cooperativeD(1) [OF co] and ans = answeringD [OF cooperativeD(2) [OF co]]
  have plain: "plain_admission admit" using cooperativeD(5) [OF co] by (simp add: settled_admission_def)
  obtain w1 where run: "run_state (tenant_service_reconcile b e c) w = ((Inr no_requeue, c), w1)"
    by (rule results_exact [OF tenant_service_succeeds [OF co active]])
  let ?up = "upserted_deployment admit (tb_build_deployment b c) (view w (deployment_ref b c))"
  have "deployment_ref b c \<noteq> service_ref b c" by (simp add: deployment_ref_def service_ref_def obj_ref_def)
  with tenant_service_stores [OF api active run] have v: "view w1 (deployment_ref b c) = Some ?up" by simp
  obtain d where d: "?up = ODeployment d" "dep_spec d = dep_spec (tb_build_deployment b c)"
    using upserted_deployment_spec [OF plain] by metis
  have "running ?up" using cooperativeD(6) [OF co] by (simp add: upserted_deployment_def starts_at_once_def)
  moreover have "ds_replicas (dep_spec d) = Some (pre_replicas (GetPreset (tn_resources (tc_spec (tx_tenant c)))))"
    using preset_deployments [of c] b unfolding d(2) list_all_iff by blast
  ultimately have up: "fst (replica_health d)"
    using d(1) preset_replicas_pos by (simp add: replica_health_def Let_def)
  obtain w2 where "run_state (get_deployment e (meta_key (dep_meta (tb_build_deployment b c)))) w1 = (Inr d, w2)"
    by (rule reliable_found [OF api_server_reads(6) [OF api] ans(6), of w1 _ d])
      (use v d in \<open>auto simp: inj_def deployment_ref_def obj_ref_def\<close>)
  with run up active show ?thesis
    by (intro step_ready [where cp = "NewTenantService b e" and c = c and w = w and ?c1.0 = c and ?w1.0 = w1]) (simp_all add: NewTenantService_def tenant_service_healthcheck_def run_simps split_beta)
qed

lemma routing_ready:
  assumes co: "cooperative e view admit" and active: "\<not> suspended c"
  shows "fst (fst (run_state (reconcile_component e gen (NewRoutingComponent e) ct cs c) w)) = (True, False)"
proof -
  note api = cooperativeD(1) [OF co] and ans = answeringD [OF cooperativeD(2) [OF co]]
  obtain w1 where run: "run_state (routing_reconcile e c) w = ((Inr no_requeue, c), w1)"
    by (rule results_exact [OF routing_succeeds [OF co active]])
  from route_establishes [OF api cooperativeD(5) [OF co] active run] active
  obtain r where r: "view w1 (route_ref c) = Some (OHTTPRoute r)"
    by (auto simp: route_at_rest_def patch_fixed_def)
  obtain w2 where "run_state (get_http_route e (nn (platform_ns c) (httpRouteName c))) w1 = (Inr r, w2)"
    by (rule reliable_found [OF api_server_reads(9) [OF api] ans(8), of w1 _ r])
      (use r in \<open>auto simp: inj_def route_ref_def\<close>)
  with run active show ?thesis
    by (intro step_ready [where cp = "NewRoutingComponent e" and c = c and w = w and ?c1.0 = c and ?w1.0 = w1]) (simp_all add: NewRoutingComponent_def routing_healthcheck_def run_simps)
qed


section \<open>The whole pass\<close>

text \<open>A property of the store that every write of the footprint keeps is stable.\<close>

lemma stable_view:
  assumes api: "api_server e view admit"
    and step: "\<And>wr w r w'. write_sig wr \<in> A \<Longrightarrow> run_state (exec e wr) w = (r, w') \<Longrightarrow>
      P (view w) \<Longrightarrow> P (view w')"
  shows "stable e A (\<lambda>w. P (view w))"
proof -
  have keep: "keeps (\<lambda>w. P (view w)) m" if "\<And>x. keeps (\<lambda>w. view w = x) m" for m :: "('a, 'b) state"
    using that unfolding keeps_def by metis
  have exec: "keeps (\<lambda>w. P (view w)) (exec e wr)" if "write_sig wr \<in> A" for wr
    using step [OF that] by (metis keepsI prod.collapse)
  note st = api_server_stable_view [OF api, unfolded stable_def]
  show ?thesis
    unfolding stable_def by (intro conjI allI impI; (erule exec | (rule keep, simp add: st)))
qed

lemma prereqs_running_stable:
  assumes co: "cooperative e view admit"
  shows "stable e (prereq_footprint t) (\<lambda>w. prereqs_running (view w) u)"
proof (rule stable_view [OF cooperativeD(1) [OF co]])
  fix wr w r w'
  assume "write_sig wr \<in> prereq_footprint t" and run: "run_state (exec e wr) w = (r, w')"
    and before: "prereqs_running (view w) u"
  then obtain x where wr: "wr = Create x" by (cases wr) (auto simp: prereq_footprint_def write_sig_def)
  have law: "\<And>q. q \<noteq> obj_ref x \<Longrightarrow> view w' q = view w q"
    "r = None \<Longrightarrow> view w' (obj_ref x) = Some (admit x)"
    "view w (obj_ref x) \<noteq> None \<Longrightarrow> view w' (obj_ref x) = view w (obj_ref x)"
    using api_server_exec [OF cooperativeD(1) [OF co] run] by (simp_all add: wr del: split_paired_All)
  have acc: "r = None" if "view w (obj_ref x) = None"
    using cooperativeD(3) [OF co] run that unfolding accepting_def wr by blast
  have "view w' q = view w q \<or> (\<exists>y. view w' q = Some (admit y))" for q
    using law(1) [of q] law(2,3) acc by (cases "q = obj_ref x"; cases "view w (obj_ref x)") auto
  then have "running_at (view w) q \<Longrightarrow> running_at (view w') q" for q
    using cooperativeD(6) [OF co] unfolding running_at_def starts_at_once_def by (metis option.simps(5))
  with before show "prereqs_running (view w') u" unfolding prereqs_running_def running_at_def by blast
qed

lemma run_steps_all_ready:
  assumes "run_state (run_steps e gen sync steps cs c) w = ((rs, cs', c'), w')" and "ok c" and "I w"
    and "\<And>cp ct cs c w r cs1 c1 w1. (cp, ct) \<in> set steps \<Longrightarrow> ok c \<Longrightarrow> I w \<Longrightarrow>
      run_state (reconcile_component e gen cp ct cs (sync cs c)) w = ((r, cs1, c1), w1) \<Longrightarrow>
      fst r \<and> ok c1 \<and> I w1"
  shows "all_ready rs"
  using assms
proof (induction steps arbitrary: cs c w rs)
  case (Cons s steps)
  obtain cp ct where s: "s = (cp, ct)" by fastforce
  obtain r cs1 c1 w1 where
    one: "run_state (reconcile_component e gen cp ct cs (sync cs c)) w = ((r, cs1, c1), w1)"
    by (metis prod.exhaust)
  obtain rs2 where rest: "run_state (run_steps e gen sync steps cs1 c1) w1 = ((rs2, cs', c'), w')"
    and rs: "rs = r # rs2"
    using Cons.prems(1) one by (auto simp: s split: prod.splits)
  have "fst r \<and> ok c1 \<and> I w1" by (rule Cons.prems(4) [OF _ Cons.prems(2,3) one]) (simp add: s)
  moreover have "all_ready rs2"
  proof (rule Cons.IH [OF rest])
    show "ok c1" "I w1" using calculation by simp_all
    show "fst r' \<and> ok c3 \<and> I w3" if "(cp', ct') \<in> set steps" "ok c2" "I w2"
      "run_state (reconcile_component e gen cp' ct' cs2 (sync cs2 c2)) w2 = ((r', cs3, c3), w3)"
      for cp' ct' cs2 c2 w2 r' cs3 c3 w3
      by (rule Cons.prems(4) [OF _ that(2-4)]) (simp add: that(1))
  qed
  ultimately show ?case by (simp add: rs)
qed simp

lemma prereqs_all_ready:
  assumes co: "cooperative e view admit" and own: "owner_laws e"
    and sb: "meta_key (sb_meta sb) = supabase_key t" and c: "in_scope t sb c"
    and before: "prereqs_running (view w) t"
    and run: "run_state (run_steps e gen (tenant_sync t) (take n (prereqComponents e)) cs c) w = ((rs, cs', c'), w')"
  shows "all_ready rs"
proof (rule run_steps_all_ready [OF run, where ok = "in_scope t sb" and I = "\<lambda>w. prereqs_running (view w) t", OF c before])
  fix cp ct cs c w r cs1 c1 w1
  assume "(cp, ct) \<in> set (take n (prereqComponents e))" and c: "in_scope t sb c"
    and I: "prereqs_running (view w) t"
    and st: "run_state (reconcile_component e gen cp ct cs (tenant_sync t cs c)) w = ((r, cs1, c1), w1)"
  then have cp: "(cp, ct) \<in> set (prereqComponents e)" by (auto dest: in_set_takeD)
  have e: "client_laws e" by (rule api_client_laws [OF cooperativeD(1) [OF co] own])
  note refs = scope_refs [OF in_scope_sync [OF c] sb]
  have at: "running_at (view w) (namespace_ref (tenant_sync t cs c))"
    "running_at (view w) (database_ref (tenant_sync t cs c))"
    "running_at (view w) (init_job_ref (tenant_sync t cs c))"
    using I unfolding refs prereqs_running_def running_at_def by blast+
  have "fst r"
    using cp st namespace_ready [OF co at(1)] database_ready [OF co at(2,3)] secret_ready [OF co]
    by (auto simp: prereqComponents_def) (metis fst_conv)+
  moreover have "in_scope t sb c1" by (rule prereq_in_scope [OF cp c st])
  moreover have "prereqs_running (view w1) t"
    by (rule keeps_run [OF prereq_step_keeps [OF cp c sb e prereqs_running_stable [OF co]] st I])
  ultimately show "fst r \<and> in_scope t sb c1 \<and> prereqs_running (view w1) t" by simp
qed


lemma services_all_ready:
  assumes co: "cooperative e view admit" and active: "\<not> tn_suspended (tc_spec t)"
    and sb: "meta_key (sb_meta sb) = supabase_key t" and c: "in_scope t sb c"
    and run: "run_state (run_steps e gen (tenant_sync t) (tenantServiceComponents e) cs c) w = ((rs, cs', c'), w')"
  shows "all_ready rs"
proof (rule run_steps_all_ready [OF run, where ok = "in_scope t sb" and I = "\<lambda>w. True", OF c TrueI])
  fix cp ct cs c w r cs1 c1 w1
  assume cp: "(cp, ct) \<in> set (tenantServiceComponents e)" and c: "in_scope t sb c"
    and st: "run_state (reconcile_component e gen cp ct cs (tenant_sync t cs c)) w = ((r, cs1, c1), w1)"
  from cp obtain b where b: "(b, ct) \<in> set tenantBuilders" "cp = NewTenantService b e"
    by (auto simp: tenantServiceComponents_def)
  have "b \<in> set builders" using b(1) by force
  moreover have "\<not> suspended (tenant_sync t cs c)" using scope_names(5) [OF in_scope_sync [OF c] sb] active by simp
  ultimately have "fst r"
    using service_ready [OF co, of "tenant_sync t cs c" b gen ct cs w] st by (simp add: b(2))
  moreover have "in_scope t sb c1" by (rule service_step_in_scope [OF cp c st])
  ultimately show "fst r \<and> in_scope t sb c1 \<and> True" by simp
qed

lemma phases_ready:
  assumes co: "cooperative e view admit" and own: "owner_laws e"
    and active: "\<not> tn_suspended (tc_spec t)"
    and sb: "meta_key (sb_meta sb) = supabase_key t" and c: "in_scope t sb c"
    and t: "view w (KTenant, tenant_key t) = Some (OTenant t)"
    and run: "run_state (reconcile_phases e t (with_tenant_conditions t cs) sb c) w = (r, w')"
  shows "fst r = (requeue_after (5 * minute), None)"
proof (rule reconcile_phases_steps [OF run])
  fix rs cs1 c1 w1 ready err cs2 c2 w2 phase p w3
  let ?gen = "om_generation (tc_meta t)" and ?c = "tenant_sync t cs1 c1"
  assume s: "run_state (run_steps e ?gen (tenant_sync t) (tenantServiceComponents e) cs c) w =
      ((rs, cs1, c1), w1)"
    and ro: "run_state (reconcile_component e ?gen (NewRoutingComponent e)
      TenantConditionRoutingReady cs1 ?c) w1 = (((ready, err), cs2, c2), w2)"
    and ph: "phase = tenant_phase (tn_suspended (tc_spec t)) (all_ready rs \<and> ready)"
    and p: "run_state (exec e (StatusPatch (OTenant t)
      (OTenant (final_status (with_tenant_conditions t cs2) c2 sb phase)))) w2 = (p, w3)"
    and r: "case p of
           Some patchErr \<Rightarrow> r = ((no_requeue, Some patchErr), ''error'') \<and> w' = w3
         | None \<Rightarrow> r = ((requeue_after ((if phase = TenantPhaseReady then 300 else 15) * second), None),
                       ''success'') \<and> run_state (update_tenant_metrics e) w3 = ((), w')"
  note api = cooperativeD(1) [OF co]
  have e: "client_laws e" by (rule api_client_laws [OF api own])
  have c1: "in_scope t sb c1" by (rule run_steps_in_scope [OF _ s c]) (rule service_step_in_scope)
  have "\<not> suspended ?c" using scope_names(5) [OF in_scope_sync [OF c1] sb] active by simp
  from routing_ready [OF co this, of ?gen TenantConditionRoutingReady cs1 w1] ro have ready by simp
  with services_all_ready [OF co active sb c s] active ph have phase: "phase = TenantPhaseReady"
    by (simp add: tenant_phase_def)
  let ?P = "\<lambda>w. view w (KTenant, tenant_key t) = Some (OTenant t)"
  have st: "stable e (workload_footprint t) ?P" "stable e (route_footprint t) ?P"
    using api_server_stable [OF api avoids_mono [OF tenant_kinds_avoid]] by blast+
  have "keeps ?P (run_steps e ?gen (tenant_sync t) (tenantServiceComponents e) cs c)"
    by (rule keeps_run_steps [where ok = "in_scope t sb", OF tenant_service_step_keeps [OF _ _ sb e st(1)]
          service_step_in_scope c])
  from keeps_run [OF routing_step_keeps [OF c1 sb e st(2)] ro keeps_run [OF this s t]] have P2: "?P w2" .
  have "view w2 (obj_ref (OTenant (final_status (with_tenant_conditions t cs2) c2 sb phase))) = Some (OTenant t)"
    using P2 by (simp add: obj_ref_def)
  with p cooperativeD(3) [OF co] have "p = None" unfolding accepting_def by blast
  with r phase show "fst r = (requeue_after (5 * minute), None)" by (simp add: minute_def)
qed

lemma active_ready:
  assumes co: "cooperative e view admit" and own: "owner_laws e"
    and active: "\<not> tn_suspended (tc_spec t)"
    and sbv: "view w (KSupabase, supabase_key t) = Some (OSupabase sb)"
    and t: "view w (KTenant, tenant_key t) = Some (OTenant t)"
    and before: "prereqs_running (view w) t"
    and run: "run_state (reconcile_active e t) w = (r, w')"
  shows "fst r = (requeue_after (5 * minute), None)"
proof -
  note api = cooperativeD(1) [OF co]
  have e: "client_laws e" by (rule api_client_laws [OF api own])
  have key: "meta_key (sb_meta sb) = supabase_key t"
    using api_server_keyed [OF api sbv] by (simp add: obj_ref_def)
  obtain w1 where g: "run_state (get_supabase e (supabase_key t)) w = (Inr sb, w1)" and v1: "view w1 = view w"
    by (rule reliable_found [OF api_server_reads(13) [OF api] answeringD(9) [OF cooperativeD(2) [OF co]] _ sbv])
      (auto simp: inj_def)
  obtain ok t' c w2 where pre: "run_state (reconcile_prereqs e (prereqComponents e) t
      (NewTenantContext t sb)) w1 = ((ok, t', c), w2)"
    by (metis prod.exhaust)
  from pre have "run_state (reconcile_prereqs e (prereqComponents e)
      (with_tenant_conditions t (tst_conditions (tc_status t))) (NewTenantContext t sb)) w1 =
      ((ok, t', c), w2)" by simp
  from reconcile_prereqs_steps [OF this] obtain n rs cs where t': "t' = with_tenant_conditions t cs"
    and steps: "run_state (run_steps e (om_generation (tc_meta t)) (tenant_sync t)
      (take n (prereqComponents e)) (tst_conditions (tc_status t)) (NewTenantContext t sb)) w1 = ((rs, cs, c), w2)"
    and nok: "\<not> ok \<longrightarrow> \<not> all_ready rs" by blast
  have "all_ready rs"
    by (rule prereqs_all_ready [OF co own key NewTenantContext_in_scope _ steps]) (simp add: v1 before)
  with nok have ok by blast
  let ?P = "\<lambda>w. view w (KTenant, tenant_key t) = Some (OTenant t)"
  have st: "stable e (prereq_footprint t) ?P"
    using api_server_stable [OF api avoids_mono [OF tenant_kinds_avoid]] by blast
  note keep = reconcile_prereqs_keep [OF key NewTenantContext_in_scope e st _ pre]
  have "?P w2" and c: "in_scope t sb c" using keep(1,2) t v1 by simp_all
  moreover have "run_state (reconcile_phases e t (with_tenant_conditions t cs) sb c) w2 = (r, w')"
    using run g pre \<open>ok\<close> t' by (simp add: reconcile_active_def)
  ultimately show ?thesis using phases_ready [OF co own active key c] by blast
qed

lemma pass_ready:
  assumes co: "cooperative e view admit" and own: "owner_laws e"
    and t: "view w (KTenant, req) = Some (OTenant t)" and live: "om_deletion (tc_meta t) = None"
    and fin: "contains_finalizer e (om_finalizers (tc_meta t)) tenantFinalizer"
    and active: "\<not> tn_suspended (tc_spec t)"
    and sb: "view w (KSupabase, supabase_key t) = Some (OSupabase sb)"
    and before: "prereqs_running (view w) t"
  shows "fst (run_state (Tenant_Reconcile e req) w) = (requeue_after (5 * minute), None)"
proof -
  note api = cooperativeD(1) [OF co]
  have key: "tenant_key t = req" using api_server_keyed [OF api t] by (simp add: obj_ref_def)
  obtain w1 where g: "run_state (get_tenant e req) w = (Inr t, w1)" and v1: "view w1 = view w"
    by (rule reliable_found [OF api_server_reads(14) [OF api] answeringD(10) [OF cooperativeD(2) [OF co]] _ t])
      (auto simp: inj_def)
  obtain r w2 where a: "run_state (reconcile_active e t) w1 = (r, w2)" by fastforce
  have "fst r = (requeue_after (5 * minute), None)"
    by (rule active_ready [OF co own active _ _ _ a]) (use sb t before v1 key in simp_all)
  with g a live fin show ?thesis
    by (cases r) (simp add: Tenant_Reconcile_def tenant_reconcile_body_def reconcile_found_def run_simps split_beta)
qed


section \<open>The in-memory API server\<close>

lemma mem_patches_atomic:
  assumes "\<And>x. obj_ref (settle x) = obj_ref x"
  shows "patches_atomic (mem_env f settle) mem_view settle"
  using assms
  by (auto simp: patches_atomic_def mem_env_def mem_exec_def mem_view_def mem_lookup_put
      split: if_splits option.splits)

lemma env_answering: "answering env"
  by (auto simp: answering_def reliable_def env_def mem_env_def mem_get_def no_faults_def split: option.splits)

lemma env_accepting: "accepting env mem_view"
  by (auto simp: accepting_def env_def mem_env_def mem_exec_def mem_view_def no_faults_def
      split: option.splits)

lemma settle_running: "running (settle x)"
  by (cases x) (simp_all split: option.split)

lemma env_cooperative: "cooperative env mem_view settle"
proof -
  have "entropy_available env"
    by (simp add: entropy_available_def env_def mem_env_def mem_rand_def results_def)
  then show ?thesis
    using env_laws(1) env_answering env_accepting settle_settled settle_running
    by (simp add: cooperative_def starts_at_once_def)
qed

lemma acme_prereqs: "prereqs_running (mem_view (tenant_world acme)) acme"
  by (simp add: prereqs_running_def tenant_world_def world_of_def mem_view_def mem_lookup_Cons
      mem_lookup_def obj_ref_def t_namespace_ref_def t_database_ref_def t_job_ref_def)

lemma acme_view:
  "mem_view (tenant_world acme) (KTenant, acme_key) = Some (OTenant acme)"
  "mem_view (tenant_world acme) (KSupabase, supabase_key acme) = Some (OSupabase sample_supabase)"
  using tenant_world_view [OF sample_keys(1)] by (simp_all add: sample_keys)

lemma acme_fin: "contains_finalizer env (om_finalizers (tc_meta acme)) tenantFinalizer"
  by (simp add: acme_active env_def mem_env_def)

lemma acme_not_suspended: "\<not> tn_suspended (tc_spec acme)"
  by (simp add: acme_def sample_tenant_def sample_tenant_spec_def)

definition ready_world :: world where
  "ready_world = snd (run_state (Tenant_Reconcile env acme_key) (tenant_world acme))"

lemma ready_run:
  "run_state (Tenant_Reconcile env acme_key) (tenant_world acme) = ((requeue_after (5 * minute), None), ready_world)"
  using pass_ready [OF env_cooperative env_laws(2) acme_view(1) acme_active(1) acme_fin acme_not_suspended
      acme_view(2) acme_prereqs]
  by (simp add: ready_world_def prod_eq_iff)


section \<open>A tenant becomes Ready, and stays as it is\<close>

text \<open>
  C3: progress. When the API server answers and accepts, entropy is available, the controllers
  act on what is written and what exists of the tenant's namespace, database and init Job is
  running, one pass over an active tenant that is not suspended and whose platform exists ends
  without an error, with the status of a tenant whose nine conditions are all True, in phase
  Ready, and asks for the next pass in five minutes.
\<close>

theorem tenant_converges:
  assumes "cooperative e view admit" and "owner_laws e" and "condition_laws e"
    and "view w (KTenant, req) = Some (OTenant t)" and "om_deletion (tc_meta t) = None"
    and "contains_finalizer e (om_finalizers (tc_meta t)) tenantFinalizer"
    and "\<not> tn_suspended (tc_spec t)"
    and "view w (KSupabase, supabase_key t) = Some (OSupabase sb)"
    and "prereqs_running (view w) t"
  shows "\<exists>w' st. run_state (Tenant_Reconcile e req) w = ((requeue_after (5 * minute), None), w') \<and>
    view w' (KTenant, req) = Some (OTenant (t\<lparr>tc_status := st\<rparr>)) \<and>
    tenant_status_ok t sb st \<and> tst_phase st = TenantPhaseReady"
proof -
  note api = cooperativeD(1) [OF assms(1)]
  obtain w' where run: "run_state (Tenant_Reconcile e req) w = ((requeue_after (5 * minute), None), w')"
    using pass_ready [OF assms(1,2,4-9)] by (metis prod.collapse)
  have differ: "requeue_after (15 * second) \<noteq> requeue_after (5 * minute)"
    "requeue_after (10 * second) \<noteq> requeue_after (5 * minute)"
    by (simp_all add: requeue_after_def second_def nanosecond_def minute_def)
  from api assms(2-6) run show ?thesis
  proof (cases rule: Tenant_Reconcile_active)
    case (complete sb' st)
    with assms(8) have "sb' = sb" by simp
    moreover have "tst_phase st = TenantPhaseReady" using complete(4) differ(1) by (metis (full_types))
    ultimately show ?thesis using run complete(2,3) by blast
  qed (use differ in simp_all)
qed

theorem tenant_converges_witness:
  "\<exists>w' st. run_state (Tenant_Reconcile env acme_key) (tenant_world acme) = ((requeue_after (5 * minute), None), w') \<and>
    mem_view w' (KTenant, acme_key) = Some (OTenant (acme\<lparr>tc_status := st\<rparr>)) \<and>
    tenant_status_ok acme sample_supabase st \<and> tst_phase st = TenantPhaseReady"
  by (rule tenant_converges [OF env_cooperative env_laws(2,3) acme_view(1) acme_active(1) acme_fin
        acme_not_suspended acme_view(2) acme_prereqs])

text \<open>
  C6: a pass over an active tenant whose objects are all as a pass leaves them writes nothing
  but the tenant's own object, whatever fails in it and whatever it returns: every other object
  of the store is what it was. The reads and writes may fail in any way; a patch that fails was
  applied or was not.
\<close>

theorem at_rest_stays:
  assumes "api_server e view admit" and "owner_laws e" and "patches_atomic e view admit"
    and "view w (KTenant, req) = Some (OTenant t)" and "om_deletion (tc_meta t) = None"
    and "view w (KSupabase, supabase_key t) = Some (OSupabase sb)"
    and "in_scope t sb c" and "at_rest admit (view w) c"
    and "run_state (Tenant_Reconcile e req) w = (r, w')" and "q \<noteq> (KTenant, req)"
  shows "view w' q = view w q"
  by (rule pass_at_rest [OF assms])

theorem at_rest_stays_witness:
  "mem_view (snd (run_state (Tenant_Reconcile deaf_env acme_key) ready_world)) (t_route_ref acme) =
   mem_view ready_world (t_route_ref acme)"
proof (rule ready_pass_settles [OF env_laws(1,2,3) settle_settled acme_view(1) acme_active(1) acme_fin ready_run])
  fix st sb c
  assume t: "mem_view ready_world (KTenant, acme_key) = Some (OTenant (acme\<lparr>tc_status := st\<rparr>))"
    and sb: "mem_view ready_world (KSupabase, supabase_key acme) = Some (OSupabase sb)"
    and rest: "in_scope (acme\<lparr>tc_status := st\<rparr>) sb c" "at_rest settle (mem_view ready_world) c"
  have "api_server deaf_env mem_view settle" "owner_laws deaf_env" "patches_atomic deaf_env mem_view settle"
    unfolding deaf_env_def by (rule mem_api_server mem_owner_laws mem_patches_atomic; simp)+
  from at_rest_stays [OF this t _ _ rest, of _ _ "t_route_ref acme"] sb acme_active(1)
  show ?thesis by (simp add: supabase_key_def t_route_ref_def prod_eq_iff)
qed

text \<open>
  C5: the pass after a Ready pass is idempotent. When a pass over a tenant ended in phase Ready
  (no error, next pass in five minutes), another pass over it, whatever fails in it, changes no
  object of the store but the tenant's own.
\<close>

theorem ready_pass_idempotent:
  assumes "api_server e view admit" and "owner_laws e" and "condition_laws e"
    and "settled_admission admit" and "patches_atomic e view admit"
    and "view w (KTenant, req) = Some (OTenant t)" and "om_deletion (tc_meta t) = None"
    and "contains_finalizer e (om_finalizers (tc_meta t)) tenantFinalizer"
    and "run_state (Tenant_Reconcile e req) w = ((requeue_after (5 * minute), None), w')"
    and "run_state (Tenant_Reconcile e req) w' = (r, w'')" and "q \<noteq> (KTenant, req)"
  shows "view w'' q = view w' q"
  by (rule ready_pass_rest [OF assms])

theorem ready_pass_idempotent_witness:
  "mem_view (snd (run_state (Tenant_Reconcile env acme_key) ready_world)) (t_local_ref acme KDeployment ''-auth'') =
   mem_view ready_world (t_local_ref acme KDeployment ''-auth'')"
proof -
  obtain r w'' where again: "run_state (Tenant_Reconcile env acme_key) ready_world = (r, w'')" by fastforce
  have "patches_atomic env mem_view settle" unfolding env_def by (rule mem_patches_atomic) simp
  from ready_pass_idempotent [OF env_laws(1,2,3) settle_settled this acme_view(1) acme_active(1) acme_fin
      ready_run again, of "t_local_ref acme KDeployment ''-auth''"] again
  show ?thesis by (simp add: t_local_ref_def)
qed

end
