(* ===== verification/GoMemory.thy ===== *)
theory GoMemory
  imports ApiTypes "HOL-Library.Monad_Syntax"
begin

text \<open>
  Memory as Go has it, as far as the generated deep copies (\<open>zz_generated.deepcopy.go\<close>) use it:
  structs whose pointer, slice and map fields are addresses, allocation, and what it means that a
  copy is deep. A struct with such fields is its layout here; what it stands for is the value of
  \<open>ApiTypes\<close>. Embedded structs are the struct itself.
\<close>

section \<open>Layouts\<close>

type_synonym addr = nat

text \<open>A pointer or a map, \<open>None\<close> when nil; a slice: the array and the length.\<close>

type_synonym ptr = "addr option"
type_synonym slice = "(addr \<times> nat) option"

record type_meta =
  tm_kind :: string
  tm_api_version :: string

record l_persistent_storage_spec =
  lps_size :: string
  lps_storage_class_name :: ptr

record l_backup_spec =
  lbk_schedule :: string
  lbk_destination_path :: string
  lbk_s3_credentials :: ptr

text \<open>The structs of other modules (\<open>ObjectMeta\<close>, \<open>ResourceRequirements\<close>) have layouts \<open>'x\<close>.\<close>

record 'x l_database_spec =
  ldb_instances :: int
  ldb_image_name :: string
  ldb_storage :: l_persistent_storage_spec
  ldb_backup :: ptr
  ldb_resources :: 'x

record l_gateway_spec =
  lgw_class_name :: string
  lgw_base_domain :: string
  lgw_tls :: ptr

record l_image_overrides =
  lim_imgproxy :: ptr
  lim_studio :: ptr
  lim_analytics :: ptr
  lim_vector :: ptr
  lim_supavisor :: ptr

record 'x l_service_spec =
  lse_enabled :: ptr
  lse_replicas :: ptr
  lse_resources :: 'x

record 'x l_supabase_spec =
  lsp_database :: "'x l_database_spec"
  lsp_gateway :: l_gateway_spec
  lsp_imgproxy :: "'x l_service_spec"
  lsp_studio :: "'x l_service_spec"
  lsp_analytics :: "'x l_service_spec"
  lsp_vector :: "'x l_service_spec"
  lsp_supavisor :: "'x l_service_spec"
  lsp_images :: l_image_overrides

record l_supabase_status =
  lst_phase :: string
  lst_conditions :: slice
  lst_database_ready :: bool
  lst_gateway_ready :: bool
  lst_tenant_count :: int
  lst_observed_generation :: int

record 'x l_supabase =
  lsb_type_meta :: type_meta
  lsb_meta :: 'x
  lsb_spec :: "'x l_supabase_spec"
  lsb_status :: l_supabase_status

record 'x l_list =
  lli_type_meta :: type_meta
  lli_meta :: 'x
  lli_items :: slice

record l_oauth_providers =
  lop_google :: ptr
  lop_github :: ptr
  lop_azure :: ptr

record l_tenant_auth_spec =
  lau_site_url :: string
  lau_additional_redirect_urls :: slice
  lau_disable_signup :: bool
  lau_email :: ptr
  lau_smtp :: ptr
  lau_external :: ptr

record l_tenant_rest_spec =
  lre_schemas :: slice
  lre_max_rows :: ptr

record l_object_bucket_spec =
  lob_storage_class_name :: string
  lob_additional_config :: ptr
  lob_bucket_prefix :: string

record l_tenant_storage_spec =
  lto_backend :: storage_backend
  lto_file_size_limit :: ptr
  lto_image_transformation :: bool
  lto_s3 :: ptr
  lto_object_bucket :: ptr

record l_tenant_functions_spec =
  lfn_verify_jwt :: bool
  lfn_source :: ptr

record 'x l_tenant_spec =
  ltn_id :: string
  ltn_supabase_ref :: string
  ltn_auth :: l_tenant_auth_spec
  ltn_rest :: l_tenant_rest_spec
  ltn_realtime :: "'x l_service_spec"
  ltn_storage :: l_tenant_storage_spec
  ltn_functions :: l_tenant_functions_spec
  ltn_suspended :: bool
  ltn_resources :: resource_preset

record l_tenant_status =
  lts_phase :: string
  lts_conditions :: slice
  lts_namespace :: string
  lts_endpoint :: string
  lts_components :: tenant_component_statuses
  lts_observed_generation :: int

record 'x l_tenant =
  ltc_type_meta :: type_meta
  ltc_meta :: 'x
  ltc_spec :: "'x l_tenant_spec"
  ltc_status :: l_tenant_status

section \<open>Memory\<close>

text \<open>
  What one allocation holds: a variable of a basic type, an array or a map; a struct without
  addresses in it; a struct with addresses. The seven structs that are a \<open>ServiceSpec\<close> differ by
  a tag.
\<close>

datatype prim =
    StringV (the_string: string)
  | BoolV (the_bool: bool)
  | Int32V (the_int32: int)
  | Int64V (the_int64: int)
  | StringsV (the_strings: "string list")
  | MapV (the_map: "string \<rightharpoonup> string")
  | ConditionsV (the_conditions: "condition list")

datatype flat_struct =
    ComponentStatusV (the_component_status: component_status)
  | EmailAuthSpecV (the_email: email_auth_spec)
  | FunctionSourceV (the_function_source: string)
  | GatewayTLSSpecV (the_gateway_tls: string)
  | OAuthProviderV (the_oauth_provider: oauth_provider)
  | S3ConfigV (the_s3_config: s3_config)
  | S3CredentialsSpecV (the_s3_credentials: string)
  | SMTPSpecV (the_smtp: smtp_spec)
  | TenantComponentStatusesV (the_component_statuses: tenant_component_statuses)

datatype plain_struct =
    BackupSpecV (the_backup: l_backup_spec)
  | GatewaySpecV (the_gateway: l_gateway_spec)
  | ImageOverridesV (the_images: l_image_overrides)
  | OAuthProvidersV (the_oauth_providers: l_oauth_providers)
  | ObjectBucketSpecV (the_object_bucket: l_object_bucket_spec)
  | PersistentStorageSpecV (the_persistent_storage: l_persistent_storage_spec)
  | SupabaseStatusV (the_supabase_status: l_supabase_status)
  | SupabaseTenantStatusV (the_tenant_status: l_tenant_status)
  | TenantAuthSpecV (the_tenant_auth: l_tenant_auth_spec)
  | TenantFunctionsSpecV (the_tenant_functions: l_tenant_functions_spec)
  | TenantRESTSpecV (the_tenant_rest: l_tenant_rest_spec)
  | TenantStorageSpecV (the_tenant_storage: l_tenant_storage_spec)

datatype service_type =
  ServiceSpec | AnalyticsSpec | ImgproxySpec | StudioSpec | SupavisorSpec | VectorSpec | TenantRealtimeSpec

datatype 'x cell =
    Zeroed
  | Prim prim
  | Flat flat_struct
  | Plain plain_struct
  | ForeignCell 'x
  | ServiceCell service_type "'x l_service_spec"
  | DatabaseSpecCell "'x l_database_spec"
  | SupabaseSpecCell "'x l_supabase_spec"
  | SupabaseCell "'x l_supabase"
  | SupabaseListCell "'x l_list"
  | SupabasesCell "'x l_supabase list"
  | SupabaseTenantSpecCell "'x l_tenant_spec"
  | SupabaseTenantCell "'x l_tenant"
  | SupabaseTenantListCell "'x l_list"
  | SupabaseTenantsCell "'x l_tenant list"

text \<open>
  The memory is the list of the allocations. Nothing that is reachable is ever freed, so that an
  address is new when it is past the end.
\<close>

type_synonym 'x mem = "'x cell list"

definition new :: "'x cell \<Rightarrow> ('x mem, addr) state" where
  "new c = State (\<lambda>m. (length m, m @ [c]))"

definition load :: "addr \<Rightarrow> ('x mem, 'x cell) state" where
  "load a = State (\<lambda>m. (if a < length m then m ! a else Zeroed, m))"

definition store :: "addr \<Rightarrow> 'x cell \<Rightarrow> ('x mem, unit) state" where
  "store a c = State (\<lambda>m. ((), m[a := c]))"

text \<open>
  The type of what a cell holds: how such a cell is made, and what it is if it has this type.
\<close>

type_synonym ('x, 'a) cell_type = "('a \<Rightarrow> 'x cell) \<times> ('x cell \<Rightarrow> 'a option)"

definition typed :: "('x, 'a) cell_type \<Rightarrow> bool" where
  "typed T \<longleftrightarrow> (\<forall>c x. snd T c = Some x \<longleftrightarrow> c = fst T x)"

definition prim_cell :: "('a \<Rightarrow> prim) \<Rightarrow> (prim \<Rightarrow> 'a) \<Rightarrow> ('x, 'a) cell_type" where
  "prim_cell mk sel =
     (\<lambda>x. Prim (mk x), \<lambda>c. case c of Prim p \<Rightarrow> if mk (sel p) = p then Some (sel p) else None | _ \<Rightarrow> None)"

definition flat_cell :: "('a \<Rightarrow> flat_struct) \<Rightarrow> (flat_struct \<Rightarrow> 'a) \<Rightarrow> ('x, 'a) cell_type" where
  "flat_cell mk sel =
     (\<lambda>x. Flat (mk x), \<lambda>c. case c of Flat p \<Rightarrow> if mk (sel p) = p then Some (sel p) else None | _ \<Rightarrow> None)"

definition plain_cell :: "('a \<Rightarrow> plain_struct) \<Rightarrow> (plain_struct \<Rightarrow> 'a) \<Rightarrow> ('x, 'a) cell_type" where
  "plain_cell mk sel =
     (\<lambda>x. Plain (mk x), \<lambda>c. case c of Plain p \<Rightarrow> if mk (sel p) = p then Some (sel p) else None | _ \<Rightarrow> None)"

end
