(* ===== verification/CopyLaws.thy ===== *)
theory CopyLaws
  imports GoMemory
begin

text \<open>
  What it means that a copy is deep, the ways the generated code copies (a field that has no
  address in it, a pointer, a slice, several fields), and that each of them is deep when its parts
  are. \<open>DeepCopy\<close> puts the structs of the API together from these.
\<close>

section \<open>Reading a value\<close>

text \<open>
  A view reads what a layout stands for, and at which addresses it is kept; \<open>None\<close> when an address
  is wild or the cell there has another type.
\<close>

type_synonym ('x, 'a, 'v) view = "'x mem \<Rightarrow> 'a \<Rightarrow> ('v \<times> addr set) option"

definition flat_view :: "('a \<Rightarrow> 'v) \<Rightarrow> ('x, 'a, 'v) view" where
  "flat_view f m x = Some (f x, {})"

definition ptr_view :: "('x, 'a) cell_type \<Rightarrow> ('x, 'a, 'v) view \<Rightarrow> ('x, ptr, 'v option) view" where
  "ptr_view T w m p =
     (case p of
        None \<Rightarrow> Some (None, {})
      | Some a \<Rightarrow>
          if a < length m
          then do { x \<leftarrow> snd T (m ! a); (v, A) \<leftarrow> w m x; Some (Some v, insert a A) }
          else None)"

fun views :: "('x, 'a, 'v) view \<Rightarrow> ('x, 'a list, 'v list) view" where
  "views w m [] = Some ([], {})"
| "views w m (x # xs) = do { (v, A) \<leftarrow> w m x; (vs, B) \<leftarrow> views w m xs; Some (v # vs, A \<union> B) }"

definition slice_view :: "('x, 'a list) cell_type \<Rightarrow> ('x, 'a, 'v) view \<Rightarrow> ('x, slice, 'v list) view" where
  "slice_view T w m s =
     (case s of
        None \<Rightarrow> Some ([], {})
      | Some (a, n) \<Rightarrow>
          if a < length m
          then do {
            xs \<leftarrow> snd T (m ! a);
            (vs, A) \<leftarrow> views w m (take n xs);
            if n \<le> length xs then Some (vs, insert a A) else None }
          else None)"

definition both_view :: "('x, 'a, 'v) view \<Rightarrow> ('x, 'b, 'w) view \<Rightarrow> ('x, 'a \<times> 'b, 'v \<times> 'w) view" where
  "both_view w1 w2 m z =
     (case z of (x, y) \<Rightarrow> do { (v, A) \<leftarrow> w1 m x; (u, B) \<leftarrow> w2 m y; Some ((v, u), A \<union> B) })"

section \<open>Copying\<close>

text \<open>
  \<open>if in.F != nil { *out = new(T); ... }\<close>, and \<open>DeepCopy\<close> itself: nil for nil, else a new cell that
  gets what \<open>into\<close> makes of the old one's content.
\<close>

definition ptr_copy :: "('x, 'a) cell_type \<Rightarrow> ('a \<Rightarrow> ('x mem, 'a) state) \<Rightarrow> ptr \<Rightarrow> ('x mem, ptr) state" where
  "ptr_copy T into p =
     (case p of
        None \<Rightarrow> ret None
      | Some a \<Rightarrow> do {
          b \<leftarrow> new Zeroed;
          c \<leftarrow> load a;
          case snd T c of
            None \<Rightarrow> ret (Some b)
          | Some x \<Rightarrow> do { y \<leftarrow> into x; store b (fst T y); ret (Some b) } })"

fun copy_elements :: "('a \<Rightarrow> ('x mem, 'a) state) \<Rightarrow> 'a list \<Rightarrow> ('x mem, 'a list) state" where
  "copy_elements into [] = ret []"
| "copy_elements into (x # xs) = do { y \<leftarrow> into x; ys \<leftarrow> copy_elements into xs; ret (y # ys) }"

text \<open>
  \<open>if in.F != nil { *out = make([]T, len(*in)); for i := range *in { ... } }\<close>, or \<open>copy\<close> for the
  loop: a new array that gets the copies of the elements.
\<close>

definition slice_copy :: "('x, 'a list) cell_type \<Rightarrow> ('a \<Rightarrow> ('x mem, 'a) state) \<Rightarrow> slice \<Rightarrow> ('x mem, slice) state" where
  "slice_copy T into s =
     (case s of
        None \<Rightarrow> ret None
      | Some (a, n) \<Rightarrow> do {
          b \<leftarrow> new Zeroed;
          c \<leftarrow> load a;
          case snd T c of
            None \<Rightarrow> ret (Some (b, n))
          | Some xs \<Rightarrow> do {
              ys \<leftarrow> copy_elements into (take n xs);
              store b (fst T ys);
              ret (Some (b, n)) } })"

text \<open>One field, then another.\<close>

definition both_copy :: "('a \<Rightarrow> ('x mem, 'a) state) \<Rightarrow> ('b \<Rightarrow> ('x mem, 'b) state) \<Rightarrow> 'a \<times> 'b \<Rightarrow> ('x mem, 'a \<times> 'b) state" where
  "both_copy i1 i2 z = (case z of (x, y) \<Rightarrow> do { x' \<leftarrow> i1 x; y' \<leftarrow> i2 y; ret (x', y') })"

lemma run_new [simp]: "run_state (new c) m = (length m, m @ [c])"
  by (simp add: new_def)

lemma run_load [simp]: "run_state (load a) m = (if a < length m then m ! a else Zeroed, m)"
  by (simp add: load_def)

lemma run_store [simp]: "run_state (store a c) m = ((), m[a := c])"
  by (simp add: store_def)

section \<open>Deep copies\<close>

text \<open>Two memories that hold the same at the addresses \<open>A\<close>.\<close>

definition agree :: "addr set \<Rightarrow> 'x mem \<Rightarrow> 'x mem \<Rightarrow> bool" where
  "agree A m m' \<longleftrightarrow> (\<forall>a\<in>A. a < length m' \<and> m' ! a = m ! a)"

lemma agree_Un [simp]: "agree (A \<union> B) m m' \<longleftrightarrow> agree A m m' \<and> agree B m m'"
  by (auto simp: agree_def)

lemma agree_insert [simp]: "agree (insert a A) m m' \<longleftrightarrow> (a < length m' \<and> m' ! a = m ! a) \<and> agree A m m'"
  by (auto simp: agree_def)

lemma agree_empty [simp]: "agree {} m m'"
  by (simp add: agree_def)

lemma agree_append: "A \<subseteq> {..<length m} \<Longrightarrow> agree A m (m @ e)"
  by (auto simp: agree_def nth_append)

lemma agree_trans: "agree A m n \<Longrightarrow> agree A n k \<Longrightarrow> agree A m k"
  by (simp add: agree_def)

text \<open>What a program does to the memory: it allocates, and writes to cells.\<close>

datatype 'x effect = Alloc "'x cell" | Write addr "'x cell"

primrec perform :: "'x effect \<Rightarrow> 'x mem \<Rightarrow> 'x mem" where
  "perform (Alloc c) m = m @ [c]"
| "perform (Write a c) m = m[a := c]"

primrec spares :: "addr set \<Rightarrow> 'x effect \<Rightarrow> bool" where
  "spares A (Alloc c) \<longleftrightarrow> True"
| "spares A (Write a c) \<longleftrightarrow> a \<notin> A"

lemma agree_perform:
  assumes "A \<subseteq> {..<length m}" "spares A e"
  shows "agree A m (perform e m)"
proof (cases e)
  case (Alloc c)
  with assms(1) show ?thesis by (simp add: agree_append)
next
  case (Write a c)
  have "m[a := c] ! b = m ! b" if "b \<in> A" for b
    using assms(2) that Write by (intro nth_list_update_neq) auto
  with assms(1) Write show ?thesis by (auto simp: agree_def)
qed

lemma agree_performs:
  assumes "A \<subseteq> {..<length m}" "list_all (spares A) es"
  shows "agree A m (fold perform es m)"
  using assms
proof (induction es arbitrary: m)
  case Nil
  then show ?case by (auto simp: agree_def)
next
  case (Cons e es)
  then have e: "agree A m (perform e m)" by (simp add: agree_perform)
  then have "A \<subseteq> {..<length (perform e m)}" by (auto simp: agree_def)
  with Cons have "agree A (perform e m) (fold perform es (perform e m))" by simp
  with e show ?case by (auto intro: agree_trans)
qed

text \<open>
  A reading is kept at allocated addresses and depends on nothing else, and a copy only adds
  cells, reads as the original does, and is kept at added cells only.
\<close>

locale deep_copy =
  fixes into :: "'a \<Rightarrow> ('x mem, 'a) state"
    and view :: "('x, 'a, 'v) view"
  assumes inside: "view m x = Some (v, A) \<Longrightarrow> A \<subseteq> {..<length m}"
    and local: "view m x = Some (v, A) \<Longrightarrow> agree A m m' \<Longrightarrow> view m' x = Some (v, A)"
    and copies: "view m x = Some (v, A) \<Longrightarrow> run_state (into x) m = (y, m') \<Longrightarrow>
      \<exists>e B. m' = m @ e \<and> view m' y = Some (v, B) \<and> B \<inter> {..<length m} = {}"
begin

lemma extends: "view m x = Some (v, A) \<Longrightarrow> view (m @ e) x = Some (v, A)"
  by (rule local) (auto intro: agree_append dest: inside)

lemma copy_obtain:
  assumes "view m x = Some (v, A)"
  obtains y e B where "run_state (into x) m = (y, m @ e)" "view (m @ e) y = Some (v, B)"
    "B \<inter> {..<length m} = {}" "B \<subseteq> {..<length (m @ e)}"
proof -
  obtain y m' where run: "run_state (into x) m = (y, m')" by fastforce
  from copies [OF assms run] obtain e B
    where "m' = m @ e" "view m' y = Some (v, B)" "B \<inter> {..<length m} = {}" by blast
  with run that inside show ?thesis by blast
qed

text \<open>What is written to the cells of the one is not seen through the other.\<close>

lemma independent:
  assumes "view m x = Some (v, A)" "run_state (into x) m = (y, m')"
  shows "\<exists>B. view m' x = Some (v, A) \<and> view m' y = Some (v, B) \<and> A \<inter> B = {} \<and>
    (\<forall>es. list_all (spares B) es \<longrightarrow> view (fold perform es m') y = Some (v, B)) \<and>
    (\<forall>es. list_all (spares A) es \<longrightarrow> view (fold perform es m') x = Some (v, A))"
proof -
  from copies [OF assms] obtain e B where m': "m' = m @ e" and y: "view m' y = Some (v, B)"
    and B: "B \<inter> {..<length m} = {}" by blast
  have x: "view m' x = Some (v, A)" unfolding m' by (rule extends [OF assms(1)])
  have "A \<inter> B = {}" using B inside [OF assms(1)] by blast
  with x y show ?thesis
    by (auto intro!: exI [of _ B] local [OF x] local [OF y] agree_performs inside [OF x] inside [OF y])
qed

end

section \<open>The ways of copying are deep\<close>

lemma typed_iff: "typed T \<Longrightarrow> snd T c = Some x \<longleftrightarrow> c = fst T x"
  by (simp add: typed_def)

lemma deep_copy_flat: "deep_copy ret (flat_view f)"
  by unfold_locales (auto simp: flat_view_def)

lemma ptr_view_None [simp]: "ptr_view T w m None = Some (None, {})"
  by (simp add: ptr_view_def)

lemma ptr_view_Some:
  "ptr_view T w m (Some a) = Some (v, A) \<longleftrightarrow>
     (\<exists>x u C. a < length m \<and> snd T (m ! a) = Some x \<and> w m x = Some (u, C) \<and> v = Some u \<and> A = insert a C)"
  by (auto simp: ptr_view_def Option.bind_eq_Some_conv)

text \<open>The cell that was allocated before the content was copied gets its content after it.\<close>

lemma filled_cell:
  assumes "deep_copy into w" "w ((m @ [Zeroed]) @ e) y = Some (u, B)"
    "B \<inter> {..<length (m @ [Zeroed])} = {}" "B \<subseteq> {..<length ((m @ [Zeroed]) @ e)}"
  shows "w (m @ c # e) y = Some (u, B)"
proof (rule deep_copy.local [OF assms(1,2)])
  show "agree B ((m @ [Zeroed]) @ e) (m @ c # e)"
    unfolding agree_def
  proof
    fix b
    assume b: "b \<in> B"
    with assms(3) have "length m < b" by (auto simp: not_less)
    with b assms(4) show "b < length (m @ c # e) \<and> (m @ c # e) ! b = ((m @ [Zeroed]) @ e) ! b"
      by (auto simp: nth_append nth_Cons')
  qed
qed

lemma deep_copy_ptr:
  fixes T :: "('x, 'a) cell_type" and w :: "('x, 'a, 'v) view"
  assumes T: "typed T" and d: "deep_copy into w"
  shows "deep_copy (ptr_copy T into) (ptr_view T w)"
proof
  fix m :: "'x mem" and p v A
  assume v: "ptr_view T w m p = Some (v, A)"
  show "A \<subseteq> {..<length m}"
    using v deep_copy.inside [OF d] by (cases p) (fastforce simp: ptr_view_Some)+
  show "ptr_view T w m' p = Some (v, A)" if "agree A m m'" for m'
    using v that by (cases p) (auto simp: ptr_view_Some dest: deep_copy.local [OF d])
  show "\<exists>e B. m' = m @ e \<and> ptr_view T w m' q = Some (v, B) \<and> B \<inter> {..<length m} = {}"
    if run: "run_state (ptr_copy T into p) m = (q, m')" for q m'
  proof (cases p)
    case None
    with v run show ?thesis by (auto simp: ptr_copy_def)
  next
    case (Some a)
    with v T obtain x u C where a: "a < length m" "m ! a = fst T x" and x: "w m x = Some (u, C)"
      and u: "v = Some u" by (auto simp: ptr_view_Some typed_iff)
    obtain y e B where c: "run_state (into x) (m @ [Zeroed]) = (y, (m @ [Zeroed]) @ e)"
        "w ((m @ [Zeroed]) @ e) y = Some (u, B)" "B \<inter> {..<length (m @ [Zeroed])} = {}"
        "B \<subseteq> {..<length ((m @ [Zeroed]) @ e)}"
      by (rule deep_copy.copy_obtain [OF d deep_copy.extends [OF d x]])
    have x': "snd T (fst T z) = Some z" for z using T by (simp add: typed_iff)
    have q: "q = Some (length m)" "m' = m @ fst T y # e"
      using run c(1) a x' by (auto simp: Some ptr_copy_def nth_append list_update_append)
    moreover have "ptr_view T w m' q = Some (v, insert (length m) B)"
      unfolding q ptr_view_Some using filled_cell [OF d c(2-4)] x' u by auto
    ultimately show ?thesis using c(3) by auto
  qed
qed


lemma views_Cons:
  "views w m (x # xs) = Some (vs, A) \<longleftrightarrow>
     (\<exists>v B us C. w m x = Some (v, B) \<and> views w m xs = Some (us, C) \<and> vs = v # us \<and> A = B \<union> C)"
  by (auto simp: Option.bind_eq_Some_conv)

declare views.simps(2) [simp del]

lemma views_length: "views w m xs = Some (vs, A) \<Longrightarrow> length vs = length xs"
  by (induction xs arbitrary: vs A) (auto simp: views_Cons)

lemma views_inside:
  assumes d: "deep_copy into w" and "views w m xs = Some (vs, A)"
  shows "A \<subseteq> {..<length m}"
  using assms(2)
proof (induction xs arbitrary: vs A)
  case (Cons x xs)
  then show ?case using deep_copy.inside [OF d] by (fastforce simp: views_Cons)
qed simp

lemma views_local:
  assumes d: "deep_copy into w" and "views w m xs = Some (vs, A)" "agree A m m'"
  shows "views w m' xs = Some (vs, A)"
  using assms(2,3)
  by (induction xs arbitrary: vs A) (auto simp: views_Cons dest: deep_copy.local [OF d])

lemma deep_copy_elements:
  fixes w :: "('x, 'a, 'v) view"
  assumes d: "deep_copy into w"
  shows "deep_copy (copy_elements into) (views w)"
proof
  fix m :: "'x mem" and xs vs A
  show "A \<subseteq> {..<length m}" if "views w m xs = Some (vs, A)"
    using that by (rule views_inside [OF d])
  show "views w m' xs = Some (vs, A)" if "views w m xs = Some (vs, A)" "agree A m m'" for m'
    using that by (rule views_local [OF d])
  show "\<exists>e B. m' = m @ e \<and> views w m' ys = Some (vs, B) \<and> B \<inter> {..<length m} = {}"
    if "views w m xs = Some (vs, A)" "run_state (copy_elements into xs) m = (ys, m')" for ys m'
    using that
  proof (induction xs arbitrary: m ys vs A)
    case (Cons x xs)
    from Cons.prems(1) obtain v B us C where x: "w m x = Some (v, B)" and xs: "views w m xs = Some (us, C)"
      and vs: "vs = v # us" by (auto simp: views_Cons)
    obtain y e D where y: "run_state (into x) m = (y, m @ e)" "w (m @ e) y = Some (v, D)"
      "D \<inter> {..<length m} = {}" by (rule deep_copy.copy_obtain [OF d x])
    obtain zs where zs: "run_state (copy_elements into xs) (m @ e) = (zs, m')" "ys = y # zs"
      using Cons.prems(2) y(1) by (auto split: prod.splits)
    have "views w (m @ e) xs = Some (us, C)"
      by (rule views_local [OF d xs agree_append [OF views_inside [OF d xs]]])
    from Cons.IH [OF this zs(1)] obtain e' E where z: "m' = (m @ e) @ e'" "views w m' zs = Some (us, E)"
      "E \<inter> {..<length (m @ e)} = {}" by blast
    have "w m' y = Some (v, D)" unfolding z(1) by (rule deep_copy.extends [OF d y(2)])
    with z(2) have "views w m' ys = Some (vs, D \<union> E)" by (auto simp: views_Cons zs(2) vs)
    moreover have "(D \<union> E) \<inter> {..<length m} = {}" using y(3) z(3) by (auto simp: not_less)
    ultimately show ?case using z(1) by auto
  qed auto
qed

lemma slice_view_None [simp]: "slice_view T w m None = Some ([], {})"
  by (simp add: slice_view_def)

lemma slice_view_Some:
  "slice_view T w m (Some (a, n)) = Some (vs, A) \<longleftrightarrow>
     (\<exists>xs C. a < length m \<and> snd T (m ! a) = Some xs \<and> views w m (take n xs) = Some (vs, C) \<and>
        n \<le> length xs \<and> A = insert a C)"
  by (auto simp: slice_view_def Option.bind_eq_Some_conv)

lemma deep_copy_slice:
  fixes T :: "('x, 'a list) cell_type" and w :: "('x, 'a, 'v) view"
  assumes T: "typed T" and d: "deep_copy into w"
  shows "deep_copy (slice_copy T into) (slice_view T w)"
proof
  note ds = deep_copy_elements [OF d]
  fix m :: "'x mem" and s vs A
  assume v: "slice_view T w m s = Some (vs, A)"
  show "A \<subseteq> {..<length m}"
    using v views_inside [OF d] by (cases s) (fastforce simp: slice_view_Some)+
  show "slice_view T w m' s = Some (vs, A)" if "agree A m m'" for m'
    using v that views_local [OF d, of m _ _ _ m'] by (cases s) (auto simp: slice_view_Some)
  show "\<exists>e B. m' = m @ e \<and> slice_view T w m' q = Some (vs, B) \<and> B \<inter> {..<length m} = {}"
    if run: "run_state (slice_copy T into s) m = (q, m')" for q m'
  proof (cases s)
    case None
    with v run show ?thesis by (auto simp: slice_copy_def)
  next
    case (Some an)
    obtain a n where an: "an = (a, n)" by fastforce
    with Some v T obtain xs C where a: "a < length m" "m ! a = fst T xs" "n \<le> length xs"
      and xs: "views w m (take n xs) = Some (vs, C)" by (auto simp: slice_view_Some typed_iff)
    obtain ys e B where c: "run_state (copy_elements into (take n xs)) (m @ [Zeroed]) = (ys, (m @ [Zeroed]) @ e)"
        "views w ((m @ [Zeroed]) @ e) ys = Some (vs, B)" "B \<inter> {..<length (m @ [Zeroed])} = {}"
        "B \<subseteq> {..<length ((m @ [Zeroed]) @ e)}"
      by (rule deep_copy.copy_obtain [OF ds deep_copy.extends [OF ds xs]])
    have x': "snd T (fst T z) = Some z" for z using T by (simp add: typed_iff)
    have n: "length ys = n"
      using views_length [OF c(2)] views_length [OF xs] a(3) by simp
    have q: "q = Some (length m, n)" "m' = m @ fst T ys # e"
      using run c(1) a x' by (auto simp: Some an slice_copy_def nth_append list_update_append)
    moreover have "slice_view T w m' q = Some (vs, insert (length m) B)"
      unfolding q slice_view_Some using filled_cell [OF ds c(2-4)] x' n by auto
    ultimately show ?thesis using c(3) by auto
  qed
qed

lemma both_view_Some:
  "both_view w1 w2 m (x, y) = Some (z, A) \<longleftrightarrow>
     (\<exists>v u B C. w1 m x = Some (v, B) \<and> w2 m y = Some (u, C) \<and> z = (v, u) \<and> A = B \<union> C)"
  by (auto simp: both_view_def Option.bind_eq_Some_conv)

lemma deep_copy_both:
  fixes w1 :: "('x, 'a, 'v) view" and w2 :: "('x, 'b, 'w) view"
  assumes d1: "deep_copy i1 w1" and d2: "deep_copy i2 w2"
  shows "deep_copy (both_copy i1 i2) (both_view w1 w2)"
proof
  fix m :: "'x mem" and z v A
  assume v: "both_view w1 w2 m z = Some (v, A)"
  obtain x y where z: "z = (x, y)" by fastforce
  with v obtain v1 v2 A1 A2 where x: "w1 m x = Some (v1, A1)" and y: "w2 m y = Some (v2, A2)"
    and A: "v = (v1, v2)" "A = A1 \<union> A2" by (auto simp: both_view_Some)
  show "A \<subseteq> {..<length m}"
    using deep_copy.inside [OF d1 x] deep_copy.inside [OF d2 y] A by simp
  show "both_view w1 w2 m' z = Some (v, A)" if "agree A m m'" for m'
    using that deep_copy.local [OF d1 x] deep_copy.local [OF d2 y] by (auto simp: A z both_view_Some)
  show "\<exists>e B. m' = m @ e \<and> both_view w1 w2 m' q = Some (v, B) \<and> B \<inter> {..<length m} = {}"
    if run: "run_state (both_copy i1 i2 z) m = (q, m')" for q m'
  proof -
    obtain x' e B where c: "run_state (i1 x) m = (x', m @ e)" "w1 (m @ e) x' = Some (v1, B)"
      "B \<inter> {..<length m} = {}" by (rule deep_copy.copy_obtain [OF d1 x])
    obtain y' e' C where k: "run_state (i2 y) (m @ e) = (y', (m @ e) @ e')"
      "w2 ((m @ e) @ e') y' = Some (v2, C)" "C \<inter> {..<length (m @ e)} = {}"
      by (rule deep_copy.copy_obtain [OF d2 deep_copy.extends [OF d2 y]])
    have q: "q = (x', y')" "m' = m @ e @ e'" using run c(1) k(1) by (auto simp: z both_copy_def)
    have "w1 m' x' = Some (v1, B)" using deep_copy.extends [OF d1 c(2), of e'] by (simp add: q)
    with k(2) have "both_view w1 w2 m' q = Some (v, B \<union> C)" by (auto simp: q both_view_Some A)
    moreover have "(B \<union> C) \<inter> {..<length m} = {}" using c(3) k(3) by (auto simp: not_less)
    ultimately show ?thesis by (auto simp: q(2))
  qed
qed

text \<open>
  A struct: \<open>g\<close> are its fields with addresses, \<open>h\<close> is what it stands for, and \<open>p\<close> puts the copies
  of the fields into it.
\<close>

definition struct_view :: "('x, 'b, 'u) view \<Rightarrow> ('a \<Rightarrow> 'b) \<Rightarrow> ('u \<Rightarrow> 'a \<Rightarrow> 'v) \<Rightarrow> ('x, 'a, 'v) view" where
  "struct_view w g h m x = do { (u, A) \<leftarrow> w m (g x); Some (h u x, A) }"

lemma deep_copy_struct:
  fixes w :: "('x, 'b, 'u) view" and into' :: "'a \<Rightarrow> ('x mem, 'a) state"
  assumes d: "deep_copy into w"
    and into: "\<And>x. into' x = do { y \<leftarrow> into (g x); ret (p y x) }"
    and put: "\<And>y x. g (p y x) = y" "\<And>u y x. h u (p y x) = h u x"
  shows "deep_copy into' (struct_view w g h)"
proof
  let ?w = "struct_view w g h"
  have w': "?w m x = Some (v, A) \<longleftrightarrow> (\<exists>u. w m (g x) = Some (u, A) \<and> v = h u x)" for m x v A
    by (auto simp: struct_view_def Option.bind_eq_Some_conv)
  fix m :: "'x mem" and x v A
  assume "?w m x = Some (v, A)"
  then obtain u where u: "w m (g x) = Some (u, A)" and v: "v = h u x" by (auto simp: w')
  show "A \<subseteq> {..<length m}" by (rule deep_copy.inside [OF d u])
  show "?w m' x = Some (v, A)" if "agree A m m'" for m'
    using deep_copy.local [OF d u that] by (auto simp: w' v)
  show "\<exists>e B. m' = m @ e \<and> ?w m' y = Some (v, B) \<and> B \<inter> {..<length m} = {}"
    if run: "run_state (into' x) m = (y, m')" for y m'
  proof -
    from run obtain z where "run_state (into (g x)) m = (z, m')" and y: "y = p z x"
      by (auto simp: into split: prod.splits)
    from deep_copy.copies [OF d u this(1)] show ?thesis by (auto simp: w' y v put)
  qed
qed

text \<open>The rules that find the copy that belongs to a view.\<close>

named_theorems deep_copy_intros

lemma typed_prim: "(\<And>x. sel (mk x) = x) \<Longrightarrow> typed (prim_cell mk sel)"
  by (auto simp: typed_def prim_cell_def split: cell.splits)

lemma typed_flat: "(\<And>x. sel (mk x) = x) \<Longrightarrow> typed (flat_cell mk sel)"
  by (auto simp: typed_def flat_cell_def split: cell.splits)

lemma typed_plain: "(\<And>x. sel (mk x) = x) \<Longrightarrow> typed (plain_cell mk sel)"
  by (auto simp: typed_def plain_cell_def split: cell.splits)

lemmas [deep_copy_intros] = deep_copy_flat deep_copy_ptr deep_copy_slice deep_copy_both

end
