(* ===== verification/DeepCopy.thy ===== *)
theory DeepCopy
  imports CopyLaws Rbac
begin

text \<open>
  \<open>api/v1alpha1/zz_generated.deepcopy.go\<close>, function by function: \<open>T_DeepCopyInto\<close> returns what the
  code leaves in \<open>*out\<close> (it starts as \<open>*in\<close>, and the fields that hold addresses are replaced),
  \<open>T_DeepCopy\<close> allocates the \<open>out\<close>, and \<open>T_DeepCopyObject\<close> wraps it into the \<open>runtime.Object\<close>
  interface. \<open>T_view\<close> reads what a \<open>T\<close> stands for, and every \<open>T_DeepCopyInto\<close> is a \<open>deep_copy\<close> of it.
  The last part is what the package registers, and that the copies are independent.
\<close>

section \<open>The structs of other modules\<close>

text \<open>
  \<open>ObjectMeta\<close>, \<open>ListMeta\<close>, \<open>ResourceRequirements\<close> and \<open>Condition\<close> come with deep copies of their
  own, which are documented to be deep; their layouts (of type \<open>'x\<close>) and code are parameters.
\<close>

record list_meta =
  lm_resource_version :: string
  lm_continue :: string
  lm_remaining_item_count :: "int option"

record 'x foreign =
  meta_into :: "'x \<Rightarrow> ('x mem, 'x) state"
  meta_view :: "('x, 'x, object_meta) view"
  list_meta_into :: "'x \<Rightarrow> ('x mem, 'x) state"
  list_meta_view :: "('x, 'x, list_meta) view"
  resources_into :: "'x \<Rightarrow> ('x mem, 'x) state"
  resources_view :: "('x, 'x, resource_requirements) view"
  condition_into :: "condition \<Rightarrow> ('x mem, condition) state"

definition condition_view :: "('x, condition, condition) view" where
  "condition_view = flat_view id"

definition foreign_laws :: "'x foreign \<Rightarrow> bool" where
  "foreign_laws X \<longleftrightarrow>
     deep_copy (meta_into X) (meta_view X) \<and>
     deep_copy (list_meta_into X) (list_meta_view X) \<and>
     deep_copy (resources_into X) (resources_view X) \<and>
     deep_copy (condition_into X) condition_view"

lemma foreign_intros [deep_copy_intros]:
  assumes "foreign_laws X"
  shows "deep_copy (meta_into X) (meta_view X)"
    and "deep_copy (list_meta_into X) (list_meta_view X)"
    and "deep_copy (resources_into X) (resources_view X)"
    and "deep_copy (condition_into X) condition_view"
  using assms by (simp_all add: foreign_laws_def)

section \<open>Cells\<close>

definition string_cell :: "('x, string) cell_type" where
  "string_cell = prim_cell StringV the_string"

definition bool_cell :: "('x, bool) cell_type" where
  "bool_cell = prim_cell BoolV the_bool"

definition int32_cell :: "('x, int) cell_type" where
  "int32_cell = prim_cell Int32V the_int32"

definition int64_cell :: "('x, int) cell_type" where
  "int64_cell = prim_cell Int64V the_int64"

definition strings_cell :: "('x, string list) cell_type" where
  "strings_cell = prim_cell StringsV the_strings"

definition map_cell :: "('x, string \<rightharpoonup> string) cell_type" where
  "map_cell = prim_cell MapV the_map"

definition conditions_cell :: "('x, condition list) cell_type" where
  "conditions_cell = prim_cell ConditionsV the_conditions"

definition component_status_cell :: "('x, component_status) cell_type" where
  "component_status_cell = flat_cell ComponentStatusV the_component_status"

definition email_cell :: "('x, email_auth_spec) cell_type" where
  "email_cell = flat_cell EmailAuthSpecV the_email"

definition function_source_cell :: "('x, string) cell_type" where
  "function_source_cell = flat_cell FunctionSourceV the_function_source"

definition gateway_tls_cell :: "('x, string) cell_type" where
  "gateway_tls_cell = flat_cell GatewayTLSSpecV the_gateway_tls"

definition oauth_provider_cell :: "('x, oauth_provider) cell_type" where
  "oauth_provider_cell = flat_cell OAuthProviderV the_oauth_provider"

definition s3_config_cell :: "('x, s3_config) cell_type" where
  "s3_config_cell = flat_cell S3ConfigV the_s3_config"

definition s3_credentials_cell :: "('x, string) cell_type" where
  "s3_credentials_cell = flat_cell S3CredentialsSpecV the_s3_credentials"

definition smtp_cell :: "('x, smtp_spec) cell_type" where
  "smtp_cell = flat_cell SMTPSpecV the_smtp"

definition component_statuses_cell :: "('x, tenant_component_statuses) cell_type" where
  "component_statuses_cell = flat_cell TenantComponentStatusesV the_component_statuses"

definition backup_cell :: "('x, l_backup_spec) cell_type" where
  "backup_cell = plain_cell BackupSpecV the_backup"

definition gateway_cell :: "('x, l_gateway_spec) cell_type" where
  "gateway_cell = plain_cell GatewaySpecV the_gateway"

definition images_cell :: "('x, l_image_overrides) cell_type" where
  "images_cell = plain_cell ImageOverridesV the_images"

definition oauth_providers_cell :: "('x, l_oauth_providers) cell_type" where
  "oauth_providers_cell = plain_cell OAuthProvidersV the_oauth_providers"

definition object_bucket_cell :: "('x, l_object_bucket_spec) cell_type" where
  "object_bucket_cell = plain_cell ObjectBucketSpecV the_object_bucket"

definition persistent_storage_cell :: "('x, l_persistent_storage_spec) cell_type" where
  "persistent_storage_cell = plain_cell PersistentStorageSpecV the_persistent_storage"

definition supabase_status_cell :: "('x, l_supabase_status) cell_type" where
  "supabase_status_cell = plain_cell SupabaseStatusV the_supabase_status"

definition tenant_status_cell :: "('x, l_tenant_status) cell_type" where
  "tenant_status_cell = plain_cell SupabaseTenantStatusV the_tenant_status"

definition tenant_auth_cell :: "('x, l_tenant_auth_spec) cell_type" where
  "tenant_auth_cell = plain_cell TenantAuthSpecV the_tenant_auth"

definition tenant_functions_cell :: "('x, l_tenant_functions_spec) cell_type" where
  "tenant_functions_cell = plain_cell TenantFunctionsSpecV the_tenant_functions"

definition tenant_rest_cell :: "('x, l_tenant_rest_spec) cell_type" where
  "tenant_rest_cell = plain_cell TenantRESTSpecV the_tenant_rest"

definition tenant_storage_cell :: "('x, l_tenant_storage_spec) cell_type" where
  "tenant_storage_cell = plain_cell TenantStorageSpecV the_tenant_storage"

definition service_cell :: "service_type \<Rightarrow> ('x, 'x l_service_spec) cell_type" where
  "service_cell t = (ServiceCell t, \<lambda>c. case c of ServiceCell t' s \<Rightarrow> if t' = t then Some s else None | _ \<Rightarrow> None)"

definition database_spec_cell :: "('x, 'x l_database_spec) cell_type" where
  "database_spec_cell = (DatabaseSpecCell, \<lambda>c. case c of DatabaseSpecCell s \<Rightarrow> Some s | _ \<Rightarrow> None)"

definition supabase_spec_cell :: "('x, 'x l_supabase_spec) cell_type" where
  "supabase_spec_cell = (SupabaseSpecCell, \<lambda>c. case c of SupabaseSpecCell s \<Rightarrow> Some s | _ \<Rightarrow> None)"

definition supabase_cell :: "('x, 'x l_supabase) cell_type" where
  "supabase_cell = (SupabaseCell, \<lambda>c. case c of SupabaseCell s \<Rightarrow> Some s | _ \<Rightarrow> None)"

definition supabase_list_cell :: "('x, 'x l_list) cell_type" where
  "supabase_list_cell = (SupabaseListCell, \<lambda>c. case c of SupabaseListCell s \<Rightarrow> Some s | _ \<Rightarrow> None)"

definition supabases_cell :: "('x, 'x l_supabase list) cell_type" where
  "supabases_cell = (SupabasesCell, \<lambda>c. case c of SupabasesCell s \<Rightarrow> Some s | _ \<Rightarrow> None)"

definition tenant_spec_cell :: "('x, 'x l_tenant_spec) cell_type" where
  "tenant_spec_cell = (SupabaseTenantSpecCell, \<lambda>c. case c of SupabaseTenantSpecCell s \<Rightarrow> Some s | _ \<Rightarrow> None)"

definition tenant_cell :: "('x, 'x l_tenant) cell_type" where
  "tenant_cell = (SupabaseTenantCell, \<lambda>c. case c of SupabaseTenantCell s \<Rightarrow> Some s | _ \<Rightarrow> None)"

definition tenant_list_cell :: "('x, 'x l_list) cell_type" where
  "tenant_list_cell = (SupabaseTenantListCell, \<lambda>c. case c of SupabaseTenantListCell s \<Rightarrow> Some s | _ \<Rightarrow> None)"

definition tenants_cell :: "('x, 'x l_tenant list) cell_type" where
  "tenants_cell = (SupabaseTenantsCell, \<lambda>c. case c of SupabaseTenantsCell s \<Rightarrow> Some s | _ \<Rightarrow> None)"

lemma typed_prim_cells [deep_copy_intros]:
  "typed string_cell"
  "typed bool_cell"
  "typed int32_cell"
  "typed int64_cell"
  "typed strings_cell"
  "typed map_cell"
  "typed conditions_cell"
  by (simp_all add: typed_prim string_cell_def bool_cell_def int32_cell_def int64_cell_def
        strings_cell_def map_cell_def conditions_cell_def)

lemma typed_flat_cells [deep_copy_intros]:
  "typed component_status_cell"
  "typed email_cell"
  "typed function_source_cell"
  "typed gateway_tls_cell"
  "typed oauth_provider_cell"
  "typed s3_config_cell"
  "typed s3_credentials_cell"
  "typed smtp_cell"
  "typed component_statuses_cell"
  by (simp_all add: typed_flat component_status_cell_def email_cell_def function_source_cell_def
        gateway_tls_cell_def oauth_provider_cell_def s3_config_cell_def s3_credentials_cell_def smtp_cell_def component_statuses_cell_def)

lemma typed_plain_cells [deep_copy_intros]:
  "typed backup_cell"
  "typed gateway_cell"
  "typed images_cell"
  "typed oauth_providers_cell"
  "typed object_bucket_cell"
  "typed persistent_storage_cell"
  "typed supabase_status_cell"
  "typed tenant_status_cell"
  "typed tenant_auth_cell"
  "typed tenant_functions_cell"
  "typed tenant_rest_cell"
  "typed tenant_storage_cell"
  by (simp_all add: typed_plain backup_cell_def gateway_cell_def images_cell_def
        oauth_providers_cell_def object_bucket_cell_def persistent_storage_cell_def supabase_status_cell_def tenant_status_cell_def tenant_auth_cell_def tenant_functions_cell_def tenant_rest_cell_def tenant_storage_cell_def)

lemma typed_struct_cells [deep_copy_intros]:
  "typed (service_cell t)"
  "typed database_spec_cell"
  "typed supabase_spec_cell"
  "typed supabase_cell"
  "typed supabase_list_cell"
  "typed supabases_cell"
  "typed tenant_spec_cell"
  "typed tenant_cell"
  "typed tenant_list_cell"
  "typed tenants_cell"
  by (auto simp: typed_def service_cell_def database_spec_cell_def supabase_spec_cell_def
        supabase_cell_def supabase_list_cell_def supabases_cell_def tenant_spec_cell_def tenant_cell_def tenant_list_cell_def tenants_cell_def split: cell.splits)

section \<open>Structs without addresses\<close>

text \<open>\<open>*out = *in\<close>, and nothing else. A struct of one string is the string.\<close>

definition ComponentStatus_DeepCopyInto :: "component_status \<Rightarrow> ('x mem, component_status) state" where
  "ComponentStatus_DeepCopyInto i = ret i"

definition ComponentStatus_DeepCopy :: "ptr \<Rightarrow> ('x mem, ptr) state" where
  "ComponentStatus_DeepCopy = ptr_copy component_status_cell ComponentStatus_DeepCopyInto"

definition EmailAuthSpec_DeepCopyInto :: "email_auth_spec \<Rightarrow> ('x mem, email_auth_spec) state" where
  "EmailAuthSpec_DeepCopyInto i = ret i"

definition EmailAuthSpec_DeepCopy :: "ptr \<Rightarrow> ('x mem, ptr) state" where
  "EmailAuthSpec_DeepCopy = ptr_copy email_cell EmailAuthSpec_DeepCopyInto"

definition FunctionSource_DeepCopyInto :: "string \<Rightarrow> ('x mem, string) state" where
  "FunctionSource_DeepCopyInto i = ret i"

definition FunctionSource_DeepCopy :: "ptr \<Rightarrow> ('x mem, ptr) state" where
  "FunctionSource_DeepCopy = ptr_copy function_source_cell FunctionSource_DeepCopyInto"

definition GatewayTLSSpec_DeepCopyInto :: "string \<Rightarrow> ('x mem, string) state" where
  "GatewayTLSSpec_DeepCopyInto i = ret i"

definition GatewayTLSSpec_DeepCopy :: "ptr \<Rightarrow> ('x mem, ptr) state" where
  "GatewayTLSSpec_DeepCopy = ptr_copy gateway_tls_cell GatewayTLSSpec_DeepCopyInto"

definition OAuthProvider_DeepCopyInto :: "oauth_provider \<Rightarrow> ('x mem, oauth_provider) state" where
  "OAuthProvider_DeepCopyInto i = ret i"

definition OAuthProvider_DeepCopy :: "ptr \<Rightarrow> ('x mem, ptr) state" where
  "OAuthProvider_DeepCopy = ptr_copy oauth_provider_cell OAuthProvider_DeepCopyInto"

definition S3Config_DeepCopyInto :: "s3_config \<Rightarrow> ('x mem, s3_config) state" where
  "S3Config_DeepCopyInto i = ret i"

definition S3Config_DeepCopy :: "ptr \<Rightarrow> ('x mem, ptr) state" where
  "S3Config_DeepCopy = ptr_copy s3_config_cell S3Config_DeepCopyInto"

definition S3CredentialsSpec_DeepCopyInto :: "string \<Rightarrow> ('x mem, string) state" where
  "S3CredentialsSpec_DeepCopyInto i = ret i"

definition S3CredentialsSpec_DeepCopy :: "ptr \<Rightarrow> ('x mem, ptr) state" where
  "S3CredentialsSpec_DeepCopy = ptr_copy s3_credentials_cell S3CredentialsSpec_DeepCopyInto"

definition SMTPSpec_DeepCopyInto :: "smtp_spec \<Rightarrow> ('x mem, smtp_spec) state" where
  "SMTPSpec_DeepCopyInto i = ret i"

definition SMTPSpec_DeepCopy :: "ptr \<Rightarrow> ('x mem, ptr) state" where
  "SMTPSpec_DeepCopy = ptr_copy smtp_cell SMTPSpec_DeepCopyInto"

text \<open>The assignments of the fields after \<open>*out = *in\<close> change nothing.\<close>

definition TenantComponentStatuses_DeepCopyInto ::
  "tenant_component_statuses \<Rightarrow> ('x mem, tenant_component_statuses) state" where
  "TenantComponentStatuses_DeepCopyInto i =
     ret (i\<lparr>tcs_database := tcs_database i, tcs_auth := tcs_auth i, tcs_rest := tcs_rest i,
       tcs_realtime := tcs_realtime i, tcs_storage := tcs_storage i, tcs_functions := tcs_functions i,
       tcs_routing := tcs_routing i\<rparr>)"

definition TenantComponentStatuses_DeepCopy :: "ptr \<Rightarrow> ('x mem, ptr) state" where
  "TenantComponentStatuses_DeepCopy = ptr_copy component_statuses_cell TenantComponentStatuses_DeepCopyInto"

lemma flat_copies:
  "ComponentStatus_DeepCopyInto = ret"
  "EmailAuthSpec_DeepCopyInto = ret"
  "FunctionSource_DeepCopyInto = ret"
  "GatewayTLSSpec_DeepCopyInto = ret"
  "OAuthProvider_DeepCopyInto = ret"
  "S3Config_DeepCopyInto = ret"
  "S3CredentialsSpec_DeepCopyInto = ret"
  "SMTPSpec_DeepCopyInto = ret"
  "TenantComponentStatuses_DeepCopyInto = ret"
  by (simp_all add: fun_eq_iff ComponentStatus_DeepCopyInto_def EmailAuthSpec_DeepCopyInto_def
        FunctionSource_DeepCopyInto_def GatewayTLSSpec_DeepCopyInto_def OAuthProvider_DeepCopyInto_def S3Config_DeepCopyInto_def S3CredentialsSpec_DeepCopyInto_def SMTPSpec_DeepCopyInto_def TenantComponentStatuses_DeepCopyInto_def)

section \<open>common_types.go: the platform side\<close>

definition PersistentStorageSpec_DeepCopyInto :: "l_persistent_storage_spec \<Rightarrow> ('x mem,
  l_persistent_storage_spec) state" where
  "PersistentStorageSpec_DeepCopyInto i = do {
     class \<leftarrow> ptr_copy string_cell ret (lps_storage_class_name i);
     ret (i\<lparr>lps_storage_class_name := class\<rparr>) }"

definition PersistentStorageSpec_DeepCopy :: "ptr \<Rightarrow> ('x mem, ptr) state" where
  "PersistentStorageSpec_DeepCopy = ptr_copy persistent_storage_cell PersistentStorageSpec_DeepCopyInto"

definition PersistentStorageSpec_view :: "('x, l_persistent_storage_spec,
  persistent_storage_spec) view" where
  "PersistentStorageSpec_view =
     struct_view
       (ptr_view string_cell (flat_view id))
       lps_storage_class_name
       (\<lambda>class i. \<lparr>ps_size = lps_size i, ps_storage_class_name = class\<rparr>)"

lemma deep_copy_PersistentStorageSpec [deep_copy_intros]:
  "deep_copy PersistentStorageSpec_DeepCopyInto PersistentStorageSpec_view"
  unfolding PersistentStorageSpec_view_def
  by (rule deep_copy_struct [where p = "\<lambda>class i. i\<lparr>lps_storage_class_name := class\<rparr>"], (rule
        deep_copy_intros)+)
     (auto simp: PersistentStorageSpec_DeepCopyInto_def both_copy_def)

definition BackupSpec_DeepCopyInto :: "l_backup_spec \<Rightarrow> ('x mem, l_backup_spec) state" where
  "BackupSpec_DeepCopyInto i = do {
     s3 \<leftarrow> ptr_copy s3_credentials_cell ret (lbk_s3_credentials i);
     ret (i\<lparr>lbk_s3_credentials := s3\<rparr>) }"

definition BackupSpec_DeepCopy :: "ptr \<Rightarrow> ('x mem, ptr) state" where
  "BackupSpec_DeepCopy = ptr_copy backup_cell BackupSpec_DeepCopyInto"

definition BackupSpec_view :: "('x, l_backup_spec, backup_spec) view" where
  "BackupSpec_view =
     struct_view
       (ptr_view s3_credentials_cell (flat_view id))
       lbk_s3_credentials
       (\<lambda>s3 i. \<lparr>bks_schedule = lbk_schedule i, bks_destination_path = lbk_destination_path i,
          bks_s3_secret_ref = s3\<rparr>)"

lemma deep_copy_BackupSpec [deep_copy_intros]:
  "deep_copy BackupSpec_DeepCopyInto BackupSpec_view"
  unfolding BackupSpec_view_def
  by (rule deep_copy_struct [where p = "\<lambda>s3 i. i\<lparr>lbk_s3_credentials := s3\<rparr>"], (rule
        deep_copy_intros)+)
     (auto simp: BackupSpec_DeepCopyInto_def both_copy_def)

definition DatabaseSpec_DeepCopyInto :: "'x foreign \<Rightarrow> 'x l_database_spec
  \<Rightarrow> ('x mem, 'x l_database_spec) state" where
  "DatabaseSpec_DeepCopyInto X i = do {
     storage \<leftarrow> PersistentStorageSpec_DeepCopyInto (ldb_storage i);
     backup \<leftarrow> ptr_copy backup_cell BackupSpec_DeepCopyInto (ldb_backup i);
     resources \<leftarrow> resources_into X (ldb_resources i);
     ret (i\<lparr>ldb_storage := storage, ldb_backup := backup, ldb_resources := resources\<rparr>) }"

definition DatabaseSpec_DeepCopy :: "'x foreign \<Rightarrow> ptr \<Rightarrow> ('x mem, ptr) state" where
  "DatabaseSpec_DeepCopy X = ptr_copy database_spec_cell (DatabaseSpec_DeepCopyInto X)"

definition DatabaseSpec_view :: "'x foreign \<Rightarrow> ('x, 'x l_database_spec, database_spec) view" where
  "DatabaseSpec_view X =
     struct_view
       (both_view PersistentStorageSpec_view
         (both_view (ptr_view backup_cell BackupSpec_view) ((resources_view X))))
       (\<lambda>i. (ldb_storage i, ldb_backup i, ldb_resources i))
       (\<lambda>(storage, backup, resources) i. \<lparr>dbs_instances = ldb_instances i,
         dbs_image_name = ldb_image_name i,
          dbs_storage = storage, dbs_backup = backup, dbs_resources = resources\<rparr>)"

lemma deep_copy_DatabaseSpec [deep_copy_intros]:
  assumes "foreign_laws X"
  shows "deep_copy (DatabaseSpec_DeepCopyInto X) (DatabaseSpec_view X)"
  unfolding DatabaseSpec_view_def
  by (rule deep_copy_struct [where p = "\<lambda>(storage, backup,
    resources) i. i\<lparr>ldb_storage := storage, ldb_backup := backup,
    ldb_resources := resources\<rparr>"], (rule deep_copy_intros assms)+)
     (auto simp: DatabaseSpec_DeepCopyInto_def both_copy_def)

definition GatewaySpec_DeepCopyInto :: "l_gateway_spec \<Rightarrow> ('x mem, l_gateway_spec) state" where
  "GatewaySpec_DeepCopyInto i = do {
     tls \<leftarrow> ptr_copy gateway_tls_cell ret (lgw_tls i);
     ret (i\<lparr>lgw_tls := tls\<rparr>) }"

definition GatewaySpec_DeepCopy :: "ptr \<Rightarrow> ('x mem, ptr) state" where
  "GatewaySpec_DeepCopy = ptr_copy gateway_cell GatewaySpec_DeepCopyInto"

definition GatewaySpec_view :: "('x, l_gateway_spec, gateway_spec) view" where
  "GatewaySpec_view =
     struct_view
       (ptr_view gateway_tls_cell (flat_view id))
       lgw_tls
       (\<lambda>tls i. \<lparr>gws_class_name = lgw_class_name i, gws_base_domain = lgw_base_domain i,
          gws_tls_secret = tls\<rparr>)"

lemma deep_copy_GatewaySpec [deep_copy_intros]:
  "deep_copy GatewaySpec_DeepCopyInto GatewaySpec_view"
  unfolding GatewaySpec_view_def
  by (rule deep_copy_struct [where p = "\<lambda>tls i. i\<lparr>lgw_tls := tls\<rparr>"], (rule deep_copy_intros)+)
     (auto simp: GatewaySpec_DeepCopyInto_def both_copy_def)

definition ImageOverrides_DeepCopyInto ::
  "l_image_overrides \<Rightarrow> ('x mem, l_image_overrides) state" where
  "ImageOverrides_DeepCopyInto i = do {
     imgproxy \<leftarrow> ptr_copy string_cell ret (lim_imgproxy i);
     studio \<leftarrow> ptr_copy string_cell ret (lim_studio i);
     analytics \<leftarrow> ptr_copy string_cell ret (lim_analytics i);
     vector \<leftarrow> ptr_copy string_cell ret (lim_vector i);
     supavisor \<leftarrow> ptr_copy string_cell ret (lim_supavisor i);
     ret (i\<lparr>lim_imgproxy := imgproxy, lim_studio := studio, lim_analytics := analytics,
       lim_vector := vector, lim_supavisor := supavisor\<rparr>) }"

definition ImageOverrides_DeepCopy :: "ptr \<Rightarrow> ('x mem, ptr) state" where
  "ImageOverrides_DeepCopy = ptr_copy images_cell ImageOverrides_DeepCopyInto"

definition ImageOverrides_view :: "('x, l_image_overrides, image_overrides) view" where
  "ImageOverrides_view =
     struct_view
       (both_view (ptr_view string_cell (flat_view id))
         (both_view (ptr_view string_cell (flat_view id))
         (both_view (ptr_view string_cell (flat_view id))
         (both_view (ptr_view string_cell (flat_view id)) ((ptr_view string_cell (flat_view id)))))))
       (\<lambda>i. (lim_imgproxy i, lim_studio i, lim_analytics i, lim_vector i, lim_supavisor i))
       (\<lambda>(imgproxy, studio, analytics, vector, supavisor) i. \<lparr>img_imgproxy = imgproxy,
         img_studio = studio, img_analytics = analytics,
          img_vector = vector, img_supavisor = supavisor\<rparr>)"

lemma deep_copy_ImageOverrides [deep_copy_intros]:
  "deep_copy ImageOverrides_DeepCopyInto ImageOverrides_view"
  unfolding ImageOverrides_view_def
  by (rule deep_copy_struct [where p = "\<lambda>(imgproxy, studio, analytics, vector,
    supavisor) i. i\<lparr>lim_imgproxy := imgproxy, lim_studio := studio, lim_analytics := analytics,
    lim_vector := vector, lim_supavisor := supavisor\<rparr>"], (rule deep_copy_intros)+)
     (auto simp: ImageOverrides_DeepCopyInto_def both_copy_def)

definition ServiceSpec_DeepCopyInto :: "'x foreign \<Rightarrow> 'x l_service_spec
  \<Rightarrow> ('x mem, 'x l_service_spec) state" where
  "ServiceSpec_DeepCopyInto X i = do {
     enabled \<leftarrow> ptr_copy bool_cell ret (lse_enabled i);
     replicas \<leftarrow> ptr_copy int32_cell ret (lse_replicas i);
     resources \<leftarrow> resources_into X (lse_resources i);
     ret (i\<lparr>lse_enabled := enabled, lse_replicas := replicas, lse_resources := resources\<rparr>) }"

definition ServiceSpec_DeepCopy :: "'x foreign \<Rightarrow> ptr \<Rightarrow> ('x mem, ptr) state" where
  "ServiceSpec_DeepCopy X = ptr_copy (service_cell ServiceSpec) (ServiceSpec_DeepCopyInto X)"

definition ServiceSpec_view :: "'x foreign \<Rightarrow> ('x, 'x l_service_spec, service_spec) view" where
  "ServiceSpec_view X =
     struct_view
       (both_view (ptr_view bool_cell (flat_view id))
         (both_view (ptr_view int32_cell (flat_view id)) ((resources_view X))))
       (\<lambda>i. (lse_enabled i, lse_replicas i, lse_resources i))
       (\<lambda>(enabled, replicas, resources) i. \<lparr>ss_enabled = enabled,
         ss_replicas = replicas, ss_resources = resources\<rparr>)"

lemma deep_copy_ServiceSpec [deep_copy_intros]:
  assumes "foreign_laws X"
  shows "deep_copy (ServiceSpec_DeepCopyInto X) (ServiceSpec_view X)"
  unfolding ServiceSpec_view_def
  by (rule deep_copy_struct [where p = "\<lambda>(enabled, replicas,
    resources) i. i\<lparr>lse_enabled := enabled, lse_replicas := replicas,
    lse_resources := resources\<rparr>"], (rule deep_copy_intros assms)+)
     (auto simp: ServiceSpec_DeepCopyInto_def both_copy_def)

text \<open>The structs that embed \<open>ServiceSpec\<close> copy it.\<close>

definition AnalyticsSpec_DeepCopyInto :: "'x foreign \<Rightarrow> 'x l_service_spec
  \<Rightarrow> ('x mem, 'x l_service_spec) state" where
  "AnalyticsSpec_DeepCopyInto X i = ServiceSpec_DeepCopyInto X i"

definition AnalyticsSpec_DeepCopy :: "'x foreign \<Rightarrow> ptr \<Rightarrow> ('x mem, ptr) state" where
  "AnalyticsSpec_DeepCopy X = ptr_copy (service_cell AnalyticsSpec) (AnalyticsSpec_DeepCopyInto X)"

definition ImgproxySpec_DeepCopyInto :: "'x foreign \<Rightarrow> 'x l_service_spec
  \<Rightarrow> ('x mem, 'x l_service_spec) state" where
  "ImgproxySpec_DeepCopyInto X i = ServiceSpec_DeepCopyInto X i"

definition ImgproxySpec_DeepCopy :: "'x foreign \<Rightarrow> ptr \<Rightarrow> ('x mem, ptr) state" where
  "ImgproxySpec_DeepCopy X = ptr_copy (service_cell ImgproxySpec) (ImgproxySpec_DeepCopyInto X)"

definition StudioSpec_DeepCopyInto :: "'x foreign \<Rightarrow> 'x l_service_spec
  \<Rightarrow> ('x mem, 'x l_service_spec) state" where
  "StudioSpec_DeepCopyInto X i = ServiceSpec_DeepCopyInto X i"

definition StudioSpec_DeepCopy :: "'x foreign \<Rightarrow> ptr \<Rightarrow> ('x mem, ptr) state" where
  "StudioSpec_DeepCopy X = ptr_copy (service_cell StudioSpec) (StudioSpec_DeepCopyInto X)"

definition SupavisorSpec_DeepCopyInto :: "'x foreign \<Rightarrow> 'x l_service_spec
  \<Rightarrow> ('x mem, 'x l_service_spec) state" where
  "SupavisorSpec_DeepCopyInto X i = ServiceSpec_DeepCopyInto X i"

definition SupavisorSpec_DeepCopy :: "'x foreign \<Rightarrow> ptr \<Rightarrow> ('x mem, ptr) state" where
  "SupavisorSpec_DeepCopy X = ptr_copy (service_cell SupavisorSpec) (SupavisorSpec_DeepCopyInto X)"

definition VectorSpec_DeepCopyInto :: "'x foreign \<Rightarrow> 'x l_service_spec
  \<Rightarrow> ('x mem, 'x l_service_spec) state" where
  "VectorSpec_DeepCopyInto X i = ServiceSpec_DeepCopyInto X i"

definition VectorSpec_DeepCopy :: "'x foreign \<Rightarrow> ptr \<Rightarrow> ('x mem, ptr) state" where
  "VectorSpec_DeepCopy X = ptr_copy (service_cell VectorSpec) (VectorSpec_DeepCopyInto X)"

definition TenantRealtimeSpec_DeepCopyInto :: "'x foreign \<Rightarrow> 'x l_service_spec
  \<Rightarrow> ('x mem, 'x l_service_spec) state" where
  "TenantRealtimeSpec_DeepCopyInto X i = ServiceSpec_DeepCopyInto X i"

definition TenantRealtimeSpec_DeepCopy :: "'x foreign \<Rightarrow> ptr \<Rightarrow> ('x mem, ptr) state" where
  "TenantRealtimeSpec_DeepCopy X = ptr_copy (service_cell TenantRealtimeSpec) (TenantRealtimeSpec_DeepCopyInto X)"

lemma service_copies:
  "AnalyticsSpec_DeepCopyInto = ServiceSpec_DeepCopyInto"
  "ImgproxySpec_DeepCopyInto = ServiceSpec_DeepCopyInto"
  "StudioSpec_DeepCopyInto = ServiceSpec_DeepCopyInto"
  "SupavisorSpec_DeepCopyInto = ServiceSpec_DeepCopyInto"
  "VectorSpec_DeepCopyInto = ServiceSpec_DeepCopyInto"
  "TenantRealtimeSpec_DeepCopyInto = ServiceSpec_DeepCopyInto"
  by (simp_all add: fun_eq_iff AnalyticsSpec_DeepCopyInto_def ImgproxySpec_DeepCopyInto_def
        StudioSpec_DeepCopyInto_def SupavisorSpec_DeepCopyInto_def VectorSpec_DeepCopyInto_def TenantRealtimeSpec_DeepCopyInto_def)

section \<open>common_types.go: the tenant side\<close>

definition OAuthProviders_DeepCopyInto ::
  "l_oauth_providers \<Rightarrow> ('x mem, l_oauth_providers) state" where
  "OAuthProviders_DeepCopyInto i = do {
     google \<leftarrow> ptr_copy oauth_provider_cell ret (lop_google i);
     github \<leftarrow> ptr_copy oauth_provider_cell ret (lop_github i);
     azure \<leftarrow> ptr_copy oauth_provider_cell ret (lop_azure i);
     ret (i\<lparr>lop_google := google, lop_github := github, lop_azure := azure\<rparr>) }"

definition OAuthProviders_DeepCopy :: "ptr \<Rightarrow> ('x mem, ptr) state" where
  "OAuthProviders_DeepCopy = ptr_copy oauth_providers_cell OAuthProviders_DeepCopyInto"

definition OAuthProviders_view :: "('x, l_oauth_providers, oauth_providers) view" where
  "OAuthProviders_view =
     struct_view
       (both_view (ptr_view oauth_provider_cell (flat_view id))
         (both_view (ptr_view oauth_provider_cell (flat_view id)) ((ptr_view oauth_provider_cell (flat_view id)))))
       (\<lambda>i. (lop_google i, lop_github i, lop_azure i))
       (\<lambda>(google, github, azure) i. \<lparr>oa_google = google, oa_github = github, oa_azure = azure\<rparr>)"

lemma deep_copy_OAuthProviders [deep_copy_intros]:
  "deep_copy OAuthProviders_DeepCopyInto OAuthProviders_view"
  unfolding OAuthProviders_view_def
  by (rule deep_copy_struct [where p = "\<lambda>(google, github,
    azure) i. i\<lparr>lop_google := google, lop_github := github, lop_azure := azure\<rparr>"],
    (rule deep_copy_intros)+)
     (auto simp: OAuthProviders_DeepCopyInto_def both_copy_def)

definition TenantAuthSpec_DeepCopyInto ::
  "l_tenant_auth_spec \<Rightarrow> ('x mem, l_tenant_auth_spec) state" where
  "TenantAuthSpec_DeepCopyInto i = do {
     urls \<leftarrow> slice_copy strings_cell ret (lau_additional_redirect_urls i);
     email \<leftarrow> ptr_copy email_cell ret (lau_email i);
     smtp \<leftarrow> ptr_copy smtp_cell ret (lau_smtp i);
     external \<leftarrow> ptr_copy oauth_providers_cell OAuthProviders_DeepCopyInto (lau_external i);
     ret (i\<lparr>lau_additional_redirect_urls := urls, lau_email := email, lau_smtp := smtp,
       lau_external := external\<rparr>) }"

definition TenantAuthSpec_DeepCopy :: "ptr \<Rightarrow> ('x mem, ptr) state" where
  "TenantAuthSpec_DeepCopy = ptr_copy tenant_auth_cell TenantAuthSpec_DeepCopyInto"

definition TenantAuthSpec_view :: "('x, l_tenant_auth_spec, tenant_auth_spec) view" where
  "TenantAuthSpec_view =
     struct_view
       (both_view (slice_view strings_cell (flat_view id))
         (both_view (ptr_view email_cell (flat_view id))
         (both_view (ptr_view smtp_cell (flat_view id)) ((ptr_view oauth_providers_cell OAuthProviders_view)))))
       (\<lambda>i. (lau_additional_redirect_urls i, lau_email i, lau_smtp i, lau_external i))
       (\<lambda>(urls, email, smtp, external) i. \<lparr>au_site_url = lau_site_url i,
         au_additional_redirect_urls = urls,
          au_disable_signup = lau_disable_signup i, au_email = email, au_smtp = smtp,
            au_external = external\<rparr>)"

lemma deep_copy_TenantAuthSpec [deep_copy_intros]:
  "deep_copy TenantAuthSpec_DeepCopyInto TenantAuthSpec_view"
  unfolding TenantAuthSpec_view_def
  by (rule deep_copy_struct [where p = "\<lambda>(urls, email, smtp,
    external) i. i\<lparr>lau_additional_redirect_urls := urls, lau_email := email, lau_smtp := smtp,
    lau_external := external\<rparr>"], (rule deep_copy_intros)+)
     (auto simp: TenantAuthSpec_DeepCopyInto_def both_copy_def)

definition TenantRESTSpec_DeepCopyInto ::
  "l_tenant_rest_spec \<Rightarrow> ('x mem, l_tenant_rest_spec) state" where
  "TenantRESTSpec_DeepCopyInto i = do {
     schemas \<leftarrow> slice_copy strings_cell ret (lre_schemas i);
     rows \<leftarrow> ptr_copy int32_cell ret (lre_max_rows i);
     ret (i\<lparr>lre_schemas := schemas, lre_max_rows := rows\<rparr>) }"

definition TenantRESTSpec_DeepCopy :: "ptr \<Rightarrow> ('x mem, ptr) state" where
  "TenantRESTSpec_DeepCopy = ptr_copy tenant_rest_cell TenantRESTSpec_DeepCopyInto"

definition TenantRESTSpec_view :: "('x, l_tenant_rest_spec, tenant_rest_spec) view" where
  "TenantRESTSpec_view =
     struct_view
       (both_view (slice_view strings_cell (flat_view id)) ((ptr_view int32_cell (flat_view id))))
       (\<lambda>i. (lre_schemas i, lre_max_rows i))
       (\<lambda>(schemas, rows) i. \<lparr>re_schemas = schemas, re_max_rows = rows\<rparr>)"

lemma deep_copy_TenantRESTSpec [deep_copy_intros]:
  "deep_copy TenantRESTSpec_DeepCopyInto TenantRESTSpec_view"
  unfolding TenantRESTSpec_view_def
  by (rule deep_copy_struct [where p = "\<lambda>(schemas, rows) i. i\<lparr>lre_schemas := schemas,
    lre_max_rows := rows\<rparr>"], (rule deep_copy_intros)+)
     (auto simp: TenantRESTSpec_DeepCopyInto_def both_copy_def)

text \<open>A nil map reads as the empty one.\<close>

definition ObjectBucketSpec_DeepCopyInto :: "l_object_bucket_spec \<Rightarrow> ('x mem,
  l_object_bucket_spec) state" where
  "ObjectBucketSpec_DeepCopyInto i = do {
     config \<leftarrow> ptr_copy map_cell ret (lob_additional_config i);
     ret (i\<lparr>lob_additional_config := config\<rparr>) }"

definition ObjectBucketSpec_DeepCopy :: "ptr \<Rightarrow> ('x mem, ptr) state" where
  "ObjectBucketSpec_DeepCopy = ptr_copy object_bucket_cell ObjectBucketSpec_DeepCopyInto"

definition ObjectBucketSpec_view :: "('x, l_object_bucket_spec, object_bucket_spec) view" where
  "ObjectBucketSpec_view =
     struct_view
       (ptr_view map_cell (flat_view id))
       lob_additional_config
       (\<lambda>config i. \<lparr>ob_storage_class_name = lob_storage_class_name i,
          ob_additional_config = (case config of None \<Rightarrow> Map.empty | Some f \<Rightarrow> f),
          ob_bucket_prefix = lob_bucket_prefix i\<rparr>)"

lemma deep_copy_ObjectBucketSpec [deep_copy_intros]:
  "deep_copy ObjectBucketSpec_DeepCopyInto ObjectBucketSpec_view"
  unfolding ObjectBucketSpec_view_def
  by (rule deep_copy_struct [where p = "\<lambda>config i. i\<lparr>lob_additional_config := config\<rparr>"], (rule
        deep_copy_intros)+)
     (auto simp: ObjectBucketSpec_DeepCopyInto_def both_copy_def)

definition TenantStorageSpec_DeepCopyInto :: "l_tenant_storage_spec \<Rightarrow> ('x mem,
  l_tenant_storage_spec) state" where
  "TenantStorageSpec_DeepCopyInto i = do {
     limit \<leftarrow> ptr_copy int64_cell ret (lto_file_size_limit i);
     s3 \<leftarrow> ptr_copy s3_config_cell ret (lto_s3 i);
     bucket \<leftarrow> ptr_copy object_bucket_cell ObjectBucketSpec_DeepCopyInto (lto_object_bucket i);
     ret (i\<lparr>lto_file_size_limit := limit, lto_s3 := s3, lto_object_bucket := bucket\<rparr>) }"

definition TenantStorageSpec_DeepCopy :: "ptr \<Rightarrow> ('x mem, ptr) state" where
  "TenantStorageSpec_DeepCopy = ptr_copy tenant_storage_cell TenantStorageSpec_DeepCopyInto"

definition TenantStorageSpec_view :: "('x, l_tenant_storage_spec, tenant_storage_spec) view" where
  "TenantStorageSpec_view =
     struct_view
       (both_view (ptr_view int64_cell (flat_view id))
         (both_view (ptr_view s3_config_cell (flat_view id)) ((ptr_view object_bucket_cell ObjectBucketSpec_view))))
       (\<lambda>i. (lto_file_size_limit i, lto_s3 i, lto_object_bucket i))
       (\<lambda>(limit, s3, bucket) i. \<lparr>st_backend = lto_backend i, st_file_size_limit = limit,
          st_image_transformation = lto_image_transformation i, st_s3 = s3, st_object_bucket = bucket\<rparr>)"

lemma deep_copy_TenantStorageSpec [deep_copy_intros]:
  "deep_copy TenantStorageSpec_DeepCopyInto TenantStorageSpec_view"
  unfolding TenantStorageSpec_view_def
  by (rule deep_copy_struct [where p = "\<lambda>(limit, s3,
    bucket) i. i\<lparr>lto_file_size_limit := limit, lto_s3 := s3,
    lto_object_bucket := bucket\<rparr>"], (rule deep_copy_intros)+)
     (auto simp: TenantStorageSpec_DeepCopyInto_def both_copy_def)

definition TenantFunctionsSpec_DeepCopyInto :: "l_tenant_functions_spec \<Rightarrow> ('x mem,
  l_tenant_functions_spec) state" where
  "TenantFunctionsSpec_DeepCopyInto i = do {
     source \<leftarrow> ptr_copy function_source_cell ret (lfn_source i);
     ret (i\<lparr>lfn_source := source\<rparr>) }"

definition TenantFunctionsSpec_DeepCopy :: "ptr \<Rightarrow> ('x mem, ptr) state" where
  "TenantFunctionsSpec_DeepCopy = ptr_copy tenant_functions_cell TenantFunctionsSpec_DeepCopyInto"

definition TenantFunctionsSpec_view ::
  "('x, l_tenant_functions_spec, tenant_functions_spec) view" where
  "TenantFunctionsSpec_view =
     struct_view
       (ptr_view function_source_cell (flat_view id))
       lfn_source
       (\<lambda>source i. \<lparr>fn_verify_jwt = lfn_verify_jwt i, fn_source_config_map = source\<rparr>)"

lemma deep_copy_TenantFunctionsSpec [deep_copy_intros]:
  "deep_copy TenantFunctionsSpec_DeepCopyInto TenantFunctionsSpec_view"
  unfolding TenantFunctionsSpec_view_def
  by (rule deep_copy_struct [where p = "\<lambda>source i. i\<lparr>lfn_source := source\<rparr>"], (rule
        deep_copy_intros)+)
     (auto simp: TenantFunctionsSpec_DeepCopyInto_def both_copy_def)

section \<open>supabase_types.go\<close>

definition SupabaseSpec_DeepCopyInto :: "'x foreign \<Rightarrow> 'x l_supabase_spec
  \<Rightarrow> ('x mem, 'x l_supabase_spec) state" where
  "SupabaseSpec_DeepCopyInto X i = do {
     database \<leftarrow> DatabaseSpec_DeepCopyInto X (lsp_database i);
     gateway \<leftarrow> GatewaySpec_DeepCopyInto (lsp_gateway i);
     imgproxy \<leftarrow> ImgproxySpec_DeepCopyInto X (lsp_imgproxy i);
     studio \<leftarrow> StudioSpec_DeepCopyInto X (lsp_studio i);
     analytics \<leftarrow> AnalyticsSpec_DeepCopyInto X (lsp_analytics i);
     vector \<leftarrow> VectorSpec_DeepCopyInto X (lsp_vector i);
     supavisor \<leftarrow> SupavisorSpec_DeepCopyInto X (lsp_supavisor i);
     images \<leftarrow> ImageOverrides_DeepCopyInto (lsp_images i);
     ret (i\<lparr>lsp_database := database, lsp_gateway := gateway, lsp_imgproxy := imgproxy,
       lsp_studio := studio, lsp_analytics := analytics, lsp_vector := vector,
       lsp_supavisor := supavisor, lsp_images := images\<rparr>) }"

definition SupabaseSpec_DeepCopy :: "'x foreign \<Rightarrow> ptr \<Rightarrow> ('x mem, ptr) state" where
  "SupabaseSpec_DeepCopy X = ptr_copy supabase_spec_cell (SupabaseSpec_DeepCopyInto X)"

definition SupabaseSpec_view :: "'x foreign \<Rightarrow> ('x, 'x l_supabase_spec, supabase_spec) view" where
  "SupabaseSpec_view X =
     struct_view
       (both_view (DatabaseSpec_view X) (both_view GatewaySpec_view
         (both_view (ServiceSpec_view X) (both_view (ServiceSpec_view X)
         (both_view (ServiceSpec_view X) (both_view (ServiceSpec_view X)
         (both_view (ServiceSpec_view X) ImageOverrides_view)))))))
       (\<lambda>i. (lsp_database i, lsp_gateway i, lsp_imgproxy i, lsp_studio i, lsp_analytics i,
         lsp_vector i, lsp_supavisor i, lsp_images i))
       (\<lambda>(database, gateway, imgproxy, studio, analytics, vector, supavisor,
         images) i. \<lparr>sp_database = database, sp_gateway = gateway, sp_imgproxy = imgproxy,
          sp_studio = studio, sp_analytics = analytics, sp_vector = vector, sp_supavisor = supavisor,
          sp_images = images\<rparr>)"

lemma deep_copy_SupabaseSpec [deep_copy_intros]:
  assumes "foreign_laws X"
  shows "deep_copy (SupabaseSpec_DeepCopyInto X) (SupabaseSpec_view X)"
  unfolding SupabaseSpec_view_def
  by (rule deep_copy_struct [where p = "\<lambda>(database, gateway, imgproxy, studio, analytics,
    vector, supavisor, images) i. i\<lparr>lsp_database := database, lsp_gateway := gateway,
    lsp_imgproxy := imgproxy, lsp_studio := studio, lsp_analytics := analytics, lsp_vector := vector,
    lsp_supavisor := supavisor, lsp_images := images\<rparr>"], (rule deep_copy_intros assms)+)
     (auto simp: SupabaseSpec_DeepCopyInto_def both_copy_def service_copies)

definition SupabaseStatus_DeepCopyInto :: "'x foreign \<Rightarrow> l_supabase_status
  \<Rightarrow> ('x mem, l_supabase_status) state" where
  "SupabaseStatus_DeepCopyInto X i = do {
     conditions \<leftarrow> slice_copy conditions_cell (condition_into X) (lst_conditions i);
     ret (i\<lparr>lst_conditions := conditions\<rparr>) }"

definition SupabaseStatus_DeepCopy :: "'x foreign \<Rightarrow> ptr \<Rightarrow> ('x mem, ptr) state" where
  "SupabaseStatus_DeepCopy X = ptr_copy supabase_status_cell (SupabaseStatus_DeepCopyInto X)"

definition SupabaseStatus_view :: "'x foreign \<Rightarrow> ('x, l_supabase_status, supabase_status) view" where
  "SupabaseStatus_view X =
     struct_view
       (slice_view conditions_cell condition_view)
       lst_conditions
       (\<lambda>conditions i. \<lparr>sst_phase = lst_phase i, sst_conditions = conditions,
          sst_database_ready = lst_database_ready i, sst_gateway_ready = lst_gateway_ready i,
          sst_tenant_count = lst_tenant_count i, sst_observed_generation = lst_observed_generation i\<rparr>)"

lemma deep_copy_SupabaseStatus [deep_copy_intros]:
  assumes "foreign_laws X"
  shows "deep_copy (SupabaseStatus_DeepCopyInto X) (SupabaseStatus_view X)"
  unfolding SupabaseStatus_view_def
  by (rule deep_copy_struct [where p = "\<lambda>conditions i. i\<lparr>lst_conditions := conditions\<rparr>"], (rule
        deep_copy_intros assms)+)
     (auto simp: SupabaseStatus_DeepCopyInto_def both_copy_def)

definition Supabase_DeepCopyInto :: "'x foreign \<Rightarrow> 'x l_supabase \<Rightarrow> ('x mem, 'x l_supabase) state" where
  "Supabase_DeepCopyInto X i = do {
     meta \<leftarrow> meta_into X (lsb_meta i);
     spec \<leftarrow> SupabaseSpec_DeepCopyInto X (lsb_spec i);
     status \<leftarrow> SupabaseStatus_DeepCopyInto X (lsb_status i);
     ret (i\<lparr>lsb_type_meta := lsb_type_meta i, lsb_meta := meta, lsb_spec := spec,
       lsb_status := status\<rparr>) }"

definition Supabase_DeepCopy :: "'x foreign \<Rightarrow> ptr \<Rightarrow> ('x mem, ptr) state" where
  "Supabase_DeepCopy X = ptr_copy supabase_cell (Supabase_DeepCopyInto X)"

definition Supabase_view :: "'x foreign \<Rightarrow> ('x, 'x l_supabase, type_meta \<times> supabase) view" where
  "Supabase_view X =
     struct_view
       (both_view (meta_view X) (both_view (SupabaseSpec_view X) ((SupabaseStatus_view X))))
       (\<lambda>i. (lsb_meta i, lsb_spec i, lsb_status i))
       (\<lambda>(meta, spec, status) i. (lsb_type_meta i, \<lparr>sb_meta = meta, sb_spec = spec, sb_status = status\<rparr>))"

lemma deep_copy_Supabase [deep_copy_intros]:
  assumes "foreign_laws X"
  shows "deep_copy (Supabase_DeepCopyInto X) (Supabase_view X)"
  unfolding Supabase_view_def
  by (rule deep_copy_struct [where p = "\<lambda>(meta, spec, status) i. i\<lparr>lsb_meta := meta,
    lsb_spec := spec, lsb_status := status\<rparr>"], (rule deep_copy_intros assms)+)
     (auto simp: Supabase_DeepCopyInto_def both_copy_def)

definition SupabaseList_DeepCopyInto :: "'x foreign \<Rightarrow> 'x l_list \<Rightarrow> ('x mem, 'x l_list) state" where
  "SupabaseList_DeepCopyInto X i = do {
     meta \<leftarrow> list_meta_into X (lli_meta i);
     items \<leftarrow> slice_copy supabases_cell (Supabase_DeepCopyInto X) (lli_items i);
     ret (i\<lparr>lli_type_meta := lli_type_meta i, lli_meta := meta, lli_items := items\<rparr>) }"

definition SupabaseList_DeepCopy :: "'x foreign \<Rightarrow> ptr \<Rightarrow> ('x mem, ptr) state" where
  "SupabaseList_DeepCopy X = ptr_copy supabase_list_cell (SupabaseList_DeepCopyInto X)"

definition SupabaseList_view :: "'x foreign \<Rightarrow> ('x, 'x l_list,
  type_meta \<times> list_meta \<times> (type_meta \<times> supabase) list) view" where
  "SupabaseList_view X =
     struct_view
       (both_view (list_meta_view X) ((slice_view supabases_cell (Supabase_view X))))
       (\<lambda>i. (lli_meta i, lli_items i))
       (\<lambda>(meta, items) i. (lli_type_meta i, meta, items))"

lemma deep_copy_SupabaseList [deep_copy_intros]:
  assumes "foreign_laws X"
  shows "deep_copy (SupabaseList_DeepCopyInto X) (SupabaseList_view X)"
  unfolding SupabaseList_view_def
  by (rule deep_copy_struct [where p = "\<lambda>(meta, items) i. i\<lparr>lli_meta := meta,
    lli_items := items\<rparr>"], (rule deep_copy_intros assms)+)
     (auto simp: SupabaseList_DeepCopyInto_def both_copy_def)

section \<open>supabasetenant_types.go\<close>

definition SupabaseTenantSpec_DeepCopyInto :: "'x foreign \<Rightarrow> 'x l_tenant_spec
  \<Rightarrow> ('x mem, 'x l_tenant_spec) state" where
  "SupabaseTenantSpec_DeepCopyInto X i = do {
     auth \<leftarrow> TenantAuthSpec_DeepCopyInto (ltn_auth i);
     rest \<leftarrow> TenantRESTSpec_DeepCopyInto (ltn_rest i);
     realtime \<leftarrow> TenantRealtimeSpec_DeepCopyInto X (ltn_realtime i);
     storage \<leftarrow> TenantStorageSpec_DeepCopyInto (ltn_storage i);
     functions \<leftarrow> TenantFunctionsSpec_DeepCopyInto (ltn_functions i);
     ret (i\<lparr>ltn_auth := auth, ltn_rest := rest, ltn_realtime := realtime,
       ltn_storage := storage, ltn_functions := functions\<rparr>) }"

definition SupabaseTenantSpec_DeepCopy :: "'x foreign \<Rightarrow> ptr \<Rightarrow> ('x mem, ptr) state" where
  "SupabaseTenantSpec_DeepCopy X = ptr_copy tenant_spec_cell (SupabaseTenantSpec_DeepCopyInto X)"

definition SupabaseTenantSpec_view :: "'x foreign \<Rightarrow> ('x, 'x l_tenant_spec, tenant_spec) view" where
  "SupabaseTenantSpec_view X =
     struct_view
       (both_view TenantAuthSpec_view (both_view TenantRESTSpec_view
         (both_view (ServiceSpec_view X) (both_view TenantStorageSpec_view TenantFunctionsSpec_view))))
       (\<lambda>i. (ltn_auth i, ltn_rest i, ltn_realtime i, ltn_storage i, ltn_functions i))
       (\<lambda>(auth, rest, realtime, storage, functions) i. \<lparr>tn_id = ltn_id i,
         tn_supabase_ref = ltn_supabase_ref i, tn_auth = auth, tn_rest = rest,
          tn_realtime = realtime, tn_storage = storage, tn_functions = functions,
          tn_suspended = ltn_suspended i, tn_resources = ltn_resources i\<rparr>)"

lemma deep_copy_SupabaseTenantSpec [deep_copy_intros]:
  assumes "foreign_laws X"
  shows "deep_copy (SupabaseTenantSpec_DeepCopyInto X) (SupabaseTenantSpec_view X)"
  unfolding SupabaseTenantSpec_view_def
  by (rule deep_copy_struct [where p = "\<lambda>(auth, rest, realtime, storage,
    functions) i. i\<lparr>ltn_auth := auth, ltn_rest := rest, ltn_realtime := realtime,
    ltn_storage := storage, ltn_functions := functions\<rparr>"], (rule deep_copy_intros assms)+)
     (auto simp: SupabaseTenantSpec_DeepCopyInto_def both_copy_def service_copies)

definition SupabaseTenantStatus_DeepCopyInto :: "'x foreign \<Rightarrow> l_tenant_status
  \<Rightarrow> ('x mem, l_tenant_status) state" where
  "SupabaseTenantStatus_DeepCopyInto X i = do {
     conditions \<leftarrow> slice_copy conditions_cell (condition_into X) (lts_conditions i);
     ret (i\<lparr>lts_components := lts_components i, lts_conditions := conditions\<rparr>) }"

definition SupabaseTenantStatus_DeepCopy :: "'x foreign \<Rightarrow> ptr \<Rightarrow> ('x mem, ptr) state" where
  "SupabaseTenantStatus_DeepCopy X = ptr_copy tenant_status_cell (SupabaseTenantStatus_DeepCopyInto X)"

definition SupabaseTenantStatus_view :: "'x foreign \<Rightarrow> ('x, l_tenant_status, tenant_status) view" where
  "SupabaseTenantStatus_view X =
     struct_view
       (slice_view conditions_cell condition_view)
       lts_conditions
       (\<lambda>conditions i. \<lparr>tst_phase = lts_phase i, tst_conditions = conditions,
          tst_namespace = lts_namespace i, tst_endpoint = lts_endpoint i,
            tst_components = lts_components i,
          tst_observed_generation = lts_observed_generation i\<rparr>)"

lemma deep_copy_SupabaseTenantStatus [deep_copy_intros]:
  assumes "foreign_laws X"
  shows "deep_copy (SupabaseTenantStatus_DeepCopyInto X) (SupabaseTenantStatus_view X)"
  unfolding SupabaseTenantStatus_view_def
  by (rule deep_copy_struct [where p = "\<lambda>conditions i. i\<lparr>lts_conditions := conditions\<rparr>"], (rule
        deep_copy_intros assms)+)
     (auto simp: SupabaseTenantStatus_DeepCopyInto_def both_copy_def)

definition SupabaseTenant_DeepCopyInto ::
  "'x foreign \<Rightarrow> 'x l_tenant \<Rightarrow> ('x mem, 'x l_tenant) state" where
  "SupabaseTenant_DeepCopyInto X i = do {
     meta \<leftarrow> meta_into X (ltc_meta i);
     spec \<leftarrow> SupabaseTenantSpec_DeepCopyInto X (ltc_spec i);
     status \<leftarrow> SupabaseTenantStatus_DeepCopyInto X (ltc_status i);
     ret (i\<lparr>ltc_type_meta := ltc_type_meta i, ltc_meta := meta, ltc_spec := spec,
       ltc_status := status\<rparr>) }"

definition SupabaseTenant_DeepCopy :: "'x foreign \<Rightarrow> ptr \<Rightarrow> ('x mem, ptr) state" where
  "SupabaseTenant_DeepCopy X = ptr_copy tenant_cell (SupabaseTenant_DeepCopyInto X)"

definition SupabaseTenant_view ::
  "'x foreign \<Rightarrow> ('x, 'x l_tenant, type_meta \<times> supabase_tenant) view" where
  "SupabaseTenant_view X =
     struct_view
       (both_view (meta_view X) (both_view (SupabaseTenantSpec_view X) ((SupabaseTenantStatus_view X))))
       (\<lambda>i. (ltc_meta i, ltc_spec i, ltc_status i))
       (\<lambda>(meta, spec, status) i. (ltc_type_meta i, \<lparr>tc_meta = meta, tc_spec = spec, tc_status = status\<rparr>))"

lemma deep_copy_SupabaseTenant [deep_copy_intros]:
  assumes "foreign_laws X"
  shows "deep_copy (SupabaseTenant_DeepCopyInto X) (SupabaseTenant_view X)"
  unfolding SupabaseTenant_view_def
  by (rule deep_copy_struct [where p = "\<lambda>(meta, spec, status) i. i\<lparr>ltc_meta := meta,
    ltc_spec := spec, ltc_status := status\<rparr>"], (rule deep_copy_intros assms)+)
     (auto simp: SupabaseTenant_DeepCopyInto_def both_copy_def)

definition SupabaseTenantList_DeepCopyInto ::
  "'x foreign \<Rightarrow> 'x l_list \<Rightarrow> ('x mem, 'x l_list) state" where
  "SupabaseTenantList_DeepCopyInto X i = do {
     meta \<leftarrow> list_meta_into X (lli_meta i);
     items \<leftarrow> slice_copy tenants_cell (SupabaseTenant_DeepCopyInto X) (lli_items i);
     ret (i\<lparr>lli_type_meta := lli_type_meta i, lli_meta := meta, lli_items := items\<rparr>) }"

definition SupabaseTenantList_DeepCopy :: "'x foreign \<Rightarrow> ptr \<Rightarrow> ('x mem, ptr) state" where
  "SupabaseTenantList_DeepCopy X = ptr_copy tenant_list_cell (SupabaseTenantList_DeepCopyInto X)"

definition SupabaseTenantList_view :: "'x foreign \<Rightarrow> ('x, 'x l_list,
  type_meta \<times> list_meta \<times> (type_meta \<times> supabase_tenant) list) view" where
  "SupabaseTenantList_view X =
     struct_view
       (both_view (list_meta_view X) ((slice_view tenants_cell (SupabaseTenant_view X))))
       (\<lambda>i. (lli_meta i, lli_items i))
       (\<lambda>(meta, items) i. (lli_type_meta i, meta, items))"

lemma deep_copy_SupabaseTenantList [deep_copy_intros]:
  assumes "foreign_laws X"
  shows "deep_copy (SupabaseTenantList_DeepCopyInto X) (SupabaseTenantList_view X)"
  unfolding SupabaseTenantList_view_def
  by (rule deep_copy_struct [where p = "\<lambda>(meta, items) i. i\<lparr>lli_meta := meta,
    lli_items := items\<rparr>"], (rule deep_copy_intros assms)+)
     (auto simp: SupabaseTenantList_DeepCopyInto_def both_copy_def)

section \<open>DeepCopyObject\<close>

text \<open>
  The \<open>runtime.Object\<close> interface value is nil (\<open>None\<close>) or a pointer with its type; an interface that
  holds a nil pointer is not nil.
\<close>

datatype runtime_object =
  SupabaseObject ptr | SupabaseListObject ptr | SupabaseTenantObject ptr | SupabaseTenantListObject ptr

definition Supabase_DeepCopyObject :: "'x foreign \<Rightarrow> ptr \<Rightarrow> ('x mem, runtime_object option) state" where
  "Supabase_DeepCopyObject X p = do {
     c \<leftarrow> Supabase_DeepCopy X p;
     if c \<noteq> None then ret (Some (SupabaseObject c)) else ret None }"

definition SupabaseList_DeepCopyObject ::
  "'x foreign \<Rightarrow> ptr \<Rightarrow> ('x mem, runtime_object option) state" where
  "SupabaseList_DeepCopyObject X p = do {
     c \<leftarrow> SupabaseList_DeepCopy X p;
     if c \<noteq> None then ret (Some (SupabaseListObject c)) else ret None }"

definition SupabaseTenant_DeepCopyObject ::
  "'x foreign \<Rightarrow> ptr \<Rightarrow> ('x mem, runtime_object option) state" where
  "SupabaseTenant_DeepCopyObject X p = do {
     c \<leftarrow> SupabaseTenant_DeepCopy X p;
     if c \<noteq> None then ret (Some (SupabaseTenantObject c)) else ret None }"

definition SupabaseTenantList_DeepCopyObject ::
  "'x foreign \<Rightarrow> ptr \<Rightarrow> ('x mem, runtime_object option) state" where
  "SupabaseTenantList_DeepCopyObject X p = do {
     c \<leftarrow> SupabaseTenantList_DeepCopy X p;
     if c \<noteq> None then ret (Some (SupabaseTenantListObject c)) else ret None }"

lemmas deep_copy_object_defs = Supabase_DeepCopyObject_def SupabaseList_DeepCopyObject_def
  SupabaseTenant_DeepCopyObject_def SupabaseTenantList_DeepCopyObject_def

text \<open>The copy of a pointer that is not nil is a new cell.\<close>

lemma ptr_copy_new: "fst (run_state (ptr_copy T into (Some a)) m) = Some (length m)"
  by (auto simp: ptr_copy_def split: option.splits prod.splits)

lemma ptr_copy_nil [simp]: "ptr_copy T into None = ret None"
  by (simp add: ptr_copy_def)

text \<open>A nil pointer becomes the nil interface, and no interface holds a nil pointer.\<close>

lemma deep_copy_object:
  assumes "(deep_copy_object, copy, box) \<in>
    {(Supabase_DeepCopyObject X, Supabase_DeepCopy X, SupabaseObject),
     (SupabaseList_DeepCopyObject X, SupabaseList_DeepCopy X, SupabaseListObject),
     (SupabaseTenant_DeepCopyObject X, SupabaseTenant_DeepCopy X, SupabaseTenantObject),
     (SupabaseTenantList_DeepCopyObject X, SupabaseTenantList_DeepCopy X, SupabaseTenantListObject)}"
  shows "run_state (deep_copy_object p) m =
    (map_option (\<lambda>b. box (Some b)) (fst (run_state (copy p) m)), snd (run_state (copy p) m))"
  using assms by (auto simp: deep_copy_object_defs split: prod.splits option.splits)

section \<open>Registration of the kinds\<close>

text \<open>\<open>groupversion_info.go\<close>, and the \<open>init\<close> functions of the two files of types.\<close>

datatype go_kind = Supabase | SupabaseList | SupabaseTenant | SupabaseTenantList

definition GroupVersion :: "string \<times> string" where
  "GroupVersion = (''supabase.codanael.io'', ''v1alpha1'')"

definition supabase_types_init :: "go_kind list \<Rightarrow> go_kind list" where
  "supabase_types_init b = b @ [Supabase, SupabaseList]"

definition supabasetenant_types_init :: "go_kind list \<Rightarrow> go_kind list" where
  "supabasetenant_types_init b = b @ [SupabaseTenant, SupabaseTenantList]"

text \<open>\<open>SchemeBuilder\<close> once the package is initialized: what \<open>AddToScheme\<close> adds, under the group.\<close>

definition SchemeBuilder :: "(string \<times> string) \<times> go_kind list" where
  "SchemeBuilder = (GroupVersion, supabasetenant_types_init (supabase_types_init []))"

text \<open>Every kind is registered, once, in the group the role of the operator is about.\<close>

lemma kinds_registered: "distinct (snd SchemeBuilder) \<and> set (snd SchemeBuilder) = UNIV"
proof -
  have "k \<in> {Supabase, SupabaseList, SupabaseTenant, SupabaseTenantList}" for k by (cases k) auto
  then show ?thesis by (auto simp: SchemeBuilder_def supabase_types_init_def supabasetenant_types_init_def)
qed

lemma registered_group:
  "fst (kind_resource KSupabase) = fst (fst SchemeBuilder)"
  "fst (kind_resource KTenant) = fst (fst SchemeBuilder)"
  by (simp_all add: SchemeBuilder_def GroupVersion_def)

section \<open>Independent copies\<close>

text \<open>
  \<open>copy\<close> returns a pointer that reads as the one it was given, which reads as before; whatever is
  then allocated and written outside of the one's cells, the one reads the same.
\<close>

definition independent_copy :: "(ptr \<Rightarrow> ('x mem, ptr) state) \<Rightarrow> ('x, ptr, 'v) view \<Rightarrow> bool" where
  "independent_copy copy w \<longleftrightarrow>
     (\<forall>m p v A q m'. w m p = Some (v, A) \<and> run_state (copy p) m = (q, m') \<longrightarrow>
        (\<exists>B. w m' p = Some (v, A) \<and> w m' q = Some (v, B) \<and> A \<inter> B = {} \<and>
           (\<forall>es. list_all (spares B) es \<longrightarrow> w (fold perform es m') q = Some (v, B)) \<and>
           (\<forall>es. list_all (spares A) es \<longrightarrow> w (fold perform es m') p = Some (v, A))))"

lemma independent_copyI: "deep_copy copy w \<Longrightarrow> independent_copy copy w"
  unfolding independent_copy_def by (blast intro: deep_copy.independent)

text \<open>The structs that hold nothing of another module are copied deeply without a hypothesis.\<close>

interpretation image_overrides: deep_copy ImageOverrides_DeepCopyInto ImageOverrides_view
  by (rule deep_copy_ImageOverrides)

interpretation tenant_auth: deep_copy TenantAuthSpec_DeepCopyInto TenantAuthSpec_view
  by (rule deep_copy_TenantAuthSpec)

interpretation tenant_storage: deep_copy TenantStorageSpec_DeepCopyInto TenantStorageSpec_view
  by (rule deep_copy_TenantStorageSpec)

text \<open>
  C20: \<open>DeepCopy\<close> of each of the four kinds the operator registers gives an independent copy: it reads
  as the original (metadata, spec and status), the original still does, and nothing a reconcile
  later writes through the one (a condition set in place, a label put into the map, a new status)
  is seen through the other, since they share no array, map or struct. So the \<open>base\<close> of the status
  patch of both controllers (\<open>client.MergeFrom(cr.DeepCopy())\<close>) is what the pass started from. What
  other modules' structs do when they are copied is the hypothesis.
\<close>

theorem copies_independent:
  assumes "foreign_laws X"
  shows "independent_copy (Supabase_DeepCopy X) (ptr_view supabase_cell (Supabase_view X)) \<and>
    independent_copy (SupabaseTenant_DeepCopy X) (ptr_view tenant_cell (SupabaseTenant_view X)) \<and>
    independent_copy (SupabaseList_DeepCopy X) (ptr_view supabase_list_cell (SupabaseList_view X)) \<and>
    independent_copy (SupabaseTenantList_DeepCopy X) (ptr_view tenant_list_cell (SupabaseTenantList_view X))"
  unfolding Supabase_DeepCopy_def SupabaseTenant_DeepCopy_def SupabaseList_DeepCopy_def
    SupabaseTenantList_DeepCopy_def
  by (intro conjI independent_copyI; (rule deep_copy_intros assms)+)

text \<open>
  An instance: the structs of other modules with the labels of the metadata in a map on the heap,
  and a tenant with labels, redirect URLs, a nil \<open>Email\<close> and one condition.
\<close>

record sample =
  sm_meta :: object_meta
  sm_labels :: ptr
  sm_list_meta :: list_meta
  sm_resources :: resource_requirements

definition sample_meta_into :: "sample \<Rightarrow> (sample mem, sample) state" where
  "sample_meta_into i = do { l \<leftarrow> ptr_copy map_cell ret (sm_labels i); ret (i\<lparr>sm_labels := l\<rparr>) }"

definition sample_foreign :: "sample foreign" where
  "sample_foreign =
     \<lparr>meta_into = sample_meta_into,
      meta_view = struct_view (ptr_view map_cell (flat_view id)) sm_labels
        (\<lambda>l i. (sm_meta i)\<lparr>om_labels := case l of None \<Rightarrow> Map.empty | Some f \<Rightarrow> f\<rparr>),
      list_meta_into = ret, list_meta_view = flat_view sm_list_meta,
      resources_into = ret, resources_view = flat_view sm_resources,
      condition_into = ret\<rparr>"

lemma sample_foreign_laws: "foreign_laws sample_foreign"
proof -
  have "deep_copy sample_meta_into (meta_view sample_foreign)"
    unfolding sample_foreign_def foreign.simps
    by (rule deep_copy_struct [where p = "\<lambda>l i. i\<lparr>sm_labels := l\<rparr>"], (rule deep_copy_intros)+)
       (auto simp: sample_meta_into_def)
  then show ?thesis
    by (simp add: foreign_laws_def sample_foreign_def condition_view_def deep_copy_flat)
qed

definition sample_struct :: sample where
  "sample_struct =
     \<lparr>sm_meta = mk_meta ''acme'' ''default'' Map.empty, sm_labels = Some 1,
      sm_list_meta = \<lparr>lm_resource_version = [], lm_continue = [], lm_remaining_item_count = None\<rparr>,
      sm_resources = no_resources\<rparr>"

definition sample_condition :: condition where
  "sample_condition = \<lparr>cond_type = ''DatabaseReady'', cond_status = CondTrue, cond_reason = ''Ready'',
     cond_message = [], cond_generation = 1\<rparr>"

definition sample_component_status :: component_status where
  "sample_component_status = \<lparr>cst_ready = True, cst_message = [], cst_version = []\<rparr>"

definition sample_tenant_spec :: "sample l_tenant_spec" where
  "sample_tenant_spec =
     \<lparr>ltn_id = ''acme'', ltn_supabase_ref = ''main'',
      ltn_auth = \<lparr>lau_site_url = [], lau_additional_redirect_urls = Some (2, 1), lau_disable_signup = False,
        lau_email = None, lau_smtp = None, lau_external = None\<rparr>,
      ltn_rest = \<lparr>lre_schemas = None, lre_max_rows = None\<rparr>,
      ltn_realtime = \<lparr>lse_enabled = None, lse_replicas = None, lse_resources = sample_struct\<rparr>,
      ltn_storage = \<lparr>lto_backend = StorageBackendFile, lto_file_size_limit = None,
        lto_image_transformation = False, lto_s3 = None, lto_object_bucket = None\<rparr>,
      ltn_functions = \<lparr>lfn_verify_jwt = True, lfn_source = None\<rparr>,
      ltn_suspended = False, ltn_resources = ResourcePresetSmall\<rparr>"

definition sample_tenant :: "sample l_tenant" where
  "sample_tenant =
     \<lparr>ltc_type_meta = \<lparr>tm_kind = ''SupabaseTenant'', tm_api_version = ''v1alpha1''\<rparr>,
      ltc_meta = sample_struct, ltc_spec = sample_tenant_spec,
      ltc_status = \<lparr>lts_phase = ''Ready'', lts_conditions = Some (3, 1), lts_namespace = [], lts_endpoint = [],
        lts_components = \<lparr>tcs_database = sample_component_status, tcs_auth = sample_component_status,
          tcs_rest = sample_component_status, tcs_realtime = sample_component_status,
          tcs_storage = sample_component_status, tcs_functions = sample_component_status,
          tcs_routing = sample_component_status\<rparr>,
        lts_observed_generation = 1\<rparr>\<rparr>"

definition sample_memory :: "sample mem" where
  "sample_memory =
     [SupabaseTenantCell sample_tenant, Prim (MapV [''app'' \<mapsto> ''x'']), Prim (StringsV [''https://a'']),
      Prim (ConditionsV [sample_condition])]"

lemmas sample_defs = sample_memory_def sample_tenant_def sample_tenant_spec_def sample_struct_def
  sample_foreign_def

text \<open>The views of the parts, one addition at a time.\<close>

lemmas view_simps = struct_view_def both_view_def flat_view_def condition_view_def slice_view_def
  ptr_view_def prim_cell_def map_cell_def strings_cell_def conditions_cell_def tenant_cell_def

lemma sample_reads:
  "\<exists>v. ptr_view tenant_cell (SupabaseTenant_view sample_foreign) sample_memory (Some 0) =
     Some (Some v, {0, 1, 2, 3})"
proof -
  have "\<exists>au. TenantAuthSpec_view sample_memory (ltn_auth sample_tenant_spec) = Some (au, {2})"
    by (simp add: TenantAuthSpec_view_def view_simps views.simps sample_memory_def
          sample_tenant_spec_def)
  moreover have "\<exists>re. TenantRESTSpec_view sample_memory (ltn_rest sample_tenant_spec) = Some (re, {})"
    by (simp add: TenantRESTSpec_view_def view_simps sample_tenant_spec_def)
  moreover have "\<exists>rt. ServiceSpec_view sample_foreign sample_memory (ltn_realtime sample_tenant_spec) = Some (rt, {})"
    by (simp add: ServiceSpec_view_def view_simps sample_tenant_spec_def sample_foreign_def)
  moreover have "\<exists>st. TenantStorageSpec_view sample_memory (ltn_storage sample_tenant_spec) = Some (st, {})"
    by (simp add: TenantStorageSpec_view_def view_simps sample_tenant_spec_def)
  moreover have "\<exists>fn. TenantFunctionsSpec_view sample_memory (ltn_functions sample_tenant_spec) = Some (fn, {})"
    by (simp add: TenantFunctionsSpec_view_def view_simps sample_tenant_spec_def)
  ultimately have "\<exists>sp. SupabaseTenantSpec_view sample_foreign sample_memory sample_tenant_spec = Some (sp, {2})"
    by (auto simp: SupabaseTenantSpec_view_def struct_view_def both_view_def)
  moreover have "\<exists>me. meta_view sample_foreign sample_memory sample_struct = Some (me, {1})"
    by (simp add: sample_foreign_def view_simps sample_struct_def sample_memory_def)
  moreover have "\<exists>st. SupabaseTenantStatus_view sample_foreign sample_memory (ltc_status sample_tenant) = Some (st, {3})"
    by (simp add: SupabaseTenantStatus_view_def view_simps views.simps sample_tenant_def
          sample_memory_def)
  ultimately have "\<exists>v. SupabaseTenant_view sample_foreign sample_memory sample_tenant = Some (v, {1, 2, 3})"
    by (auto simp: SupabaseTenant_view_def struct_view_def both_view_def sample_tenant_def
          insert_commute)
  then show ?thesis
    by (auto simp: ptr_view_def tenant_cell_def sample_memory_def)
qed

text \<open>
  The witness of C0: in the instance, the copy of the tenant is a new cell, and when the
  original's conditions array is then overwritten in place the copy still reads as the tenant did.
\<close>

lemma copies_independent_witness:
  "let (q, m') = run_state (SupabaseTenant_DeepCopy sample_foreign (Some 0)) sample_memory;
       w = ptr_view tenant_cell (SupabaseTenant_view sample_foreign)
   in q = Some 4 \<and> (\<exists>v B. w sample_memory (Some 0) = Some (Some v, {0, 1, 2, 3}) \<and>
        w m' (Some 0) = Some (Some v, {0, 1, 2, 3}) \<and>
        w (m'[3 := Prim (ConditionsV [])]) q = Some (Some v, B))"
proof -
  let ?w = "ptr_view tenant_cell (SupabaseTenant_view sample_foreign)"
  obtain q m' where run: "run_state (SupabaseTenant_DeepCopy sample_foreign (Some 0)) sample_memory = (q, m')"
    by fastforce
  have q: "q = Some 4"
    using ptr_copy_new [of tenant_cell "SupabaseTenant_DeepCopyInto sample_foreign" 0 sample_memory] run
    by (simp add: SupabaseTenant_DeepCopy_def sample_memory_def)
  obtain v where v: "?w sample_memory (Some 0) = Some (Some v, {0, 1, 2, 3})"
    using sample_reads by blast
  have "independent_copy (SupabaseTenant_DeepCopy sample_foreign) ?w"
    using copies_independent [OF sample_foreign_laws] by blast
  then have "\<exists>B. ?w m' (Some 0) = Some (Some v, {0, 1, 2, 3}) \<and> ?w m' q = Some (Some v, B) \<and>
    {0, 1, 2, 3} \<inter> B = {} \<and>
    (\<forall>es. list_all (spares B) es \<longrightarrow> ?w (fold perform es m') q = Some (Some v, B)) \<and>
    (\<forall>es. list_all (spares {0, 1, 2, 3}) es \<longrightarrow>
       ?w (fold perform es m') (Some 0) = Some (Some v, {0, 1, 2, 3}))"
    unfolding independent_copy_def using v run by (elim allE impE) (rule conjI)
  then obtain B where "?w m' (Some 0) = Some (Some v, {0, 1, 2, 3})" "{0, 1, 2, 3} \<inter> B = {}"
    "\<forall>es. list_all (spares B) es \<longrightarrow> ?w (fold perform es m') q = Some (Some v, B)"
    by blast
  moreover from this(3) [rule_format, of "[Write 3 (Prim (ConditionsV []))]"] this(2)
  have "?w (m'[3 := Prim (ConditionsV [])]) q = Some (Some v, B)" by auto
  ultimately show ?thesis using run q v by auto
qed

end
