(* ===== verification/Interleaving.thy ===== *)
theory Interleaving
  imports OperatorRuns
begin

text \<open>
  Passes that run at the same time. The tenant controller works on up to five keys at once
  (\<open>MaxConcurrentReconciles\<close> in \<open>SetupWithManager\<close>), next to the platform controller and to everyone
  else who writes to the cluster. A pass is atomic in none of this, only its calls are: between two
  of them others may act. This is a pass in an environment whose every call is preceded by a step
  of the others, and what is shown of it holds for every choice of these steps.
\<close>

section \<open>Calls among those of others\<close>

text \<open>The world, with what the others do before each of the calls to come.\<close>

type_synonym 'w shared = "'w \<times> ('w \<Rightarrow> 'w) list"

definition turn :: "'w shared \<Rightarrow> 'w" where
  "turn s = (case snd s of [] \<Rightarrow> fst s | f # _ \<Rightarrow> f (fst s))"

definition after_others :: "('w, 'a) state \<Rightarrow> ('w shared, 'a) state" where
  "after_others m = State (\<lambda>s. case run_state m (turn s) of (x, w) \<Rightarrow> (x, (w, tl (snd s))))"

lemma run_after_others:
  "run_state (after_others m) s = (case run_state m (turn s) of (x, w) \<Rightarrow> (x, (w, tl (snd s))))"
  by (simp add: after_others_def)

definition interleaved :: "'w env \<Rightarrow> 'w shared env" where
  "interleaved e =
     \<lparr>get_namespace = \<lambda>k. after_others (get_namespace e k),
      get_network_policy = \<lambda>k. after_others (get_network_policy e k),
      get_secret = \<lambda>k. after_others (get_secret e k),
      get_database = \<lambda>k. after_others (get_database e k),
      get_job = \<lambda>k. after_others (get_job e k),
      get_deployment = \<lambda>k. after_others (get_deployment e k),
      get_service = \<lambda>k. after_others (get_service e k),
      get_config_map = \<lambda>k. after_others (get_config_map e k),
      get_http_route = \<lambda>k. after_others (get_http_route e k),
      get_cluster = \<lambda>k. after_others (get_cluster e k),
      get_scheduled_backup = \<lambda>k. after_others (get_scheduled_backup e k),
      get_gateway = \<lambda>k. after_others (get_gateway e k),
      get_supabase = \<lambda>k. after_others (get_supabase e k),
      get_tenant = \<lambda>k. after_others (get_tenant e k),
      list_clusters = \<lambda>n. after_others (list_clusters e n),
      list_gateways = \<lambda>n. after_others (list_gateways e n),
      list_tenants = after_others (list_tenants e),
      exec = \<lambda>wr. after_others (exec e wr),
      emit = \<lambda>ev. after_others (emit e ev),
      rand_read = \<lambda>n. after_others (rand_read e n),
      now_unix = after_others (now_unix e),
      set_gauge = \<lambda>g n. after_others (set_gauge e g n),
      observe_reconcile = \<lambda>c r. after_others (observe_reconcile e c r),
      sign_hs256 = sign_hs256 e,
      set_controller_reference = set_controller_reference e,
      set_status_condition = set_status_condition e,
      is_status_condition_true = is_status_condition_true e,
      contains_finalizer = contains_finalizer e,
      add_finalizer = add_finalizer e,
      remove_finalizer = remove_finalizer e\<rparr>"

lemma interleaved_calls:
  "get_namespace (interleaved e) k = after_others (get_namespace e k)"
  "get_network_policy (interleaved e) k = after_others (get_network_policy e k)"
  "get_secret (interleaved e) k = after_others (get_secret e k)"
  "get_database (interleaved e) k = after_others (get_database e k)"
  "get_job (interleaved e) k = after_others (get_job e k)"
  "get_deployment (interleaved e) k = after_others (get_deployment e k)"
  "get_service (interleaved e) k = after_others (get_service e k)"
  "get_config_map (interleaved e) k = after_others (get_config_map e k)"
  "get_http_route (interleaved e) k = after_others (get_http_route e k)"
  "get_cluster (interleaved e) k = after_others (get_cluster e k)"
  "get_scheduled_backup (interleaved e) k = after_others (get_scheduled_backup e k)"
  "get_gateway (interleaved e) k = after_others (get_gateway e k)"
  "get_supabase (interleaved e) k = after_others (get_supabase e k)"
  "get_tenant (interleaved e) k = after_others (get_tenant e k)"
  "list_clusters (interleaved e) n = after_others (list_clusters e n)"
  "list_gateways (interleaved e) n = after_others (list_gateways e n)"
  "list_tenants (interleaved e) = after_others (list_tenants e)"
  "exec (interleaved e) wr = after_others (exec e wr)"
  "emit (interleaved e) ev = after_others (emit e ev)"
  "rand_read (interleaved e) i = after_others (rand_read e i)"
  "now_unix (interleaved e) = after_others (now_unix e)"
  "set_gauge (interleaved e) g j = after_others (set_gauge e g j)"
  "observe_reconcile (interleaved e) c r = after_others (observe_reconcile e c r)"
  by (simp_all add: interleaved_def)

lemma keeps_after_others:
  assumes "keeps P m" and "\<forall>f\<in>F. \<forall>v. P v \<longrightarrow> P (f v)"
  shows "keeps (\<lambda>s. P (fst s) \<and> set (snd s) \<subseteq> F) (after_others m)"
proof (rule keepsI)
  fix s
  assume s: "P (fst s) \<and> set (snd s) \<subseteq> F"
  then have "P (turn s)" using assms(2) by (auto simp: turn_def split: list.split)
  from keepsD [OF assms(1) this] s
  show "P (fst (snd (run_state (after_others m) s))) \<and> set (snd (snd (run_state (after_others m) s))) \<subseteq> F"
    by (cases "snd s") (auto simp: run_after_others split: prod.splits)
qed

text \<open>What survives the calls and the steps of the others survives the calls among them.\<close>

lemma stable_interleaved:
  assumes "stable e A P" and "\<forall>f\<in>F. \<forall>v. P v \<longrightarrow> P (f v)"
  shows "stable (interleaved e) A (\<lambda>s. P (fst s) \<and> set (snd s) \<subseteq> F)"
proof -
  note calls = stable_get_namespace [OF assms(1)] stable_get_network_policy [OF assms(1)]
    stable_get_secret [OF assms(1)] stable_get_database [OF assms(1)]
    stable_get_job [OF assms(1)] stable_get_deployment [OF assms(1)]
    stable_get_service [OF assms(1)] stable_get_config_map [OF assms(1)]
    stable_get_http_route [OF assms(1)] stable_get_cluster [OF assms(1)]
    stable_get_scheduled_backup [OF assms(1)] stable_get_gateway [OF assms(1)]
    stable_get_supabase [OF assms(1)] stable_get_tenant [OF assms(1)]
    stable_list [OF assms(1)] stable_effect [OF assms(1)] stable_exec [OF assms(1)]
  show ?thesis
    unfolding stable_def interleaved_calls
    by (intro conjI allI impI keeps_after_others [where P = P and F = F] assms(2) calls)
qed

lemma reads_key_after_others: "reads_key mt g \<Longrightarrow> reads_key mt (\<lambda>k. after_others (g k))"
  by (fastforce simp: reads_key_def run_after_others split: prod.splits)

lemma client_laws_interleaved: "client_laws e \<Longrightarrow> client_laws (interleaved e)"
  unfolding client_laws_def well_keyed_def owner_laws_def interleaved_def env.simps
  by (intro conjI; (blast intro: reads_key_after_others)?)

section \<open>What is done, call by call\<close>

text \<open>A call that stores nothing, or one write with verb and target in \<open>A\<close>, accepted or not.\<close>

definition api_call :: "'w env \<Rightarrow> 'w store_view \<Rightarrow> footprint \<Rightarrow> 'w \<Rightarrow> 'w \<Rightarrow> bool" where
  "api_call e view A v v' \<longleftrightarrow>
     view v' = view v \<or> (\<exists>wr r. write_sig wr \<in> A \<and> run_state (exec e wr) v = (r, v'))"

abbreviation api_calls :: "'w env \<Rightarrow> 'w store_view \<Rightarrow> footprint \<Rightarrow> 'w \<Rightarrow> 'w \<Rightarrow> bool" where
  "api_calls e view A \<equiv> (api_call e view A)\<^sup>*\<^sup>*"

lemma api_calls_keep:
  assumes calls: "api_calls e view A v v'" and st: "stable e A (\<lambda>w. view w q = y)"
    and start: "view v q = y"
  shows "view v' q = y"
  using calls start
proof (induction rule: rtranclp_induct)
  case (step v1 v2)
  then have v1: "view v1 q = y" by simp
  from step(2) show ?case
    unfolding api_call_def
  proof (elim disjE exE conjE)
    fix wr r
    assume wr: "write_sig wr \<in> A" and run: "run_state (exec e wr) v1 = (r, v2)"
    from keeps_run [OF stable_exec [OF st wr] run v1] show ?thesis .
  qed (simp add: v1)
qed

text \<open>A computation that makes only such calls is a sequence of them.\<close>

lemma stable_api_calls:
  assumes api: "api_server e view admit"
  shows "stable e A (api_calls e view A w)"
proof -
  have quiet: "keeps (api_calls e view A w) m" if "silent view m" for m
  proof (rule keepsI, erule rtranclp.rtrancl_into_rtrancl)
    fix v
    from that have "view (snd (run_state m v)) = view v" unfolding silent_def by (metis prod.collapse)
    then show "api_call e view A v (snd (run_state m v))" by (simp add: api_call_def)
  qed
  have reads: "keeps (api_calls e view A w) (g k)" if "reads_store view K mk g" for K mk g k
    by (rule quiet) (use that in \<open>auto simp: silent_def dest: reads_storeD(1)\<close>)
  have exec: "keeps (api_calls e view A w) (exec e wr)" if "write_sig wr \<in> A" for wr
  proof (rule keepsI, erule rtranclp.rtrancl_into_rtrancl)
    fix v
    have "run_state (exec e wr) v = (fst (run_state (exec e wr) v), snd (run_state (exec e wr) v))" by simp
    with that show "api_call e view A v (snd (run_state (exec e wr) v))"
      unfolding api_call_def by blast
  qed
  show ?thesis
    unfolding stable_def
    using exec api_server_silent [OF api, THEN quiet] api_server_reads [OF api, THEN reads]
    by auto
qed

section \<open>A pass among others\<close>

text \<open>
  If what a pass may write, by the object it reads first, is in \<open>A\<close>, and the others make calls of
  \<open>A\<close> only, then the pass and they together do nothing else. So what is shown of passes in this
  way holds of any number of them at the same time: each is one of the others of the rest.
\<close>

lemma interleaved_pass:
  assumes api: "api_server e view admit" and own: "owner_laws e"
    and fp: "request_footprint view (turn (w, fs)) r \<subseteq> A"
    and others: "\<forall>f\<in>set fs. \<forall>v. api_calls e view A v (f v)"
    and run: "run_state (serve (interleaved e) r) (w, fs) = (x, (w', fs'))"
  shows "api_calls e view A w w'"
proof -
  let ?Q = "api_calls e view A w" and ?F = "{f. \<forall>v. api_calls e view A v (f v)}"
  let ?P = "\<lambda>s. ?Q (fst s) \<and> set (snd s) \<subseteq> ?F"
  note e = client_laws_interleaved [OF api_client_laws [OF api own]]
  have "\<forall>f\<in>?F. \<forall>v. ?Q v \<longrightarrow> ?Q (f v)" by (auto intro: rtranclp_trans)
  from stable_interleaved [OF stable_api_calls [OF api] this]
  have st: "stable (interleaved e) A ?P" .
  have start: "?P (w, fs)" using others by auto
  have "?P (w', fs')"
  proof (cases r)
    case (PlatformReq k)
    have "stable (interleaved e) (platform_footprint k) ?P"
      by (rule stable_mono [OF st]) (use fp PlatformReq in simp)
    from keeps_run [OF Reconcile_keeps [OF e this] _ start] run PlatformReq show ?thesis by simp
  next
    case (TenantReq k)
    obtain g w1 where g: "run_state (get_tenant e k) (turn (w, fs)) = (g, w1)" by fastforce
    have get: "run_state (get_tenant (interleaved e) k) (w, fs) = (g, (w1, tl fs))"
      by (simp add: interleaved_calls run_after_others g)
    have start1: "?P (w1, tl fs)"
      using keeps_run [OF stable_get_tenant [OF st] get start] .
    define rest where "rest = (case g of
        Inl err \<Rightarrow> if is_not_found err then ret ((no_requeue, None), ''success'')
          else ret ((no_requeue, Some err), ''success'')
      | Inr t \<Rightarrow> reconcile_found (interleaved e) t)"
    have "keeps ?P rest"
    proof (cases g)
      case (Inl err)
      then show ?thesis by (simp add: rest_def keeps_return)
    next
      case (Inr t)
      with reads_storeD(2) [OF api_server_reads(14) [OF api] g]
      have "tenant_footprint t \<subseteq> A" using fp TenantReq by simp
      from reconcile_found_keeps [OF e stable_mono [OF st this]] Inr show ?thesis
        by (simp add: rest_def)
    qed
    moreover have "\<And>l. keeps ?P (observe_reconcile (interleaved e) ''supabasetenant'' l)"
      by (rule stable_effect(5) [OF st])
    ultimately have "keeps ?P (do { (res, l) \<leftarrow> rest;
        observe_reconcile (interleaved e) ''supabasetenant'' l; ret res })"
      by (intro keeps_bind keeps_return) (auto split: prod.split intro!: keeps_bind keeps_return)
    moreover have "run_state (do { (res, l) \<leftarrow> rest;
        observe_reconcile (interleaved e) ''supabasetenant'' l; ret res }) (w1, tl fs) = (x, (w', fs'))"
      using run TenantReq get
      by (simp add: Tenant_Reconcile_def tenant_reconcile_body_def rest_def)
    ultimately show ?thesis using start1 by (rule keeps_run)
  qed
  then show ?thesis by simp
qed

text \<open>Writes that have nothing to do with a tenant, and writes that leave an object if it exists.\<close>

definition sparing :: "supabase_tenant \<Rightarrow> footprint" where
  "sparing u = {s. \<forall>q\<in>tenant_objects u. avoids {s} q}"

definition creating :: "obj_ref \<Rightarrow> footprint" where
  "creating q = {s. creates_only {s} q}"

lemma sparing_avoids: "q \<in> tenant_objects u \<Longrightarrow> avoids (sparing u) q"
  by (auto simp: sparing_def avoids_def)

lemma creating_only: "creates_only (creating q) q"
  by (auto simp: creating_def creates_only_def)

lemma foreign_sparing: "foreign view u r w \<Longrightarrow> request_footprint view w r \<subseteq> sparing u"
  using foreign_avoids [of view u r w] by (fastforce simp: sparing_def avoids_def)

lemma secrets_creating:
  "not_finalizing view u r w \<Longrightarrow> q \<in> secret_refs u \<Longrightarrow> request_footprint view w r \<subseteq> creating q"
  using secrets_only_created [of view u r w q] by (fastforce simp: creating_def creates_only_def)

lemma interleaved_secrets:
  assumes "api_server e view admit" and "owner_laws e"
    and "not_finalizing view u r (turn (w, fs))" and q: "q \<in> secret_refs u"
    and "\<forall>f\<in>set fs. \<forall>v. api_calls e view (creating q) v (f v)"
    and "run_state (serve (interleaved e) r) (w, fs) = (x, (w', fs'))"
    and "view w q = Some s"
  shows "view w' q = Some s"
  by (rule api_calls_keep [OF interleaved_pass [OF assms(1,2) secrets_creating [OF assms(3) q] assms(5,6)]
        api_server_stable_present [OF assms(1) creating_only] assms(7)])

text \<open>
  C12: tenants stay isolated when passes run at the same time. Take a pass over another tenant of
  the platform, or over a platform elsewhere, and let others act before each of its calls, with any
  calls that have nothing to do with the tenant. Then all they do together has nothing to do with
  the tenant, so that the pass may in turn be one of the others of a further pass, and nothing
  that belongs to the tenant changes.
\<close>

theorem concurrent_isolation:
  assumes "api_server e view admit" and "owner_laws e"
    and "foreign view u r (turn (w, fs))"
    and "\<forall>f\<in>set fs. \<forall>v. api_calls e view (sparing u) v (f v)"
    and "run_state (serve (interleaved e) r) (w, fs) = (x, (w', fs'))"
  shows "api_calls e view (sparing u) w w' \<and> (\<forall>q\<in>tenant_objects u. view w' q = view w q)"
proof -
  have calls: "api_calls e view (sparing u) w w'"
    by (rule interleaved_pass [OF assms(1,2) foreign_sparing [OF assms(3)] assms(4,5)])
  then show ?thesis
    using api_calls_keep [OF calls api_server_stable [OF assms(1) sparing_avoids]] by blast
qed

text \<open>
  The witness of C0: a pass over \<open>acme\<close> during which a whole pass over the platform runs between
  its second and its third call.
\<close>

definition platform_meanwhile :: "world \<Rightarrow> world" where
  "platform_meanwhile v = snd (run_state (serve env (PlatformReq main_key)) v)"

lemma platform_meanwhile_calls: "api_calls env mem_view (sparing umbrella) v (platform_meanwhile v)"
proof -
  have "foreign mem_view umbrella (PlatformReq main_key) v"
    by (simp add: main_key_def tenant_namespace_def)
  from foreign_sparing [OF this]
  have "stable env (platform_footprint main_key) (api_calls env mem_view (sparing umbrella) v)"
    using stable_mono [OF stable_api_calls [OF env_laws(1)]] by simp
  from keepsD [OF Reconcile_keeps [OF api_client_laws [OF env_laws(1,2)] this]]
  show ?thesis by (simp add: platform_meanwhile_def)
qed

theorem concurrent_isolation_witness:
  "mem_view (fst (snd (run_state (serve (interleaved env) (TenantReq acme_key))
       (settled_world acme, [id, id, platform_meanwhile])))) (t_database_ref umbrella) =
   mem_view (settled_world acme) (t_database_ref umbrella)"
proof -
  let ?run = "run_state (serve (interleaved env) (TenantReq acme_key))
    (settled_world acme, [id, id, platform_meanwhile])"
  have "foreign mem_view umbrella (TenantReq acme_key) (turn (settled_world acme, [id, id, platform_meanwhile]))"
    by (simp add: turn_def settled_world_view acme_umbrella)
  moreover have "\<forall>f\<in>set [id, id, platform_meanwhile]. \<forall>v. api_calls env mem_view (sparing umbrella) v (f v)"
    using platform_meanwhile_calls by simp
  moreover have "?run = (fst ?run, (fst (snd ?run), snd (snd ?run)))" by simp
  ultimately have "\<forall>q\<in>tenant_objects umbrella. mem_view (fst (snd ?run)) q = mem_view (settled_world acme) q"
    by (intro conjunct2 [OF concurrent_isolation [OF env_laws(1,2)]])
  then show ?thesis by (simp add: tenant_objects_def)
qed

end
