(* ===== verification/PlatformConvergence.thy ===== *)
theory PlatformConvergence
  imports TenantConvergence PlatformProperties
begin

text \<open>
  Progress of a platform: with an API server that answers and accepts, and operators of the
  database, the gateway and the Deployments that act on what is written, one pass over a platform
  brings it to phase Ready, exactly when each of its services that is on wants at least one pod.
\<close>

section \<open>What is relied on\<close>

definition platform_answering :: "'w env \<Rightarrow> bool" where
  "platform_answering e \<longleftrightarrow>
     reliable (get_cluster e) \<and> reliable (get_scheduled_backup e) \<and> reliable (get_gateway e) \<and>
     reliable (get_config_map e) \<and> reliable (get_deployment e) \<and> reliable (get_service e) \<and>
     reliable (get_supabase e) \<and>
     (\<forall>n. results (\<lambda>r. \<exists>x. r = Inr x) (list_clusters e n)) \<and>
     (\<forall>n. results (\<lambda>r. \<exists>x. r = Inr x) (list_gateways e n))"

text \<open>An object its operators have acted on: a cluster is ready, a gateway accepted, pods run.\<close>

fun operated :: "obj \<Rightarrow> bool" where
  "operated (OCluster cl) \<longleftrightarrow> fst (cluster_ready (cl_conditions cl))"
| "operated (OGateway gw) \<longleftrightarrow> fst (gateway_accepted (gw_conditions gw))"
| "operated x \<longleftrightarrow> running x"

definition owner_references_set :: "'w env \<Rightarrow> bool" where
  "owner_references_set e \<longleftrightarrow> (\<forall>sb m. \<exists>m'. set_controller_reference e sb m = Inr m')"

definition platform_cooperative :: "'w env \<Rightarrow> 'w store_view \<Rightarrow> (obj \<Rightarrow> obj) \<Rightarrow> bool" where
  "platform_cooperative e view admit \<longleftrightarrow>
     api_server e view admit \<and> platform_answering e \<and> accepting e view \<and>
     owner_laws e \<and> owner_references_set e \<and> plain_admission admit \<and> (\<forall>x. operated (admit x))"

lemma platform_cooperativeD:
  assumes "platform_cooperative e view admit"
  shows "api_server e view admit" "platform_answering e" "accepting e view" "owner_laws e"
    "owner_references_set e" "plain_admission admit" "\<And>x. operated (admit x)"
  using assms by (simp_all add: platform_cooperative_def)

lemma platform_answeringD:
  assumes "platform_answering e"
  shows "reliable (get_cluster e)" "reliable (get_scheduled_backup e)" "reliable (get_gateway e)"
    "reliable (get_config_map e)" "reliable (get_deployment e)" "reliable (get_service e)"
    "reliable (get_supabase e)" "results (\<lambda>r. \<exists>x. r = Inr x) (list_clusters e n)"
    "results (\<lambda>r. \<exists>x. r = Inr x) (list_gateways e n)"
  using assms by (simp_all add: platform_answering_def)

section \<open>Each component reconciles\<close>

text \<open>What is written is accepted, is there afterwards, operated, and can be read.\<close>

lemma upsert_operated:
  assumes co: "platform_cooperative e view admit"
    and reads: "reads_store view K mk g" and rel: "reliable g"
    and kind: "\<And>x. obj_kind (mk x) = K" "\<And>x. obj_kind x = K \<Longrightarrow> \<exists>y. x = mk y" and inj: "inj mk"
    and merge: "\<And>x. meta_key (obj_meta (mk (merge x))) = meta_key (obj_meta (mk x))"
  obtains w1 z w2 where "run_state (create_or_patch e g mk what ev merge desired) w = (None, w1)"
    and "operated (mk z)" and "run_state (g (meta_key (obj_meta (mk desired)))) w1 = (Inr z, w2)"
proof -
  note D = platform_cooperativeD [OF co]
  let ?q = "obj_ref (mk desired)"
  obtain w1 where run: "run_state (create_or_patch e g mk what ev merge desired) w = (None, w1)"
    using patch_succeeds [where g = g and mk = mk and merge = merge and desired = desired and what = what
        and ev = ev, OF D(1,3) reads rel kind(1) merge]
    by (metis prod.collapse)
  note ok = create_or_patch_ok [OF D(1) reads kind(1) inj merge run]
  have "\<exists>y. view w1 ?q = Some (admit y)"
  proof (cases "view w ?q")
    case None
    with ok(1) show ?thesis by auto
  next
    case (Some x)
    have "obj_kind x = K" using api_server_keyed [OF D(1) Some] by (simp add: obj_ref_def kind)
    with kind(2) obtain y where "x = mk y" by blast
    with ok(2) Some show ?thesis by auto
  qed
  then obtain y where y: "view w1 ?q = Some (admit y)" by blast
  have "obj_kind (admit y) = K" using api_server_keyed [OF D(1) y] by (simp add: obj_ref_def kind)
  with kind(2) obtain z where z: "admit y = mk z" by blast
  with y have at: "view w1 (K, meta_key (obj_meta (mk desired))) = Some (mk z)"
    by (simp add: obj_ref_def kind)
  obtain w2 where "run_state (g (meta_key (obj_meta (mk desired)))) w1 = (Inr z, w2)"
    by (rule reliable_found [OF reads rel inj at])
  with run z D(7) [of y] that show thesis by simp
qed

lemma owner_set:
  assumes co: "platform_cooperative e view admit"
  obtains m' where "set_controller_reference e sb m = Inr m'" and "meta_key m' = meta_key m"
proof -
  note D = platform_cooperativeD [OF co]
  from D(5) obtain m' where "set_controller_reference e sb m = Inr m'"
    unfolding owner_references_set_def by blast
  with owner_laws_key [OF api_client_laws [OF D(1,4)] this] that show thesis by blast
qed

lemma platform_kinds:
  "obj_kind x = KCluster \<Longrightarrow> \<exists>y. x = OCluster y" "obj_kind x = KScheduledBackup \<Longrightarrow> \<exists>y. x = OScheduledBackup y"
  "obj_kind x = KGateway \<Longrightarrow> \<exists>y. x = OGateway y" "obj_kind x = KConfigMap \<Longrightarrow> \<exists>y. x = OConfigMap y"
  "obj_kind x = KDeployment \<Longrightarrow> \<exists>y. x = ODeployment y" "obj_kind x = KService \<Longrightarrow> \<exists>y. x = OService y"
  by (cases x; simp)+

lemma merge_keys:
  "meta_key (cl_meta (mergeCluster d x)) = meta_key (cl_meta x)"
  "meta_key (bk_meta (mergeBackup b y)) = meta_key (bk_meta y)"
  "meta_key (gw_meta (mergeGateway g z)) = meta_key (gw_meta z)"
  by (simp_all add: mergeCluster_def mergeBackup_def mergeGateway_def meta_key_def)

lemma cluster_ready_after:
  assumes co: "platform_cooperative e view admit"
  shows "fst (fst (run_state (reconcile_component e gen (NewCNPGCluster e) ct cs c) w)) = (True, False)"
proof -
  note D = platform_cooperativeD [OF co]
  obtain m where m: "set_controller_reference e (px_supabase c) (cl_meta (buildCluster c)) = Inr m"
    and key: "meta_key m = meta_key (cl_meta (buildCluster c))"
    by (rule owner_set [OF co])
  let ?d = "(buildCluster c)\<lparr>cl_meta := m\<rparr>"
  let ?ev = "created_event (supabase_ref (px_supabase c)) ''CNPG Cluster'' (om_name m)"
  obtain w1 z w2 where "run_state (create_or_patch e (get_cluster e) OCluster ''CNPG cluster'' ?ev
      (mergeCluster ?d) ?d) w = (None, w1)" and "operated (OCluster z)"
    and "run_state (get_cluster e (nn (Namespace c) (clusterName c))) w1 = (Inr z, w2)"
    by (rule upsert_operated [where mk = OCluster and desired = ?d and merge = "mergeCluster ?d" and w = w
          and what = "''CNPG cluster''" and ev = ?ev,
          OF co api_server_reads(10) [OF D(1)] platform_answeringD(1) [OF D(2)]])
      (auto simp: platform_kinds inj_def merge_keys key buildCluster_key)
  with m show ?thesis
    by (intro step_ready [where cp = "NewCNPGCluster e" and c = c and w = w and ?c1.0 = c and ?w1.0 = w1])
      (simp_all add: NewCNPGCluster_def cluster_reconcile_def cluster_healthcheck_def result_of_def Let_def
        run_simps split_beta)
qed

lemma backup_ready_after:
  assumes co: "platform_cooperative e view admit"
  shows "fst (fst (run_state (reconcile_component e gen (NewScheduledBackup e) ct cs c) w)) = (True, False)"
proof (cases "backupSpec c")
  case None
  then show ?thesis
    by (intro step_ready [where cp = "NewScheduledBackup e" and c = c and w = w and ?c1.0 = c and ?w1.0 = w])
      (simp_all add: NewScheduledBackup_def backup_reconcile_def backup_healthcheck_def)
next
  case (Some spec)
  note D = platform_cooperativeD [OF co]
  obtain m where m: "set_controller_reference e (px_supabase c) (bk_meta (buildScheduledBackup c spec)) = Inr m"
    and key: "meta_key m = meta_key (bk_meta (buildScheduledBackup c spec))"
    by (rule owner_set [OF co])
  let ?d = "(buildScheduledBackup c spec)\<lparr>bk_meta := m\<rparr>"
  let ?ev = "created_event (supabase_ref (px_supabase c)) ''ScheduledBackup'' (om_name m)"
  obtain w1 z w2 where "run_state (create_or_patch e (get_scheduled_backup e) OScheduledBackup ''ScheduledBackup'' ?ev
      (mergeBackup ?d) ?d) w = (None, w1)" and "operated (OScheduledBackup z)"
    and "run_state (get_scheduled_backup e (nn (Namespace c) (backupName c))) w1 = (Inr z, w2)"
    by (rule upsert_operated [where mk = OScheduledBackup and desired = ?d and merge = "mergeBackup ?d" and w = w
          and what = "''ScheduledBackup''" and ev = ?ev,
          OF co api_server_reads(11) [OF D(1)] platform_answeringD(2) [OF D(2)]])
      (auto simp: platform_kinds inj_def merge_keys key buildScheduledBackup_key)
  with m Some show ?thesis
    by (intro step_ready [where cp = "NewScheduledBackup e" and c = c and w = w and ?c1.0 = c and ?w1.0 = w1])
      (simp_all add: NewScheduledBackup_def backup_reconcile_def backup_healthcheck_def result_of_def Let_def
        run_simps split_beta)
qed

lemma gateway_ready_after:
  assumes co: "platform_cooperative e view admit"
  shows "fst (fst (run_state (reconcile_component e gen (NewGateway e) ct cs c) w)) = (True, False)"
proof -
  note D = platform_cooperativeD [OF co]
  obtain m where m: "set_controller_reference e (px_supabase c) (gw_meta (buildGateway c)) = Inr m"
    and key: "meta_key m = meta_key (gw_meta (buildGateway c))"
    by (rule owner_set [OF co])
  let ?d = "(buildGateway c)\<lparr>gw_meta := m\<rparr>"
  let ?ev = "created_event (supabase_ref (px_supabase c)) ''Gateway'' (om_name m)"
  obtain w1 z w2 where "run_state (create_or_patch e (get_gateway e) OGateway ''Gateway'' ?ev
      (mergeGateway ?d) ?d) w = (None, w1)" and "operated (OGateway z)"
    and "run_state (get_gateway e (nn (Namespace c) (gatewayName c))) w1 = (Inr z, w2)"
    by (rule upsert_operated [where mk = OGateway and desired = ?d and merge = "mergeGateway ?d" and w = w
          and what = "''Gateway''" and ev = ?ev,
          OF co api_server_reads(12) [OF D(1)] platform_answeringD(3) [OF D(2)]])
      (auto simp: platform_kinds inj_def merge_keys key buildGateway_key)
  with m show ?thesis
    by (intro step_ready [where cp = "NewGateway e" and c = c and w = w and ?c1.0 = c and ?w1.0 = w1])
      (simp_all add: NewGateway_def gateway_reconcile_def gateway_healthcheck_def result_of_def Let_def
        run_simps split_beta)
qed

text \<open>A service that is on is ready exactly when it wants a pod, and never reports an error.\<close>

definition wants_pods :: "platform_builder \<Rightarrow> platform_ctx \<Rightarrow> bool" where
  "wants_pods b c \<longleftrightarrow>
     pb_is_enabled b c \<longrightarrow> (case ds_replicas (dep_spec (pb_build_deployment b c)) of None \<Rightarrow> False | Some n \<Rightarrow> 1 \<le> n)"

lemma step_outcome_of:
  assumes "run_state (comp_reconcile cp c) w = ((Inr no_requeue, c1), w1)"
    and "\<exists>msg. fst (run_state (comp_healthcheck cp c1) w1) = (ok, msg, None)"
  shows "fst (fst (run_state (reconcile_component e gen cp ct cs c) w)) = (ok, False)"
  using assms by (auto simp: reconcile_component_def run_simps no_requeue_def split_beta)

lemma with_owner_upsert:
  assumes co: "platform_cooperative e view admit"
    and "reads_store view K mk g" and "reliable g"
    and "\<And>x. obj_kind (mk x) = K" and "\<And>x. obj_kind x = K \<Longrightarrow> \<exists>y. x = mk y" and "inj mk"
    and "\<And>d x. meta_key (obj_meta (mk (mrg d x))) = meta_key (obj_meta (mk x))"
  obtains w1 where "run_state (with_owner e c what m (\<lambda>m'.
      create_or_patch e g mk what (ev m') (mrg (upd m')) (upd m'))) w = (None, w1)"
proof -
  obtain m' where m': "set_controller_reference e (px_supabase c) m = Inr m'" by (rule owner_set [OF co])
  obtain w1 where "run_state (create_or_patch e g mk what (ev m') (mrg (upd m')) (upd m')) w = (None, w1)"
    by (rule upsert_operated [OF co assms(2-6), where merge = "mrg (upd m')" and desired = "upd m'"
          and what = what and ev = "ev m'" and w = w]) (auto simp: assms(7))
  with m' that show thesis by (simp add: with_owner_def)
qed


lemma replicas_given:
  "list_all (\<lambda>b. ds_replicas (dep_spec (pb_build_deployment b c)) \<noteq> None) serviceBuilders"
  by (simp add: serviceBuilders_def ImgproxyBuilder_def AnalyticsBuilder_def VectorBuilder_def
      SupavisorBuilder_def StudioBuilder_def imgproxy_BuildDeployment_def analytics_BuildDeployment_def
      vector_BuildDeployment_def supavisor_BuildDeployment_def studio_BuildDeployment_def builder_defs)

lemma owned_key:
  assumes "platform_cooperative e view admit"
  shows "meta_key (owned e c m) = meta_key m"
  by (rule owner_set [OF assms, of "px_supabase c" m]) (simp add: owned_def)

lemma service_outcome:
  assumes co: "platform_cooperative e view admit" and b: "b \<in> set serviceBuilders"
  shows "fst (fst (run_state (reconcile_component e gen (NewServiceComponent b e) ct cs c) w)) = (wants_pods b c, False)"
proof (cases "pb_is_enabled b c")
  case False
  then show ?thesis
    by (intro step_outcome_of [where cp = "NewServiceComponent b e" and c = c and w = w and ?c1.0 = c and ?w1.0 = w])
      (simp_all add: NewServiceComponent_def service_reconcile_def service_healthcheck_def wants_pods_def)
next
  case True
  note D = platform_cooperativeD [OF co]
  note api = D(1) and ans = platform_answeringD [OF D(2)]
  obtain w0 where cm: "run_state (reconcile_config_map e b c) w = (None, w0)"
  proof (cases "pb_build_config_map b")
    case None
    with that show thesis by (simp add: reconcile_config_map_def)
  next
    case (Some build)
    show thesis
      by (rule with_owner_upsert [where mrg = mergeConfigMap
            and w = w and c = c and what = "''configmap''" and m = "cm_meta (build c)"
            and ev = "\<lambda>m. created_event (supabase_ref (px_supabase c)) ''ConfigMap'' (om_name m)"
            and upd = "\<lambda>m. (build c)\<lparr>cm_meta := m\<rparr>", OF co api_server_reads(8) [OF api] ans(4)])
        (auto simp: platform_kinds inj_def key_simps reconcile_config_map_def Some intro: that)
  qed
  obtain w1 where dp: "run_state (reconcile_deployment e b c) w0 = (None, w1)"
    by (rule with_owner_upsert [where mrg = mergeDeployment
          and w = w0 and c = c and what = "''deployment''" and m = "dep_meta (pb_build_deployment b c)"
          and ev = "\<lambda>m. created_event (supabase_ref (px_supabase c)) ''Deployment'' (om_name m)"
          and upd = "\<lambda>m. (pb_build_deployment b c)\<lparr>dep_meta := m\<rparr>", OF co api_server_reads(6) [OF api] ans(5)])
      (auto simp: platform_kinds inj_def key_simps reconcile_deployment_def)
  obtain w2 where sv: "run_state (reconcile_service e b c) w1 = (None, w2)"
    by (rule with_owner_upsert [where mrg = mergeService
          and w = w1 and c = c and what = "''service''" and m = "svc_meta (pb_build_service b c)"
          and ev = "\<lambda>m. created_event (supabase_ref (px_supabase c)) ''Service'' (om_name m)"
          and upd = "\<lambda>m. (pb_build_service b c)\<lparr>svc_meta := m\<rparr>", OF co api_server_reads(7) [OF api] ans(6)])
      (auto simp: platform_kinds inj_def key_simps reconcile_service_def)
  have run: "run_state (service_reconcile b e c) w = ((Inr no_requeue, c), w2)"
    using True cm dp sv by (simp add: service_reconcile_def result_of_def and_then_def)
  let ?D = "owned_deployment e b c" and ?k = "meta_key (dep_meta (pb_build_deployment b c))"
  let ?up = "upserted_deployment admit ?D (view w0 (obj_ref (ODeployment ?D)))"
  have ref: "obj_ref (ODeployment ?D) = (KDeployment, ?k)"
    by (simp add: obj_ref_def owned_deployment_def owned_key [OF co])
  note d1 = upsert_deployment [OF api with_owner_ok [OF dp [unfolded reconcile_deployment_def]], folded owned_deployment_def]
  note s1 = upsert_service [OF api with_owner_ok [OF sv [unfolded reconcile_service_def]]]
  have v: "view w2 (KDeployment, ?k) = Some ?up"
    using d1 s1 ref by (simp add: obj_ref_def)
  obtain d where d: "?up = ODeployment d" "dep_spec d = dep_spec ?D"
    using upserted_deployment_spec [OF D(6)] by metis
  have "operated ?up" using D(7) by (simp add: upserted_deployment_def)
  moreover obtain n where n: "ds_replicas (dep_spec (pb_build_deployment b c)) = Some n"
    using replicas_given [of c] b unfolding list_all_iff by blast
  ultimately have health: "fst (replica_health d) \<longleftrightarrow> 1 \<le> n"
    using d by (auto simp: replica_health_def Let_def owned_deployment_def)
  obtain w3 where "run_state (get_deployment e ?k) w2 = (Inr d, w3)"
    by (rule reliable_found [OF api_server_reads(6) [OF api] ans(5), of w2 _ d])
      (use v d in \<open>auto simp: inj_def\<close>)
  with run True health n show ?thesis
    by (intro step_outcome_of [where cp = "NewServiceComponent b e" and c = c and w = w and ?c1.0 = c and ?w1.0 = w2])
      (simp_all add: NewServiceComponent_def service_healthcheck_def wants_pods_def run_simps split_beta)
qed

section \<open>The whole pass\<close>

text \<open>Every service that is on wants at least one pod.\<close>

definition pods_wanted :: "supabase_spec \<Rightarrow> bool" where
  "pods_wanted sp \<longleftrightarrow>
     (\<forall>s \<in> {sp_imgproxy sp, sp_analytics sp, sp_vector sp, sp_supavisor sp, sp_studio sp}.
        IsEnabled s \<longrightarrow> 1 \<le> GetReplicas s)"

lemma wants_pods_spec:
  "wants_pods ImgproxyBuilder c \<longleftrightarrow> (IsEnabled (sp_imgproxy (sb_spec (px_supabase c))) \<longrightarrow> 1 \<le> GetReplicas (sp_imgproxy (sb_spec (px_supabase c))))"
  "wants_pods AnalyticsBuilder c \<longleftrightarrow> (IsEnabled (sp_analytics (sb_spec (px_supabase c))) \<longrightarrow> 1 \<le> GetReplicas (sp_analytics (sb_spec (px_supabase c))))"
  "wants_pods VectorBuilder c \<longleftrightarrow> (IsEnabled (sp_vector (sb_spec (px_supabase c))) \<longrightarrow> 1 \<le> GetReplicas (sp_vector (sb_spec (px_supabase c))))"
  "wants_pods SupavisorBuilder c \<longleftrightarrow> (IsEnabled (sp_supavisor (sb_spec (px_supabase c))) \<longrightarrow> 1 \<le> GetReplicas (sp_supavisor (sb_spec (px_supabase c))))"
  "wants_pods StudioBuilder c \<longleftrightarrow> (IsEnabled (sp_studio (sb_spec (px_supabase c))) \<longrightarrow> 1 \<le> GetReplicas (sp_studio (sb_spec (px_supabase c))))"
  by (simp_all add: wants_pods_def ImgproxyBuilder_def AnalyticsBuilder_def VectorBuilder_def
      SupavisorBuilder_def StudioBuilder_def imgproxy_BuildDeployment_def analytics_BuildDeployment_def
      vector_BuildDeployment_def supavisor_BuildDeployment_def studio_BuildDeployment_def builder_defs)

lemma wants_pods_all:
  "list_all (\<lambda>b. wants_pods b c) serviceBuilders \<longleftrightarrow> pods_wanted (sb_spec (px_supabase c))"
  by (simp add: serviceBuilders_def wants_pods_spec pods_wanted_def)

lemma wants_pods_sync:
  "b \<in> set serviceBuilders \<Longrightarrow> wants_pods b (platform_sync sb cs c) = wants_pods b \<lparr>px_supabase = sb\<rparr>"
  by (auto simp: serviceBuilders_def wants_pods_spec platform_sync_def)

lemma steps_results:
  assumes run: "run_state (run_steps e gen (platform_sync sb) (platform_steps (map mk xs)) cs c) w = ((rs, cs', c'), w')"
    and step: "\<And>x ct cs c w. x \<in> set xs \<Longrightarrow>
      fst (fst (run_state (reconcile_component e gen (mk x) ct cs (platform_sync sb cs c)) w)) = (f x, False)"
  shows "rs = map (\<lambda>x. (f x, False)) xs"
  using assms
proof (induction xs arbitrary: cs c w rs)
  case Nil
  then show ?case by (simp add: platform_steps_def)
next
  case (Cons x xs)
  obtain r cs1 c1 w1 where
    one: "run_state (reconcile_component e gen (mk x) (conditionMap (comp_name (mk x))) cs (platform_sync sb cs c)) w =
      ((r, cs1, c1), w1)"
    by (metis prod.exhaust)
  obtain rs2 where rest: "run_state (run_steps e gen (platform_sync sb) (platform_steps (map mk xs)) cs1 c1) w1 =
      ((rs2, cs', c'), w')" and rs: "rs = r # rs2"
    using Cons.prems(1) one by (auto simp: platform_steps_def split: prod.splits)
  have "r = (f x, False)" using Cons.prems(2) [of x _ cs c w] one by (metis fst_conv list.set_intros(1))
  with Cons.IH [OF rest] Cons.prems(2) rs show ?case by simp
qed

lemma platform_outcome:
  assumes co: "platform_cooperative e view admit"
    and run: "run_state (reconcile_platform e sb) w = (v, w')"
  shows "derivePhase (lv_has_error v) (lv_all_ready v) (lv_db_ready v) =
    (if pods_wanted (sb_spec sb) then SupphaseReady else SupphaseProvisioning)"
proof (rule reconcile_platform_steps [OF run])
  fix rs cs c w1
  assume crit: "run_state (run_steps e (om_generation (sb_meta sb)) (platform_sync sb)
       (platform_steps (criticalComponents e)) (sst_conditions (sb_status sb)) \<lparr>px_supabase = sb\<rparr>) w =
       ((rs, cs, c), w1)"
    and db: "lv_db_ready v = db_flag (criticalComponents e) rs False"
    and good: "\<not> any_error rs \<Longrightarrow> \<exists>rs2 cs2 c2.
           run_state (run_steps e (om_generation (sb_meta sb)) (platform_sync sb)
             (platform_steps (serviceComponents e)) cs c) w1 = ((rs2, cs2, c2), w') \<and>
           lv_supabase v = with_conditions sb cs2 \<and> lv_has_error v = any_error rs2 \<and>
           lv_all_ready v = all_ready (rs @ rs2)"
  have "rs = map (\<lambda>_. (True, False)) (criticalComponents e)"
    by (rule steps_results [where mk = id and xs = "criticalComponents e", unfolded list.map_id, OF crit])
      (auto simp: criticalComponents_def cluster_ready_after [OF co] backup_ready_after [OF co]
        gateway_ready_after [OF co])
  then have rs: "rs = [(True, False), (True, False), (True, False)]" by (simp add: criticalComponents_def)
  with good obtain rs2 cs2 c2 where serv: "run_state (run_steps e (om_generation (sb_meta sb)) (platform_sync sb)
      (platform_steps (serviceComponents e)) cs c) w1 = ((rs2, cs2, c2), w')"
    and v: "lv_has_error v = any_error rs2" "lv_all_ready v = all_ready (rs @ rs2)"
    by auto
  have rs2: "rs2 = map (\<lambda>b. (wants_pods b \<lparr>px_supabase = sb\<rparr>, False)) serviceBuilders"
    by (rule steps_results [OF serv [unfolded serviceComponents_def]])
      (simp add: service_outcome [OF co] wants_pods_sync)
  have "all_ready rs2 \<longleftrightarrow> pods_wanted (sb_spec sb)" "\<not> any_error rs2"
    using wants_pods_all [of "\<lparr>px_supabase = sb\<rparr>"] by (auto simp: rs2 list_all_iff list_ex_iff)
  then show ?thesis
    by (simp add: v rs db db_flag_critical derivePhase_def)
qed

lemma updateStatus_accepted:
  assumes "run_state (exec e (StatusPatch (OSupabase base) (OSupabase (sb\<lparr>sb_status := (sb_status sb)
    \<lparr>sst_phase := phase, sst_observed_generation := om_generation (sb_meta sb)\<rparr>\<rparr>)))) w = (None, w')"
  shows "snd (fst (run_state (updateStatus e sb base phase None) w)) = None"
proof -
  let ?wr = "StatusPatch (OSupabase base) (OSupabase (sb\<lparr>sb_status := (sb_status sb)
    \<lparr>sst_phase := phase, sst_observed_generation := om_generation (sb_meta sb)\<rparr>\<rparr>))"
  have "updateStatus e sb base phase None = do {
      r \<leftarrow> exec e ?wr;
      case r of
        Some err \<Rightarrow> ret (no_requeue, Some err)
      | None \<Rightarrow>
          ret (if phase = SupphaseReady then (requeue_after (5 * minute), None)
               else if phase = SupphaseProvisioning \<or> phase = SupphaseDegraded
               then (requeue_after (30 * second), None)
               else (no_requeue, None)) }"
    by (simp only: updateStatus_def Let_def)
  then show ?thesis by (simp only: run_state_bind assms) (simp split: if_split)
qed

lemma platform_pass_succeeds:
  assumes co: "platform_cooperative e view admit"
    and sb: "view w (KSupabase, req) = Some (OSupabase sb)"
  obtains res w' where "run_state (Reconcile e req) w = ((res, None), w')"
proof -
  note D = platform_cooperativeD [OF co]
  note api = D(1) and ans = platform_answeringD [OF D(2)]
  have e: "client_laws e" by (rule api_client_laws [OF D(1,4)])
  have key: "sb_key sb = req" using api_server_keyed [OF api sb] by (simp add: obj_ref_def)
  obtain w0 where g: "run_state (get_supabase e req) w = (Inr sb, w0)" and v0: "view w0 = view w"
    by (rule reliable_found [OF api_server_reads(13) [OF api] ans(7) _ sb]) (auto simp: inj_def)
  obtain l1 wa where l1: "run_state (list_clusters e (om_namespace (sb_meta sb))) w0 = (Inr l1, wa)"
    using results_run [OF ans(8)] by (metis prod.exhaust)
  obtain l2 w1 where l2: "run_state (list_gateways e (om_namespace (sb_meta sb))) wa = (Inr l2, w1)"
    using results_run [OF ans(9)] by (metis prod.exhaust)
  have p: "run_state (preflightChecks e sb) w0 = (None, w1)"
    by (simp add: preflightChecks_def l1 l2)
  have v1: "view w1 = view w" using preflightChecks_silent [OF api p] v0 by simp
  obtain v w2 where v: "run_state (reconcile_platform e sb) w1 = (v, w2)" by fastforce
  have avoid: "avoids (upserts (critical_refs req)) (KSupabase, req)"
      "avoids (upserts (service_refs req)) (KSupabase, req)"
    by (auto simp: avoids_def upserts_def critical_refs_def service_refs_def)
  have base: "view w2 (KSupabase, req) = Some (OSupabase sb)"
    by (rule reconcile_platform_keeps [where P = "\<lambda>w. view w (KSupabase, req) = Some (OSupabase sb)", OF e v])
      (simp_all add: v1 sb key api_server_stable [OF api avoid(1)] api_server_stable [OF api avoid(2)])
  let ?phase = "derivePhase (lv_has_error v) (lv_all_ready v) (lv_db_ready v)"
  obtain res r w3 where u: "run_state (updateStatus e (ready_fields e (lv_supabase v)) sb ?phase None) w2 = ((res, r), w3)"
    by (metis prod.exhaust)
  have "r = None"
  proof -
    obtain cs where cs: "lv_supabase v = with_conditions sb cs" using reconcile_platform_object [OF v] by blast
    have "s = None"
      if "run_state (exec e (StatusPatch (OSupabase sb) (OSupabase x))) w2 = (s, w'')" "sb_meta x = sb_meta sb" for x s w''
    proof -
      have "view w2 (obj_ref (OSupabase x)) = Some (OSupabase sb)"
        using base key that(2) by (simp add: obj_ref_def)
      with that(1) D(3) show ?thesis unfolding accepting_def by blast
    qed
    note accepted = this
    let ?sb = "ready_fields e (lv_supabase v)"
    let ?x = "?sb\<lparr>sb_status := (sb_status ?sb)\<lparr>sst_phase := ?phase,
      sst_observed_generation := om_generation (sb_meta ?sb)\<rparr>\<rparr>"
    obtain s w'' where x: "run_state (exec e (StatusPatch (OSupabase sb) (OSupabase ?x))) w2 = (s, w'')"
      by fastforce
    have "s = None" by (rule accepted [OF x]) (simp add: cs ready_fields_def)
    with x have "run_state (exec e (StatusPatch (OSupabase sb) (OSupabase ?x))) w2 = (None, w'')" by simp
    from updateStatus_accepted [OF this] u show ?thesis by simp
  qed
  obtain n w' where "run_state (observe_reconcile e ''supabase'' (if lv_has_error v then ''error'' else ''success'')) w3 = (n, w')"
    by (rule prod.exhaust)
  with g p v u \<open>r = None\<close> that show thesis by (simp add: Reconcile_def reconcile_body_def)
qed

lemma status_update_inject: "sb\<lparr>sb_status := a\<rparr> = sb\<lparr>sb_status := b\<rparr> \<longleftrightarrow> a = b"
  by (auto dest: arg_cong [where f = sb_status])

lemma platform_pass_phase:
  assumes co: "platform_cooperative e view admit" and laws: "condition_laws e"
    and sb: "view w (KSupabase, req) = Some (OSupabase sb)"
  shows "\<exists>w' st. run_state (Reconcile e req) w = ((requeue_after (requeue_interval (sst_phase st)), None), w') \<and>
    view w' (KSupabase, req) = Some (OSupabase (sb\<lparr>sb_status := st\<rparr>)) \<and>
    platform_status_ok (om_generation (sb_meta sb)) (sb_status sb) st \<and>
    sst_phase st = (if pods_wanted (sb_spec sb) then SupphaseReady else SupphaseProvisioning)"
proof -
  note D = platform_cooperativeD [OF co]
  obtain res w' where run: "run_state (Reconcile e req) w = ((res, None), w')"
    by (rule platform_pass_succeeds [OF co sb])
  obtain st where st: "view w' (KSupabase, req) = Some (OSupabase (sb\<lparr>sb_status := st\<rparr>))"
    "platform_status_ok (om_generation (sb_meta sb)) (sb_status sb) st"
    "res = requeue_after (requeue_interval (sst_phase st))"
    by (rule Reconcile_status [OF D(1,4) laws sb run])
  have "sst_phase st = (if pods_wanted (sb_spec sb) then SupphaseReady else SupphaseProvisioning)"
  proof (rule Reconcile_pass [OF D(1,4) sb run])
    fix v w1 w2 w3
    assume v: "run_state (reconcile_platform e sb) w1 = (v, w2)"
      and u: "run_state (updateStatus e (ready_fields e (lv_supabase v)) sb
           (derivePhase (lv_has_error v) (lv_all_ready v) (lv_db_ready v)) None) w2 = ((res, None), w3)"
      and base: "view w2 (KSupabase, req) = Some (OSupabase sb)" and w': "view w' = view w3"
      and key: "sb_key sb = req"
    obtain cs where cs: "lv_supabase v = with_conditions sb cs" using reconcile_platform_object [OF v] by blast
    have meta: "sb_meta (ready_fields e (lv_supabase v)) = sb_meta sb" by (simp add: cs ready_fields_def)
    from updateStatus_ok(1) [OF D(1) _ meta u, unfolded key, OF base] w' st(1)
    have "sst_phase st = derivePhase (lv_has_error v) (lv_all_ready v) (lv_db_ready v)"
      by (auto simp: status_update_inject)
    with platform_outcome [OF co v] show ?thesis by simp
  qed
  with run st show ?thesis by blast
qed

section \<open>The in-memory API server\<close>

lemma settle_operated: "operated (settle x)"
  using settle_running [of x] by (cases x) (simp_all add: mk_condition_def)

lemma env_platform_cooperative: "platform_cooperative env mem_view settle"
proof -
  have "platform_answering env"
    by (auto simp: platform_answering_def reliable_def results_def env_def mem_env_def mem_get_def
        mem_list_def no_faults_def split: option.splits)
  moreover have "owner_references_set env"
    by (simp add: owner_references_set_def env_def mem_env_def mem_owner_def)
  ultimately show ?thesis
    using env_laws(1,2) env_accepting settle_operated settle_plain
    by (simp add: platform_cooperative_def)
qed

section \<open>A platform becomes Ready\<close>

text \<open>
  C4: progress of a platform. When the API server answers and accepts and the operators act on what
  is written, one pass over a platform ends without an error, with a status that records what was
  found, and in phase Ready, to be looked at again in five minutes, exactly when every service that
  is on wants at least one pod. With a service whose \<open>replicas\<close> is 0, which the CRD admits, every
  pass ends in phase Provisioning and asks for the next one in thirty seconds, as the health check
  of a service wants at least one ready replica.
\<close>

theorem platform_converges:
  assumes "platform_cooperative e view admit" and "condition_laws e"
    and "view w (KSupabase, req) = Some (OSupabase sb)"
  shows "\<exists>w' st. run_state (Reconcile e req) w =
      ((requeue_after (if pods_wanted (sb_spec sb) then 5 * minute else 30 * second), None), w') \<and>
    view w' (KSupabase, req) = Some (OSupabase (sb\<lparr>sb_status := st\<rparr>)) \<and>
    platform_status_ok (om_generation (sb_meta sb)) (sb_status sb) st \<and>
    sst_phase st = (if pods_wanted (sb_spec sb) then SupphaseReady else SupphaseProvisioning)"
proof -
  from platform_pass_phase [OF assms] obtain w' st where st:
    "run_state (Reconcile e req) w = ((requeue_after (requeue_interval (sst_phase st)), None), w')"
    "view w' (KSupabase, req) = Some (OSupabase (sb\<lparr>sb_status := st\<rparr>))"
    "platform_status_ok (om_generation (sb_meta sb)) (sb_status sb) st"
    "sst_phase st = (if pods_wanted (sb_spec sb) then SupphaseReady else SupphaseProvisioning)"
    by blast
  have "requeue_interval (sst_phase st) = (if pods_wanted (sb_spec sb) then 5 * minute else 30 * second)"
    by (simp add: st(4) requeue_interval_def supphase_defs minute_def)
  with st show ?thesis by auto
qed

text \<open>The witness of C0, with a service that is off and one that wants no pod.\<close>

definition idle_studio :: supabase where
  "idle_studio = sample_supabase\<lparr>sb_spec := (sb_spec sample_supabase)
     \<lparr>sp_vector := sample_service\<lparr>ss_enabled := Some False, ss_replicas := Some 0\<rparr>,
      sp_studio := sample_service\<lparr>ss_replicas := Some 0\<rparr>\<rparr>\<rparr>"

theorem platform_converges_witness:
  "(\<exists>w' st. run_state (Reconcile env main_key) platform_world = ((requeue_after (5 * minute), None), w') \<and>
      mem_view w' (KSupabase, main_key) = Some (OSupabase (sample_supabase\<lparr>sb_status := st\<rparr>)) \<and>
      sst_phase st = SupphaseReady) \<and>
   (\<exists>w' st. run_state (Reconcile env main_key) (world_of [OSupabase idle_studio]) =
        ((requeue_after (30 * second), None), w') \<and>
      mem_view w' (KSupabase, main_key) = Some (OSupabase (idle_studio\<lparr>sb_status := st\<rparr>)) \<and>
      sst_phase st = SupphaseProvisioning)"
proof -
  note converges = platform_converges [OF env_platform_cooperative env_laws(3)]
  have on: "pods_wanted (sb_spec sample_supabase)"
    by (simp add: pods_wanted_def sample_supabase_def sample_spec_def sample_service_def GetReplicas_def)
  have off: "\<not> pods_wanted (sb_spec idle_studio)"
    by (simp add: pods_wanted_def idle_studio_def sample_service_def GetReplicas_def IsEnabled_def)
  have "mem_view (world_of [OSupabase idle_studio]) (KSupabase, main_key) = Some (OSupabase idle_studio)"
    by (simp add: idle_studio_def world_of_def mem_view_def mem_lookup_def obj_ref_def main_key_def
        sample_supabase_def sample_meta_def mk_meta_def meta_key_def)
  from converges [OF platform_world_view] converges [OF this] show ?thesis
    unfolding if_P [OF on] if_not_P [OF off] by blast
qed

end
