(* ===== verification/Spec2Isabelle.thy ===== *)
theory Spec2Isabelle
  imports PlatformProperties TenantLifecycle NamingProperties OperatorRuns ServiceProperties
    NetworkProperties ConnectionProperties ProgramProperties TenantConvergence DeepCopy
    Interleaving PlatformConvergence
begin

text \<open>
  A model and verification of the Supabase operator (Go, controller-runtime): the two
  controllers of \<open>src/internal/controller\<close>, the components they drive
  (\<open>src/internal/components\<close>), the packages below them (\<open>internal/resources\<close>,
  \<open>internal/credentials\<close>, \<open>internal/database\<close>, \<open>internal/metrics\<close>, \<open>api/v1alpha1\<close>), and the
  program that starts them (\<open>src/cmd/main.go\<close>) under its role (\<open>src/config/rbac/role.yaml\<close>).

  \<^bold>\<open>The program.\<close> A platform (\<open>Supabase\<close>) is a CloudNativePG cluster, a backup schedule and a
  gateway, which are critical, and five optional services. A tenant (\<open>SupabaseTenant\<close>) is a
  namespace with a network policy, two generated secrets, a database with an init Job, which
  gate what follows, five services, and a route on the platform's gateway. Each controller is
  called with a key, reads the object, reconciles its components in order, records one condition
  per component, derives a phase and writes the status; the tenant controller also keeps a
  finalizer and deletes what lies outside the namespace. Components share nothing but the
  context and the cluster.

  \<^bold>\<open>How it is modelled.\<close> A call that reads or writes the cluster is a computation of the state
  monad on a world of any type \<open>'w\<close>. What the operator calls and whose code is not in the
  repository (the client, the recorder, the random source, the clock, golang-jwt, the helpers of
  apimachinery and controller-runtime, the metrics) is one record \<open>'w env\<close>, an argument of every
  definition that uses it. Errors are values of \<open>go_error\<close>; \<open>(x, error)\<close> is a sum. What is relied
  on is stated as predicates on the environment: \<open>api_server\<close> (reads return what is stored, an
  accepted write does what it says and nothing else, a refused creation leaves the existing
  object), \<open>condition_laws\<close>, \<open>finalizer_laws\<close>, \<open>owner_laws\<close>, \<open>entropy_laws\<close>,
  \<open>foreign_laws\<close> (the deep copies of other modules), and \<open>reliable\<close> for reads that fail only on
  absence. \<open>MemApi\<close> gives an executable environment that meets the laws of the cluster, on which
  the witnesses evaluate. Loops over Go slices are structural recursion, so every pass
  returns; the loop of \<open>flag.Parse\<close> is a partial function that is shown to return; numbers are
  unbounded integers, with the bounds of int64 proved where the code adds (\<open>role_key_expiry\<close>);
  the words of SHA-256 are 32 bits wide. No fuel is used anywhere.

  \<^bold>\<open>The theories.\<close>
  \<^item> \<open>Prelude\<close>: errors, properties a computation keeps, what it can return. \<open>GoStd\<close>: strconv,
    base64, QueryEscape, SHA-256. \<open>K8sTypes\<close>, \<open>ApiTypes\<close> (\<open>api/v1alpha1\<close>): the data.
  \<^item> \<open>Client\<close>: objects, writes, footprints, the environment. \<open>ApiServer\<close>: what is relied on.
  \<^item> \<open>Resources\<close> (\<open>internal/resources\<close>), \<open>Credentials\<close> (\<open>internal/credentials\<close>), \<open>DatabaseInit\<close>
    (\<open>internal/database\<close>, the embedded scripts and their template).
  \<^item> \<open>Component\<close> (\<open>components/interface.go\<close>, \<open>tenant_context.go\<close>): contexts, the idioms create
    and create-or-patch, one controller step, and the locale \<open>component\<close>, the contract of the Go
    interface: what each operation may write, what it leaves of the context, that it never asks
    to be requeued. It is interpreted on every component of the program. \<open>Workload\<close>: what the
    Deployment and Service pairs share, and the locale \<open>workload\<close>, interpreted on the ten builders.
  \<^item> \<open>PlatformCore\<close>, \<open>PlatformServices\<close> (\<open>components/platform\<close>); \<open>TenantServices\<close>,
    \<open>TenantNamespace\<close>, \<open>TenantSecret\<close>, \<open>TenantDatabase\<close>, \<open>TenantRouting\<close> (\<open>components/tenant\<close>).
  \<^item> \<open>ControllerLoop\<close>: the reference \<open>run_steps\<close> the loops are compared with. \<open>SupabaseController\<close>
    and \<open>TenantController\<close>: \<open>Reconcile\<close> and everything it calls. \<open>PlatformStatus\<close>,
    \<open>TenantFootprint\<close>, \<open>TenantStatus\<close>, \<open>TenantFinalize\<close>: their footprints, the abstract
    specification of the status, the branches of a pass, finalization.
  \<^item> \<open>CommandLine\<close>: package \<open>flag\<close>. \<open>EntryPoint\<close>: \<open>cmd/main.go\<close>, the two \<open>SetupWithManager\<close> and the
    registration of the metrics; what controller-runtime does is a function from the calls of
    set-up to computations. \<open>Rbac\<close>: the role, and an API server that enforces it.
  \<^item> \<open>GoMemory\<close>, \<open>CopyLaws\<close>, \<open>DeepCopy\<close>: the structs as they lie in memory, the locale \<open>deep_copy\<close>
    and the ways of copying that satisfy it, and \<open>zz_generated.deepcopy.go\<close> function by function
    with the registration of the kinds. Everywhere else a struct is its value, which
    \<open>copies_independent\<close> justifies for the bases of the status patches.
  \<^item> \<open>MemApi\<close>: an API server in memory, a sample platform and tenants. \<open>Encodings\<close>: reference
    decoders. \<open>InitSql\<close>: the string literals of the rendered SQL.

  \<^bold>\<open>What is shown.\<close>
  \<^item> \<open>PlatformProperties\<close>: the status refines its specification; a critical failure stops the
    services; what a pass may touch; preflight.
  \<^item> \<open>TenantProperties\<close>, \<open>TenantLifecycle\<close>: the three ends of a pass, isolation of tenants, the
    finalizer, retry, completion of deletions, conditions, metrics, the mapping from events.
  \<^item> \<open>TenantAtRest\<close>, \<open>TenantSettling\<close>, \<open>TenantConvergence\<close>: with an API server that answers and
    controllers that act, one pass brings a tenant to phase Ready; a pass that ends in phase
    Ready leaves the tenant at rest; and a pass over a tenant at rest changes nothing but the
    tenant's own object, whatever fails. \<open>PlatformConvergence\<close>: when one pass brings a platform to
    phase Ready.
  \<^item> \<open>OperatorRuns\<close>: runs of passes in any order between steps of other writers, by rule
    induction: secrets are never rewritten, tenants stay isolated. \<open>Interleaving\<close>: the same while
    passes run at the same time, call by call.
  \<^item> \<open>ServiceProperties\<close>: what is stored, idempotence, suspension and resumption, readiness.
    \<open>NetworkProperties\<close>: gateway to route to Service to pod, selectors, network policy, presets.
  \<^item> \<open>CredentialProperties\<close>, \<open>ConnectionProperties\<close>: stability and form of the credentials,
    hashes, connection strings, the roles the init SQL sets, tenants on one database server.
  \<^item> \<open>NamingProperties\<close>: the length of names and the cases in which names collide.
  \<^item> \<open>Permissions\<close>: no pass is refused under the role. \<open>ProgramProperties\<close>: the command line is
    parsed; the process is the sequence of its set-up calls with the options that were asked for;
    which events come back as passes.
  \<^item> \<open>DeepCopy\<close>: a copy reads as the original and shares no cell with it.

  \<^bold>\<open>Not modelled.\<close> What controller-runtime does with the kinds that are registered. \<open>test/utils\<close> helps the tests. Fields of the
  objects the code neither writes nor reads, help texts, log lines and the durations that are
  observed are left out. Up to five passes of the tenant controller run at once in the program;
  \<open>Interleaving\<close> lets others act between any two calls and shows what of the footprints and of the
  secrets survives that; what depends on the content of an object between two calls (the status a
  pass writes, convergence) is shown for passes that follow one another, between which what
  happens is arbitrary.
  Resource versions and the conflicts they cause are inside \<open>api_server\<close>: a write may fail, and a
  patch is specified when the stored object is still its base. The PostgreSQL server of
  \<open>ConnectionProperties\<close> is a map from roles to passwords.
\<close>

end
